(* ===== verification/Prelude.thy ===== *)
theory Prelude
  imports Main
begin

text \<open>
  Shared vocabulary of the development: the machine integers of the Rust sources, the string
  operations the services use, and the state/error monad in which every service function is
  written, with the weakest-precondition equations that drive the proofs.

  The Rust functions return \<open>Result<T, Error>\<close> and mutate the database and the message channels
  on the way. A model of such a function has type \<open>('s, 'e, 'a) rm\<close>: it maps a state to a result
  and a new state, and an error keeps whatever the function had written before it gave up.
\<close>

named_theorems wp_eqs "equations that compute weakest preconditions of result-monad programs"
named_theorems keeps_intros "composition rules for invariants of result-monad programs"
named_theorems svc_defs "definitions of service functions, unfolded by the component proofs"

section \<open>Machine integers\<close>

text \<open>Identifiers, sizes and timestamps are mathematical integers; every place where the Rust
  code casts or adds at a fixed width applies the wrap-around or saturation explicitly.\<close>

type_synonym i64 = int
type_synonym i32 = int
type_synonym u64 = int
type_synonym uuid = nat
type_synonym nanos = int

definition i64_min :: int where "i64_min = - (2 ^ 63)"
definition i64_max :: int where "i64_max = 2 ^ 63 - 1"
definition i32_min :: int where "i32_min = - (2 ^ 31)"
definition i32_max :: int where "i32_max = 2 ^ 31 - 1"

definition wrap_i64 :: "int \<Rightarrow> i64" where "wrap_i64 x = signed_take_bit 63 x"
definition wrap_i32 :: "int \<Rightarrow> i32" where "wrap_i32 x = signed_take_bit 31 x"
definition as_u64 :: "int \<Rightarrow> u64" where "as_u64 x = take_bit 64 x"

definition saturating_add_i64 :: "i64 \<Rightarrow> i64 \<Rightarrow> i64" where
  "saturating_add_i64 a b = max i64_min (min i64_max (a + b))"

definition saturating_sub_i64 :: "i64 \<Rightarrow> i64 \<Rightarrow> i64" where
  "saturating_sub_i64 a b = max i64_min (min i64_max (a - b))"

definition secs :: "int \<Rightarrow> nanos" where "secs n = n * 1000000000"

definition is_i64 :: "int \<Rightarrow> bool" where "is_i64 x \<longleftrightarrow> i64_min \<le> x \<and> x \<le> i64_max"
definition is_i32 :: "int \<Rightarrow> bool" where "is_i32 x \<longleftrightarrow> i32_min \<le> x \<and> x \<le> i32_max"

lemmas machine_bounds = i64_min_def i64_max_def i32_min_def i32_max_def is_i64_def is_i32_def

lemma wrap_i64_id: "is_i64 x \<Longrightarrow> wrap_i64 x = x"
  unfolding wrap_i64_def machine_bounds by (intro signed_take_bit_int_eq_self) auto

lemma wrap_i32_id: "is_i32 x \<Longrightarrow> wrap_i32 x = x"
  unfolding wrap_i32_def machine_bounds by (intro signed_take_bit_int_eq_self) auto

lemma wrap_i64_range: "is_i64 (wrap_i64 x)"
  using signed_take_bit_int_greater_eq_minus_exp [of 63 x] signed_take_bit_int_less_exp [of 63 x]
  unfolding wrap_i64_def machine_bounds by simp

lemma wrap_i32_range: "is_i32 (wrap_i32 x)"
  using signed_take_bit_int_greater_eq_minus_exp [of 31 x] signed_take_bit_int_less_exp [of 31 x]
  unfolding wrap_i32_def machine_bounds by simp

lemma as_u64_range: "0 \<le> as_u64 x \<and> as_u64 x < 2 ^ 64"
  unfolding as_u64_def using take_bit_int_less_exp [of 64 x] by simp

lemma as_u64_id: "0 \<le> x \<Longrightarrow> x < 2 ^ 64 \<Longrightarrow> as_u64 x = x"
  unfolding as_u64_def by (simp add: take_bit_int_eq_self)

section \<open>Strings\<close>

definition starts_with :: "string \<Rightarrow> string \<Rightarrow> bool" where
  "starts_with p s \<longleftrightarrow> take (length p) s = p"

fun str_contains :: "string \<Rightarrow> string \<Rightarrow> bool" where
  "str_contains p [] = (p = [])"
| "str_contains p (c # s) = (starts_with p (c # s) \<or> str_contains p s)"

text \<open>\<open>str::split(c)\<close>: always at least one part.\<close>

fun split_on :: "char \<Rightarrow> string \<Rightarrow> string list" where
  "split_on c [] = [[]]"
| "split_on c (x # s) =
     (if x = c then [] # split_on c s
      else (case split_on c s of [] \<Rightarrow> [[x]] | p # ps \<Rightarrow> (x # p) # ps))"

lemma split_on_nonempty [simp]: "split_on c s \<noteq> []"
  by (induction s) (auto split: list.splits)

lemma split_on_no_sep: "c \<notin> set s \<Longrightarrow> split_on c s = [s]"
  by (induction s) auto

lemma split_on_append:
  "c \<notin> set p \<Longrightarrow> split_on c (p @ c # s) = p # split_on c s"
  by (induction p) (auto split: list.splits)

lemma split_on_append_sep: "split_on c (a @ c # b) = split_on c a @ split_on c b"
  by (induction a) (auto split: list.splits simp: Cons_eq_append_conv)

lemma split_on_chars: "l \<in> set (split_on c s) \<Longrightarrow> x \<in> set l \<Longrightarrow> x \<in> set s \<and> x \<noteq> c"
  by (induction s arbitrary: l) (auto split: if_splits list.splits, fastforce+)

fun join_on :: "char \<Rightarrow> string list \<Rightarrow> string" where
  "join_on c [] = []"
| "join_on c [p] = p"
| "join_on c (p # ps) = p @ c # join_on c ps"

lemma join_on_Cons: "ps \<noteq> [] \<Longrightarrow> join_on c (p # ps) = p @ c # join_on c ps"
  by (cases ps) auto

lemma join_on_append: "ps \<noteq> [] \<Longrightarrow> qs \<noteq> [] \<Longrightarrow> join_on c (ps @ qs) = join_on c ps @ c # join_on c qs"
proof (induction ps)
  case (Cons p ps)
  then show ?case by (cases "ps = []") (auto simp: join_on_Cons)
qed simp

lemma join_on_cons_char: "ps \<noteq> [] \<Longrightarrow> join_on c ((x # hd ps) # tl ps) = x # join_on c ps"
  by (cases ps; cases "tl ps") (auto simp: join_on_Cons)

lemma join_split_on [simp]: "join_on c (split_on c s) = s"
proof (induction s)
  case (Cons x s)
  obtain p ps where ps: "split_on c s = p # ps" using split_on_nonempty by (metis list.exhaust)
  then show ?case using Cons join_on_cons_char [of "split_on c s" c x] by (auto simp: join_on_Cons)
qed simp

lemma starts_with_append [simp]: "starts_with p (p @ s)"
  by (simp add: starts_with_def)

lemma str_contains_iff: "str_contains p s \<longleftrightarrow> (\<exists>a b. s = a @ p @ b)"
proof (induction s)
  case Nil
  show ?case by auto
next
  case (Cons c s)
  have "starts_with p (c # s) \<longleftrightarrow> (\<exists>b. c # s = p @ b)"
    unfolding starts_with_def by (metis append_eq_conv_conj append_take_drop_id)
  moreover have "(\<exists>a b. c # s = a @ p @ b) \<longleftrightarrow>
      (\<exists>b. c # s = p @ b) \<or> (\<exists>a b. s = a @ p @ b)"
    by (auto simp: Cons_eq_append_conv)
  ultimately show ?case using Cons.IH by simp
qed

text \<open>\<open>slice::chunks(n)\<close>.\<close>

function chunks :: "nat \<Rightarrow> 'a list \<Rightarrow> 'a list list" where
  "chunks n xs = (if xs = [] \<or> n = 0 then [] else take n xs # chunks n (drop n xs))"
  by pat_completeness auto
termination
  by (relation "measure (\<lambda>(n, xs). length xs)") auto

declare chunks.simps [simp del]

lemma chunks_Nil [simp]: "chunks n [] = []"
  by (subst chunks.simps) simp

lemma concat_chunks: "0 < n \<Longrightarrow> concat (chunks n xs) = xs"
proof (induction n xs rule: chunks.induct)
  case (1 n xs)
  then show ?case by (cases "xs = []") (auto simp: chunks.simps [of n xs])
qed

lemma chunks_bound: "ys \<in> set (chunks n xs) \<Longrightarrow> length ys \<le> n"
proof (induction n xs rule: chunks.induct)
  case (1 n xs)
  then show ?case by (auto simp: chunks.simps [of n xs] split: if_splits)
qed

lemma chunks_one: "xs \<noteq> [] \<Longrightarrow> length xs \<le> n \<Longrightarrow> chunks n xs = [xs]"
  by (subst chunks.simps) (cases n; auto)

section \<open>Decimal numbers\<close>

definition digit_of :: "char \<Rightarrow> int option" where
  "digit_of c = (let n = of_char c :: int in if 48 \<le> n \<and> n \<le> 57 then Some (n - 48) else None)"

fun parse_digits :: "int \<Rightarrow> string \<Rightarrow> int option" where
  "parse_digits acc [] = Some acc"
| "parse_digits acc (c # s) =
     (case digit_of c of None \<Rightarrow> None | Some d \<Rightarrow> parse_digits (10 * acc + d) s)"

definition parse_nat :: "string \<Rightarrow> int option" where
  "parse_nat s = (if s = [] then None else parse_digits 0 s)"

text \<open>\<open>i32::from_str\<close>: an optional sign, at least one digit, and the value in range.\<close>

definition i32_from_str :: "string \<Rightarrow> i32 option" where
  "i32_from_str s =
     (case (case s of
              [] \<Rightarrow> None
            | c # r \<Rightarrow> if c = CHR ''+'' then parse_nat r
                       else if c = CHR ''-'' then map_option uminus (parse_nat r)
                       else parse_nat s) of
        None \<Rightarrow> None
      | Some v \<Rightarrow> if is_i32 v then Some v else None)"

definition digit_char :: "nat \<Rightarrow> char" where
  "digit_char d = char_of (48 + d)"

fun nat_to_string :: "nat \<Rightarrow> string" where
  "nat_to_string n =
     (if n < 10 then [digit_char n] else nat_to_string (n div 10) @ [digit_char (n mod 10)])"

declare nat_to_string.simps [simp del]

text \<open>\<open>ToString\<close> for the integer types.\<close>

definition int_to_string :: "int \<Rightarrow> string" where
  "int_to_string z =
     (if z < 0 then CHR ''-'' # nat_to_string (nat (- z)) else nat_to_string (nat z))"

lemma digit_of_digit_char: "d < 10 \<Longrightarrow> digit_of (digit_char d) = Some (int d)"
proof -
  assume d: "d < 10"
  have "(of_char (digit_char d) :: int) = int (of_char (digit_char d))"
    by (rule of_nat_of_char [symmetric])
  also have "\<dots> = int ((48 + d) mod 256)"
    unfolding digit_char_def by simp
  finally have "(of_char (digit_char d) :: int) = int ((48 + d) mod 256)" .
  then show ?thesis using d by (simp add: digit_of_def Let_def)
qed

lemma parse_digits_append:
  "parse_digits acc (s @ t) =
     (case parse_digits acc s of None \<Rightarrow> None | Some v \<Rightarrow> parse_digits v t)"
  by (induction acc s rule: parse_digits.induct) (auto split: option.splits)

lemma parse_digits_nat_to_string: "parse_digits 0 (nat_to_string n) = Some (int n)"
proof (induction n rule: nat_to_string.induct)
  case (1 n)
  show ?case
  proof (cases "n < 10")
    case True
    then show ?thesis by (simp add: nat_to_string.simps [of n] digit_of_digit_char)
  next
    case False
    with 1 have "parse_digits 0 (nat_to_string (n div 10)) = Some (int (n div 10))" by simp
    moreover have "10 * int (n div 10) + int (n mod 10) = int n" by presburger
    ultimately show ?thesis using False
      by (simp add: nat_to_string.simps [of n] parse_digits_append digit_of_digit_char)
  qed
qed

lemma nat_to_string_nonempty: "nat_to_string n \<noteq> []"
  by (subst nat_to_string.simps) simp

lemma nat_to_string_digits: "c \<in> set (nat_to_string n) \<Longrightarrow> \<exists>d < 10. c = digit_char d"
proof (induction n rule: nat_to_string.induct)
  case (1 n)
  then show ?case
    by (cases "n < 10") (auto simp: nat_to_string.simps [of n] intro: exI [of _ "n mod 10"])
qed

lemma parse_nat_nat_to_string: "parse_nat (nat_to_string n) = Some (int n)"
  by (simp add: parse_nat_def nat_to_string_nonempty parse_digits_nat_to_string)

end
