(* ===== verification/Result_Monad.thy ===== *)
theory Result_Monad
  imports Prelude
begin

text \<open>
  The state/error monad of the service functions and its weakest-precondition calculus.
  \<open>bindR\<close> is the \<open>?\<close> operator of the sources: an error ends the function and keeps the state
  reached so far. \<open>wp m Q E s\<close> says that \<open>m\<close> started in \<open>s\<close> ends either in a value and a state
  that satisfy \<open>Q\<close> or in an error and a state that satisfy \<open>E\<close>; its equations turn a program
  into a first-order condition by simplification, so a component proof is one \<open>simp\<close>/\<open>auto\<close>
  call over the program's definition.
\<close>

type_synonym ('s, 'e, 'a) rm = "'s \<Rightarrow> ('e + 'a) \<times> 's"

definition ret :: "'a \<Rightarrow> ('s, 'e, 'a) rm" where
  "ret a s = (Inr a, s)"

definition raise :: "'e \<Rightarrow> ('s, 'e, 'a) rm" where
  "raise e s = (Inl e, s)"

definition bindR :: "('s, 'e, 'a) rm \<Rightarrow> ('a \<Rightarrow> ('s, 'e, 'b) rm) \<Rightarrow> ('s, 'e, 'b) rm" where
  "bindR m f s = (case m s of (Inl e, s') \<Rightarrow> (Inl e, s') | (Inr a, s') \<Rightarrow> f a s')"

text \<open>Sequencing of two programs, the first for its effect.\<close>

definition thenR :: "('s, 'e, 'a) rm \<Rightarrow> ('s, 'e, 'b) rm \<Rightarrow> ('s, 'e, 'b) rm" where
  "thenR m n = bindR m (\<lambda>_. n)"

text \<open>\<open>Option::ok_or(e)?\<close>.\<close>

definition ok_or :: "'e \<Rightarrow> 'a option \<Rightarrow> ('s, 'e, 'a) rm" where
  "ok_or e x = (case x of None \<Rightarrow> raise e | Some a \<Rightarrow> ret a)"

text \<open>\<open>if !b \<open>{\<close> return Err(e); \<open>}\<close>\<close>.\<close>

definition ensure :: "bool \<Rightarrow> 'e \<Rightarrow> ('s, 'e, unit) rm" where
  "ensure b e = (if b then ret () else raise e)"

definition map_err :: "('e \<Rightarrow> 'f) \<Rightarrow> ('s, 'e, 'a) rm \<Rightarrow> ('s, 'f, 'a) rm" where
  "map_err g m s = (case m s of (Inl e, s') \<Rightarrow> (Inl (g e), s') | (Inr a, s') \<Rightarrow> (Inr a, s'))"

text \<open>A call whose result is inspected (\<open>match f().await\<close>) or dropped (\<open>let _ = f()\<close>).\<close>

definition attempt :: "('s, 'e, 'a) rm \<Rightarrow> ('s, 'f, 'e + 'a) rm" where
  "attempt m s = (case m s of (r, s') \<Rightarrow> (Inr r, s'))"

fun for_each :: "('x \<Rightarrow> ('s, 'e, 'b) rm) \<Rightarrow> 'x list \<Rightarrow> ('s, 'e, unit) rm" where
  "for_each f [] = ret ()"
| "for_each f (x # xs) = thenR (f x) (for_each f xs)"

text \<open>A loop that accumulates a value.\<close>

fun fold_m :: "('x \<Rightarrow> 'b \<Rightarrow> ('s, 'e, 'b) rm) \<Rightarrow> 'x list \<Rightarrow> 'b \<Rightarrow> ('s, 'e, 'b) rm" where
  "fold_m f [] b = ret b"
| "fold_m f (x # xs) b = bindR (f x b) (fold_m f xs)"

section \<open>Weakest preconditions\<close>

definition wp ::
  "('s, 'e, 'a) rm \<Rightarrow> ('a \<Rightarrow> 's \<Rightarrow> bool) \<Rightarrow> ('e \<Rightarrow> 's \<Rightarrow> bool) \<Rightarrow> 's \<Rightarrow> bool" where
  "wp m Q E s \<longleftrightarrow> (case m s of (Inl e, s') \<Rightarrow> E e s' | (Inr a, s') \<Rightarrow> Q a s')"

lemma wp_ret [wp_eqs]: "wp (ret a) Q E s = Q a s"
  by (simp add: wp_def ret_def)

lemma wp_ret_fun [wp_eqs]: "wp (ret a) Q E = Q a"
  by (rule ext) (rule wp_ret)

lemma wp_raise [wp_eqs]: "wp (raise e) Q E s = E e s"
  by (simp add: wp_def raise_def)

lemma wp_bindR [wp_eqs]: "wp (bindR m f) Q E s = wp m (\<lambda>a. wp (f a) Q E) E s"
  by (simp add: wp_def bindR_def split: prod.splits sum.splits)

text \<open>The same when the first program has been run.\<close>

lemma wp_bindR_ok: "m s = (Inr a, s') \<Longrightarrow> wp (bindR m f) Q E s = wp (f a) Q E s'"
  by (simp add: wp_def bindR_def)

lemma wp_bindR_err: "m s = (Inl e, s') \<Longrightarrow> wp (bindR m f) Q E s = E e s'"
  by (simp add: wp_def bindR_def)

lemma wp_thenR [wp_eqs]: "wp (thenR m n) Q E s = wp m (\<lambda>_. wp n Q E) E s"
  by (simp add: thenR_def wp_bindR)

lemma wp_thenR_assoc: "wp (thenR a (thenR b m)) Q E s = wp (thenR a b) (\<lambda>_. wp m Q E) E s"
  by (simp add: wp_def thenR_def bindR_def split: prod.splits sum.splits)

lemma wp_ok_or [wp_eqs]:
  "wp (ok_or e x) Q E s = (case x of None \<Rightarrow> E e s | Some a \<Rightarrow> Q a s)"
  by (simp add: ok_or_def wp_ret wp_raise split: option.splits)

lemma wp_ensure [wp_eqs]: "wp (ensure b e) Q E s = (if b then Q () s else E e s)"
  by (simp add: ensure_def wp_ret wp_raise)

lemma wp_map_err [wp_eqs]: "wp (map_err g m) Q E s = wp m Q (\<lambda>e. E (g e)) s"
  by (simp add: wp_def map_err_def split: prod.splits sum.splits)

lemma wp_attempt [wp_eqs]:
  "wp (attempt m) Q E s = wp m (\<lambda>a. Q (Inr a)) (\<lambda>e. Q (Inl e)) s"
  by (simp add: wp_def attempt_def split: prod.splits sum.splits)

lemma wp_if [wp_eqs]:
  "wp (if b then m else n) Q E s = (if b then wp m Q E s else wp n Q E s)"
  by simp

lemma wp_case_option [wp_eqs]:
  "wp (case x of None \<Rightarrow> m | Some a \<Rightarrow> f a) Q E s =
     (case x of None \<Rightarrow> wp m Q E s | Some a \<Rightarrow> wp (f a) Q E s)"
  by (simp split: option.splits)

lemma wp_case_prod [wp_eqs]:
  "wp (case p of (a, b) \<Rightarrow> f a b) Q E s = (case p of (a, b) \<Rightarrow> wp (f a b) Q E s)"
  by (simp split: prod.splits)

lemma wp_for_each_Nil [wp_eqs]: "wp (for_each f []) Q E s = Q () s"
  by (simp add: wp_ret)

lemma wp_for_each_Cons [wp_eqs]:
  "wp (for_each f (x # xs)) Q E s = wp (f x) (\<lambda>_. wp (for_each f xs) Q E) E s"
  by (simp add: wp_thenR)

lemma wp_mono:
  assumes "wp m Q E s"
    and "\<And>a t. Q a t \<Longrightarrow> Q' a t" and "\<And>e t. E e t \<Longrightarrow> E' e t"
  shows "wp m Q' E' s"
  using assms by (auto simp: wp_def split: prod.splits sum.splits)

lemma wp_True [simp]: "wp m (\<lambda>_ _. True) (\<lambda>_ _. True) s"
  by (simp add: wp_def split: prod.splits sum.splits)

lemma wp_conjI:
  assumes "wp m Q E s" and "wp m Q' E' s"
  shows "wp m (\<lambda>a t. Q a t \<and> Q' a t) (\<lambda>e t. E e t \<and> E' e t) s"
  using assms by (auto simp: wp_def split: prod.splits sum.splits)

text \<open>Reading a result off a \<open>wp\<close> fact.\<close>

lemma wp_okD: "wp m Q E s \<Longrightarrow> m s = (Inr a, s') \<Longrightarrow> Q a s'"
  by (simp add: wp_def)

lemma wp_errD: "wp m Q E s \<Longrightarrow> m s = (Inl e, s') \<Longrightarrow> E e s'"
  by (simp add: wp_def)

lemma wp_sndD: "wp m (\<lambda>_. P) (\<lambda>_. P) s \<Longrightarrow> P (snd (m s))"
  by (auto simp: wp_def split: prod.splits sum.splits)

lemma wp_ok_iff: "wp m Q (\<lambda>_ _. True) s \<longleftrightarrow> (\<forall>a s'. m s = (Inr a, s') \<longrightarrow> Q a s')"
  by (auto simp: wp_def split: prod.splits sum.splits)

lemma wp_err_iff: "wp m (\<lambda>_ _. True) E s \<longleftrightarrow> (\<forall>e s'. m s = (Inl e, s') \<longrightarrow> E e s')"
  by (auto simp: wp_def split: prod.splits sum.splits)

lemma wp_total_iff: "wp m Q (\<lambda>_ _. False) s \<longleftrightarrow> (\<exists>a s'. m s = (Inr a, s') \<and> Q a s')"
  by (auto simp: wp_def split: prod.splits sum.splits)

section \<open>Invariants of programs\<close>

text \<open>\<open>keeps I m\<close>: whatever way \<open>m\<close> ends, it leaves \<open>I\<close> true if it found it so.\<close>

definition keeps :: "('s \<Rightarrow> bool) \<Rightarrow> ('s, 'e, 'a) rm \<Rightarrow> bool" where
  "keeps I m \<longleftrightarrow> (\<forall>s. I s \<longrightarrow> wp m (\<lambda>_. I) (\<lambda>_. I) s)"

lemma keepsI: "(\<And>s. I s \<Longrightarrow> wp m (\<lambda>_. I) (\<lambda>_. I) s) \<Longrightarrow> keeps I m"
  by (simp add: keeps_def)

lemma keeps_wp: "keeps I m \<Longrightarrow> I s \<Longrightarrow> wp m (\<lambda>_. I) (\<lambda>_. I) s"
  by (simp add: keeps_def)

lemma keepsD: "keeps I m \<Longrightarrow> I s \<Longrightarrow> I (snd (m s))"
  by (rule wp_sndD) (rule keeps_wp)

lemma keeps_ret [keeps_intros]: "keeps I (ret a)"
  by (simp add: keeps_def wp_eqs)

lemma keeps_raise [keeps_intros]: "keeps I (raise e)"
  by (simp add: keeps_def wp_eqs)

lemma keeps_bindR [keeps_intros]:
  assumes "keeps I m" and "\<And>a. keeps I (f a)"
  shows "keeps I (bindR m f)"
proof (rule keepsI)
  fix s assume "I s"
  with assms(1) have "wp m (\<lambda>_. I) (\<lambda>_. I) s" by (rule keeps_wp)
  then show "wp (bindR m f) (\<lambda>_. I) (\<lambda>_. I) s"
    unfolding wp_bindR by (rule wp_mono) (auto intro: keeps_wp [OF assms(2)])
qed

lemma keeps_thenR [keeps_intros]: "keeps I m \<Longrightarrow> keeps I n \<Longrightarrow> keeps I (thenR m n)"
  unfolding thenR_def by (rule keeps_bindR)

lemma keeps_ok_or [keeps_intros]: "keeps I (ok_or e x)"
  by (simp add: keeps_def wp_eqs split: option.splits)

lemma keeps_ensure [keeps_intros]: "keeps I (ensure b e)"
  by (simp add: keeps_def wp_eqs)

lemma keeps_map_err [keeps_intros]: "keeps I m \<Longrightarrow> keeps I (map_err g m)"
  by (simp add: keeps_def wp_eqs)

lemma keeps_attempt [keeps_intros]: "keeps I m \<Longrightarrow> keeps I (attempt m)"
  by (simp add: keeps_def wp_eqs)

lemma keeps_if [keeps_intros]:
  "(b \<Longrightarrow> keeps I m) \<Longrightarrow> (\<not> b \<Longrightarrow> keeps I n) \<Longrightarrow> keeps I (if b then m else n)"
  by simp

lemma keeps_case_option [keeps_intros]:
  "(x = None \<Longrightarrow> keeps I m) \<Longrightarrow> (\<And>a. x = Some a \<Longrightarrow> keeps I (f a)) \<Longrightarrow>
   keeps I (case x of None \<Rightarrow> m | Some a \<Rightarrow> f a)"
  by (simp split: option.splits)

lemma keeps_case_prod [keeps_intros]:
  "(\<And>a b. p = (a, b) \<Longrightarrow> keeps I (f a b)) \<Longrightarrow> keeps I (case p of (a, b) \<Rightarrow> f a b)"
  by (simp split: prod.splits)

lemma keeps_case_sum [keeps_intros]:
  "(\<And>a. x = Inl a \<Longrightarrow> keeps I (f a)) \<Longrightarrow> (\<And>a. x = Inr a \<Longrightarrow> keeps I (g a)) \<Longrightarrow>
   keeps I (case x of Inl a \<Rightarrow> f a | Inr a \<Rightarrow> g a)"
  by (simp split: sum.splits)

lemma keeps_let [keeps_intros]: "keeps I (f x) \<Longrightarrow> keeps I (let y = x in f y)"
  by simp

lemma keeps_for_each [keeps_intros]:
  "(\<And>x. x \<in> set xs \<Longrightarrow> keeps I (f x)) \<Longrightarrow> keeps I (for_each f xs)"
  by (induction xs) (auto intro: keeps_intros)

lemma keeps_fold_m [keeps_intros]:
  "(\<And>x b. x \<in> set xs \<Longrightarrow> keeps I (f x b)) \<Longrightarrow> keeps I (fold_m f xs b)"
  by (induction xs arbitrary: b) (auto intro!: keeps_intros)

lemma wp_for_each_inv:
  assumes "I s" and "\<And>x s. x \<in> set xs \<Longrightarrow> I s \<Longrightarrow> wp (f x) (\<lambda>_. I) E s"
  shows "wp (for_each f xs) (\<lambda>_. I) E s"
  using assms
proof (induction xs arbitrary: s)
  case Nil
  then show ?case by (simp add: wp_eqs)
next
  case (Cons x xs)
  have rest: "wp (for_each f xs) (\<lambda>_. I) E t" if "I t" for t
    using that Cons.prems(2) by (intro Cons.IH) auto
  from Cons.prems have "wp (f x) (\<lambda>_. I) E s" by simp
  then show ?case
    unfolding wp_for_each_Cons by (rule wp_mono) (auto intro: rest)
qed

end
