(* ===== verification/Errors.thy ===== *)
theory Errors
  imports Result_Monad
begin

text \<open>
  The error types of \<open>netmito/src/error.rs\<close>: one constructor per variant that a modelled function
  can return. Messages built with \<open>format!\<close> are represented by their constant text.
  The HTTP layer turns an \<open>Error\<close> into an \<open>ApiError\<close> in one of two ways (the user and admin routes
  keep authentication errors, the worker routes do not) and an \<open>ApiError\<close> into a status code.
\<close>

datatype DbErr = ConnectionLost | RecordNotFound | RecordNotUpdated | RecordNotInserted
  | UniqueViolation | ForeignKeyViolation | ColumnNotFound

datatype AuthError = InvalidToken | WrongCredentials | PermissionDenied

datatype S3Error = InvalidContentLength i64 | S3Failure string

datatype ApiError =
    InternalServerError
  | ApiAuthError AuthError
  | InvalidRequest string
  | AlreadyExists string
  | NotFound string
  | QuotaExceeded
  | PresignS3Error S3Error

datatype Error =
    DbError DbErr
  | Custom string
  | AuthErr AuthError
  | EncodeTokenError
  | DecodeTokenError
  | EncryptError
  | S3Err S3Error
  | ApiErr ApiError
  | SerdeError
  | ParseSizeError
  | ParseIntError

datatype StatusCode = OK_200 | BAD_REQUEST | UNAUTHORIZED | FORBIDDEN | NOT_FOUND | CONFLICT
  | INTERNAL_SERVER_ERROR

fun auth_status_code :: "AuthError \<Rightarrow> StatusCode" where
  "auth_status_code InvalidToken = UNAUTHORIZED"
| "auth_status_code WrongCredentials = UNAUTHORIZED"
| "auth_status_code PermissionDenied = FORBIDDEN"

fun get_status_code :: "ApiError \<Rightarrow> StatusCode" where
  "get_status_code InternalServerError = INTERNAL_SERVER_ERROR"
| "get_status_code (ApiAuthError e) = auth_status_code e"
| "get_status_code (InvalidRequest _) = BAD_REQUEST"
| "get_status_code (AlreadyExists _) = CONFLICT"
| "get_status_code (NotFound _) = NOT_FOUND"
| "get_status_code QuotaExceeded = FORBIDDEN"
| "get_status_code (PresignS3Error _) = BAD_REQUEST"

text \<open>The \<open>map_err\<close> closure of the user-facing handlers (\<open>api/tasks.rs\<close> and others).\<close>

fun user_api_error :: "Error \<Rightarrow> ApiError" where
  "user_api_error (AuthErr e) = ApiAuthError e"
| "user_api_error (ApiErr e) = e"
| "user_api_error _ = InternalServerError"

text \<open>The match of the worker-facing handlers (\<open>api/workers.rs\<close>), which keeps \<open>ApiError\<close> only.\<close>

fun worker_api_error :: "Error \<Rightarrow> ApiError" where
  "worker_api_error (ApiErr e) = e"
| "worker_api_error _ = InternalServerError"

abbreviation "api_not_found msg \<equiv> ApiErr (NotFound msg)"
abbreviation "api_invalid msg \<equiv> ApiErr (InvalidRequest msg)"
abbreviation "perm_denied \<equiv> AuthErr PermissionDenied"
abbreviation "api_perm_denied \<equiv> ApiErr (ApiAuthError PermissionDenied)"

text \<open>The status code of a request is the same on both kinds of route unless the service
  returned a bare authentication error.\<close>

lemma worker_user_api_error_agree:
  "worker_api_error e = user_api_error e \<longleftrightarrow> (\<nexists>a. e = AuthErr a)"
  by (cases e) auto

end
