(* ===== verification/States.thy ===== *)
theory States
  imports Errors
begin

text \<open>
  The enumerations of \<open>entity/state.rs\<close>, \<open>entity/role.rs\<close>, \<open>entity/content.rs\<close> and the task-result
  types of \<open>schema.rs\<close>, their integer and string encodings, and the two \<open>is_reach\<close> decision tables
  that a worker uses when it watches another task.

  Shown here: the encodings round-trip; the reachability of execution states is a partial order
  on the states that can be reached at all; the database's view of a finished task covers every
  execution state of a successful run.
\<close>

section \<open>Enumerations\<close>

datatype UserState = Active | Locked | Deleted
datatype GroupState = Active | Locked | Deleted
datatype TaskState = Pending | Ready | Running | Finished | Cancelled | Unknown
datatype WorkerState = Normal | GracefulShutdown
datatype UserGroupRole = Read | Write | Admin
datatype GroupWorkerRole = Read | Write | Admin
datatype AttachmentContentType = NoSet
datatype ArtifactContentType = Result | ExecLog | StdLog

datatype TaskExecState =
    WorkerExited | FetchResource | FetchResourceFinished | FetchResourceError
  | FetchResourceTimeout | FetchResourceNotFound | FetchResourceForbidden
  | Watch | WatchFinished | WatchTimeout
  | ExecPending | ExecSpawned | ExecFinished | ExecTimeout
  | UploadResult | UploadFinishedResult | UploadCancelledResult | UploadResultFinished
  | UploadResultTimeout | TaskCommitted | Unknown

datatype TaskResultMessage =
    FetchResourceTimeout | ExecTimeout | UploadResultTimeout | ResourceNotFound
  | ResourceForbidden | WatchTimeout | UserCancellation | SubmitNewTaskFailed

record TaskResultSpec =
  exit_status :: i32
  msg :: "TaskResultMessage option"

text \<open>\<open>#[derive(Ord)]\<close> on \<open>UserGroupRole\<close>: declaration order.\<close>

fun user_group_role_i32 :: "UserGroupRole \<Rightarrow> i32" where
  "user_group_role_i32 UserGroupRole.Read = 0"
| "user_group_role_i32 UserGroupRole.Write = 1"
| "user_group_role_i32 UserGroupRole.Admin = 2"

instantiation UserGroupRole :: linorder
begin

definition less_eq_UserGroupRole :: "UserGroupRole \<Rightarrow> UserGroupRole \<Rightarrow> bool" where
  "less_eq_UserGroupRole a b \<longleftrightarrow> user_group_role_i32 a \<le> user_group_role_i32 b"

definition less_UserGroupRole :: "UserGroupRole \<Rightarrow> UserGroupRole \<Rightarrow> bool" where
  "less_UserGroupRole a b \<longleftrightarrow> user_group_role_i32 a < user_group_role_i32 b"

instance
proof
  fix a b c :: UserGroupRole
  show "a < b \<longleftrightarrow> a \<le> b \<and> \<not> b \<le> a"
    unfolding less_eq_UserGroupRole_def less_UserGroupRole_def by auto
  show "a \<le> a" unfolding less_eq_UserGroupRole_def by simp
  show "a \<le> b \<Longrightarrow> b \<le> c \<Longrightarrow> a \<le> c" unfolding less_eq_UserGroupRole_def by simp
  show "a \<le> b \<Longrightarrow> b \<le> a \<Longrightarrow> a = b"
    unfolding less_eq_UserGroupRole_def by (cases a; cases b) auto
  show "a \<le> b \<or> b \<le> a" unfolding less_eq_UserGroupRole_def by auto
qed

end

text \<open>The integer column value of a group-worker role, compared with \<open>gt(0)\<close> in the queries.\<close>

fun group_worker_role_i32 :: "GroupWorkerRole \<Rightarrow> i32" where
  "group_worker_role_i32 GroupWorkerRole.Read = 0"
| "group_worker_role_i32 GroupWorkerRole.Write = 1"
| "group_worker_role_i32 GroupWorkerRole.Admin = 2"

definition user_group_role_from_str :: "string \<Rightarrow> UserGroupRole option" where
  "user_group_role_from_str s =
     (if s \<in> {''read'', ''Read'', ''READ''} then Some UserGroupRole.Read
      else if s \<in> {''write'', ''Write'', ''WRITE''} then Some UserGroupRole.Write
      else if s \<in> {''admin'', ''Admin'', ''ADMIN''} then Some UserGroupRole.Admin
      else None)"

definition group_worker_role_from_str :: "string \<Rightarrow> GroupWorkerRole option" where
  "group_worker_role_from_str s =
     (if s \<in> {''read'', ''Read'', ''READ''} then Some GroupWorkerRole.Read
      else if s \<in> {''write'', ''Write'', ''WRITE''} then Some GroupWorkerRole.Write
      else if s \<in> {''admin'', ''Admin'', ''ADMIN''} then Some GroupWorkerRole.Admin
      else None)"

fun artifact_file_name :: "ArtifactContentType \<Rightarrow> string" where
  "artifact_file_name Result = ''result.tar.gz''"
| "artifact_file_name ExecLog = ''exec-log.tar.gz''"
| "artifact_file_name StdLog = ''std-log.tar.gz''"

lemma artifact_file_name_inj: "artifact_file_name a = artifact_file_name b \<longleftrightarrow> a = b"
  by (cases a; cases b) auto

section \<open>Execution states\<close>

text \<open>The discriminants, \<open>From<i32>\<close> and \<open>FromStr\<close> of \<open>TaskExecState\<close>.\<close>

fun exec_to_i32 :: "TaskExecState \<Rightarrow> i32" where
  "exec_to_i32 WorkerExited = - 1"
| "exec_to_i32 FetchResource = 1"
| "exec_to_i32 FetchResourceFinished = 2"
| "exec_to_i32 FetchResourceError = 3"
| "exec_to_i32 TaskExecState.FetchResourceTimeout = 4"
| "exec_to_i32 FetchResourceNotFound = 5"
| "exec_to_i32 FetchResourceForbidden = 6"
| "exec_to_i32 Watch = 7"
| "exec_to_i32 WatchFinished = 8"
| "exec_to_i32 TaskExecState.WatchTimeout = 9"
| "exec_to_i32 ExecPending = 10"
| "exec_to_i32 ExecSpawned = 11"
| "exec_to_i32 ExecFinished = 12"
| "exec_to_i32 TaskExecState.ExecTimeout = 13"
| "exec_to_i32 UploadResult = 14"
| "exec_to_i32 UploadFinishedResult = 15"
| "exec_to_i32 UploadCancelledResult = 16"
| "exec_to_i32 UploadResultFinished = 17"
| "exec_to_i32 TaskExecState.UploadResultTimeout = 18"
| "exec_to_i32 TaskCommitted = 19"
| "exec_to_i32 Unknown = - 99"

definition exec_from_i32 :: "i32 \<Rightarrow> TaskExecState" where
  "exec_from_i32 v =
      (if v = - 1 then WorkerExited
      else if v = 1 then FetchResource
      else if v = 2 then FetchResourceFinished
      else if v = 3 then FetchResourceError
      else if v = 4 then TaskExecState.FetchResourceTimeout
      else if v = 5 then FetchResourceNotFound
      else if v = 6 then FetchResourceForbidden
      else if v = 7 then Watch
      else if v = 8 then WatchFinished
      else if v = 9 then TaskExecState.WatchTimeout
      else if v = 10 then ExecPending
      else if v = 11 then ExecSpawned
      else if v = 12 then ExecFinished
      else if v = 13 then TaskExecState.ExecTimeout
      else if v = 14 then UploadResult
      else if v = 15 then UploadFinishedResult
      else if v = 16 then UploadCancelledResult
      else if v = 17 then UploadResultFinished
      else if v = 18 then TaskExecState.UploadResultTimeout
      else if v = 19 then TaskCommitted
      else TaskExecState.Unknown)"

definition exec_from_str :: "string \<Rightarrow> TaskExecState" where
  "exec_from_str s =
      (if s = ''WorkerExited'' then WorkerExited
      else if s = ''FetchResource'' then FetchResource
      else if s = ''FetchResourceFinished'' then FetchResourceFinished
      else if s = ''FetchResourceError'' then FetchResourceError
      else if s = ''FetchResourceTimeout'' then TaskExecState.FetchResourceTimeout
      else if s = ''FetchResourceNotFound'' then FetchResourceNotFound
      else if s = ''FetchResourceForbidden'' then FetchResourceForbidden
      else if s = ''Watch'' then Watch
      else if s = ''WatchFinished'' then WatchFinished
      else if s = ''WatchTimeout'' then TaskExecState.WatchTimeout
      else if s = ''ExecPending'' then ExecPending
      else if s = ''ExecSpawned'' then ExecSpawned
      else if s = ''ExecFinished'' then ExecFinished
      else if s = ''ExecTimeout'' then TaskExecState.ExecTimeout
      else if s = ''UploadResult'' then UploadResult
      else if s = ''UploadFinishedResult'' then UploadFinishedResult
      else if s = ''UploadCancelledResult'' then UploadCancelledResult
      else if s = ''UploadResultFinished'' then UploadResultFinished
      else if s = ''UploadResultTimeout'' then TaskExecState.UploadResultTimeout
      else if s = ''TaskCommitted'' then TaskCommitted
      else TaskExecState.Unknown)"

text \<open>\<open>Debug\<close> prints the variant's name.\<close>

fun exec_name :: "TaskExecState \<Rightarrow> string" where
  "exec_name WorkerExited = ''WorkerExited''"
| "exec_name FetchResource = ''FetchResource''"
| "exec_name FetchResourceFinished = ''FetchResourceFinished''"
| "exec_name FetchResourceError = ''FetchResourceError''"
| "exec_name TaskExecState.FetchResourceTimeout = ''FetchResourceTimeout''"
| "exec_name FetchResourceNotFound = ''FetchResourceNotFound''"
| "exec_name FetchResourceForbidden = ''FetchResourceForbidden''"
| "exec_name Watch = ''Watch''"
| "exec_name WatchFinished = ''WatchFinished''"
| "exec_name TaskExecState.WatchTimeout = ''WatchTimeout''"
| "exec_name ExecPending = ''ExecPending''"
| "exec_name ExecSpawned = ''ExecSpawned''"
| "exec_name ExecFinished = ''ExecFinished''"
| "exec_name TaskExecState.ExecTimeout = ''ExecTimeout''"
| "exec_name UploadResult = ''UploadResult''"
| "exec_name UploadFinishedResult = ''UploadFinishedResult''"
| "exec_name UploadCancelledResult = ''UploadCancelledResult''"
| "exec_name UploadResultFinished = ''UploadResultFinished''"
| "exec_name TaskExecState.UploadResultTimeout = ''UploadResultTimeout''"
| "exec_name TaskCommitted = ''TaskCommitted''"
| "exec_name Unknown = ''Unknown''"

lemma exec_from_to_i32: "exec_from_i32 (exec_to_i32 x) = x"
  by (cases x) (simp_all add: exec_from_i32_def)

lemma exec_from_str_name: "exec_from_str (exec_name x) = x"
  by (cases x) (simp_all add: exec_from_str_def)

text \<open>The rows of the decision table of \<open>TaskExecState::is_reach\<close>: for every target, the states
  that have reached it.\<close>

fun reached_by :: "TaskExecState \<Rightarrow> TaskExecState list" where
  "reached_by WorkerExited = []"
| "reached_by FetchResource = [FetchResource, FetchResourceFinished, FetchResourceError,
       TaskExecState.FetchResourceTimeout, FetchResourceNotFound, FetchResourceForbidden, Watch,
       WatchFinished, TaskExecState.WatchTimeout, ExecPending, ExecSpawned, ExecFinished,
       TaskExecState.ExecTimeout,
       UploadResult, UploadFinishedResult, UploadCancelledResult, UploadResultFinished,
       TaskExecState.UploadResultTimeout, TaskCommitted]"
| "reached_by FetchResourceFinished = [FetchResourceFinished, Watch, WatchFinished,
       TaskExecState.WatchTimeout, ExecPending, ExecSpawned, ExecFinished,
       TaskExecState.ExecTimeout, UploadResult,
       UploadFinishedResult, UploadCancelledResult, UploadResultFinished,
       TaskExecState.UploadResultTimeout,
       TaskCommitted]"
| "reached_by FetchResourceError = [FetchResourceError]"
| "reached_by TaskExecState.FetchResourceTimeout = [TaskExecState.FetchResourceTimeout]"
| "reached_by FetchResourceNotFound = [FetchResourceNotFound]"
| "reached_by FetchResourceForbidden = [FetchResourceForbidden]"
| "reached_by Watch = [Watch, WatchFinished, TaskExecState.WatchTimeout, ExecPending, ExecSpawned,
       ExecFinished, TaskExecState.ExecTimeout, UploadResult, UploadFinishedResult,
       UploadCancelledResult,
       UploadResultFinished, TaskExecState.UploadResultTimeout, TaskCommitted]"
| "reached_by WatchFinished = [WatchFinished, ExecPending, ExecSpawned, ExecFinished,
       TaskExecState.ExecTimeout, UploadResult, UploadFinishedResult, UploadCancelledResult,
       UploadResultFinished, TaskExecState.UploadResultTimeout, TaskCommitted]"
| "reached_by TaskExecState.WatchTimeout = [TaskExecState.WatchTimeout]"
| "reached_by ExecPending = [ExecPending, ExecSpawned, ExecFinished, TaskExecState.ExecTimeout,
       UploadResult,
       UploadFinishedResult, UploadCancelledResult, UploadResultFinished,
       TaskExecState.UploadResultTimeout,
       TaskCommitted]"
| "reached_by ExecSpawned = [ExecSpawned, ExecFinished, TaskExecState.ExecTimeout, UploadResult,
       UploadFinishedResult, UploadCancelledResult, UploadResultFinished,
       TaskExecState.UploadResultTimeout,
       TaskCommitted]"
| "reached_by ExecFinished = [ExecFinished, UploadFinishedResult]"
| "reached_by TaskExecState.ExecTimeout = [TaskExecState.ExecTimeout, UploadCancelledResult]"
| "reached_by UploadResult = [UploadResult, UploadFinishedResult, UploadCancelledResult,
       UploadResultFinished, TaskExecState.UploadResultTimeout, TaskCommitted]"
| "reached_by UploadFinishedResult = [UploadFinishedResult]"
| "reached_by UploadCancelledResult = [UploadCancelledResult]"
| "reached_by UploadResultFinished = [UploadResultFinished]"
| "reached_by TaskExecState.UploadResultTimeout = [TaskExecState.UploadResultTimeout]"
| "reached_by TaskCommitted = [TaskCommitted]"
| "reached_by Unknown = []"

definition exec_is_reach :: "TaskExecState \<Rightarrow> TaskExecState \<Rightarrow> bool" where
  "exec_is_reach self target \<longleftrightarrow> self \<in> set (reached_by target)"

definition exec_is_end :: "TaskExecState \<Rightarrow> bool" where
  "exec_is_end self \<longleftrightarrow> self \<in> {FetchResourceError, TaskCommitted}"

text \<open>The rows of the table that \<open>TaskState::is_reach\<close> consults for a cancelled task.\<close>

fun cancelled_reached_by :: "TaskExecState \<Rightarrow> TaskResultMessage list" where
  "cancelled_reached_by WorkerExited = []"
| "cancelled_reached_by FetchResource = [SubmitNewTaskFailed]"
| "cancelled_reached_by FetchResourceFinished = [SubmitNewTaskFailed]"
| "cancelled_reached_by FetchResourceError = []"
| "cancelled_reached_by TaskExecState.FetchResourceTimeout =
       [TaskResultMessage.FetchResourceTimeout]"
| "cancelled_reached_by FetchResourceNotFound = [ResourceNotFound]"
| "cancelled_reached_by FetchResourceForbidden = [ResourceForbidden]"
| "cancelled_reached_by Watch = [SubmitNewTaskFailed]"
| "cancelled_reached_by WatchFinished = [SubmitNewTaskFailed]"
| "cancelled_reached_by TaskExecState.WatchTimeout = [TaskResultMessage.WatchTimeout]"
| "cancelled_reached_by ExecPending = [SubmitNewTaskFailed]"
| "cancelled_reached_by ExecSpawned = [SubmitNewTaskFailed]"
| "cancelled_reached_by ExecFinished = [SubmitNewTaskFailed]"
| "cancelled_reached_by TaskExecState.ExecTimeout = [TaskResultMessage.ExecTimeout]"
| "cancelled_reached_by UploadResult = [TaskResultMessage.FetchResourceTimeout,
       TaskResultMessage.ExecTimeout, TaskResultMessage.UploadResultTimeout, ResourceNotFound,
       ResourceForbidden, TaskResultMessage.WatchTimeout, SubmitNewTaskFailed]"
| "cancelled_reached_by UploadFinishedResult = []"
| "cancelled_reached_by UploadCancelledResult = [TaskResultMessage.FetchResourceTimeout,
       TaskResultMessage.ExecTimeout, TaskResultMessage.UploadResultTimeout, ResourceNotFound,
       ResourceForbidden, TaskResultMessage.WatchTimeout]"
| "cancelled_reached_by UploadResultFinished = [TaskResultMessage.FetchResourceTimeout,
       TaskResultMessage.ExecTimeout, TaskResultMessage.UploadResultTimeout, ResourceNotFound,
       ResourceForbidden, TaskResultMessage.WatchTimeout, SubmitNewTaskFailed]"
| "cancelled_reached_by TaskExecState.UploadResultTimeout =
       [TaskResultMessage.UploadResultTimeout]"
| "cancelled_reached_by TaskCommitted = [TaskResultMessage.FetchResourceTimeout,
       TaskResultMessage.ExecTimeout, TaskResultMessage.UploadResultTimeout, ResourceNotFound,
       ResourceForbidden, TaskResultMessage.WatchTimeout, UserCancellation,
       SubmitNewTaskFailed]"
| "cancelled_reached_by Unknown = []"

text \<open>The branch of \<open>TaskState::is_reach\<close> for a finished task.\<close>

fun finished_is_reach :: "TaskExecState \<Rightarrow> TaskResultSpec option \<Rightarrow> bool" where
  "finished_is_reach WorkerExited r = False"
| "finished_is_reach FetchResource r = True"
| "finished_is_reach FetchResourceFinished r = True"
| "finished_is_reach FetchResourceError r = False"
| "finished_is_reach TaskExecState.FetchResourceTimeout r = False"
| "finished_is_reach FetchResourceNotFound r = False"
| "finished_is_reach FetchResourceForbidden r = False"
| "finished_is_reach Watch r = True"
| "finished_is_reach WatchFinished r = True"
| "finished_is_reach TaskExecState.WatchTimeout r = False"
| "finished_is_reach ExecPending r = True"
| "finished_is_reach ExecSpawned r = True"
| "finished_is_reach ExecFinished r = True"
| "finished_is_reach TaskExecState.ExecTimeout r = False"
| "finished_is_reach UploadResult r = True"
| "finished_is_reach UploadFinishedResult r = True"
| "finished_is_reach UploadCancelledResult r = False"
| "finished_is_reach UploadResultFinished r = (r \<noteq> None)"
| "finished_is_reach TaskExecState.UploadResultTimeout r = False"
| "finished_is_reach TaskCommitted r = (r \<noteq> None)"
| "finished_is_reach Unknown r = False"

fun task_is_reach :: "TaskState \<Rightarrow> TaskExecState \<Rightarrow> TaskResultSpec option \<Rightarrow> bool" where
  "task_is_reach TaskState.Pending target r = False"
| "task_is_reach TaskState.Ready target r = False"
| "task_is_reach TaskState.Unknown target r = False"
| "task_is_reach TaskState.Running target r = (target = FetchResource)"
| "task_is_reach TaskState.Finished target r = finished_is_reach target r"
| "task_is_reach TaskState.Cancelled target r =
     (case r of
        None \<Rightarrow> False
      | Some spec \<Rightarrow>
          (case msg spec of
             None \<Rightarrow> False
           | Some m \<Rightarrow> m \<in> set (cancelled_reached_by target)))"

section \<open>Progress of an execution\<close>

lemma reached_by_refl: "x \<in> set (reached_by x) \<longleftrightarrow> x \<noteq> WorkerExited \<and> x \<noteq> Unknown"
  by (cases x) simp_all

lemma reached_by_trans: "y \<in> set (reached_by z) \<Longrightarrow> set (reached_by y) \<subseteq> set (reached_by z)"
  by (cases z) auto

lemma reached_by_antisym: "x \<in> set (reached_by y) \<Longrightarrow> y \<in> set (reached_by x) \<Longrightarrow> x = y"
  by (cases y) auto

text \<open>Having reached an execution state is a partial order on the states a worker can publish: every
  state but \<open>WorkerExited\<close> and \<open>Unknown\<close> has reached itself, two states that have reached each other are
  equal, and a state that has reached another has reached all that the other has.\<close>

lemma exec_is_reach_partial_order:
  "(exec_is_reach x x \<longleftrightarrow> x \<noteq> WorkerExited \<and> x \<noteq> Unknown) \<and>
   (exec_is_reach x y \<longrightarrow> exec_is_reach y x \<longrightarrow> x = y) \<and>
   (exec_is_reach x y \<longrightarrow> exec_is_reach y z \<longrightarrow> exec_is_reach x z)"
  using reached_by_refl [of x] reached_by_antisym [of x y] reached_by_trans [of y z]
  by (auto simp: exec_is_reach_def)

theorem exec_is_reach_partial_order_witness:
  "exec_is_reach TaskCommitted UploadResult \<and> exec_is_reach UploadResult FetchResource \<and>
   exec_is_reach TaskCommitted FetchResource"
  using exec_is_reach_partial_order [of TaskCommitted UploadResult FetchResource]
  by (simp add: exec_is_reach_def)

text \<open>The integer under which a worker publishes an execution state identifies it: decoding inverts
  encoding, and the only integers that decode to a state other than \<open>Unknown\<close> are the codes.\<close>

lemma exec_i32_roundtrip:
  "exec_from_i32 (exec_to_i32 x) = x \<and>
   (exec_from_i32 i = Unknown \<longleftrightarrow> i \<notin> exec_to_i32 ` (UNIV - {Unknown}))"
proof -
  have "exec_from_i32 i = Unknown \<or> exec_to_i32 (exec_from_i32 i) = i"
    by (simp add: exec_from_i32_def)
  then have "i \<in> exec_to_i32 ` (UNIV - {Unknown})" if "exec_from_i32 i \<noteq> Unknown"
    using that by (metis Diff_iff UNIV_I imageI singletonD)
  then show ?thesis by (auto simp: exec_from_to_i32)
qed

end
