(* ===== verification/Entities.thy ===== *)
theory Entities
  imports States
begin

text \<open>
  The row types of the nine tables (\<open>entity/*.rs\<close>), the request and response structures of
  \<open>schema.rs\<close> that the modelled services use, and the messages of the two channels between the
  services and the coordinator's background tasks.

  A \<open>HashSet\<close> field of a request is the list of its elements in iteration order, a JSON column is
  the value it encodes, a \<open>Duration\<close> is its whole seconds, and a timestamp counts nanoseconds.
  An archived task is an active task with a reporter, so its record extends the task record.
\<close>

section \<open>Task specifications\<close>

datatype RemoteResource = Artifact uuid ArtifactContentType | Attachment string

record RemoteResourceDownload =
  remote_file :: RemoteResource
  local_path :: string

record TaskSpec =
  args :: "string list"
  envs :: "(string \<times> string) list"
  resources :: "RemoteResourceDownload list"
  terminal_output :: bool
  watch :: "(uuid \<times> TaskExecState) option"

section \<open>Rows\<close>

record UserRow =
  u_id :: i64
  u_username :: string
  u_encrypted_password :: string
  u_auth_signature :: "i64 option"
  u_reset_password_token :: "string option"
  u_reset_password_token_expiry :: "nanos option"
  u_current_sign_in_at :: "nanos option"
  u_last_sign_in_at :: "nanos option"
  u_current_sign_in_ip :: "string option"
  u_last_sign_in_ip :: "string option"
  u_created_at :: nanos
  u_updated_at :: nanos
  u_admin :: bool
  u_state :: UserState
  u_group_quota :: i32
  u_group_count :: i32

record GroupRow =
  g_id :: i64
  g_group_name :: string
  g_creator_id :: i64
  g_created_at :: nanos
  g_updated_at :: nanos
  g_state :: GroupState
  g_task_count :: i64
  g_storage_quota :: i64
  g_storage_used :: i64

record UserGroupRow =
  ug_id :: i64
  ug_user_id :: i64
  ug_group_id :: i64
  ug_role :: UserGroupRole

record WorkerRow =
  w_id :: i64
  w_worker_id :: uuid
  w_creator_id :: i64
  w_tags :: "string list"
  w_labels :: "string list"
  w_created_at :: nanos
  w_updated_at :: nanos
  w_state :: WorkerState
  w_last_heartbeat :: nanos
  w_assigned_task_id :: "i64 option"

record GroupWorkerRow =
  gw_id :: i64
  gw_group_id :: i64
  gw_worker_id :: i64
  gw_role :: GroupWorkerRole

record TaskRow =
  t_id :: i64
  t_creator_id :: i64
  t_group_id :: i64
  t_task_id :: i64
  t_uuid :: uuid
  t_tags :: "string list"
  t_labels :: "string list"
  t_created_at :: nanos
  t_updated_at :: nanos
  t_state :: TaskState
  t_assigned_worker :: "i64 option"
  t_timeout :: i64
  t_priority :: i32
  t_spec :: TaskSpec
  t_result :: "TaskResultSpec option"
  t_upstream_task_uuid :: "uuid option"
  t_downstream_task_uuid :: "uuid option"

record ArchivedRow = TaskRow +
  r_reporter_uuid :: "uuid option"

record AttachmentRow =
  a_id :: i64
  a_group_id :: i64
  a_key :: string
  a_content_type :: AttachmentContentType
  a_size :: i64
  a_created_at :: nanos
  a_updated_at :: nanos

record ArtifactRow =
  f_id :: i64
  f_task_id :: uuid
  f_content_type :: ArtifactContentType
  f_size :: i64
  f_created_at :: nanos
  f_updated_at :: nanos

datatype StoredTaskModel = StoredActive TaskRow | StoredArchived ArchivedRow

text \<open>\<open>From<active_tasks::Model> for archived_tasks::Model\<close>, and the part of an archived row that
  it shares with the active one.\<close>

definition archive_of :: "TaskRow \<Rightarrow> ArchivedRow" where
  "archive_of t = TaskRow.extend t (ArchivedRow.fields None)"

lemma truncate_archive_of [simp]: "TaskRow.truncate (archive_of t) = t"
  by (simp add: archive_of_def TaskRow.defs ArchivedRow.defs)

lemma archive_of_sel [simp]:
  "t_id (archive_of t) = t_id t" "t_uuid (archive_of t) = t_uuid t"
  "t_group_id (archive_of t) = t_group_id t" "t_task_id (archive_of t) = t_task_id t"
  "t_state (archive_of t) = t_state t" "t_creator_id (archive_of t) = t_creator_id t"
  "t_result (archive_of t) = t_result t" "t_labels (archive_of t) = t_labels t"
  "t_tags (archive_of t) = t_tags t" "t_priority (archive_of t) = t_priority t"
  "t_spec (archive_of t) = t_spec t" "t_timeout (archive_of t) = t_timeout t"
  "t_assigned_worker (archive_of t) = t_assigned_worker t"
  "r_reporter_uuid (archive_of t) = None"
  by (simp_all add: archive_of_def TaskRow.defs ArchivedRow.defs)

section \<open>Requests and responses\<close>

record SubmitTaskReq =
  st_group_name :: string
  st_tags :: "string list"
  st_labels :: "string list"
  st_timeout :: u64
  st_priority :: i32
  st_task_spec :: TaskSpec

record SubmitTaskResp =
  sr_task_id :: i64
  sr_uuid :: uuid

record ChangeTaskReq =
  ct_tags :: "string list option"
  ct_timeout :: "u64 option"
  ct_priority :: "i32 option"
  ct_task_spec :: "TaskSpec option"

datatype ReportTaskOp =
    Finish
  | Cancel
  | Submit SubmitTaskReq
  | Commit TaskResultSpec
  | Upload ArtifactContentType u64

record WorkerTaskResp =
  wt_id :: i64
  wt_uuid :: uuid
  wt_timeout :: u64
  wt_upstream_task_uuid :: "uuid option"
  wt_spec :: TaskSpec

datatype WorkerShutdownOp = Graceful | Force

section \<open>Channel messages\<close>

text \<open>\<open>service/worker/queue.rs\<close> and \<open>heartbeat.rs\<close>. The reply sender of \<open>FetchTask\<close> is represented
  by whether its receiving half is still alive when the reply is sent.\<close>

datatype TaskDispatcherOp =
    RegisterWorker i64
  | UnregisterWorker i64
  | AddTask i64 i64 i32
  | AddTasks i64 "(i64 \<times> i32) list"
  | BatchAddTask "i64 list" i64 i32
  | BatchAddTasks "i64 list" "(i64 \<times> i32) list"
  | RemoveTask i64
  | FetchTask i64 bool

datatype HeartbeatOp = HbUnregisterWorker i64 | Heartbeat i64

end
