(* ===== verification/Tables.thy ===== *)
theory Tables
  imports Entities
begin

text \<open>
  The relational store and the \<open>InfraPool\<close> that every service function works on.

  The database is a record of tables; a table is the list of its rows and the next value of its
  serial key. A statement of the sources (a \<open>SELECT\<close>, \<open>UPDATE\<close>, \<open>DELETE\<close> or \<open>INSERT\<close>) is one function
  on the database, executed by \<open>db_stmt\<close>. Any statement can fail because the connection is lost: the
  pool carries a list of booleans, consumed one per statement, that says which of the coming
  statements fail, so a theorem that holds for every pool holds for a failure at every point.
  \<open>transaction\<close> restores the tables when its body, its \<open>BEGIN\<close> or its \<open>COMMIT\<close> fails; messages already
  sent and statements outside a transaction are not undone.

  The unique and foreign keys are those of \<open>migration/m20240416_132735_create_table.rs\<close>; an
  \<open>ActiveModel::update\<close> of a missing row fails with \<open>RecordNotUpdated\<close>.
\<close>

section \<open>List operations behind the statements\<close>

definition upd_where :: "('a \<Rightarrow> bool) \<Rightarrow> ('a \<Rightarrow> 'a) \<Rightarrow> 'a list \<Rightarrow> 'a list" where
  "upd_where p f xs = map (\<lambda>x. if p x then f x else x) xs"

definition del_where :: "('a \<Rightarrow> bool) \<Rightarrow> 'a list \<Rightarrow> 'a list" where
  "del_where p xs = filter (\<lambda>x. \<not> p x) xs"

lemma map_upd_where [simp]: "(\<And>x. g (f x) = g x) \<Longrightarrow> map g (upd_where p f xs) = map g xs"
  by (simp add: upd_where_def)

lemma map_upd_where_in:
  "(\<And>x. x \<in> set xs \<Longrightarrow> p x \<Longrightarrow> g (f x) = g x) \<Longrightarrow> map g (upd_where p f xs) = map g xs"
  by (simp add: upd_where_def)

lemma set_upd_where: "set (upd_where p f xs) = f ` {x \<in> set xs. p x} \<union> {x \<in> set xs. \<not> p x}"
  by (auto simp: upd_where_def)

lemma upd_whereE:
  assumes "y \<in> set (upd_where p f xs)"
  obtains x where "x \<in> set xs" "p x" "y = f x" | "y \<in> set xs" "\<not> p y"
  using assms by (auto simp: set_upd_where)

lemma set_del_where [simp]: "set (del_where p xs) = {x \<in> set xs. \<not> p x}"
  by (auto simp: del_where_def)

lemma distinct_map_del_where: "distinct (map g xs) \<Longrightarrow> distinct (map g (del_where p xs))"
  by (simp add: del_where_def distinct_map_filter)

lemma filter_upd_where_none: "filter p xs = [] \<Longrightarrow> upd_where p f xs = xs"
  by (induction xs) (auto simp: upd_where_def split: if_splits)

lemma distinct_map_key: "distinct (map k xs) \<Longrightarrow> x \<in> set xs \<Longrightarrow> y \<in> set xs \<Longrightarrow> k x = k y \<Longrightarrow> x = y"
  by (auto simp: distinct_map inj_on_def)

lemma find_SomeD: "find p xs = Some x \<Longrightarrow> x \<in> set xs \<and> p x"
  by (auto simp: find_Some_iff)

lemma find_unique_key:
  assumes "distinct (map k xs)" and "x \<in> set xs"
  shows "find (\<lambda>y. k y = k x) xs = Some x"
proof -
  obtain y where y: "find (\<lambda>y. k y = k x) xs = Some y"
    using assms(2) by (cases "find (\<lambda>y. k y = k x) xs") (auto simp: find_None_iff)
  then have "y = x" using assms by (auto dest!: find_SomeD intro: distinct_map_key)
  with y show ?thesis by simp
qed

lemma filter_unique_key:
  "distinct (map k xs) \<Longrightarrow> x \<in> set xs \<Longrightarrow> filter (\<lambda>y. k y = k x) xs = [x]"
proof (induction xs)
  case (Cons a xs)
  have "filter (\<lambda>y. k y = k a) xs = []" using Cons.prems by (auto simp: filter_empty_conv image_iff)
  then show ?case using Cons by (cases "x = a") (auto simp: image_iff)
qed simp

text \<open>Sums over a table when the row with one key changes or goes away.\<close>

lemma sum_list_upd_key:
  fixes f :: "'a \<Rightarrow> int"
  shows "distinct (map k xs) \<Longrightarrow> x \<in> set xs \<Longrightarrow>
   sum_list (map f (upd_where (\<lambda>y. k y = k x) g xs)) = sum_list (map f xs) - f x + f (g x)"
proof (induction xs)
  case (Cons a xs)
  show ?case
  proof (cases "x = a")
    case True
    then have "filter (\<lambda>y. k y = k x) xs = []" using Cons.prems by (auto simp: filter_empty_conv image_iff)
    then have "upd_where (\<lambda>y. k y = k x) g xs = xs" by (rule filter_upd_where_none)
    then show ?thesis using True by (simp add: upd_where_def)
  next
    case False
    then have "k a \<noteq> k x" "x \<in> set xs" using Cons.prems by (auto simp: image_iff)
    then show ?thesis using Cons by (simp add: upd_where_def)
  qed
qed simp

lemma sum_list_del_key:
  fixes f :: "'a \<Rightarrow> int"
  shows "distinct (map k xs) \<Longrightarrow> x \<in> set xs \<Longrightarrow>
   sum_list (map f (del_where (\<lambda>y. k y = k x) xs)) = sum_list (map f xs) - f x"
proof (induction xs)
  case (Cons a xs)
  show ?case
  proof (cases "x = a")
    case True
    then have "filter (\<lambda>y. k y \<noteq> k x) xs = xs" using Cons.prems by (auto simp: filter_id_conv image_iff)
    then show ?thesis using True by (simp add: del_where_def)
  next
    case False
    then have "k a \<noteq> k x" "x \<in> set xs" using Cons.prems by (auto simp: image_iff)
    then show ?thesis using Cons by (simp add: del_where_def)
  qed
qed simp

section \<open>The database\<close>

record Db =
  users :: "UserRow list"
  groups :: "GroupRow list"
  user_groups :: "UserGroupRow list"
  workers :: "WorkerRow list"
  group_workers :: "GroupWorkerRow list"
  active_tasks :: "TaskRow list"
  archived_tasks :: "ArchivedRow list"
  attachments :: "AttachmentRow list"
  artifacts :: "ArtifactRow list"
  nxt_user :: i64
  nxt_group :: i64
  nxt_user_group :: i64
  nxt_worker :: i64
  nxt_group_worker :: i64
  nxt_task :: i64
  nxt_attachment :: i64
  nxt_artifact :: i64

definition empty_db :: Db where
  "empty_db = \<lparr>users = [], groups = [], user_groups = [], workers = [], group_workers = [],
     active_tasks = [], archived_tasks = [], attachments = [], artifacts = [],
     nxt_user = 1, nxt_group = 1, nxt_user_group = 1, nxt_worker = 1, nxt_group_worker = 1,
     nxt_task = 1, nxt_attachment = 1, nxt_artifact = 1\<rparr>"

text \<open>\<open>InfraPool\<close> (\<open>config/coordinator.rs\<close>): the database connection and the sending halves of the two
  channels with the messages not yet received; a channel is open while its receiver lives.\<close>

record Pool =
  db :: Db
  faults :: "bool list"
  task_tx :: "TaskDispatcherOp list"
  task_rx_open :: bool
  hb_tx :: "HeartbeatOp list"
  hb_rx_open :: bool

definition faulty :: "Pool \<Rightarrow> bool" where
  "faulty s \<longleftrightarrow> faults s \<noteq> [] \<and> hd (faults s)"

definition tick :: "Pool \<Rightarrow> Pool" where
  "tick s = s\<lparr>faults := tl (faults s)\<rparr>"

lemma tick_sel [simp]:
  "db (tick s) = db s" "task_tx (tick s) = task_tx s" "hb_tx (tick s) = hb_tx s"
  "task_rx_open (tick s) = task_rx_open s" "hb_rx_open (tick s) = hb_rx_open s"
  "faults (tick s) = tl (faults s)"
  by (simp_all add: tick_def)

lemma tick_upd_db [simp]: "(tick s)\<lparr>db := d\<rparr> = tick (s\<lparr>db := d\<rparr>)"
  by (simp add: tick_def)

lemma tick_upd_task_tx [simp]: "(tick s)\<lparr>task_tx := d\<rparr> = tick (s\<lparr>task_tx := d\<rparr>)"
  by (simp add: tick_def)

lemma tick_upd_hb_tx [simp]: "(tick s)\<lparr>hb_tx := d\<rparr> = tick (s\<lparr>hb_tx := d\<rparr>)"
  by (simp add: tick_def)

lemma faulty_no_faults [simp]: "faults s = [] \<Longrightarrow> \<not> faulty s"
  by (simp add: faulty_def)

type_synonym 'a svc = "(Pool, Error, 'a) rm"

definition db_stmt :: "(Db \<Rightarrow> DbErr + 'a \<times> Db) \<Rightarrow> 'a svc" where
  "db_stmt f s =
     (if faulty s then (Inl (DbError ConnectionLost), tick s)
      else case f (db s) of
             Inl e \<Rightarrow> (Inl (DbError e), tick s)
           | Inr (a, d) \<Rightarrow> (Inr a, (tick s)\<lparr>db := d\<rparr>))"

definition query :: "(Db \<Rightarrow> 'a) \<Rightarrow> 'a svc" where
  "query q = db_stmt (\<lambda>d. Inr (q d, d))"

definition exec :: "(Db \<Rightarrow> 'a \<times> Db) \<Rightarrow> 'a svc" where
  "exec f = db_stmt (\<lambda>d. Inr (f d))"

definition transaction :: "'a svc \<Rightarrow> 'a svc" where
  "transaction m s =
     (if faulty s then (Inl (DbError ConnectionLost), tick s)
      else case m (tick s) of
             (Inl e, s') \<Rightarrow> (Inl e, s'\<lparr>db := db s\<rparr>)
           | (Inr a, s') \<Rightarrow>
               if faulty s' then (Inl (DbError ConnectionLost), (tick s')\<lparr>db := db s\<rparr>)
               else (Inr a, tick s'))"

text \<open>\<open>tx.send(op)\<close> on the unbounded channels; a closed channel is the error of the caller.\<close>

definition send_task :: "TaskDispatcherOp \<Rightarrow> string \<Rightarrow> unit svc" where
  "send_task op m s =
     (if task_rx_open s then (Inr (), s\<lparr>task_tx := task_tx s @ [op]\<rparr>) else (Inl (Custom m), s))"

definition send_hb :: "HeartbeatOp \<Rightarrow> string \<Rightarrow> unit svc" where
  "send_hb op m s =
     (if hb_rx_open s then (Inr (), s\<lparr>hb_tx := hb_tx s @ [op]\<rparr>) else (Inl (Custom m), s))"

lemma wp_db_stmt [wp_eqs]:
  "wp (db_stmt f) Q E s =
     (if faulty s then E (DbError ConnectionLost) (tick s)
      else case f (db s) of
             Inl e \<Rightarrow> E (DbError e) (tick s)
           | Inr (a, d) \<Rightarrow> Q a ((tick s)\<lparr>db := d\<rparr>))"
  by (simp add: wp_def db_stmt_def split: prod.splits sum.splits)

lemma wp_query [wp_eqs]:
  "wp (query q) Q E s =
     (if faulty s then E (DbError ConnectionLost) (tick s) else Q (q (db s)) (tick s))"
  by (simp add: query_def wp_db_stmt)

lemma wp_exec [wp_eqs]:
  "wp (exec f) Q E s =
     (if faulty s then E (DbError ConnectionLost) (tick s)
      else case f (db s) of (a, d) \<Rightarrow> Q a ((tick s)\<lparr>db := d\<rparr>))"
  by (simp add: exec_def wp_db_stmt split: prod.splits)

lemma wp_transaction [wp_eqs]:
  "wp (transaction m) Q E s =
     (if faulty s then E (DbError ConnectionLost) (tick s)
      else wp m (\<lambda>a t. if faulty t then E (DbError ConnectionLost) ((tick t)\<lparr>db := db s\<rparr>)
                        else Q a (tick t))
                (\<lambda>e t. E e (t\<lparr>db := db s\<rparr>)) (tick s))"
  by (simp add: wp_def transaction_def split: prod.splits sum.splits)

lemma wp_send_task [wp_eqs]:
  "wp (send_task op m) Q E s =
     (if task_rx_open s then Q () (s\<lparr>task_tx := task_tx s @ [op]\<rparr>) else E (Custom m) s)"
  by (simp add: wp_def send_task_def)

lemma wp_send_hb [wp_eqs]:
  "wp (send_hb op m) Q E s =
     (if hb_rx_open s then Q () (s\<lparr>hb_tx := hb_tx s @ [op]\<rparr>) else E (Custom m) s)"
  by (simp add: wp_def send_hb_def)

section \<open>Invariants of the database alone\<close>

text \<open>\<open>keeps_db I m\<close>: the program \<open>m\<close> keeps the database invariant \<open>I\<close>, however it ends.\<close>

definition keeps_db :: "(Db \<Rightarrow> bool) \<Rightarrow> (Pool, 'e, 'a) rm \<Rightarrow> bool" where
  "keeps_db I m \<longleftrightarrow> keeps (\<lambda>s. I (db s)) m"

lemma keeps_dbI:
  "(\<And>s. I (db s) \<Longrightarrow> wp m (\<lambda>_ t. I (db t)) (\<lambda>_ t. I (db t)) s) \<Longrightarrow> keeps_db I m"
  by (simp add: keeps_db_def keeps_def)

lemma keeps_db_wp:
  "keeps_db I m \<Longrightarrow> I (db s) \<Longrightarrow> wp m (\<lambda>_ t. I (db t)) (\<lambda>_ t. I (db t)) s"
  by (simp add: keeps_db_def keeps_def)

lemma keeps_dbD: "keeps_db I m \<Longrightarrow> I (db s) \<Longrightarrow> I (db (snd (m s)))"
  by (drule (1) keeps_db_wp) (rule wp_sndD)

lemma keeps_db_combinators [keeps_intros]:
  "keeps_db I (ret a)" "keeps_db I (raise e)" "keeps_db I (ok_or e x)" "keeps_db I (ensure b e)"
  by (simp_all add: keeps_db_def keeps_intros)

lemma keeps_db_bindR [keeps_intros]:
  "keeps_db I m \<Longrightarrow> (\<And>a. keeps_db I (f a)) \<Longrightarrow> keeps_db I (bindR m f)"
  unfolding keeps_db_def by (rule keeps_bindR)

lemma keeps_db_thenR [keeps_intros]: "keeps_db I m \<Longrightarrow> keeps_db I n \<Longrightarrow> keeps_db I (thenR m n)"
  unfolding keeps_db_def by (rule keeps_thenR)

lemma keeps_db_if [keeps_intros]:
  "(b \<Longrightarrow> keeps_db I m) \<Longrightarrow> (\<not> b \<Longrightarrow> keeps_db I n) \<Longrightarrow> keeps_db I (if b then m else n)"
  by simp

lemma keeps_db_case_option [keeps_intros]:
  "(x = None \<Longrightarrow> keeps_db I m) \<Longrightarrow> (\<And>a. x = Some a \<Longrightarrow> keeps_db I (f a)) \<Longrightarrow>
   keeps_db I (case x of None \<Rightarrow> m | Some a \<Rightarrow> f a)"
  by (simp split: option.splits)

lemma keeps_db_case_prod [keeps_intros]:
  "(\<And>a b. p = (a, b) \<Longrightarrow> keeps_db I (f a b)) \<Longrightarrow> keeps_db I (case p of (a, b) \<Rightarrow> f a b)"
  by (simp split: prod.splits)

lemma keeps_db_case_sum [keeps_intros]:
  "(\<And>a. x = Inl a \<Longrightarrow> keeps_db I (f a)) \<Longrightarrow> (\<And>a. x = Inr a \<Longrightarrow> keeps_db I (g a)) \<Longrightarrow>
   keeps_db I (case x of Inl a \<Rightarrow> f a | Inr a \<Rightarrow> g a)"
  by (simp split: sum.splits)

lemma keeps_db_case_list [keeps_intros]:
  "(xs = [] \<Longrightarrow> keeps_db I m) \<Longrightarrow> (\<And>y ys. xs = y # ys \<Longrightarrow> keeps_db I (f y ys)) \<Longrightarrow>
   keeps_db I (case xs of [] \<Rightarrow> m | y # ys \<Rightarrow> f y ys)"
  by (simp split: list.splits)

lemma keeps_db_for_each [keeps_intros]:
  "(\<And>x. x \<in> set xs \<Longrightarrow> keeps_db I (f x)) \<Longrightarrow> keeps_db I (for_each f xs)"
  unfolding keeps_db_def by (rule keeps_for_each)

lemma keeps_db_fold_m [keeps_intros]:
  "(\<And>x b. x \<in> set xs \<Longrightarrow> keeps_db I (f x b)) \<Longrightarrow> keeps_db I (fold_m f xs b)"
  unfolding keeps_db_def by (rule keeps_fold_m)

lemma keeps_db_query [keeps_intros]: "keeps_db I (query q)"
  by (simp add: keeps_db_def keeps_def wp_eqs)

lemma keeps_db_send [keeps_intros]: "keeps_db I (send_task op m)" "keeps_db I (send_hb hop m)"
  by (simp_all add: keeps_db_def keeps_def wp_eqs)

lemma keeps_db_transaction [keeps_intros]:
  assumes "keeps_db I m"
  shows "keeps_db I (transaction m)"
proof (rule keeps_dbI)
  fix s :: Pool assume I: "I (db s)"
  have "wp m (\<lambda>_ t. I (db t)) (\<lambda>_ t. I (db t)) (tick s)"
    using I by (intro keeps_db_wp [OF assms]) simp
  then show "wp (transaction m) (\<lambda>_ t. I (db t)) (\<lambda>_ t. I (db t)) s"
    unfolding wp_transaction using I by (auto elim!: wp_mono)
qed

lemma keeps_db_stmt:
  "(\<And>d a d'. I d \<Longrightarrow> f d = Inr (a, d') \<Longrightarrow> I d') \<Longrightarrow> keeps_db I (db_stmt f)"
  by (auto simp: keeps_db_def keeps_def wp_eqs split: sum.splits)

lemma keeps_db_exec:
  "(\<And>d. I d \<Longrightarrow> I (snd (f d))) \<Longrightarrow> keeps_db I (exec f)"
  by (simp add: keeps_db_def keeps_def wp_eqs split_beta)

text \<open>A transaction that ends in an error leaves every table as it was.\<close>

lemma transaction_error_atomic: "transaction m s = (Inl e, s') \<Longrightarrow> db s' = db s"
  by (auto simp: transaction_def split: if_splits prod.splits sum.splits)

text \<open>The definitions that turn a program on a concrete pool into its result.\<close>

lemmas run_defs = bindR_def thenR_def query_def exec_def db_stmt_def transaction_def ensure_def ret_def
  raise_def ok_or_def attempt_def map_err_def faulty_def tick_def send_task_def send_hb_def Let_def

end
