(* ===== verification/Task_Tables.thy ===== *)
theory Task_Tables
  imports Tables "HOL-Library.Multiset"
begin

text \<open>
  The statements on the task, group and worker tables that the services issue, and the invariant of
  the task store.

  A statement is a function on the database. An insertion checks the unique and foreign keys of the
  migrations and takes the next serial key; an \<open>ActiveModel::update\<close> changes the columns that are set
  in the row of the given primary key. \<open>task_trans\<close> is the life of one task while it is active, and
  the locale \<open>task_store\<close> lists what an invariant has to survive: the transitions, the submission
  of a task (the group's counter, then the row), the move to the archive, relabelling, and changes of
  other tables. The service theories show once, in this locale, that each service function keeps
  every such invariant. \<open>task_inv\<close> (identities, numbering, assignment, archive) and \<open>history\<close> (no task is
  lost and an archived task stays as it is) are its two interpretations here.
\<close>

section \<open>Statements\<close>

text \<open>\<open>UPDATE groups SET task_count = task_count + 1 ... RETURNING\<close> by name.\<close>

definition inc_task_count :: "nanos \<Rightarrow> string \<Rightarrow> Db \<Rightarrow> GroupRow list \<times> Db" where
  "inc_task_count now name d =
     (let p = (\<lambda>g. g_group_name g = name);
          f = (\<lambda>g. g\<lparr>g_task_count := g_task_count g + 1, g_updated_at := now\<rparr>)
      in (map f (filter p (groups d)), d\<lparr>groups := upd_where p f (groups d)\<rparr>))"

text \<open>A new group with the column defaults; \<open>ON CONFLICT DO NOTHING\<close> makes a used name a row that was not
  inserted.\<close>

definition DEFAULT_STORAGE_QUOTA :: i64 where
  "DEFAULT_STORAGE_QUOTA = 16 * 10 ^ 9"

definition insert_group :: "nanos \<Rightarrow> string \<Rightarrow> i64 \<Rightarrow> Db \<Rightarrow> DbErr + GroupRow \<times> Db" where
  "insert_group now name creator_id d =
     (if \<exists>g \<in> set (groups d). g_group_name g = name then Inl RecordNotInserted
      else if \<not> (\<exists>u \<in> set (users d). u_id u = creator_id) then Inl ForeignKeyViolation
      else let g = \<lparr>g_id = nxt_group d, g_group_name = name, g_creator_id = creator_id, g_created_at = now,
                    g_updated_at = now, g_state = GroupState.Active, g_task_count = 0,
                    g_storage_quota = DEFAULT_STORAGE_QUOTA, g_storage_used = 0\<rparr>
           in Inr (g, d\<lparr>nxt_group := nxt_group d + 1, groups := groups d @ [g]\<rparr>))"

definition insert_active_task :: "TaskRow \<Rightarrow> Db \<Rightarrow> DbErr + TaskRow \<times> Db" where
  "insert_active_task row d =
     (let t = row\<lparr>t_id := nxt_task d\<rparr>; d' = d\<lparr>nxt_task := nxt_task d + 1\<rparr>
      in if \<not> (\<exists>u \<in> set (users d). u_id u = t_creator_id t) then Inl ForeignKeyViolation
         else if \<not> (\<exists>g \<in> set (groups d). g_id g = t_group_id t) then Inl ForeignKeyViolation
         else if \<exists>x \<in> set (active_tasks d). t_uuid x = t_uuid t then Inl UniqueViolation
         else if \<exists>x \<in> set (active_tasks d). t_group_id x = t_group_id t \<and> t_task_id x = t_task_id t
              then Inl UniqueViolation
         else Inr (t, d'\<lparr>active_tasks := active_tasks d @ [t]\<rparr>))"

definition insert_archived_task :: "ArchivedRow \<Rightarrow> Db \<Rightarrow> DbErr + ArchivedRow \<times> Db" where
  "insert_archived_task r d =
     (if \<not> (\<exists>u \<in> set (users d). u_id u = t_creator_id r) then Inl ForeignKeyViolation
      else if \<not> (\<exists>g \<in> set (groups d). g_id g = t_group_id r) then Inl ForeignKeyViolation
      else if \<exists>x \<in> set (archived_tasks d). t_id x = t_id r \<or> t_uuid x = t_uuid r \<or>
                  (t_group_id x = t_group_id r \<and> t_task_id x = t_task_id r)
           then Inl UniqueViolation
      else Inr (r, d\<lparr>archived_tasks := archived_tasks d @ [r]\<rparr>))"

text \<open>\<open>ActiveModel::update\<close>: the row with the primary key is changed and returned.\<close>

definition update_active_task :: "i64 \<Rightarrow> (TaskRow \<Rightarrow> TaskRow) \<Rightarrow> Db \<Rightarrow> DbErr + TaskRow \<times> Db" where
  "update_active_task i f d =
     (case find (\<lambda>t. t_id t = i) (active_tasks d) of
        None \<Rightarrow> Inl RecordNotUpdated
      | Some t \<Rightarrow> Inr (f t, d\<lparr>active_tasks := upd_where (\<lambda>t. t_id t = i) f (active_tasks d)\<rparr>))"

definition update_archived_task ::
  "i64 \<Rightarrow> (ArchivedRow \<Rightarrow> ArchivedRow) \<Rightarrow> Db \<Rightarrow> DbErr + ArchivedRow \<times> Db" where
  "update_archived_task i f d =
     (case find (\<lambda>t. t_id t = i) (archived_tasks d) of
        None \<Rightarrow> Inl RecordNotUpdated
      | Some t \<Rightarrow> Inr (f t, d\<lparr>archived_tasks := upd_where (\<lambda>t. t_id t = i) f (archived_tasks d)\<rparr>))"

text \<open>\<open>update_many ... exec_with_returning\<close> on the active tasks.\<close>

definition update_active_where ::
  "(TaskRow \<Rightarrow> bool) \<Rightarrow> (TaskRow \<Rightarrow> TaskRow) \<Rightarrow> Db \<Rightarrow> TaskRow list \<times> Db" where
  "update_active_where p f d =
     (map f (filter p (active_tasks d)), d\<lparr>active_tasks := upd_where p f (active_tasks d)\<rparr>)"

definition delete_active_task :: "i64 \<Rightarrow> Db \<Rightarrow> nat \<times> Db" where
  "delete_active_task i d =
     (length (filter (\<lambda>t. t_id t = i) (active_tasks d)),
      d\<lparr>active_tasks := del_where (\<lambda>t. t_id t = i) (active_tasks d)\<rparr>)"

definition update_worker :: "i64 \<Rightarrow> (WorkerRow \<Rightarrow> WorkerRow) \<Rightarrow> Db \<Rightarrow> DbErr + WorkerRow \<times> Db" where
  "update_worker i f d =
     (case find (\<lambda>w. w_id w = i) (workers d) of
        None \<Rightarrow> Inl RecordNotUpdated
      | Some w \<Rightarrow> Inr (f w, d\<lparr>workers := upd_where (\<lambda>w. w_id w = i) f (workers d)\<rparr>))"

text \<open>\<open>DELETE FROM workers\<close>; the foreign key of \<open>group_worker\<close> cascades.\<close>

definition delete_worker :: "i64 \<Rightarrow> Db \<Rightarrow> nat \<times> Db" where
  "delete_worker i d =
     (length (filter (\<lambda>w. w_id w = i) (workers d)),
      d\<lparr>workers := del_where (\<lambda>w. w_id w = i) (workers d),
        group_workers := del_where (\<lambda>gw. gw_worker_id gw = i) (group_workers d)\<rparr>)"

definition delete_group_workers :: "i64 \<Rightarrow> Db \<Rightarrow> nat \<times> Db" where
  "delete_group_workers i d =
     (length (filter (\<lambda>gw. gw_worker_id gw = i) (group_workers d)),
      d\<lparr>group_workers := del_where (\<lambda>gw. gw_worker_id gw = i) (group_workers d)\<rparr>)"

text \<open>The workers that may run a task of a group with the given tags: a join of \<open>workers\<close> with
  \<open>group_worker\<close>, a row per membership; \<open>tags @> task.tags\<close> is inclusion.\<close>

definition eligible_workers :: "i64 \<Rightarrow> string list \<Rightarrow> Db \<Rightarrow> i64 list" where
  "eligible_workers group_id tags d =
     [w_id w. w \<leftarrow> workers d, gw \<leftarrow> group_workers d,
        gw_worker_id gw = w_id w, gw_group_id gw = group_id,
        gw_role gw \<in> {GroupWorkerRole.Write, GroupWorkerRole.Admin},
        set tags \<subseteq> set (w_tags w)]"

lemma eligible_workers_active [simp]:
  "eligible_workers g ts (d\<lparr>active_tasks := x\<rparr>) = eligible_workers g ts d"
  by (simp add: eligible_workers_def)

text \<open>\<open>WITH deleted AS (DELETE ... RETURNING *) INSERT INTO archived_tasks SELECT ... FROM deleted\<close>.\<close>

fun insert_archived_all :: "ArchivedRow list \<Rightarrow> Db \<Rightarrow> DbErr + Db" where
  "insert_archived_all [] d = Inr d"
| "insert_archived_all (r # rs) d =
     (case insert_archived_task r d of Inl e \<Rightarrow> Inl e | Inr (_, d') \<Rightarrow> insert_archived_all rs d')"

definition move_to_archive ::
  "(TaskRow \<Rightarrow> bool) \<Rightarrow> (TaskRow \<Rightarrow> ArchivedRow) \<Rightarrow> Db \<Rightarrow> DbErr + ArchivedRow list \<times> Db" where
  "move_to_archive p h d =
     (let rows = map h (filter p (active_tasks d))
      in case insert_archived_all rows (d\<lparr>active_tasks := del_where p (active_tasks d)\<rparr>) of
           Inl e \<Rightarrow> Inl e
         | Inr d' \<Rightarrow> Inr (rows, d'))"

section \<open>The life of an active task\<close>

definition task_ident :: "'a TaskRow_scheme \<Rightarrow> i64 \<times> i64 \<times> i64 \<times> i64 \<times> uuid" where
  "task_ident t = (t_id t, t_creator_id t, t_group_id t, t_task_id t, t_uuid t)"

lemma task_ident_eq: "task_ident t = task_ident t' \<longleftrightarrow>
    t_id t = t_id t' \<and> t_creator_id t = t_creator_id t' \<and> t_group_id t = t_group_id t' \<and>
    t_task_id t = t_task_id t' \<and> t_uuid t = t_uuid t'"
  by (simp add: task_ident_def)

abbreviation unassigned_state :: "TaskState \<Rightarrow> bool" where
  "unassigned_state st \<equiv> st = TaskState.Pending \<or> st = TaskState.Ready"

abbreviation final_state :: "TaskState \<Rightarrow> bool" where
  "final_state st \<equiv> st = TaskState.Finished \<or> st = TaskState.Cancelled"

inductive task_trans :: "TaskRow \<Rightarrow> TaskRow \<Rightarrow> bool" where
  tt_claim: "task_ident t' = task_ident t \<Longrightarrow> t_state t = TaskState.Ready \<Longrightarrow> t_assigned_worker t = None \<Longrightarrow>
     t_state t' = TaskState.Running \<Longrightarrow> t_assigned_worker t' = Some w \<Longrightarrow> task_trans t t'"
| tt_report: "task_ident t' = task_ident t \<Longrightarrow> t_assigned_worker t = Some w \<Longrightarrow>
     t_assigned_worker t' = Some w \<Longrightarrow> final_state (t_state t') \<Longrightarrow> task_trans t t'"
| tt_release: "task_ident t' = task_ident t \<Longrightarrow> t_state t' = TaskState.Ready \<Longrightarrow>
     t_assigned_worker t' = None \<Longrightarrow> task_trans t t'"
| tt_trigger: "task_ident t' = task_ident t \<Longrightarrow> t_state t = TaskState.Pending \<Longrightarrow>
     t_state t' = TaskState.Ready \<Longrightarrow> t_assigned_worker t' = t_assigned_worker t \<Longrightarrow> task_trans t t'"
| tt_edit: "task_ident t' = task_ident t \<Longrightarrow> t_state t' = t_state t \<Longrightarrow>
     t_assigned_worker t' = t_assigned_worker t \<Longrightarrow> task_trans t t'"

lemma task_trans_ident: "task_trans t t' \<Longrightarrow> task_ident t' = task_ident t"
  by (erule task_trans.cases) auto

text \<open>\<open>archives t a\<close>: the archived row \<open>a\<close> is the final form of the active task \<open>t\<close>.\<close>

definition archives :: "TaskRow \<Rightarrow> ArchivedRow \<Rightarrow> bool" where
  "archives t a \<longleftrightarrow> task_ident a = task_ident t \<and> final_state (t_state a) \<and> t_result a \<noteq> None"

definition group_key :: "GroupRow \<Rightarrow> i64 \<times> string \<times> i64" where
  "group_key g = (g_id g, g_group_name g, g_task_count g)"

text \<open>Two databases with the same tasks and the same group identities and counters.\<close>

definition tasks_same :: "Db \<Rightarrow> Db \<Rightarrow> bool" where
  "tasks_same d d' \<longleftrightarrow> active_tasks d' = active_tasks d \<and> archived_tasks d' = archived_tasks d \<and>
     nxt_task d' = nxt_task d \<and> map group_key (groups d') = map group_key (groups d) \<and>
     nxt_group d' = nxt_group d"

definition new_task_row :: "GroupRow \<Rightarrow> TaskRow \<Rightarrow> bool" where
  "new_task_row g row \<longleftrightarrow> t_group_id row = g_id g \<and> t_task_id row = g_task_count g \<and>
     unassigned_state (t_state row) \<and> t_assigned_worker row = None"

text \<open>The move of all active tasks that satisfy \<open>p\<close> to the archive.\<close>

definition archive_where :: "(TaskRow \<Rightarrow> bool) \<Rightarrow> (TaskRow \<Rightarrow> ArchivedRow) \<Rightarrow> Db \<Rightarrow> Db" where
  "archive_where p g d =
     d\<lparr>active_tasks := del_where p (active_tasks d),
       archived_tasks := archived_tasks d @ map g (filter p (active_tasks d))\<rparr>"

definition relabel :: "string list \<Rightarrow> nanos \<Rightarrow> ArchivedRow \<Rightarrow> ArchivedRow" where
  "relabel labels now a = a\<lparr>t_updated_at := now, t_labels := labels\<rparr>"

text \<open>The part of an archived row that no operation changes.\<close>

definition frozen :: "ArchivedRow \<Rightarrow> ArchivedRow" where
  "frozen a = relabel [] 0 a"

lemma frozen_relabel [simp]: "frozen (relabel labels now a) = frozen a"
  by (simp add: frozen_def relabel_def)

lemma frozen_touch [simp]: "frozen (a\<lparr>t_updated_at := now\<rparr>) = frozen a"
  by (simp add: frozen_def relabel_def)

lemma frozen_eqD:
  assumes "frozen a = frozen b"
  shows "task_ident a = task_ident b" "t_state a = t_state b" "t_result a = t_result b"
  using arg_cong [OF assms, of task_ident] arg_cong [OF assms, of t_state] arg_cong [OF assms, of t_result]
  by (simp_all add: frozen_def relabel_def task_ident_def)

section \<open>What an invariant of the task store has to survive\<close>

locale task_store =
  fixes I :: "Db \<Rightarrow> bool"
  assumes distinct_ids: "I d \<Longrightarrow> distinct (map t_id (active_tasks d))"
    and frame: "I d \<Longrightarrow> tasks_same d d' \<Longrightarrow> I d'"
    and new_group: "I d \<Longrightarrow> insert_group now name c d = Inr (g, d') \<Longrightarrow> I d'"
    and count: "I d \<Longrightarrow> I (snd (inc_task_count now name d))"
    and submit: "I d \<Longrightarrow> inc_task_count now name d = (g # gs, d1) \<Longrightarrow> new_task_row g row \<Longrightarrow>
                   insert_active_task row d1 = Inr (t, d') \<Longrightarrow> I d'"
    and trans: "I d \<Longrightarrow> (\<And>t. t \<in> set (active_tasks d) \<Longrightarrow> p t \<Longrightarrow> task_trans t (f t)) \<Longrightarrow>
                   I (d\<lparr>active_tasks := upd_where p f (active_tasks d)\<rparr>)"
    and archive: "I d \<Longrightarrow> (\<And>t. t \<in> set (active_tasks d) \<Longrightarrow> p t \<Longrightarrow> archives t (h t)) \<Longrightarrow>
                   I (archive_where p h d)"
    and relabelled: "I d \<Longrightarrow> (\<And>a. frozen (r a) = frozen a) \<Longrightarrow>
                   I (d\<lparr>archived_tasks := upd_where q r (archived_tasks d)\<rparr>)"

section \<open>Identities, numbering and assignment\<close>

definition task_idents :: "Db \<Rightarrow> (i64 \<times> i64 \<times> i64 \<times> i64 \<times> uuid) list" where
  "task_idents d = map task_ident (active_tasks d) @ map task_ident (archived_tasks d)"

definition ident_id :: "i64 \<times> i64 \<times> i64 \<times> i64 \<times> uuid \<Rightarrow> i64" where
  "ident_id = (\<lambda>(i, c, g, k, u). i)"

definition ident_key :: "i64 \<times> i64 \<times> i64 \<times> i64 \<times> uuid \<Rightarrow> i64 \<times> i64" where
  "ident_key = (\<lambda>(i, c, g, k, u). (g, k))"

lemma ident_sel [simp]:
  "ident_id (task_ident t) = t_id t" "ident_key (task_ident t) = (t_group_id t, t_task_id t)"
  by (simp_all add: task_ident_def ident_id_def ident_key_def)

definition groups_inv :: "Db \<Rightarrow> bool" where
  "groups_inv d \<longleftrightarrow> distinct (map g_id (groups d)) \<and> distinct (map g_group_name (groups d)) \<and>
     (\<forall>g \<in> set (groups d). g_id g < nxt_group d)"

text \<open>Serial keys are unique over both tables and below the next one; the numbers of the tasks of a
  group are unique and at most the group's counter.\<close>

definition idents_inv :: "Db \<Rightarrow> bool" where
  "idents_inv d \<longleftrightarrow> distinct (map ident_id (task_idents d)) \<and> distinct (map ident_key (task_idents d)) \<and>
     (\<forall>x \<in> set (task_idents d). ident_id x < nxt_task d \<and>
        (\<exists>g \<in> set (groups d). g_id g = fst (ident_key x) \<and> snd (ident_key x) \<le> g_task_count g))"

definition rows_inv :: "Db \<Rightarrow> bool" where
  "rows_inv d \<longleftrightarrow>
     (\<forall>t \<in> set (active_tasks d). t_assigned_worker t = None \<longleftrightarrow> unassigned_state (t_state t)) \<and>
     (\<forall>a \<in> set (archived_tasks d). final_state (t_state a) \<and> t_result a \<noteq> None)"

definition task_inv :: "Db \<Rightarrow> bool" where
  "task_inv d \<longleftrightarrow> groups_inv d \<and> idents_inv d \<and> rows_inv d"

lemma task_trans_rows:
  "task_trans t t' \<Longrightarrow> t_assigned_worker t = None \<longleftrightarrow> unassigned_state (t_state t) \<Longrightarrow>
   t_assigned_worker t' = None \<longleftrightarrow> unassigned_state (t_state t')"
  by (erule task_trans.cases) auto

lemma groups_map_key:
  "map group_key xs = map group_key ys \<Longrightarrow> map g_id xs = map g_id ys"
  "map group_key xs = map group_key ys \<Longrightarrow> map g_group_name xs = map g_group_name ys"
  by (drule arg_cong [of _ _ "map fst"], simp add: group_key_def comp_def)
     (drule arg_cong [of _ _ "map (fst \<circ> snd)"], simp add: group_key_def comp_def)

lemma groups_map_key_mem:
  assumes "map group_key xs = map group_key ys" and "g \<in> set ys"
  shows "\<exists>g' \<in> set xs. group_key g' = group_key g"
proof -
  have "group_key g \<in> set (map group_key xs)" using assms by simp
  then show ?thesis by auto
qed

lemma task_idents_trans:
  assumes "\<And>t. t \<in> set (active_tasks d) \<Longrightarrow> p t \<Longrightarrow> task_trans t (f t)"
  shows "task_idents (d\<lparr>active_tasks := upd_where p f (active_tasks d)\<rparr>) = task_idents d"
  using assms by (auto simp: task_idents_def task_trans_ident intro!: map_upd_where_in)

lemma mset_task_idents_archive:
  assumes "\<And>t. t \<in> set (active_tasks d) \<Longrightarrow> p t \<Longrightarrow> archives t (h t)"
  shows "mset (task_idents (archive_where p h d)) = mset (task_idents d)"
proof -
  let ?a = "active_tasks d"
  have h: "map task_ident (map h (filter p ?a)) = map task_ident (filter p ?a)"
    using assms by (auto simp: archives_def)
  have act: "active_tasks (archive_where p h d) = filter (\<lambda>x. \<not> p x) ?a"
    and arch: "archived_tasks (archive_where p h d) = archived_tasks d @ map h (filter p ?a)"
    by (simp_all add: archive_where_def del_where_def)
  have "mset (map task_ident xs) =
      mset (map task_ident (filter (\<lambda>x. \<not> p x) xs)) + mset (map task_ident (filter p xs))" for xs :: "TaskRow list"
    by (induction xs) auto
  from this [of ?a] show ?thesis unfolding task_idents_def act arch map_append mset_append h by simp
qed

text \<open>The counter statement: the group returned carries the new count, and no task of the group
  has that number yet.\<close>

lemma inc_task_count_sel [simp]:
  "active_tasks (snd (inc_task_count now name d)) = active_tasks d"
  "archived_tasks (snd (inc_task_count now name d)) = archived_tasks d"
  "nxt_task (snd (inc_task_count now name d)) = nxt_task d"
  "nxt_group (snd (inc_task_count now name d)) = nxt_group d"
  "map g_id (groups (snd (inc_task_count now name d))) = map g_id (groups d)"
  "map g_group_name (groups (snd (inc_task_count now name d))) = map g_group_name (groups d)"
  by (simp_all add: inc_task_count_def Let_def upd_where_def comp_def if_distrib cong: if_cong)

lemma inc_task_count_mono:
  assumes "g \<in> set (groups d)"
  shows "\<exists>g' \<in> set (groups (snd (inc_task_count now name d))).
           g_id g' = g_id g \<and> g_task_count g \<le> g_task_count g'"
  using assms
  by (intro bexI [of _ "if g_group_name g = name
        then g\<lparr>g_task_count := g_task_count g + 1, g_updated_at := now\<rparr> else g"])
     (auto simp: inc_task_count_def Let_def set_upd_where)

lemma inc_task_count_Cons:
  assumes "inc_task_count now name d = (g # gs, d1)"
  obtains g0 where "g0 \<in> set (groups d)" "g_group_name g0 = name" "g_id g = g_id g0"
    "g_task_count g = g_task_count g0 + 1" "g \<in> set (groups d1)"
proof -
  from assms have "g \<in> set (fst (inc_task_count now name d))" by simp
  then obtain g0 where "g0 \<in> set (groups d)" "g_group_name g0 = name"
    "g = g0\<lparr>g_task_count := g_task_count g0 + 1, g_updated_at := now\<rparr>"
    by (auto simp: inc_task_count_def Let_def)
  moreover then have "g \<in> set (groups (snd (inc_task_count now name d)))"
    by (auto simp: inc_task_count_def Let_def upd_where_def image_iff intro!: bexI [of _ g0])
  ultimately show thesis using assms by (intro that) auto
qed

lemma task_inv_count: "task_inv d \<Longrightarrow> task_inv (snd (inc_task_count now name d))"
proof -
  assume I: "task_inv d"
  let ?d = "snd (inc_task_count now name d)"
  have "groups_inv ?d"
  proof -
    have "g_id ` set (groups ?d) = g_id ` set (groups d)"
      using inc_task_count_sel(5) [of now name d] by (metis list.set_map)
    then show ?thesis using I by (auto simp: task_inv_def groups_inv_def)
        (metis (no_types, lifting) image_iff)
  qed
  moreover have "task_idents ?d = task_idents d" by (simp add: task_idents_def)
  then have "idents_inv ?d" using I inc_task_count_mono [of _ d now name]
    by (fastforce simp: task_inv_def idents_inv_def)
  ultimately show ?thesis using I by (simp add: task_inv_def rows_inv_def)
qed

lemma task_inv_submit:
  assumes I: "task_inv d" and inc: "inc_task_count now name d = (g # gs, d1)"
    and row: "new_task_row g row" and ins: "insert_active_task row d1 = Inr (t, d')"
  shows "task_inv d'"
proof -
  obtain g0 where g0: "g0 \<in> set (groups d)" "g_id g = g_id g0" "g_task_count g = g_task_count g0 + 1"
    and g: "g \<in> set (groups d1)" using inc_task_count_Cons [OF inc] by metis
  have I1: "task_inv d1" using task_inv_count [OF I, of now name] inc by simp
  have idents: "task_idents d1 = task_idents d"
    using inc_task_count_sel(1,2) [of now name d] inc by (simp add: task_idents_def)
  have t: "t = row\<lparr>t_id := nxt_task d1\<rparr>"
    and d': "d' = d1\<lparr>nxt_task := nxt_task d1 + 1, active_tasks := active_tasks d1 @ [t]\<rparr>"
    using ins by (auto simp: insert_active_task_def Let_def split: if_splits)
  have key: "ident_key (task_ident t) = (g_id g, g_task_count g)"
    using row by (simp add: t new_task_row_def)
  have fresh: "ident_key x \<noteq> ident_key (task_ident t)" if x: "x \<in> set (task_idents d1)" for x
  proof
    assume eq: "ident_key x = ident_key (task_ident t)"
    obtain g1 where "g1 \<in> set (groups d)" "g_id g1 = fst (ident_key x)" "snd (ident_key x) \<le> g_task_count g1"
      using I x by (auto simp: task_inv_def idents_inv_def idents)
    moreover have "g1 = g0" using I g0 calculation eq key
      by (auto simp: task_inv_def groups_inv_def intro: distinct_map_key)
    ultimately show False using eq key g0 by simp
  qed
  have "mset (task_idents d') = mset (task_ident t # task_idents d1)"
    by (simp add: d' task_idents_def)
  then have set: "set (task_idents d') = insert (task_ident t) (set (task_idents d1))"
    and dist: "distinct (map f (task_idents d')) = distinct (map f (task_ident t # task_idents d1))" for f
    by (metis list.simps(15) set_mset_mset, metis mset_eq_imp_distinct_iff mset_map)
  have lt: "ident_id x \<noteq> ident_id (task_ident t)" if "x \<in> set (task_idents d1)" for x
    using I1 that by (auto simp: task_inv_def idents_inv_def t)
  have I1': "distinct (map ident_id (task_idents d1))" "distinct (map ident_key (task_idents d1))"
    "\<forall>x \<in> set (task_idents d1). ident_id x < nxt_task d1 \<and>
        (\<exists>g \<in> set (groups d1). g_id g = fst (ident_key x) \<and> snd (ident_key x) \<le> g_task_count g)"
    using I1 by (auto simp: task_inv_def idents_inv_def)
  have fresh': "ident_key (task_ident t) \<notin> ident_key ` set (task_idents d1)"
    and lt': "ident_id (task_ident t) \<notin> ident_id ` set (task_idents d1)"
    using fresh lt by (metis imageE)+
  have "distinct (map ident_id (task_idents d'))" "distinct (map ident_key (task_idents d'))"
    using I1'(1,2) lt' fresh' unfolding dist by (simp_all del: ident_sel)
  moreover have "\<forall>x \<in> set (task_idents d'). ident_id x < nxt_task d' \<and>
      (\<exists>g \<in> set (groups d'). g_id g = fst (ident_key x) \<and> snd (ident_key x) \<le> g_task_count g)"
    unfolding set
  proof (intro ballI)
    fix x assume "x \<in> insert (task_ident t) (set (task_idents d1))"
    then show "ident_id x < nxt_task d' \<and>
      (\<exists>g \<in> set (groups d'). g_id g = fst (ident_key x) \<and> snd (ident_key x) \<le> g_task_count g)"
      using I1'(3) key g by (auto simp: d' t)
  qed
  ultimately have "idents_inv d'" by (simp add: idents_inv_def)
  moreover have "groups_inv d'" "rows_inv d'"
    using I1 row by (auto simp: task_inv_def groups_inv_def rows_inv_def d' t new_task_row_def)
  ultimately show ?thesis by (simp add: task_inv_def)
qed

text \<open>The number of a task is at most the counter of its group.\<close>

lemma task_number_bound:
  assumes I: "task_inv d" and t: "t \<in> set (active_tasks d)" and g: "g \<in> set (groups d)" "t_group_id t = g_id g"
  shows "t_task_id t \<le> g_task_count g"
proof -
  have "task_ident t \<in> set (task_idents d)" using t by (simp add: task_idents_def)
  then obtain g' where "g' \<in> set (groups d)" "g_id g' = t_group_id t" "t_task_id t \<le> g_task_count g'"
    using I by (fastforce simp: task_inv_def idents_inv_def)
  moreover have "distinct (map g_id (groups d))" using I by (simp add: task_inv_def groups_inv_def)
  ultimately show ?thesis using g by (metis distinct_map_key)
qed

lemma task_inv_frame:
  assumes I: "task_inv d" and same: "tasks_same d d'"
  shows "task_inv d'"
proof -
  have g: "map group_key (groups d') = map group_key (groups d)" using same by (simp add: tasks_same_def)
  have ids: "task_idents d' = task_idents d" using same by (simp add: tasks_same_def task_idents_def)
  have "g_id ` set (groups d') = g_id ` set (groups d)"
    using groups_map_key(1) [OF g] by (metis list.set_map)
  then have "groups_inv d'" using I groups_map_key [OF g] same
    by (auto simp: task_inv_def groups_inv_def tasks_same_def) (metis (no_types, lifting) image_iff)
  moreover have "\<exists>g' \<in> set (groups d'). g_id g' = i \<and> k \<le> g_task_count g'"
    if "r \<in> set (groups d)" "g_id r = i" "k \<le> g_task_count r" for i k r
    using groups_map_key_mem [OF g that(1)] that(2,3) by (auto simp: group_key_def)
  then have "idents_inv d'" using I same
    by (simp add: task_inv_def idents_inv_def ids tasks_same_def) blast
  ultimately show ?thesis using I same by (simp add: task_inv_def rows_inv_def tasks_same_def)
qed

lemma task_inv_trans:
  assumes I: "task_inv d" and f: "\<And>t. t \<in> set (active_tasks d) \<Longrightarrow> p t \<Longrightarrow> task_trans t (f t)"
  shows "task_inv (d\<lparr>active_tasks := upd_where p f (active_tasks d)\<rparr>)" (is "task_inv ?d")
proof -
  have "task_idents ?d = task_idents d" using f by (rule task_idents_trans)
  then have "idents_inv ?d" using I by (simp add: task_inv_def idents_inv_def)
  moreover have "rows_inv ?d" using I f
    by (auto simp: task_inv_def rows_inv_def elim!: upd_whereE dest: task_trans_rows)
  ultimately show ?thesis using I by (simp add: task_inv_def groups_inv_def)
qed

lemma task_inv_archive:
  assumes I: "task_inv d" and h: "\<And>t. t \<in> set (active_tasks d) \<Longrightarrow> p t \<Longrightarrow> archives t (h t)"
  shows "task_inv (archive_where p h d)" (is "task_inv ?d")
proof -
  have m: "mset (task_idents ?d) = mset (task_idents d)" using h by (rule mset_task_idents_archive)
  have dist: "distinct (map f (task_idents ?d)) = distinct (map f (task_idents d))" for f
    using m by (metis mset_eq_imp_distinct_iff mset_map)
  have "set (task_idents ?d) = set (task_idents d)" using m by (metis set_mset_mset)
  moreover have "groups ?d = groups d" "nxt_task ?d = nxt_task d" by (simp_all add: archive_where_def)
  ultimately have "idents_inv ?d" using I by (simp add: task_inv_def idents_inv_def dist)
  moreover have "rows_inv ?d" using I h
    by (auto simp: task_inv_def rows_inv_def archive_where_def archives_def)
  moreover have "groups_inv ?d" using I by (simp add: task_inv_def groups_inv_def archive_where_def)
  ultimately show ?thesis by (simp add: task_inv_def)
qed

lemma task_inv_relabelled:
  assumes I: "task_inv d" and r: "\<And>a. frozen (r a) = frozen a"
  shows "task_inv (d\<lparr>archived_tasks := upd_where q r (archived_tasks d)\<rparr>)" (is "task_inv ?d")
proof -
  have "task_idents ?d = task_idents d" using frozen_eqD(1) [OF r] by (simp add: task_idents_def)
  then have "idents_inv ?d" using I by (simp add: task_inv_def idents_inv_def)
  moreover have "rows_inv ?d"
    using I frozen_eqD(2,3) [OF r] by (auto simp: task_inv_def rows_inv_def elim!: upd_whereE)
  ultimately show ?thesis using I by (simp add: task_inv_def groups_inv_def)
qed

lemma task_inv_distinct_ids: "task_inv d \<Longrightarrow> distinct (map t_id (active_tasks d))"
  by (simp add: task_inv_def idents_inv_def task_idents_def comp_def)

lemma insert_group_Inr:
  assumes "insert_group now name c d = Inr (g, d')"
  shows "d' = d\<lparr>nxt_group := nxt_group d + 1, groups := groups d @ [g]\<rparr>" "g_id g = nxt_group d"
    "g_group_name g = name" "name \<notin> g_group_name ` set (groups d)"
  using assms by (auto simp: insert_group_def Let_def split: if_splits)

lemma task_inv_new_group:
  assumes I: "task_inv d" and ins: "insert_group now name c d = Inr (g, d')"
  shows "task_inv d'"
proof -
  note g = insert_group_Inr [OF ins]
  have "groups_inv d'" using I g by (auto simp: task_inv_def groups_inv_def)
  moreover have "task_idents d' = task_idents d" by (simp add: g(1) task_idents_def)
  then have "idents_inv d'" using I by (auto simp: task_inv_def idents_inv_def g(1))
  ultimately show ?thesis using I by (simp add: task_inv_def rows_inv_def g(1))
qed

lemmas task_inv_laws = task_inv_distinct_ids task_inv_new_group task_inv_frame task_inv_count task_inv_submit
  task_inv_trans task_inv_archive task_inv_relabelled

interpretation task_inv: task_store task_inv
  by unfold_locales (blast intro: task_inv_laws)+

section \<open>No task is lost, and an archived task stays as it is\<close>

definition history :: "Db \<Rightarrow> Db \<Rightarrow> bool" where
  "history d0 d \<longleftrightarrow> set (task_idents d0) \<subseteq> set (task_idents d) \<and>
     frozen ` set (archived_tasks d0) \<subseteq> frozen ` set (archived_tasks d)"

lemma history_refl [simp]: "history d d"
  by (simp add: history_def)

lemma history_trans: "history a b \<Longrightarrow> history b c \<Longrightarrow> history a c"
  unfolding history_def by (meson subset_trans)

lemma set_task_idents_archive:
  "(\<And>t. t \<in> set (active_tasks d) \<Longrightarrow> p t \<Longrightarrow> archives t (h t)) \<Longrightarrow>
   set (task_idents (archive_where p h d)) = set (task_idents d)"
  using mset_task_idents_archive by (metis set_mset_mset)

lemma history_archive:
  assumes "history d0 d" and h: "\<And>t. t \<in> set (active_tasks d) \<Longrightarrow> p t \<Longrightarrow> archives t (h t)"
  shows "history d0 (archive_where p h d)"
proof -
  have "frozen ` set (archived_tasks d) \<subseteq> frozen ` set (archived_tasks (archive_where p h d))"
    by (auto simp: archive_where_def)
  moreover have "set (task_idents (archive_where p h d)) = set (task_idents d)"
    using h by (rule set_task_idents_archive)
  ultimately show ?thesis using assms(1) unfolding history_def by (metis subset_trans)
qed

lemma history_submit:
  assumes "history d0 d" and "inc_task_count now name d = (g # gs, d1)"
    and "insert_active_task row d1 = Inr (t, d')"
  shows "history d0 d'"
proof -
  have "active_tasks d1 = active_tasks d" "archived_tasks d1 = archived_tasks d"
    using assms(2) inc_task_count_sel(1,2) [of now name d] by simp_all
  moreover have "archived_tasks d' = archived_tasks d1" "active_tasks d' = active_tasks d1 @ [t]"
    using assms(3) by (auto simp: insert_active_task_def Let_def split: if_splits)
  ultimately show ?thesis using assms(1) by (auto simp: history_def task_idents_def)
qed

lemma history_relabelled:
  assumes "history d0 d" and r: "\<And>a. frozen (r a) = frozen a"
  shows "history d0 (d\<lparr>archived_tasks := upd_where q r (archived_tasks d)\<rparr>)"
proof -
  have "map frozen (upd_where q r xs) = map frozen xs" for xs using r by (rule map_upd_where)
  then have "frozen ` set (upd_where q r xs) = frozen ` set xs" for xs by (metis list.set_map)
  moreover have "map task_ident (upd_where q r xs) = map task_ident xs" for xs
    using frozen_eqD(1) [OF r] by (rule map_upd_where)
  ultimately show ?thesis using assms(1) by (simp add: history_def task_idents_def)
qed

lemma history_trans_step:
  "history d0 d \<Longrightarrow> (\<And>t. t \<in> set (active_tasks d) \<Longrightarrow> p t \<Longrightarrow> task_trans t (f t)) \<Longrightarrow>
   history d0 (d\<lparr>active_tasks := upd_where p f (active_tasks d)\<rparr>)"
  by (simp add: history_def task_idents_trans)

lemma history_frame: "history d0 d \<Longrightarrow> tasks_same d d' \<Longrightarrow> history d0 d'"
  by (simp add: tasks_same_def history_def task_idents_def)

lemma history_count: "history d0 d \<Longrightarrow> history d0 (snd (inc_task_count now name d))"
  by (simp add: history_def task_idents_def)

lemma history_new_group: "history d0 d \<Longrightarrow> insert_group now name c d = Inr (g, d') \<Longrightarrow> history d0 d'"
  by (drule insert_group_Inr(1)) (simp add: history_def task_idents_def)

lemmas history_laws = history_new_group history_frame history_count history_archive history_submit
  history_relabelled history_trans_step

interpretation history: task_store "\<lambda>d. task_inv d \<and> history d0 d" for d0
  by unfold_locales (blast intro: task_inv_laws history_laws)+

section \<open>Preservation by statements\<close>

lemma insert_archived_task_Inr:
  "insert_archived_task r d = Inr (r', d') \<Longrightarrow> r' = r \<and> d' = d\<lparr>archived_tasks := archived_tasks d @ [r]\<rparr>"
  by (auto simp: insert_archived_task_def split: if_splits)

lemma insert_archived_all_Inr:
  "insert_archived_all rs d = Inr d' \<Longrightarrow> d' = d\<lparr>archived_tasks := archived_tasks d @ rs\<rparr>"
  by (induction rs d rule: insert_archived_all.induct)
     (auto split: sum.splits prod.splits dest!: insert_archived_task_Inr)

lemma move_to_archive_Inr:
  "move_to_archive p h d = Inr (rows, d') \<Longrightarrow>
   rows = map h (filter p (active_tasks d)) \<and> d' = archive_where p h d"
  by (auto simp: move_to_archive_def Let_def archive_where_def split: sum.splits
      dest!: insert_archived_all_Inr)

text \<open>Inserting the archived row of a task and deleting the task by its key is the move of that task.\<close>

lemma archive_one:
  assumes "distinct (map t_id (active_tasks d))" and "t \<in> set (active_tasks d)"
    and "insert_archived_task r d = Inr (r', d')"
  shows "snd (delete_active_task (t_id t) d') = archive_where (\<lambda>x. t_id x = t_id t) (\<lambda>_. r) d"
proof -
  have "filter (\<lambda>x. t_id x = t_id t) (active_tasks d) = [t]"
    using assms(1,2) by (rule filter_unique_key)
  then show ?thesis using insert_archived_task_Inr [OF assms(3)]
    by (simp add: delete_active_task_def archive_where_def)
qed

lemma tasks_same_refl [simp]: "tasks_same d d"
  by (simp add: tasks_same_def)

context task_store
begin

lemma keeps_frame_exec: "(\<And>d. tasks_same d (snd (f d))) \<Longrightarrow> keeps_db I (exec f)"
  by (rule keeps_db_exec) (blast intro: frame)

lemma keeps_frame_stmt:
  "(\<And>d a d'. f d = Inr (a, d') \<Longrightarrow> tasks_same d d') \<Longrightarrow> keeps_db I (db_stmt f)"
  by (rule keeps_db_stmt) (blast intro: frame)

lemma keeps_count: "keeps_db I (exec (inc_task_count now name))"
  by (rule keeps_db_exec) (rule count)

lemma I_update_active:
  assumes "I d" and "\<And>t. t \<in> set (active_tasks d) \<Longrightarrow> t_id t = i \<Longrightarrow> task_trans t (f t)"
    and "update_active_task i f d = Inr (t, d')"
  shows "I d'"
  using assms(3) trans [OF assms(1), of "\<lambda>t. t_id t = i" f] assms(2)
  by (auto simp: update_active_task_def split: option.splits)

lemma keeps_update_active:
  "(\<And>t. task_trans t (f t)) \<Longrightarrow> keeps_db I (db_stmt (update_active_task i f))"
  by (rule keeps_db_stmt) (blast intro: I_update_active)

lemma I_update_active_row:
  assumes "I d" and "t \<in> set (active_tasks d)" and "task_trans t (f t)"
    and "update_active_task (t_id t) f d = Inr (r, d')"
  shows "I d'"
proof (rule I_update_active [OF assms(1) _ assms(4)])
  fix x assume "x \<in> set (active_tasks d)" "t_id x = t_id t"
  then show "task_trans x (f x)"
    using assms(2,3) distinct_ids [OF assms(1)] by (metis distinct_map_key)
qed

lemma keeps_move_to_archive:
  assumes "\<And>t. p t \<Longrightarrow> archives t (h t)"
  shows "keeps_db I (db_stmt (move_to_archive p h))"
  by (rule keeps_db_stmt) (auto dest!: move_to_archive_Inr intro: archive assms)

lemma I_archive_one:
  assumes "I d" and "t \<in> set (active_tasks d)" and "archives t r"
    and "insert_archived_task r d = Inr (r', d1)" and "delete_active_task (t_id t) d1 = (n, d2)"
  shows "I d2"
proof -
  have "d2 = archive_where (\<lambda>x. t_id x = t_id t) (\<lambda>_. r) d"
    using archive_one [OF distinct_ids [OF assms(1)] assms(2,4)] assms(5) by simp
  moreover have "archives x r" if "x \<in> set (active_tasks d)" "t_id x = t_id t" for x
    using that assms(2,3) distinct_ids [OF assms(1)] by (metis distinct_map_key)
  ultimately show ?thesis using archive [OF assms(1), of "\<lambda>x. t_id x = t_id t" "\<lambda>_. r"] by simp
qed

lemma keeps_insert_group: "keeps_db I (db_stmt (insert_group now name c))"
  by (rule keeps_db_stmt) (rule new_group)

lemma keeps_update_archived:
  "(\<And>a. frozen (f a) = frozen a) \<Longrightarrow> keeps_db I (db_stmt (update_archived_task i f))"
  by (rule keeps_db_stmt) (auto simp: update_archived_task_def relabelled split: option.splits)

lemma keeps_update_worker: "keeps_db I (db_stmt (update_worker i f))"
  by (rule keeps_frame_stmt) (auto simp: update_worker_def tasks_same_def split: option.splits)

lemma keeps_delete_worker: "keeps_db I (exec (delete_worker i))"
  by (rule keeps_frame_exec) (simp add: delete_worker_def tasks_same_def)

lemma keeps_delete_group_workers: "keeps_db I (exec (delete_group_workers i))"
  by (rule keeps_frame_exec) (simp add: delete_group_workers_def tasks_same_def)

lemmas keeps_stmts = keeps_count keeps_update_worker keeps_delete_worker keeps_delete_group_workers

end

section \<open>A small deployment\<close>

text \<open>One user with a group of the same name, one worker of that group, and two tasks: one that the
  worker runs and one that waits. The concrete instances of the properties start from it.\<close>

definition sample_user :: UserRow where
  "sample_user = \<lparr>u_id = 1, u_username = ''ada'', u_encrypted_password = ''h'', u_auth_signature = Some 5,
     u_reset_password_token = None, u_reset_password_token_expiry = None, u_current_sign_in_at = None,
     u_last_sign_in_at = None, u_current_sign_in_ip = None, u_last_sign_in_ip = None,
     u_created_at = 0, u_updated_at = 0, u_admin = False, u_state = UserState.Active,
     u_group_quota = 8, u_group_count = 1\<rparr>"

definition sample_group :: GroupRow where
  "sample_group = \<lparr>g_id = 1, g_group_name = ''ada'', g_creator_id = 1, g_created_at = 0, g_updated_at = 0,
     g_state = GroupState.Active, g_task_count = 2, g_storage_quota = 1000, g_storage_used = 0\<rparr>"

definition sample_member :: UserGroupRow where
  "sample_member = \<lparr>ug_id = 1, ug_user_id = 1, ug_group_id = 1, ug_role = UserGroupRole.Admin\<rparr>"

definition sample_worker :: WorkerRow where
  "sample_worker = \<lparr>w_id = 1, w_worker_id = 77, w_creator_id = 1, w_tags = [''gpu''], w_labels = [],
     w_created_at = 0, w_updated_at = 0, w_state = Normal, w_last_heartbeat = 0, w_assigned_task_id = Some 1\<rparr>"

definition sample_membership :: GroupWorkerRow where
  "sample_membership = \<lparr>gw_id = 1, gw_group_id = 1, gw_worker_id = 1, gw_role = GroupWorkerRole.Admin\<rparr>"

definition sample_task :: "i64 \<Rightarrow> TaskState \<Rightarrow> i64 option \<Rightarrow> TaskRow" where
  "sample_task i st w = \<lparr>t_id = i, t_creator_id = 1, t_group_id = 1, t_task_id = i, t_uuid = nat (10 + i),
     t_tags = [], t_labels = [], t_created_at = 0, t_updated_at = 0, t_state = st, t_assigned_worker = w,
     t_timeout = 60, t_priority = 3,
     t_spec = \<lparr>args = [], envs = [], resources = [], terminal_output = False, watch = None\<rparr>,
     t_result = None, t_upstream_task_uuid = None, t_downstream_task_uuid = None\<rparr>"

definition sample_db :: Db where
  "sample_db = empty_db\<lparr>users := [sample_user], groups := [sample_group], user_groups := [sample_member],
     workers := [sample_worker], group_workers := [sample_membership],
     active_tasks := [sample_task 1 TaskState.Running (Some 1), sample_task 2 TaskState.Ready None],
     nxt_user := 2, nxt_group := 2, nxt_user_group := 2, nxt_worker := 2, nxt_group_worker := 2, nxt_task := 3\<rparr>"

definition sample_pool :: Pool where
  "sample_pool = \<lparr>db = sample_db, faults = [], task_tx = [], task_rx_open = True, hb_tx = [], hb_rx_open = True\<rparr>"

lemmas sample_defs = sample_pool_def sample_db_def empty_db_def sample_user_def sample_group_def
  sample_member_def sample_worker_def sample_membership_def sample_task_def

lemma sample_pool_inv: "task_inv (db sample_pool)"
  by (simp add: sample_defs task_inv_def groups_inv_def idents_inv_def rows_inv_def task_idents_def
      task_ident_def ident_id_def ident_key_def)

end
