(* ===== verification/Storage.thy ===== *)
theory Storage
  imports Task_Tables
begin

text \<open>
  Artifacts and attachments (\<open>service/s3.rs\<close>): upload reservations against the storage quota of a
  group, deletion, and presigned links.

  The S3 client, its presigned links and the textual form of a uuid are not in the repository: they are
  the fields of \<open>Ext\<close>, a record that the operations take as an argument. The sizes and the storage in
  use are 64-bit integers; sums wrap around, as in a release build. Deleting an object is a call of
  the store that either succeeds or fails.
\<close>

section \<open>The object store\<close>

record Ext =
  x_uuid_str :: "uuid \<Rightarrow> string"
  x_artifacts_bucket :: string
  x_attachments_bucket :: string
  x_put_url :: "string \<Rightarrow> string \<Rightarrow> i64 \<Rightarrow> u64 \<Rightarrow> S3Error + string"
  x_get_url :: "string \<Rightarrow> string \<Rightarrow> u64 \<Rightarrow> S3Error + string"
  x_delete :: "string \<Rightarrow> string \<Rightarrow> S3Error + unit"

definition lift_s3 :: "(S3Error \<Rightarrow> Error) \<Rightarrow> S3Error + 'a \<Rightarrow> 'a svc" where
  "lift_s3 g r = (case r of Inl e \<Rightarrow> raise (g e) | Inr a \<Rightarrow> ret a)"

lemma wp_lift_s3 [wp_eqs]:
  "wp (lift_s3 g r) Q E s = (case r of Inl e \<Rightarrow> E (g e) s | Inr a \<Rightarrow> Q a s)"
  by (simp add: lift_s3_def wp_eqs split: sum.splits)

lemma keeps_db_lift_s3 [keeps_intros]: "keeps_db I (lift_s3 g r)"
  by (simp add: keeps_db_def keeps_def wp_eqs split: sum.splits)

definition UPLOAD_VALID_SECS :: u64 where
  "UPLOAD_VALID_SECS = 3600"

definition get_presigned_upload_link :: "Ext \<Rightarrow> string \<Rightarrow> string \<Rightarrow> i64 \<Rightarrow> S3Error + string" where
  "get_presigned_upload_link X bucket key len =
     (if len < 0 then Inl (InvalidContentLength len)
      else x_put_url X bucket key len UPLOAD_VALID_SECS)"

definition download_expiry :: "i64 \<Rightarrow> u64 \<Rightarrow> u64" where
  "download_expiry len min_expires = max (min 86400 (max 3600 (as_u64 len div 1000000))) min_expires"

definition get_presigned_download_link :: "Ext \<Rightarrow> string \<Rightarrow> string \<Rightarrow> i64 \<Rightarrow> u64 \<Rightarrow> S3Error + string" where
  "get_presigned_download_link X bucket key len min_expires =
     x_get_url X bucket key (download_expiry len min_expires)"

definition delete_object :: "Ext \<Rightarrow> string \<Rightarrow> string \<Rightarrow> S3Error + unit" where
  "delete_object X bucket key = x_delete X bucket key"

section \<open>Statements\<close>

definition update_group :: "i64 \<Rightarrow> (GroupRow \<Rightarrow> GroupRow) \<Rightarrow> Db \<Rightarrow> DbErr + GroupRow \<times> Db" where
  "update_group i f d =
     (case find (\<lambda>g. g_id g = i) (groups d) of
        None \<Rightarrow> Inl RecordNotUpdated
      | Some g \<Rightarrow> Inr (f g, d\<lparr>groups := upd_where (\<lambda>g. g_id g = i) f (groups d)\<rparr>))"

definition insert_artifact :: "ArtifactRow \<Rightarrow> Db \<Rightarrow> DbErr + ArtifactRow \<times> Db" where
  "insert_artifact row d =
     (if \<exists>x \<in> set (artifacts d). f_task_id x = f_task_id row \<and> f_content_type x = f_content_type row
      then Inl UniqueViolation
      else let r = row\<lparr>f_id := nxt_artifact d\<rparr>
           in Inr (r, d\<lparr>nxt_artifact := nxt_artifact d + 1, artifacts := artifacts d @ [r]\<rparr>))"

definition update_artifact :: "i64 \<Rightarrow> (ArtifactRow \<Rightarrow> ArtifactRow) \<Rightarrow> Db \<Rightarrow> DbErr + ArtifactRow \<times> Db" where
  "update_artifact i f d =
     (case find (\<lambda>x. f_id x = i) (artifacts d) of
        None \<Rightarrow> Inl RecordNotUpdated
      | Some x \<Rightarrow> Inr (f x, d\<lparr>artifacts := upd_where (\<lambda>x. f_id x = i) f (artifacts d)\<rparr>))"

definition delete_artifact_row :: "i64 \<Rightarrow> Db \<Rightarrow> unit \<times> Db" where
  "delete_artifact_row i d = ((), d\<lparr>artifacts := del_where (\<lambda>x. f_id x = i) (artifacts d)\<rparr>)"

definition insert_attachment :: "AttachmentRow \<Rightarrow> Db \<Rightarrow> DbErr + AttachmentRow \<times> Db" where
  "insert_attachment row d =
     (if \<not> (\<exists>g \<in> set (groups d). g_id g = a_group_id row) then Inl ForeignKeyViolation
      else if \<exists>x \<in> set (attachments d). a_group_id x = a_group_id row \<and> a_key x = a_key row
      then Inl UniqueViolation
      else let r = row\<lparr>a_id := nxt_attachment d\<rparr>
           in Inr (r, d\<lparr>nxt_attachment := nxt_attachment d + 1, attachments := attachments d @ [r]\<rparr>))"

definition update_attachment ::
  "i64 \<Rightarrow> (AttachmentRow \<Rightarrow> AttachmentRow) \<Rightarrow> Db \<Rightarrow> DbErr + AttachmentRow \<times> Db" where
  "update_attachment i f d =
     (case find (\<lambda>x. a_id x = i) (attachments d) of
        None \<Rightarrow> Inl RecordNotUpdated
      | Some x \<Rightarrow> Inr (f x, d\<lparr>attachments := upd_where (\<lambda>x. a_id x = i) f (attachments d)\<rparr>))"

definition delete_attachment_row :: "i64 \<Rightarrow> Db \<Rightarrow> unit \<times> Db" where
  "delete_attachment_row i d = ((), d\<lparr>attachments := del_where (\<lambda>x. a_id x = i) (attachments d)\<rparr>)"

section \<open>Artifacts\<close>

fun stored_ids :: "StoredTaskModel \<Rightarrow> uuid \<times> i64" where
  "stored_ids (StoredActive task) = (t_uuid task, t_group_id task)"
| "stored_ids (StoredArchived task) = (t_uuid task, t_group_id task)"

definition artifact_key :: "Ext \<Rightarrow> uuid \<Rightarrow> ArtifactContentType \<Rightarrow> string" where
  "artifact_key X uuid content_type = x_uuid_str X uuid @ ''/'' @ artifact_file_name content_type"

definition find_artifact :: "uuid \<Rightarrow> ArtifactContentType \<Rightarrow> Db \<Rightarrow> ArtifactRow option" where
  "find_artifact uuid content_type d =
     find (\<lambda>x. f_task_id x = uuid \<and> f_content_type x = content_type) (artifacts d)"

definition find_group :: "i64 \<Rightarrow> Db \<Rightarrow> GroupRow option" where
  "find_group i d = find (\<lambda>g. g_id g = i) (groups d)"

definition find_task_by_uuid :: "uuid \<Rightarrow> (i64 \<times> StoredTaskModel) svc" where
  "find_task_by_uuid uuid =
     bindR (query (\<lambda>d. find (\<lambda>t. t_uuid t = uuid) (active_tasks d))) (\<lambda>active.
       case active of
         Some task \<Rightarrow> ret (t_group_id task, StoredActive task)
       | None \<Rightarrow>
           bindR (query (\<lambda>d. find (\<lambda>t. t_uuid t = uuid) (archived_tasks d))) (\<lambda>found.
           bindR (ok_or (api_not_found ''Task not found'') found) (\<lambda>task.
             ret (t_group_id task, StoredArchived task))))"

definition download_artifact_by_uuid :: "Ext \<Rightarrow> uuid \<Rightarrow> ArtifactContentType \<Rightarrow> (string \<times> i64) svc" where
  "download_artifact_by_uuid X uuid content_type =
     bindR (query (find_artifact uuid content_type)) (\<lambda>found.
     bindR (ok_or (api_not_found ''Artifact with uuid and content type'') found) (\<lambda>artifact.
     bindR (lift_s3 S3Err (get_presigned_download_link X (x_artifacts_bucket X)
              (artifact_key X uuid content_type) (f_size artifact) 3600)) (\<lambda>url.
       ret (url, f_size artifact))))"

definition set_storage_used :: "nanos \<Rightarrow> i64 \<Rightarrow> GroupRow \<Rightarrow> GroupRow" where
  "set_storage_used now used g = g\<lparr>g_storage_used := used, g_updated_at := now\<rparr>"

definition delete_artifact ::
  "Ext \<Rightarrow> nanos \<Rightarrow> StoredTaskModel \<Rightarrow> ArtifactContentType \<Rightarrow> bool \<Rightarrow> unit svc" where
  "delete_artifact X now task content_type admin =
     (let (uuid, group_id) = stored_ids task
      in bindR (query (find_artifact uuid content_type)) (\<lambda>found.
         bindR (ok_or (api_not_found ''Artifact with uuid and content type not found'') found) (\<lambda>artifact.
         thenR (ensure (admin \<or> \<not> (f_updated_at artifact > now - secs UPLOAD_VALID_SECS))
                  (api_invalid ''Cannot delete artifact that has been updated in the last hour''))
         (transaction
           (thenR (lift_s3 S3Err (delete_object X (x_artifacts_bucket X) (artifact_key X uuid content_type)))
           (bindR (query (find_group group_id)) (\<lambda>g.
            bindR (ok_or (api_invalid ''Group for the artifact not found'') g) (\<lambda>grp.
            thenR (db_stmt (update_group (g_id grp)
                     (set_storage_used now (saturating_sub_i64 (g_storage_used grp) (f_size artifact)))))
              (exec (delete_artifact_row (f_id artifact)))))))))))"

text \<open>The caller must be in the group with a role above \<open>Read\<close>.\<close>

definition require_not_reader :: "i64 \<Rightarrow> i64 \<Rightarrow> unit svc" where
  "require_not_reader user_id group_id =
     bindR (query (\<lambda>d. find (\<lambda>ug. ug_user_id ug = user_id \<and> ug_group_id ug = group_id) (user_groups d))) (\<lambda>found.
     bindR (ok_or perm_denied found) (\<lambda>ug.
       ensure (ug_role ug \<noteq> UserGroupRole.Read) perm_denied))"

definition user_delete_artifact :: "Ext \<Rightarrow> nanos \<Rightarrow> i64 \<Rightarrow> uuid \<Rightarrow> ArtifactContentType \<Rightarrow> unit svc" where
  "user_delete_artifact X now user_id uuid content_type =
     bindR (find_task_by_uuid uuid) (\<lambda>(group_id, task).
     thenR (require_not_reader user_id group_id)
       (delete_artifact X now task content_type False))"

definition admin_delete_artifact :: "Ext \<Rightarrow> nanos \<Rightarrow> uuid \<Rightarrow> ArtifactContentType \<Rightarrow> unit svc" where
  "admin_delete_artifact X now uuid content_type =
     bindR (find_task_by_uuid uuid) (\<lambda>(_, task). delete_artifact X now task content_type True)"

text \<open>The size recorded for an upload that replaces an object of size \<open>old\<close>, if there is one, and the
  storage then in use.\<close>

fun recorded_length :: "i64 option \<Rightarrow> i64 \<Rightarrow> i64" where
  "recorded_length (Some old) content_length = max content_length old"
| "recorded_length None content_length = content_length"

fun new_storage_used :: "i64 \<Rightarrow> i64 option \<Rightarrow> i64 \<Rightarrow> i64" where
  "new_storage_used used (Some old) content_length =
     wrap_i64 (used + wrap_i64 (max content_length old - old))"
| "new_storage_used used None content_length = wrap_i64 (used + content_length)"

definition touch_task :: "nanos \<Rightarrow> StoredTaskModel \<Rightarrow> unit svc" where
  "touch_task now task =
     (case task of
        StoredActive t \<Rightarrow>
          thenR (db_stmt (update_active_task (t_id t) (\<lambda>t. t\<lparr>t_updated_at := now\<rparr>))) (ret ())
      | StoredArchived t \<Rightarrow>
          thenR (db_stmt (update_archived_task (t_id t) (\<lambda>t. t\<lparr>t_updated_at := now\<rparr>))) (ret ()))"

definition group_upload_artifact ::
  "Ext \<Rightarrow> nanos \<Rightarrow> StoredTaskModel \<Rightarrow> ArtifactContentType \<Rightarrow> u64 \<Rightarrow> (bool \<times> string) svc" where
  "group_upload_artifact X now task content_type len =
     (let content_length = wrap_i64 len; (uuid, group_id) = stored_ids task
      in bindR (query (find_group group_id)) (\<lambda>found.
         bindR (ok_or (api_invalid ''Group for the task not found'') found) (\<lambda>grp.
         thenR (ensure (g_state grp = GroupState.Active) (api_invalid ''Group is not active''))
         (transaction
           (thenR (touch_task now task)
           (bindR (query (find_artifact uuid content_type)) (\<lambda>artifact.
            let old = map_option f_size artifact;
                used = new_storage_used (g_storage_used grp) old content_length
            in thenR (ensure (\<not> (used > g_storage_quota grp)) (ApiErr QuotaExceeded))
               (bindR (lift_s3 (\<lambda>e. ApiErr (PresignS3Error e))
                         (get_presigned_upload_link X (x_artifacts_bucket X)
                            (artifact_key X uuid content_type) content_length)) (\<lambda>url.
                thenR (case artifact of
                         Some a \<Rightarrow> db_stmt (update_artifact (f_id a)
                                     (\<lambda>a. a\<lparr>f_size := recorded_length old content_length, f_updated_at := now\<rparr>))
                       | None \<Rightarrow> db_stmt (insert_artifact
                                     \<lparr>f_id = 0, f_task_id = uuid, f_content_type = content_type,
                                      f_size = content_length, f_created_at = now, f_updated_at = now\<rparr>))
                (thenR (db_stmt (update_group group_id (set_storage_used now used)))
                  (ret (artifact \<noteq> None, url))))))))))))"

definition user_upload_artifact ::
  "Ext \<Rightarrow> nanos \<Rightarrow> i64 \<Rightarrow> uuid \<Rightarrow> ArtifactContentType \<Rightarrow> u64 \<Rightarrow> (bool \<times> string) svc" where
  "user_upload_artifact X now user_id uuid content_type len =
     bindR (find_task_by_uuid uuid) (\<lambda>(group_id, task).
     thenR (require_not_reader user_id group_id)
       (group_upload_artifact X now task content_type len))"

section \<open>Attachments\<close>

definition attachment_key :: "string \<Rightarrow> string \<Rightarrow> string" where
  "attachment_key group_name key = group_name @ ''/'' @ key"

definition find_attachment :: "i64 \<Rightarrow> string \<Rightarrow> Db \<Rightarrow> AttachmentRow option" where
  "find_attachment group_id key d = find (\<lambda>x. a_group_id x = group_id \<and> a_key x = key) (attachments d)"

definition find_group_by_name :: "string \<Rightarrow> Db \<Rightarrow> GroupRow option" where
  "find_group_by_name name d = find (\<lambda>g. g_group_name g = name) (groups d)"

text \<open>The group of an active task with its name, by a join; for an archived task the query selects the
  name only, and reading the missing \<open>id\<close> column fails.\<close>

definition worker_download_attachment :: "Ext \<Rightarrow> uuid \<Rightarrow> string \<Rightarrow> (string \<times> i64) svc" where
  "worker_download_attachment X uuid key =
     bindR (query (\<lambda>d. [g. t \<leftarrow> active_tasks d, t_uuid t = uuid, g \<leftarrow> groups d, g_id g = t_group_id t])) (\<lambda>active.
     bindR (case active of
              g # _ \<Rightarrow> ret (g_id g, g_group_name g)
            | [] \<Rightarrow>
                bindR (query (\<lambda>d. [g_group_name g. t \<leftarrow> archived_tasks d, t_uuid t = uuid,
                                     g \<leftarrow> groups d, g_id g = t_group_id t])) (\<lambda>archived.
                  case archived of
                    _ # _ \<Rightarrow> raise (DbError ColumnNotFound)
                  | [] \<Rightarrow> raise (api_not_found ''Task with uuid''))) (\<lambda>(group_id, group_name).
     bindR (query (find_attachment group_id key)) (\<lambda>found.
     bindR (ok_or (api_not_found (''Attachment of group '' @ group_name @ '' and key '' @ key)) found) (\<lambda>attachment.
     bindR (lift_s3 S3Err (get_presigned_download_link X (x_attachments_bucket X)
              (attachment_key group_name key) (a_size attachment) 3600)) (\<lambda>url.
       ret (url, a_size attachment))))))"

definition get_attachment_from_db ::
  "i64 \<Rightarrow> string \<Rightarrow> string \<Rightarrow> bool \<Rightarrow> bool \<Rightarrow> AttachmentRow svc" where
  "get_attachment_from_db user_id group_name key write admin =
     (let missing = api_not_found (''Attachment of group '' @ group_name @ '' and key '' @ key)
      in bindR (query (find_group_by_name group_name)) (\<lambda>found.
         bindR (ok_or missing found) (\<lambda>grp.
         thenR (if admin then ret ()
                else bindR (query (\<lambda>d. find (\<lambda>ug. ug_user_id ug = user_id \<and> ug_group_id ug = g_id grp) (user_groups d))) (\<lambda>m.
                     bindR (ok_or perm_denied m) (\<lambda>ug.
                       ensure (\<not> (write \<and> ug_role ug = UserGroupRole.Read)) perm_denied)))
         (bindR (query (find_attachment (g_id grp) key)) (ok_or missing)))))"

definition user_query_attachment ::
  "i64 \<Rightarrow> string \<Rightarrow> string \<Rightarrow> (AttachmentContentType \<times> i64 \<times> nanos \<times> nanos) svc" where
  "user_query_attachment user_id group_name key =
     (let missing = api_not_found (''Attachment of group '' @ group_name @ '' and key '' @ key)
      in bindR (query (find_group_by_name group_name)) (\<lambda>found.
         bindR (ok_or missing found) (\<lambda>grp.
         bindR (query (\<lambda>d. find (\<lambda>ug. ug_user_id ug = user_id \<and> ug_group_id ug = g_id grp) (user_groups d))) (\<lambda>m.
         thenR (ok_or perm_denied m)
         (bindR (query (find_attachment (g_id grp) key)) (\<lambda>x.
          bindR (ok_or missing x) (\<lambda>a.
            ret (a_content_type a, a_size a, a_created_at a, a_updated_at a))))))))"

definition user_get_attachment :: "Ext \<Rightarrow> i64 \<Rightarrow> string \<Rightarrow> string \<Rightarrow> (string \<times> i64) svc" where
  "user_get_attachment X user_id group_name key =
     bindR (get_attachment_from_db user_id group_name key False False) (\<lambda>attachment.
     bindR (lift_s3 S3Err (get_presigned_download_link X (x_attachments_bucket X)
              (attachment_key group_name key) (a_size attachment) 3600)) (\<lambda>url.
       ret (url, a_size attachment)))"

definition delete_attachment :: "Ext \<Rightarrow> nanos \<Rightarrow> AttachmentRow \<Rightarrow> string \<Rightarrow> string \<Rightarrow> unit svc" where
  "delete_attachment X now attachment group_name key =
     transaction
       (thenR (lift_s3 S3Err (delete_object X (x_attachments_bucket X) (attachment_key group_name key)))
       (bindR (query (find_group (a_group_id attachment))) (\<lambda>g.
        bindR (ok_or (api_invalid ''Group for the attachment not found'') g) (\<lambda>grp.
        thenR (db_stmt (update_group (g_id grp)
                 (set_storage_used now (saturating_sub_i64 (g_storage_used grp) (a_size attachment)))))
          (exec (delete_attachment_row (a_id attachment)))))))"

definition user_delete_attachment :: "Ext \<Rightarrow> nanos \<Rightarrow> i64 \<Rightarrow> string \<Rightarrow> string \<Rightarrow> unit svc" where
  "user_delete_attachment X now user_id group_name key =
     bindR (get_attachment_from_db user_id group_name key True False) (\<lambda>attachment.
     thenR (ensure (\<not> (a_updated_at attachment > now - secs UPLOAD_VALID_SECS))
              (api_invalid ''Cannot delete attachment that has been updated in the last hour''))
       (delete_attachment X now attachment group_name key))"

definition admin_delete_attachment :: "Ext \<Rightarrow> nanos \<Rightarrow> string \<Rightarrow> string \<Rightarrow> unit svc" where
  "admin_delete_attachment X now group_name key =
     bindR (get_attachment_from_db 0 group_name key True True) (\<lambda>attachment.
       delete_attachment X now attachment group_name key)"

text \<open>True for a key that is refused.\<close>

definition check_attachment_key :: "string \<Rightarrow> bool" where
  "check_attachment_key key \<longleftrightarrow>
     length key \<ge> 1024 \<or> str_contains ''/./'' key \<or> str_contains ''/../'' key \<or> str_contains ''//'' key"

definition user_upload_attachment ::
  "Ext \<Rightarrow> nanos \<Rightarrow> i64 \<Rightarrow> string \<Rightarrow> string \<Rightarrow> u64 \<Rightarrow> (bool \<times> string) svc" where
  "user_upload_attachment X now user_id group_name key len =
     (let s3_key = attachment_key group_name key; content_length = wrap_i64 len
      in thenR (ensure (\<not> check_attachment_key s3_key) (api_invalid ''Invalid attachment key''))
         (transaction
           (bindR (query (find_group_by_name group_name)) (\<lambda>found.
            bindR (ok_or (api_not_found (''Group '' @ group_name)) found) (\<lambda>grp.
            thenR (ensure (g_state grp = GroupState.Active) (api_invalid ''Group is not active''))
            (thenR (require_not_reader user_id (g_id grp))
            (bindR (query (find_attachment (g_id grp) key)) (\<lambda>attachment.
             let old = map_option a_size attachment;
                 used = new_storage_used (g_storage_used grp) old content_length
             in thenR (ensure (\<not> (used > g_storage_quota grp)) (ApiErr QuotaExceeded))
                (bindR (lift_s3 (\<lambda>e. ApiErr (PresignS3Error e))
                          (get_presigned_upload_link X (x_attachments_bucket X) s3_key content_length)) (\<lambda>url.
                 thenR (case attachment of
                          Some a \<Rightarrow> db_stmt (update_attachment (a_id a)
                                      (\<lambda>a. a\<lparr>a_size := recorded_length old content_length, a_updated_at := now\<rparr>))
                        | None \<Rightarrow> db_stmt (insert_attachment
                                      \<lparr>a_id = 0, a_group_id = g_id grp, a_key = key, a_content_type = NoSet,
                                       a_size = content_length, a_created_at = now, a_updated_at = now\<rparr>))
                 (thenR (db_stmt (update_group (g_id grp) (set_storage_used now used)))
                   (ret (attachment \<noteq> None, url)))))))))))))"

section \<open>Invariants of the task store\<close>

lemma keeps_db_require_not_reader [keeps_intros]: "keeps_db I (require_not_reader u g)"
  by (auto simp: require_not_reader_def intro!: keeps_intros)

lemma keeps_db_find_task_by_uuid [keeps_intros]: "keeps_db I (find_task_by_uuid uuid)"
  by (auto simp: find_task_by_uuid_def intro!: keeps_intros)

lemma keeps_db_get_attachment_from_db [keeps_intros]: "keeps_db I (get_attachment_from_db u g k w a)"
  by (auto simp: get_attachment_from_db_def Let_def intro!: keeps_intros)

context task_store
begin

lemma keeps_storage_stmts:
  "keeps_db I (db_stmt (update_group i (set_storage_used now used)))"
  "keeps_db I (db_stmt (insert_artifact fr))" "keeps_db I (db_stmt (update_artifact i ff))"
  "keeps_db I (exec (delete_artifact_row i))"
  "keeps_db I (db_stmt (insert_attachment ar))" "keeps_db I (db_stmt (update_attachment i af))"
  "keeps_db I (exec (delete_attachment_row i))"
  by (rule keeps_frame_stmt keeps_frame_exec;
      auto simp: tasks_same_def update_group_def set_storage_used_def group_key_def insert_artifact_def
        update_artifact_def delete_artifact_row_def insert_attachment_def update_attachment_def
        delete_attachment_row_def Let_def split: option.splits if_splits)+

lemma keeps_touch_task: "keeps_db I (touch_task now task)"
proof -
  have "keeps_db I (db_stmt (update_active_task i (\<lambda>t. t\<lparr>t_updated_at := now\<rparr>)))" for i
    by (rule keeps_update_active) (rule tt_edit, simp_all add: task_ident_def)
  moreover have "keeps_db I (db_stmt (update_archived_task i (\<lambda>t. t\<lparr>t_updated_at := now\<rparr>)))" for i
    by (rule keeps_update_archived) simp
  ultimately show ?thesis
    by (cases task) (auto simp: touch_task_def intro!: keeps_intros)
qed

lemma keeps_group_upload_artifact: "keeps_db I (group_upload_artifact X now task ct len)"
  by (auto simp: group_upload_artifact_def Let_def split: prod.splits
      intro!: keeps_intros keeps_touch_task keeps_storage_stmts)

lemma keeps_delete_artifact: "keeps_db I (delete_artifact X now task ct admin)"
  by (auto simp: delete_artifact_def Let_def split: prod.splits intro!: keeps_intros keeps_storage_stmts)

lemma keeps_storage_services:
  "keeps_db I (user_upload_artifact X now u uuid ct len)"
  "keeps_db I (user_delete_artifact X now u uuid ct)" "keeps_db I (admin_delete_artifact X now uuid ct)"
  "keeps_db I (user_upload_attachment X now u gn key len)"
  "keeps_db I (user_delete_attachment X now u gn key)" "keeps_db I (admin_delete_attachment X now gn key)"
  by (auto simp: user_upload_artifact_def user_delete_artifact_def admin_delete_artifact_def
      user_upload_attachment_def user_delete_attachment_def admin_delete_attachment_def
      delete_attachment_def Let_def
      intro!: keeps_intros keeps_group_upload_artifact keeps_delete_artifact keeps_storage_stmts)

end

section \<open>Accounting\<close>

definition uuid_in_group :: "Db \<Rightarrow> uuid \<Rightarrow> i64 \<Rightarrow> bool" where
  "uuid_in_group d uuid gid \<longleftrightarrow> (\<exists>i c k. (i, c, gid, k, uuid) \<in> set (task_idents d))"

text \<open>The bytes an attachment, an artifact and all objects reserve in a group.\<close>

definition attachment_weight :: "i64 \<Rightarrow> AttachmentRow \<Rightarrow> int" where
  "attachment_weight gid a = (if a_group_id a = gid then a_size a else 0)"

definition artifact_weight :: "Db \<Rightarrow> i64 \<Rightarrow> ArtifactRow \<Rightarrow> int" where
  "artifact_weight d gid f = (if uuid_in_group d (f_task_id f) gid then f_size f else 0)"

definition reserved :: "Db \<Rightarrow> i64 \<Rightarrow> int" where
  "reserved d gid = sum_list (map (attachment_weight gid) (attachments d))
                  + sum_list (map (artifact_weight d gid) (artifacts d))"

definition objects_inv :: "Db \<Rightarrow> bool" where
  "objects_inv d \<longleftrightarrow>
     distinct (map a_id (attachments d)) \<and> (\<forall>a \<in> set (attachments d). a_id a < nxt_attachment d) \<and>
     distinct (map f_id (artifacts d)) \<and> (\<forall>f \<in> set (artifacts d). f_id f < nxt_artifact d) \<and>
     (\<forall>a \<in> set (attachments d). 0 \<le> a_size a \<and> is_i64 (a_size a)) \<and>
     (\<forall>f \<in> set (artifacts d). 0 \<le> f_size f \<and> is_i64 (f_size f))"

definition storage_inv :: "Db \<Rightarrow> bool" where
  "storage_inv d \<longleftrightarrow> distinct (map g_id (groups d)) \<and> distinct (map g_group_name (groups d)) \<and> objects_inv d \<and>
     (\<forall>g \<in> set (groups d). g_storage_used g = reserved d (g_id g))"

lemma artifact_weight_cong: "task_idents d' = task_idents d \<Longrightarrow> artifact_weight d' = artifact_weight d"
  by (simp add: artifact_weight_def uuid_in_group_def fun_eq_iff)

text \<open>A change of the reserved bytes of one group that goes with the same change of its counter.\<close>

lemma storage_inv_set_used:
  assumes I: "storage_inv d" and g: "g \<in> set (groups d)" and "objects_inv d'"
    and gr: "groups d' = upd_where (\<lambda>x. g_id x = g_id g) (set_storage_used now used) (groups d)"
    and res: "\<And>gid. reserved d' gid = reserved d gid + (if gid = g_id g then used - g_storage_used g else 0)"
  shows "storage_inv d'"
proof -
  have "g_storage_used x = reserved d' (g_id x)" if "x \<in> set (groups d')" for x
    using that I g unfolding gr
    by (auto simp: storage_inv_def res set_storage_used_def elim!: upd_whereE)
  then show ?thesis using I assms(3) gr
    by (simp add: storage_inv_def set_storage_used_def)
qed

text \<open>The database after an upload: the object's row and the group's counter.\<close>

definition attachment_stored :: "nanos \<Rightarrow> string \<Rightarrow> i64 \<Rightarrow> GroupRow \<Rightarrow> Db \<Rightarrow> Db \<Rightarrow> bool" where
  "attachment_stored now key len g d d' \<longleftrightarrow>
     (case find_attachment (g_id g) key d of
        Some a \<Rightarrow>
          d' = d\<lparr>attachments := upd_where (\<lambda>x. a_id x = a_id a) (\<lambda>x. x\<lparr>a_size := max len (a_size a), a_updated_at := now\<rparr>) (attachments d),
                 groups := upd_where (\<lambda>x. g_id x = g_id g)
                   (set_storage_used now (new_storage_used (g_storage_used g) (Some (a_size a)) len)) (groups d)\<rparr>
      | None \<Rightarrow>
          d' = d\<lparr>nxt_attachment := nxt_attachment d + 1,
                 attachments := attachments d @ [\<lparr>a_id = nxt_attachment d, a_group_id = g_id g, a_key = key,
                    a_content_type = NoSet, a_size = len, a_created_at = now, a_updated_at = now\<rparr>],
                 groups := upd_where (\<lambda>x. g_id x = g_id g)
                   (set_storage_used now (new_storage_used (g_storage_used g) None len)) (groups d)\<rparr>)"

definition attachment_size :: "i64 \<Rightarrow> string \<Rightarrow> Db \<Rightarrow> i64 option" where
  "attachment_size gid key d = map_option a_size (find_attachment gid key d)"

lemma user_upload_attachment_wp:
  "wp (user_upload_attachment X now u gn key len)
     (\<lambda>_ s'. \<exists>g \<in> set (groups (db s)). g_group_name g = gn \<and> g_state g = GroupState.Active \<and>
        0 \<le> wrap_i64 len \<and>
        new_storage_used (g_storage_used g) (attachment_size (g_id g) key (db s)) (wrap_i64 len) \<le> g_storage_quota g \<and>
        attachment_stored now key (wrap_i64 len) g (db s) (db s'))
     (\<lambda>_ s'. db s' = db s) s"
proof (cases "find_group_by_name gn (db s)")
  case None
  then show ?thesis by (simp add: user_upload_attachment_def Let_def wp_eqs)
next
  case (Some g)
  then have g: "g \<in> set (groups (db s))" "g_group_name g = gn"
    by (auto simp: find_group_by_name_def dest: find_SomeD)
  show ?thesis
    apply (rule wp_mono [where Q = "\<lambda>_ s'. g_state g = GroupState.Active \<and> 0 \<le> wrap_i64 len \<and>
        new_storage_used (g_storage_used g) (attachment_size (g_id g) key (db s)) (wrap_i64 len) \<le> g_storage_quota g \<and>
        attachment_stored now key (wrap_i64 len) g (db s) (db s')" and E = "\<lambda>_ s'. db s' = db s"])
    by (cases "find_attachment (g_id g) key (db s)")
      (auto simp: user_upload_attachment_def require_not_reader_def Some Let_def wp_eqs
        get_presigned_upload_link_def update_attachment_def insert_attachment_def update_group_def
        attachment_size_def attachment_stored_def not_less
        split: option.splits sum.splits if_splits intro: g)
qed

lemma storage_used_nonneg:
  assumes "storage_inv d" and "g \<in> set (groups d)"
  shows "0 \<le> g_storage_used g"
proof -
  have "0 \<le> reserved d (g_id g)" using assms(1)
    by (auto simp: reserved_def storage_inv_def objects_inv_def attachment_weight_def artifact_weight_def
        intro!: add_nonneg_nonneg sum_list_nonneg)
  then show ?thesis using assms by (simp add: storage_inv_def)
qed

lemma new_storage_used_exact:
  assumes "0 \<le> used" and "0 \<le> len" and "used + len \<le> i64_max" and "\<And>old. x = Some old \<Longrightarrow> 0 \<le> old \<and> is_i64 old"
  shows "new_storage_used used x len = used + (recorded_length x len - (case x of Some old \<Rightarrow> old | None \<Rightarrow> 0))"
proof (cases x)
  case None
  then show ?thesis using assms(1-3) by (simp add: wrap_i64_id machine_bounds)
next
  case (Some old)
  then have "is_i64 (max len old - old)" "is_i64 (used + (max len old - old))"
    using assms by (auto simp: machine_bounds)
  then show ?thesis using Some by (simp add: wrap_i64_id)
qed

lemma storage_inv_attachment_stored:
  assumes I: "storage_inv d" and g: "g \<in> set (groups d)" and len: "0 \<le> len" "g_storage_used g + len \<le> i64_max"
    and st: "attachment_stored now key len g d d'"
  shows "storage_inv d'"
proof -
  have O: "objects_inv d" using I by (simp add: storage_inv_def)
  have used: "0 \<le> g_storage_used g" by (rule storage_used_nonneg [OF I g])
  then have i64: "is_i64 len" using len by (simp add: machine_bounds)
  show ?thesis
  proof (cases "find_attachment (g_id g) key d")
    case None
    then have d': "d' = d\<lparr>nxt_attachment := nxt_attachment d + 1,
        attachments := attachments d @ [\<lparr>a_id = nxt_attachment d, a_group_id = g_id g, a_key = key,
            a_content_type = NoSet, a_size = len, a_created_at = now, a_updated_at = now\<rparr>],
        groups := upd_where (\<lambda>x. g_id x = g_id g)
            (set_storage_used now (new_storage_used (g_storage_used g) None len)) (groups d)\<rparr>"
      using st by (simp add: attachment_stored_def)
    have w: "artifact_weight d' = artifact_weight d" by (rule artifact_weight_cong) (simp add: d' task_idents_def)
    show ?thesis
    proof (rule storage_inv_set_used [OF I g])
      show "objects_inv d'" using O len(1) i64 by (auto simp: objects_inv_def d')
      show "groups d' = upd_where (\<lambda>x. g_id x = g_id g)
              (set_storage_used now (new_storage_used (g_storage_used g) None len)) (groups d)" by (simp add: d')
      show "reserved d' gid = reserved d gid
          + (if gid = g_id g then new_storage_used (g_storage_used g) None len - g_storage_used g else 0)" for gid
        using new_storage_used_exact [OF used len, of None] unfolding reserved_def w
        by (simp add: d' attachment_weight_def)
    qed
  next
    case (Some a)
    then have a: "a \<in> set (attachments d)" "a_group_id a = g_id g" by (auto simp: find_attachment_def dest: find_SomeD)
    then have sz: "0 \<le> a_size a" "is_i64 (a_size a)" and dist: "distinct (map a_id (attachments d))"
      using O by (auto simp: objects_inv_def)
    let ?f = "\<lambda>x. x\<lparr>a_size := max len (a_size a), a_updated_at := now\<rparr>"
    from Some st have d': "d' = d\<lparr>attachments := upd_where (\<lambda>x. a_id x = a_id a) ?f (attachments d),
        groups := upd_where (\<lambda>x. g_id x = g_id g)
          (set_storage_used now (new_storage_used (g_storage_used g) (Some (a_size a)) len)) (groups d)\<rparr>"
      by (simp add: attachment_stored_def)
    have w: "artifact_weight d' = artifact_weight d" by (rule artifact_weight_cong) (simp add: d' task_idents_def)
    show ?thesis
    proof (rule storage_inv_set_used [OF I g])
      show "objects_inv d'" using O sz i64 by (auto simp: objects_inv_def d' machine_bounds elim!: upd_whereE)
      show "groups d' = upd_where (\<lambda>x. g_id x = g_id g)
              (set_storage_used now (new_storage_used (g_storage_used g) (Some (a_size a)) len)) (groups d)"
        by (simp add: d')
      show "reserved d' gid = reserved d gid
          + (if gid = g_id g then new_storage_used (g_storage_used g) (Some (a_size a)) len - g_storage_used g else 0)" for gid
        using new_storage_used_exact [OF used len, of "Some (a_size a)"] sz a(2)
          sum_list_upd_key [OF dist a(1), of "attachment_weight gid" ?f] unfolding reserved_def w
        by (simp add: d' attachment_weight_def)
    qed
  qed
qed



definition sample_ext :: Ext where
  "sample_ext = \<lparr>x_uuid_str = (\<lambda>u. nat_to_string u), x_artifacts_bucket = ''artifacts'',
     x_attachments_bucket = ''attachments'', x_put_url = (\<lambda>b k l e. Inr (b @ ''/'' @ k)),
     x_get_url = (\<lambda>b k e. Inr (b @ ''/'' @ k)), x_delete = (\<lambda>b k. Inr ())\<rparr>"


text \<open>The quota can be passed by: when one byte of storage is in use, an upload of \<open>i64::MAX\<close> bytes is
  accepted although the quota is 1000 bytes, because the sum wraps around, and the storage in use is
  negative afterwards.\<close>

lemma upload_overflow_passes_quota:
  "let s = sample_pool\<lparr>db := sample_db\<lparr>groups := [sample_group\<lparr>g_storage_used := 1\<rparr>]\<rparr>\<rparr>;
       (r, s') = user_upload_attachment sample_ext 7 1 ''ada'' ''big'' i64_max s
   in r = Inr (False, ''attachments/ada/big'') \<and>
      map g_storage_quota (groups (db s')) = [1000] \<and> map g_storage_used (groups (db s')) = [i64_min]"
  by (simp add: user_upload_attachment_def require_not_reader_def find_group_by_name_def find_attachment_def
      get_presigned_upload_link_def lift_s3_def insert_attachment_def update_group_def upd_where_def
      set_storage_used_def attachment_key_def check_attachment_key_def starts_with_def
      sample_ext_def sample_defs machine_bounds wrap_i64_def run_defs)

text \<open>An accepted attachment key names a single place below its group: between the first and the last
  component of the object's path there is no empty component, no \<open>.\<close> and no \<open>..\<close>.\<close>

lemma checked_key_components:
  assumes "\<not> check_attachment_key k" and "split_on CHR ''/'' k = first # mid @ [lst]" and "c \<in> set mid"
  shows "c \<noteq> [] \<and> c \<noteq> ''.'' \<and> c \<noteq> ''..''"
proof -
  obtain m1 m2 where mid: "mid = m1 @ c # m2" using assms(3) by (auto simp: in_set_conv_decomp)
  have "k = join_on CHR ''/'' ((first # m1) @ (c # m2 @ [lst]))"
    using assms(2) mid join_split_on [of "CHR ''/''" k] by simp
  also have "\<dots> = join_on CHR ''/'' (first # m1) @ (''/'' @ c @ ''/'') @ join_on CHR ''/'' (m2 @ [lst])"
    by (subst join_on_append) (simp_all add: join_on_Cons)
  finally have "str_contains (''/'' @ c @ ''/'') k" unfolding str_contains_iff by blast
  then show ?thesis using assms(1) by (auto simp: check_attachment_key_def)
qed

theorem checked_key_components_witness:
  "\<not> check_attachment_key ''ada/b/c'' \<and> split_on CHR ''/'' ''ada/b/c'' = ''ada'' # [''b''] @ [''c''] \<and>
   ''b'' \<noteq> [] \<and> ''b'' \<noteq> ''.'' \<and> ''b'' \<noteq> ''..''"
  using checked_key_components [of "''ada/b/c''" "''ada''" "[''b'']" "''c''" "''b''"]
  by (simp add: check_attachment_key_def starts_with_def)

text \<open>A presigned download link is valid for at least an hour and at most a day, whatever size is
  recorded, when the caller asks for no more than a day.\<close>

lemma download_expiry_bounds:
  "min_expires \<le> 86400 \<Longrightarrow>
   download_expiry len min_expires \<in> {3600..86400} \<and> min_expires \<le> download_expiry len min_expires"
  by (auto simp: download_expiry_def)

end
