(* ===== verification/User_Group_Service.thy ===== *)
theory User_Group_Service
  imports Storage
begin

text \<open>
  Users and groups (\<open>service/user.rs\<close>, \<open>service/group.rs\<close>, \<open>service/mod.rs\<close>): creation, states, roles and
  quotas. The password hash of a new user and the reading of a byte size (the \<open>parse_size\<close> crate) are
  arguments. A \<open>HashMap\<close> of relations is the list of its entries.
\<close>

section \<open>Names\<close>

definition is_ascii_alphanumeric :: "char \<Rightarrow> bool" where
  "is_ascii_alphanumeric c \<longleftrightarrow>
     (let n = of_char c :: nat in (48 \<le> n \<and> n \<le> 57) \<or> (65 \<le> n \<and> n \<le> 90) \<or> (97 \<le> n \<and> n \<le> 122))"

definition name_validator :: "string \<Rightarrow> bool" where
  "name_validator name \<longleftrightarrow> length name > 0 \<and> length name < 256 \<and>
     list_all (\<lambda>c. is_ascii_alphanumeric c \<or> c = CHR ''-'' \<or> c = CHR ''_'') name"

section \<open>Statements\<close>

definition DEFAULT_GROUP_QUOTA :: i32 where
  "DEFAULT_GROUP_QUOTA = 8"

definition insert_user :: "nanos \<Rightarrow> string \<Rightarrow> string \<Rightarrow> bool \<Rightarrow> Db \<Rightarrow> DbErr + UserRow \<times> Db" where
  "insert_user now name password_hash admin d =
     (if \<exists>u \<in> set (users d). u_username u = name then Inl RecordNotInserted
      else let u = \<lparr>u_id = nxt_user d, u_username = name, u_encrypted_password = password_hash,
                    u_auth_signature = None, u_reset_password_token = None,
                    u_reset_password_token_expiry = None, u_current_sign_in_at = None,
                    u_last_sign_in_at = None, u_current_sign_in_ip = None, u_last_sign_in_ip = None,
                    u_created_at = now, u_updated_at = now, u_admin = admin, u_state = UserState.Active,
                    u_group_quota = DEFAULT_GROUP_QUOTA, u_group_count = 1\<rparr>
           in Inr (u, d\<lparr>nxt_user := nxt_user d + 1, users := users d @ [u]\<rparr>))"

definition update_user :: "i64 \<Rightarrow> (UserRow \<Rightarrow> UserRow) \<Rightarrow> Db \<Rightarrow> DbErr + UserRow \<times> Db" where
  "update_user i f d =
     (case find (\<lambda>u. u_id u = i) (users d) of
        None \<Rightarrow> Inl RecordNotUpdated
      | Some u \<Rightarrow> Inr (f u, d\<lparr>users := upd_where (\<lambda>u. u_id u = i) f (users d)\<rparr>))"

definition insert_user_group :: "i64 \<Rightarrow> i64 \<Rightarrow> UserGroupRole \<Rightarrow> Db \<Rightarrow> DbErr + unit \<times> Db" where
  "insert_user_group user_id group_id role d =
     (if \<exists>ug \<in> set (user_groups d). ug_user_id ug = user_id \<and> ug_group_id ug = group_id
      then Inl RecordNotInserted
      else if \<not> (\<exists>u \<in> set (users d). u_id u = user_id) \<or> \<not> (\<exists>g \<in> set (groups d). g_id g = group_id)
      then Inl ForeignKeyViolation
      else Inr ((), d\<lparr>nxt_user_group := nxt_user_group d + 1,
                      user_groups := user_groups d @ [\<lparr>ug_id = nxt_user_group d, ug_user_id = user_id,
                         ug_group_id = group_id, ug_role = role\<rparr>]\<rparr>))"

text \<open>\<open>INSERT ... ON CONFLICT (user_id, group_id) DO UPDATE SET role\<close>, for several rows.\<close>

definition upsert_user_group :: "i64 \<Rightarrow> i64 \<times> UserGroupRole \<Rightarrow> Db \<Rightarrow> Db" where
  "upsert_user_group group_id r d =
     (case r of (user_id, role) \<Rightarrow>
        if \<exists>ug \<in> set (user_groups d). ug_user_id ug = user_id \<and> ug_group_id ug = group_id
        then d\<lparr>user_groups := upd_where (\<lambda>ug. ug_user_id ug = user_id \<and> ug_group_id ug = group_id)
                 (\<lambda>ug. ug\<lparr>ug_role := role\<rparr>) (user_groups d)\<rparr>
        else d\<lparr>nxt_user_group := nxt_user_group d + 1,
               user_groups := user_groups d @ [\<lparr>ug_id = nxt_user_group d, ug_user_id = user_id,
                  ug_group_id = group_id, ug_role = role\<rparr>]\<rparr>)"

definition upsert_user_groups :: "i64 \<Rightarrow> (i64 \<times> UserGroupRole) list \<Rightarrow> Db \<Rightarrow> unit \<times> Db" where
  "upsert_user_groups group_id rs d = ((), fold (upsert_user_group group_id) rs d)"

definition delete_user_groups :: "i64 \<Rightarrow> i64 list \<Rightarrow> Db \<Rightarrow> unit \<times> Db" where
  "delete_user_groups group_id user_ids d =
     ((), d\<lparr>user_groups := del_where (\<lambda>ug. ug_user_id ug \<in> set user_ids \<and> ug_group_id ug = group_id) (user_groups d)\<rparr>)"

definition find_user_by_name :: "string \<Rightarrow> Db \<Rightarrow> UserRow option" where
  "find_user_by_name name d = find (\<lambda>u. u_username u = name) (users d)"

section \<open>Users\<close>

text \<open>\<open>hash\<close> is \<open>Argon2::hash_password\<close> with a fresh salt.\<close>

definition create_user :: "(string \<Rightarrow> string option) \<Rightarrow> nanos \<Rightarrow> string \<Rightarrow> string \<Rightarrow> bool \<Rightarrow> UserRow svc" where
  "create_user hash now username md5_password admin =
     transaction
       (bindR (query (find_user_by_name username)) (\<lambda>user.
        bindR (query (find_group_by_name username)) (\<lambda>grp.
        if user = None \<and> grp = None then
          bindR (ok_or EncryptError (hash md5_password)) (\<lambda>password_hash.
          bindR (db_stmt (insert_user now username password_hash admin)) (\<lambda>user.
          bindR (db_stmt (insert_group now username (u_id user))) (\<lambda>grp.
          thenR (db_stmt (insert_user_group (u_id user) (g_id grp) UserGroupRole.Admin))
            (ret user))))
        else raise (DbError RecordNotInserted))))"

definition change_user_state :: "string \<Rightarrow> UserState \<Rightarrow> UserState svc" where
  "change_user_state username st =
     transaction
       (bindR (query (find_user_by_name username)) (\<lambda>user.
        case user of
          Some user \<Rightarrow>
            bindR (db_stmt (update_user (u_id user) (\<lambda>u. u\<lparr>u_state := st\<rparr>))) (\<lambda>u. ret (u_state u))
        | None \<Rightarrow> raise (DbError RecordNotUpdated)))"

definition parse_quota :: "i32 \<Rightarrow> string \<Rightarrow> i32 option" where
  "parse_quota quota op =
     (if starts_with ''+'' op then map_option (\<lambda>v. wrap_i32 (quota + v)) (i32_from_str (tl op))
      else if starts_with ''-'' op then map_option (\<lambda>v. wrap_i32 (quota - v)) (i32_from_str (tl op))
      else if starts_with ''='' op then i32_from_str (tl op)
      else i32_from_str op)"

definition change_user_group_quota :: "nanos \<Rightarrow> string \<Rightarrow> string \<Rightarrow> i32 svc" where
  "change_user_group_quota now user_name group_quota =
     transaction
       (bindR (query (find_user_by_name user_name)) (\<lambda>user.
        case user of
          Some user \<Rightarrow>
            bindR (ok_or ParseIntError (parse_quota (u_group_quota user) group_quota)) (\<lambda>q.
            bindR (db_stmt (update_user (u_id user) (\<lambda>u. u\<lparr>u_group_quota := max q 0, u_updated_at := now\<rparr>))) (\<lambda>u.
              ret (u_group_quota u)))
        | None \<Rightarrow> raise (DbError RecordNotUpdated)))"

section \<open>Groups\<close>

definition user_create_group :: "nanos \<Rightarrow> i64 \<Rightarrow> string \<Rightarrow> GroupRow svc" where
  "user_create_group now user_id group_name =
     thenR (ensure (name_validator group_name) (api_invalid ''Invalid group name''))
     (transaction
       (bindR (query (find_user_by_name group_name)) (\<lambda>user.
        bindR (query (find_group_by_name group_name)) (\<lambda>grp.
        if user = None \<and> grp = None then
          bindR (query (\<lambda>d. find (\<lambda>u. u_id u = user_id) (users d))) (\<lambda>found.
          bindR (ok_or (ApiErr InternalServerError) found) (\<lambda>creator.
          thenR (ensure (\<not> u_group_count creator \<ge> u_group_quota creator) (ApiErr QuotaExceeded))
          (thenR (db_stmt (update_user (u_id creator)
                    (\<lambda>u. u\<lparr>u_group_count := u_group_count creator + 1, u_updated_at := now\<rparr>)))
          (bindR (db_stmt (insert_group now group_name user_id)) (\<lambda>grp.
           thenR (db_stmt (insert_user_group user_id (g_id grp) UserGroupRole.Admin))
             (ret grp))))))
        else raise (ApiErr (AlreadyExists group_name))))))"

definition change_group_state :: "nanos \<Rightarrow> string \<Rightarrow> GroupState \<Rightarrow> GroupState svc" where
  "change_group_state now group_name st =
     transaction
       (bindR (query (find_group_by_name group_name)) (\<lambda>grp.
        case grp of
          Some g \<Rightarrow>
            bindR (db_stmt (update_group (g_id g) (\<lambda>g. g\<lparr>g_state := st, g_updated_at := now\<rparr>))) (\<lambda>g. ret (g_state g))
        | None \<Rightarrow> raise (DbError RecordNotUpdated)))"

text \<open>The group by its name, if the user is one of its admins.\<close>

definition require_group_admin :: "i64 \<Rightarrow> string \<Rightarrow> GroupRow svc" where
  "require_group_admin user_id group_name =
     bindR (query (find_group_by_name group_name)) (\<lambda>found.
     bindR (ok_or (api_not_found (''Group '' @ group_name)) found) (\<lambda>grp.
     bindR (query (\<lambda>d. find (\<lambda>ug. ug_user_id ug = user_id \<and> ug_group_id ug = g_id grp) (user_groups d))) (\<lambda>m.
     bindR (ok_or perm_denied m) (\<lambda>ug.
     thenR (ensure (ug_role ug = UserGroupRole.Admin) perm_denied)
       (ret grp)))))"

definition users_named :: "string list \<Rightarrow> Db \<Rightarrow> (i64 \<times> string) list" where
  "users_named names d = map (\<lambda>u. (u_id u, u_username u)) (filter (\<lambda>u. u_username u \<in> set names) (users d))"

definition update_user_group_role :: "i64 \<Rightarrow> string \<Rightarrow> (string \<times> UserGroupRole) list \<Rightarrow> unit svc" where
  "update_user_group_role user_id group_name relations =
     thenR (ensure (relations \<noteq> []) (api_invalid ''Empty group relations''))
     (bindR (require_group_admin user_id group_name) (\<lambda>grp.
      bindR (query (users_named (map fst relations))) (\<lambda>us.
      thenR (ensure (length us = length relations) (api_invalid ''Some users do not exist''))
        (exec (upsert_user_groups (g_id grp)
           (List.map_filter (\<lambda>(i, name). map_option (\<lambda>role. (i, role)) (map_of relations name)) us))))))"

definition remove_user_group_role :: "i64 \<Rightarrow> string \<Rightarrow> string list \<Rightarrow> unit svc" where
  "remove_user_group_role user_id group_name usernames =
     thenR (ensure (usernames \<noteq> []) (api_invalid ''Empty group relations''))
     (bindR (require_group_admin user_id group_name) (\<lambda>grp.
      bindR (query (users_named usernames)) (\<lambda>us.
      thenR (ensure (length us = length usernames) (api_invalid ''Some users do not exist''))
        (exec (delete_user_groups (g_id grp) (map fst us))))))"

definition query_user_groups :: "i64 \<Rightarrow> (string \<times> UserGroupRole) list svc" where
  "query_user_groups user_id =
     query (\<lambda>d. [(g_group_name g, ug_role ug). ug \<leftarrow> user_groups d, g \<leftarrow> groups d,
                   ug_group_id ug = g_id g, ug_user_id ug = user_id])"

datatype StorageQuotaOp = Increase i64 | Decrease i64 | SetQuota i64

definition parse_storage_quota :: "(string \<Rightarrow> u64 option) \<Rightarrow> string \<Rightarrow> StorageQuotaOp option" where
  "parse_storage_quota parse_size quota =
     (let bytesize = (\<lambda>s. map_option wrap_i64 (parse_size s))
      in if starts_with ''+'' quota then map_option Increase (bytesize (tl quota))
         else if starts_with ''-'' quota then map_option Decrease (bytesize (tl quota))
         else if starts_with ''='' quota then map_option SetQuota (bytesize (tl quota))
         else map_option SetQuota (bytesize quota))"

fun apply_quota_op :: "StorageQuotaOp \<Rightarrow> i64 \<Rightarrow> i64" where
  "apply_quota_op (Increase v) q = saturating_add_i64 q v"
| "apply_quota_op (Decrease v) q = saturating_sub_i64 q v"
| "apply_quota_op (SetQuota v) q = v"

definition change_group_storage_quota ::
  "(string \<Rightarrow> u64 option) \<Rightarrow> nanos \<Rightarrow> string \<Rightarrow> string \<Rightarrow> i64 svc" where
  "change_group_storage_quota parse_size now group_name storage_quota =
     bindR (ok_or ParseSizeError (parse_storage_quota parse_size storage_quota)) (\<lambda>op.
     transaction
       (bindR (query (find_group_by_name group_name)) (\<lambda>grp.
        case grp of
          Some g \<Rightarrow>
            bindR (db_stmt (update_group (g_id g)
                     (\<lambda>x. x\<lparr>g_storage_quota := apply_quota_op op (g_storage_quota g), g_updated_at := now\<rparr>))) (\<lambda>g.
              ret (g_storage_quota g))
        | None \<Rightarrow> raise (DbError RecordNotUpdated))))"

record GroupQueryInfo =
  gi_group_name :: string
  gi_creator_username :: string
  gi_created_at :: nanos
  gi_updated_at :: nanos
  gi_state :: GroupState
  gi_task_count :: i64
  gi_storage_quota :: i64
  gi_storage_used :: i64
  gi_worker_count :: i64
  gi_users_in_group :: "(string \<times> UserGroupRole) list option"

definition user_get_group_by_name :: "i64 \<Rightarrow> string \<Rightarrow> GroupQueryInfo svc" where
  "user_get_group_by_name user_id group_name =
     bindR (query (find_group_by_name group_name)) (\<lambda>found.
     bindR (ok_or (api_not_found (''Group '' @ group_name)) found) (\<lambda>grp.
     bindR (query (\<lambda>d. find (\<lambda>ug. ug_user_id ug = user_id \<and> ug_group_id ug = g_id grp) (user_groups d))) (\<lambda>m.
     bindR (ok_or perm_denied m) (\<lambda>ug.
     bindR (query (\<lambda>d. find (\<lambda>u. u_id u = g_creator_id grp) (users d))) (\<lambda>creator.
     bindR (if ug_role ug = UserGroupRole.Admin
            then bindR (query (\<lambda>d. [(u_username u, ug_role x). x \<leftarrow> user_groups d, u \<leftarrow> users d,
                                      ug_user_id x = u_id u, ug_group_id x = g_id grp])) (\<lambda>us. ret (Some us))
            else ret None) (\<lambda>users_in_group.
     bindR (query (\<lambda>d. int (length (filter (\<lambda>gw. gw_group_id gw = g_id grp) (group_workers d))))) (\<lambda>worker_count.
       ret \<lparr>gi_group_name = g_group_name grp,
            gi_creator_username = (case creator of Some u \<Rightarrow> u_username u | None \<Rightarrow> []),
            gi_created_at = g_created_at grp, gi_updated_at = g_updated_at grp, gi_state = g_state grp,
            gi_task_count = g_task_count grp, gi_storage_quota = g_storage_quota grp,
            gi_storage_used = g_storage_used grp, gi_worker_count = worker_count,
            gi_users_in_group = users_in_group\<rparr>)))))))"

section \<open>Invariants of the task store\<close>

lemma tasks_same_upsert: "tasks_same d (fold (upsert_user_group g) rs d)"
proof (induction rs arbitrary: d)
  case (Cons r rs)
  have "tasks_same d (upsert_user_group g r d)"
    by (simp add: upsert_user_group_def tasks_same_def split: prod.splits)
  with Cons [of "upsert_user_group g r d"] show ?case by (simp add: tasks_same_def)
qed simp

lemma keeps_db_require_group_admin [keeps_intros]: "keeps_db I (require_group_admin u g)"
  by (auto simp: require_group_admin_def intro!: keeps_intros)

context task_store
begin

lemma keeps_user_stmts:
  "keeps_db I (db_stmt (insert_user now name h a))" "keeps_db I (db_stmt (update_user i f))"
  "keeps_db I (db_stmt (insert_user_group u g r))" "keeps_db I (exec (upsert_user_groups g rs))"
  "keeps_db I (exec (delete_user_groups g us))"
  by (rule keeps_frame_stmt keeps_frame_exec;
      auto simp: tasks_same_def insert_user_def update_user_def insert_user_group_def Let_def
        upsert_user_groups_def delete_user_groups_def tasks_same_upsert [unfolded tasks_same_def]
        split: option.splits if_splits)+

lemma keeps_update_group:
  "(\<And>g. group_key (f g) = group_key g) \<Longrightarrow> keeps_db I (db_stmt (update_group i f))"
  by (rule keeps_frame_stmt) (auto simp: tasks_same_def update_group_def split: option.splits)

lemma keeps_user_group_services:
  "keeps_db I (create_user h now name pw a)" "keeps_db I (change_user_state name ust)"
  "keeps_db I (change_user_group_quota now name q)" "keeps_db I (user_create_group now u gn)"
  "keeps_db I (change_group_state now gn st)" "keeps_db I (update_user_group_role u gn rs)"
  "keeps_db I (remove_user_group_role u gn us)" "keeps_db I (change_group_storage_quota ps now gn q)"
  by (auto simp: create_user_def change_user_state_def change_user_group_quota_def user_create_group_def
      change_group_state_def update_user_group_role_def remove_user_group_role_def
      change_group_storage_quota_def group_key_def
      intro!: keeps_intros keeps_user_stmts keeps_insert_group keeps_update_group)

end

section \<open>Properties\<close>

text \<open>The effect of creating a group: a valid name that no user and no group has, a creator below the quota
  whose count goes up by one, and the creator as admin of the new, empty group.\<close>

definition group_created :: "i64 \<Rightarrow> string \<Rightarrow> Db \<Rightarrow> GroupRow \<Rightarrow> Db \<Rightarrow> bool" where
  "group_created uid name d g d' \<longleftrightarrow>
     name_validator name \<and> name \<notin> u_username ` set (users d) \<and> name \<notin> g_group_name ` set (groups d) \<and>
     groups d' = groups d @ [g] \<and> g_group_name g = name \<and> g_creator_id g = uid \<and> g_task_count g = 0 \<and> g_storage_used g = 0 \<and>
     (\<exists>u \<in> set (users d). u_id u = uid \<and> u_group_count u < u_group_quota u \<and>
        (\<exists>u' \<in> set (users d'). u_id u' = uid \<and> u_group_count u' = u_group_count u + 1)) \<and>
     (\<exists>ug. user_groups d' = user_groups d @ [ug] \<and> ug_user_id ug = uid \<and> ug_group_id ug = g_id g \<and>
        ug_role ug = UserGroupRole.Admin)"

text \<open>Creating a group is all or nothing, wherever a statement fails, and a created group has a valid
  name, fresh among users and groups alike; the creator was below the quota, is charged for the group and
  is its admin.\<close>

lemma user_create_group_effect:
  "case user_create_group now uid name s of
     (Inl e, s') \<Rightarrow> db s' = db s
   | (Inr g, s') \<Rightarrow> group_created uid name (db s) g (db s')"
proof -
  have charged: "\<exists>a \<in> set us. u_id a = i \<and> u_group_count a < u_group_quota a \<and>
      (\<exists>u' \<in> set (upd_where (\<lambda>x. u_id x = i) (\<lambda>x. x\<lparr>u_group_count := u_group_count u + 1, u_updated_at := now\<rparr>) us).
         u_id u' = i \<and> u_group_count u' = u_group_count a + 1)"
    if "u \<in> set us" "u_id u = i" "\<not> u_group_quota u \<le> u_group_count u" for u i us
    using that by (intro bexI [of _ u] conjI bexI [of _ "u\<lparr>u_group_count := u_group_count u + 1, u_updated_at := now\<rparr>"])
      (auto simp: set_upd_where)
  have "wp (user_create_group now uid name) (\<lambda>g s'. group_created uid name (db s) g (db s')) (\<lambda>_ s'. db s' = db s) s"
    by (auto simp: user_create_group_def find_user_by_name_def find_group_by_name_def update_user_def
        insert_group_def insert_user_group_def wp_eqs group_created_def find_None_iff Let_def image_iff
        split: option.splits sum.splits if_splits dest!: find_SomeD intro: charged)
  then show ?thesis by (simp add: wp_def split: prod.splits sum.splits)
qed

text \<open>C37. Only an admin of a group changes its membership: for anybody else both role operations fail and
  change nothing.\<close>

theorem role_change_requires_admin:
  assumes "\<not> (\<exists>g \<in> set (groups (db s)). \<exists>ug \<in> set (user_groups (db s)).
       g_group_name g = gn \<and> ug_user_id ug = uid \<and> ug_group_id ug = g_id g \<and> ug_role ug = UserGroupRole.Admin)"
  shows "(\<exists>e s'. update_user_group_role uid gn rels s = (Inl e, s') \<and> db s' = db s) \<and>
         (\<exists>e s'. remove_user_group_role uid gn names s = (Inl e, s') \<and> db s' = db s)"
proof -
  have "wp (update_user_group_role uid gn rels) (\<lambda>_ _. False) (\<lambda>_ s'. db s' = db s) s"
    "wp (remove_user_group_role uid gn names) (\<lambda>_ _. False) (\<lambda>_ s'. db s' = db s) s"
    using assms
    by (auto simp: update_user_group_role_def remove_user_group_role_def require_group_admin_def
        find_group_by_name_def wp_eqs split: option.splits dest!: find_SomeD)
  then show ?thesis by (auto simp: wp_def split: prod.splits sum.splits)
qed

theorem role_change_requires_admin_witness:
  "(\<exists>e s'. update_user_group_role 2 ''ada'' [(''bob'', UserGroupRole.Admin)] sample_pool = (Inl e, s') \<and> db s' = db sample_pool) \<and>
   (\<exists>e s'. remove_user_group_role 2 ''ada'' [''ada''] sample_pool = (Inl e, s') \<and> db s' = db sample_pool)"
  by (rule role_change_requires_admin) (simp add: sample_defs)

text \<open>Raising the group quota of a user can take it away: the sum wraps around, and the negative result
  becomes zero.\<close>

lemma group_quota_increase_overflow:
  "fst (change_user_group_quota 7 ''ada'' ''+2147483647'' sample_pool) = Inr 0"
  by (simp add: change_user_group_quota_def find_user_by_name_def update_user_def upd_where_def parse_quota_def
      starts_with_def i32_from_str_def parse_nat_def digit_of_def wrap_i32_def machine_bounds run_defs sample_defs)

end
