(* ===== verification/Auth.thy ===== *)
theory Auth
  imports User_Group_Service
begin

text \<open>
  Login, password changes and the checks of bearer tokens (\<open>service/auth/mod.rs\<close>, \<open>service/auth/token.rs\<close>).

  The password hash, the signed token and the reading of a uuid belong to the crates \<open>argon2\<close>,
  \<open>jsonwebtoken\<close> and \<open>uuid\<close> and are fields of \<open>AuthExt\<close>. The claims, the date of a claim, and what is stored
  and compared on every path are those of the code. Random numbers are arguments of the functions that
  draw them, a \<open>u32\<close> each.
\<close>

section \<open>Tokens\<close>

record TokenClaims =
  sub :: string
  exp :: nanos
  sign :: i64

text \<open>A claim set as it is encoded: \<open>jwt_numeric_date\<close> writes whole seconds.\<close>

record RawClaims =
  raw_sub :: string
  raw_exp :: i64
  raw_sign :: i64

record AuthExt =
  hash_is_valid :: "string \<Rightarrow> bool"
  verify_password :: "string \<Rightarrow> string \<Rightarrow> bool"
  hash_password :: "string \<Rightarrow> string option"
  jwt_encode :: "RawClaims \<Rightarrow> string option"
  jwt_decode :: "nanos \<Rightarrow> string \<Rightarrow> RawClaims option"
  uuid_parse_str :: "string \<Rightarrow> uuid option"
  token_expires_in :: nanos

text \<open>An \<open>OffsetDateTime\<close> lies in the years -9999 to 9999; an addition that leaves them panics, which ends the
  request like an error.\<close>

definition is_date :: "nanos \<Rightarrow> bool" where
  "is_date date \<longleftrightarrow> secs (-377705116800) \<le> date \<and> date < secs 253402300800"

definition checked_date :: "nanos \<Rightarrow> nanos svc" where
  "checked_date date = (if is_date date then ret date else raise (Custom ''resulting value is out of range''))"

definition serialize_date :: "nanos \<Rightarrow> i64" where
  "serialize_date date = date div secs 1"

definition deserialize_date :: "i64 \<Rightarrow> nanos option" where
  "deserialize_date i = (if is_date (secs i) then Some (secs i) else None)"

definition encode_token :: "AuthExt \<Rightarrow> TokenClaims \<Rightarrow> string svc" where
  "encode_token ax claims =
     ok_or EncodeTokenError
       (jwt_encode ax \<lparr>raw_sub = sub claims, raw_exp = serialize_date (exp claims), raw_sign = sign claims\<rparr>)"

definition generate_token :: "AuthExt \<Rightarrow> nanos \<Rightarrow> string \<Rightarrow> i64 \<Rightarrow> string svc" where
  "generate_token ax now username sg =
     bindR (checked_date (now + token_expires_in ax)) (\<lambda>e.
     encode_token ax \<lparr>sub = username, exp = e, sign = sg\<rparr>)"

text \<open>\<open>lifetime\<close> is a \<open>std::time::Duration\<close>: a \<open>u64\<close> of seconds that may not fit \<open>time::Duration\<close>.\<close>

definition generate_worker_token :: "AuthExt \<Rightarrow> nanos \<Rightarrow> string \<Rightarrow> i64 \<Rightarrow> u64 option \<Rightarrow> string svc" where
  "generate_worker_token ax now username sg lifetime =
     bindR (case lifetime of
              Some ttl \<Rightarrow> if ttl \<le> i64_max then ret (secs ttl) else raise (api_invalid ''Invalid lifetime'')
            | None \<Rightarrow> ret (token_expires_in ax)) (\<lambda>token_ttl.
     bindR (checked_date (now + token_ttl)) (\<lambda>e.
     encode_token ax \<lparr>sub = username, exp = e, sign = sg\<rparr>))"

definition verify_token :: "AuthExt \<Rightarrow> nanos \<Rightarrow> string \<Rightarrow> TokenClaims option" where
  "verify_token ax now token =
     (case jwt_decode ax now token of
        None \<Rightarrow> None
      | Some r \<Rightarrow> map_option (\<lambda>e. \<lparr>sub = raw_sub r, exp = e, sign = raw_sign r\<rparr>) (deserialize_date (raw_exp r)))"

section \<open>Login and passwords\<close>

text \<open>\<open>(1 + next_u32()) as i64\<close>: the addition is on \<open>u32\<close>.\<close>

definition fresh_sign :: "int \<Rightarrow> i64" where
  "fresh_sign r = take_bit 32 (1 + r)"

definition login_sign :: "bool \<Rightarrow> int \<Rightarrow> UserRow \<Rightarrow> i64" where
  "login_sign retain random user =
     (if retain then (case u_auth_signature user of Some x \<Rightarrow> x | None \<Rightarrow> random) else fresh_sign random)"

definition signed_in :: "nanos \<Rightarrow> string \<Rightarrow> i64 \<Rightarrow> UserRow \<Rightarrow> UserRow \<Rightarrow> UserRow" where
  "signed_in now ip sg user u =
     u\<lparr>u_auth_signature := Some sg, u_current_sign_in_at := Some now,
       u_last_sign_in_at := u_current_sign_in_at user, u_current_sign_in_ip := Some ip,
       u_last_sign_in_ip := u_current_sign_in_ip user, u_updated_at := now\<rparr>"

definition user_login ::
  "AuthExt \<Rightarrow> nanos \<Rightarrow> int \<Rightarrow> string \<Rightarrow> string \<Rightarrow> bool \<Rightarrow> string \<Rightarrow> string svc" where
  "user_login ax now random username md5_password retain ip =
     bindR (query (find_user_by_name username)) (\<lambda>found.
     case found of
       None \<Rightarrow> raise (AuthErr WrongCredentials)
     | Some user \<Rightarrow>
         thenR (ensure (u_state user = UserState.Active) (AuthErr PermissionDenied))
         (thenR (ensure (hash_is_valid ax (u_encrypted_password user)) EncryptError)
         (if verify_password ax md5_password (u_encrypted_password user) then
            let sg = login_sign retain random user
            in bindR (generate_token ax now username sg) (\<lambda>token.
               thenR (db_stmt (update_user (u_id user) (signed_in now ip sg user)))
                 (ret token))
          else raise (AuthErr WrongCredentials))))"

definition user_change_password ::
  "AuthExt \<Rightarrow> nanos \<Rightarrow> int \<Rightarrow> i64 \<Rightarrow> string \<Rightarrow> string \<Rightarrow> string \<Rightarrow> string \<Rightarrow> string svc" where
  "user_change_password ax now random user_id ip username old_md5_password new_md5_password =
     bindR (query (\<lambda>d. find (\<lambda>u. u_id u = user_id) (users d))) (\<lambda>found.
     bindR (ok_or (api_not_found ''User not found'') found) (\<lambda>user.
     thenR (ensure (u_username user = username) (AuthErr WrongCredentials))
     (thenR (ensure (u_state user = UserState.Active) (AuthErr PermissionDenied))
     (thenR (ensure (hash_is_valid ax (u_encrypted_password user)) EncryptError)
     (if verify_password ax old_md5_password (u_encrypted_password user) then
        bindR (ok_or EncryptError (hash_password ax new_md5_password)) (\<lambda>password_hash.
        bindR (generate_token ax now username random) (\<lambda>token.
        thenR (db_stmt (update_user (u_id user)
                 (\<lambda>u. (signed_in now ip random user u)\<lparr>u_encrypted_password := password_hash\<rparr>)))
          (ret token)))
      else raise (AuthErr WrongCredentials))))))"

definition admin_change_password ::
  "AuthExt \<Rightarrow> nanos \<Rightarrow> int \<Rightarrow> string \<Rightarrow> string \<Rightarrow> unit svc" where
  "admin_change_password ax now random username new_md5_password =
     bindR (query (find_user_by_name username)) (\<lambda>found.
     bindR (ok_or (api_not_found ''User not found'') found) (\<lambda>user.
     bindR (ok_or EncryptError (hash_password ax new_md5_password)) (\<lambda>password_hash.
     thenR (db_stmt (update_user (u_id user)
              (\<lambda>u. u\<lparr>u_encrypted_password := password_hash, u_auth_signature := Some random, u_updated_at := now\<rparr>)))
       (ret ()))))"

section \<open>The checks of the middlewares\<close>

type_synonym 'a auth = "(Pool, AuthError, 'a) rm"

definition claimed_user :: "AuthExt \<Rightarrow> nanos \<Rightarrow> string \<Rightarrow> (TokenClaims \<times> UserRow) auth" where
  "claimed_user ax now token =
     bindR (ok_or InvalidToken (verify_token ax now token)) (\<lambda>claims.
     thenR (ensure (\<not> exp claims < now) WrongCredentials)
     (bindR (map_err (\<lambda>_. WrongCredentials) (query (find_user_by_name (sub claims)))) (\<lambda>found.
      bindR (ok_or WrongCredentials found) (\<lambda>user. ret (claims, user)))))"

definition user_auth :: "AuthExt \<Rightarrow> nanos \<Rightarrow> string \<Rightarrow> UserRow auth" where
  "user_auth ax now token =
     bindR (claimed_user ax now token) (\<lambda>(claims, user).
     if u_state user \<noteq> UserState.Active then raise PermissionDenied
     else if u_auth_signature user \<noteq> Some (sign claims) then raise WrongCredentials
     else ret user)"

definition admin_auth :: "AuthExt \<Rightarrow> nanos \<Rightarrow> string \<Rightarrow> i64 auth" where
  "admin_auth ax now token =
     bindR (claimed_user ax now token) (\<lambda>(claims, user).
     if u_admin user then
       if u_state user \<noteq> UserState.Active then raise PermissionDenied
       else if u_auth_signature user \<noteq> Some (sign claims) then raise WrongCredentials
       else ret (u_id user)
     else raise PermissionDenied)"

definition worker_auth :: "AuthExt \<Rightarrow> nanos \<Rightarrow> string \<Rightarrow> (i64 \<times> uuid) auth" where
  "worker_auth ax now token =
     bindR (ok_or InvalidToken (verify_token ax now token)) (\<lambda>claims.
     bindR (ok_or InvalidToken (uuid_parse_str ax (sub claims))) (\<lambda>uuid.
     bindR (map_err (\<lambda>_. WrongCredentials) (query (\<lambda>d. find (\<lambda>w. w_worker_id w = uuid) (workers d)))) (\<lambda>found.
     bindR (ok_or WrongCredentials found) (\<lambda>worker. ret (w_id worker, uuid)))))"

section \<open>Invariants of the task store\<close>

lemma keeps_db_generate_token [keeps_intros]:
  "keeps_db I (generate_token ax now name sg)" "keeps_db I (generate_worker_token ax now name sg lt)"
  by (auto simp: generate_token_def generate_worker_token_def encode_token_def checked_date_def intro!: keeps_intros)

context task_store
begin

lemma keeps_auth_services:
  "keeps_db I (user_login ax now r name pw retain ip)"
  "keeps_db I (user_change_password ax now r uid ip name old new)"
  "keeps_db I (admin_change_password ax now r name new)"
  by (auto simp: user_login_def user_change_password_def admin_change_password_def Let_def
      intro!: keeps_intros keeps_user_stmts)

end

section \<open>Sessions\<close>

text \<open>A date survives its encoding up to the fraction of a second.\<close>

lemma date_roundtrip:
  assumes "is_date t"
  shows "\<exists>t'. deserialize_date (serialize_date t) = Some t' \<and> t' \<le> t \<and> t < t' + secs 1"
proof -
  have "t = 1000000000 * (t div 1000000000) + t mod 1000000000" by simp
  moreover have "0 \<le> t mod 1000000000" "t mod 1000000000 < 1000000000" by simp_all
  ultimately show ?thesis
    using assms by (auto simp: deserialize_date_def serialize_date_def is_date_def secs_def)
qed

definition users_inv :: "Db \<Rightarrow> bool" where
  "users_inv d \<longleftrightarrow> distinct (map u_id (users d)) \<and> distinct (map u_username (users d))"

lemma find_user_by_name_Some: "find_user_by_name name d = Some u \<Longrightarrow> u \<in> set (users d) \<and> u_username u = name"
  by (auto simp: find_user_by_name_def dest!: find_SomeD)

lemma find_user_after_update:
  assumes I: "users_inv d" and u: "u \<in> set (users d)" and up: "update_user (u_id u) f d = Inr (x, d')"
    and f: "u_username (f u) = u_username u"
  shows "find_user_by_name (u_username u) d' = Some (f u)"
proof -
  have only: "x = u" if "x \<in> set (users d)" "u_id x = u_id u" for x
    using I u that unfolding users_inv_def by (metis distinct_map_key)
  have "users d' = map (\<lambda>x. if u_id x = u_id u then f x else x) (users d)"
    using up by (auto simp: update_user_def upd_where_def split: option.splits)
  moreover have "map u_username (map (\<lambda>x. if u_id x = u_id u then f x else x) (users d)) = map u_username (users d)"
    using only f by (auto simp: map_eq_conv)
  ultimately have "distinct (map u_username (users d'))" "f u \<in> set (users d')"
    using I u by (metis users_inv_def, force simp: image_iff)
  then show ?thesis unfolding find_user_by_name_def using find_unique_key [of u_username "users d'" "f u"] f by simp
qed

text \<open>The checks as functions of the stored user.\<close>

lemma user_auth_refuses:
  assumes "verify_token ax now t = Some c" and "find_user_by_name (sub c) (db s) = Some u"
    and "u_auth_signature u \<noteq> Some (sign c)"
  shows "(\<exists>e s'. user_auth ax now t s = (Inl e, s')) \<and> (\<exists>e s'. admin_auth ax now t s = (Inl e, s'))"
proof -
  have "wp (user_auth ax now t) (\<lambda>_ _. False) (\<lambda>_ _. True) s" "wp (admin_auth ax now t) (\<lambda>_ _. False) (\<lambda>_ _. True) s"
    using assms by (simp_all add: user_auth_def admin_auth_def claimed_user_def wp_eqs)
  then show ?thesis by (auto simp: wp_def split: prod.splits sum.splits)
qed

lemma user_auth_accepts:
  assumes "verify_token ax now t = Some c" and "find_user_by_name (sub c) (db s) = Some u"
    and "u_auth_signature u = Some (sign c)" and "u_state u = UserState.Active" and "now \<le> exp c" and "faults s = []"
  shows "fst (user_auth ax now t s) = Inr u"
proof -
  have "wp (user_auth ax now t) (\<lambda>a _. a = u) (\<lambda>_ _. False) s"
    using assms by (simp add: user_auth_def claimed_user_def wp_eqs)
  then show ?thesis by (auto simp: wp_total_iff)
qed

text \<open>C33. Changing a password ends every other session: after the user's own change or an administrator's,
  no token of that user passes the user check or the admin check unless it carries the number drawn for
  the change.\<close>

theorem password_change_revokes_tokens:
  assumes "users_inv (db s)"
    and "user_change_password ax now r uid ip name old new s = (Inr tok, s') \<or>
         admin_change_password ax now r name new s = (Inr (), s')"
    and "verify_token ax now' t = Some c" and "sub c = name" and "sign c \<noteq> r"
  shows "(\<exists>e s''. user_auth ax now' t s' = (Inl e, s'')) \<and> (\<exists>e s''. admin_auth ax now' t s' = (Inl e, s''))"
proof -
  let ?Q = "\<lambda>d. \<exists>u. find_user_by_name name d = Some u \<and> u_auth_signature u = Some r"
  have new: "\<exists>v. find_user_by_name (u_username u) d' = Some v \<and> u_auth_signature v = Some r"
    if "update_user (u_id u) f (db s) = Inr (x, d')" "u \<in> set (users (db s))"
      "\<And>y. u_username (f y) = u_username y" "\<And>y. u_auth_signature (f y) = Some r" for u f x d'
    using find_user_after_update [OF assms(1) that(2,1,3)] that(4) by auto
  have "wp (user_change_password ax now r uid ip name old new) (\<lambda>_ s'. ?Q (db s')) (\<lambda>_ _. True) s"
    by (auto simp: user_change_password_def generate_token_def encode_token_def checked_date_def wp_eqs
        split: option.splits sum.splits dest!: find_SomeD elim!: new simp: signed_in_def)
  moreover have "wp (admin_change_password ax now r name new) (\<lambda>_ s'. ?Q (db s')) (\<lambda>_ _. True) s"
    by (auto simp: admin_change_password_def wp_eqs
        split: option.splits sum.splits dest!: find_user_by_name_Some elim!: new)
  ultimately have "?Q (db s')" using assms(2) by (auto simp: wp_ok_iff)
  then show ?thesis using user_auth_refuses [OF assms(3)] assms(4,5) by fastforce
qed

definition one_token_ext :: "RawClaims \<Rightarrow> AuthExt" where
  "one_token_ext c = \<lparr>hash_is_valid = (\<lambda>_. True), verify_password = (\<lambda>p h. p = h), hash_password = Some,
     jwt_encode = (\<lambda>x. if x = c then Some ''token'' else None),
     jwt_decode = (\<lambda>_ t. if t = ''token'' then Some c else None),
     uuid_parse_str = (\<lambda>_. None), token_expires_in = secs 3600\<rparr>"

definition sample_claims :: "i64 \<Rightarrow> RawClaims" where
  "sample_claims sg = \<lparr>raw_sub = ''ada'', raw_exp = 3600, raw_sign = sg\<rparr>"

theorem password_change_revokes_tokens_witness:
  "\<exists>s'. admin_change_password (one_token_ext (sample_claims 5)) 0 6 ''ada'' ''new'' sample_pool = (Inr (), s') \<and>
     (\<exists>e s''. user_auth (one_token_ext (sample_claims 5)) 1 ''token'' s' = (Inl e, s'')) \<and>
     (\<exists>e s''. admin_auth (one_token_ext (sample_claims 5)) 1 ''token'' s' = (Inl e, s''))"
proof -
  let ?ax = "one_token_ext (sample_claims 5)"
  obtain s' where s': "admin_change_password ?ax 0 6 ''ada'' ''new'' sample_pool = (Inr (), s')"
    by (simp add: admin_change_password_def find_user_by_name_def update_user_def one_token_ext_def sample_defs run_defs)
  have "verify_token ?ax 1 ''token'' = Some \<lparr>sub = ''ada'', exp = secs 3600, sign = 5\<rparr>"
    by (simp add: verify_token_def one_token_ext_def sample_claims_def deserialize_date_def is_date_def secs_def)
  from password_change_revokes_tokens [OF _ disjI2 [OF s'] this] s' show ?thesis
    by (simp add: users_inv_def sample_defs)
qed

text \<open>A token that was encoded is verified until the second in which it expires.\<close>

definition jwt_sound :: "AuthExt \<Rightarrow> bool" where
  "jwt_sound ax \<longleftrightarrow> (\<forall>c t n. jwt_encode ax c = Some t \<and> n \<le> secs (raw_exp c) \<longrightarrow> jwt_decode ax n t = Some c)"

lemma encoded_token_verified:
  assumes jwt: "jwt_sound ax"
    and enc: "jwt_encode ax \<lparr>raw_sub = n, raw_exp = serialize_date e, raw_sign = sg\<rparr> = Some t"
    and date: "is_date e" and "now' + secs 1 \<le> e"
  shows "\<exists>c. verify_token ax now' t = Some c \<and> sub c = n \<and> sign c = sg \<and> now' \<le> exp c"
proof -
  obtain e' where e': "deserialize_date (serialize_date e) = Some e'" "e < e' + secs 1"
    using date_roundtrip [OF date] by blast
  then have "e' = secs (serialize_date e)" by (auto simp: deserialize_date_def split: if_splits)
  moreover from this have "now' \<le> secs (serialize_date e)" using e'(2) assms(4) by simp
  then have "jwt_decode ax now' t = Some \<lparr>raw_sub = n, raw_exp = serialize_date e, raw_sign = sg\<rparr>"
    using jwt enc by (simp add: jwt_sound_def)
  ultimately show ?thesis using e' assms(4) by (simp add: verify_token_def)
qed

text \<open>C36. The token of a login works: while the tables stay as the login left them it is accepted until the
  second in which it expires, and it stands for the active user who logged in. The round trip of the token
  encoding is documented behaviour of the \<open>jsonwebtoken\<close> crate.\<close>

theorem login_token_accepted:
  assumes "users_inv (db s)"
    and jwt: "\<And>c t n. jwt_encode ax c = Some t \<Longrightarrow> n \<le> secs (raw_exp c) \<Longrightarrow> jwt_decode ax n t = Some c"
    and "user_login ax now r name pw retain ip s = (Inr tok, s')" and "faults s' = []"
    and "now' + secs 1 \<le> now + token_expires_in ax"
  shows "\<exists>u. fst (user_auth ax now' tok s') = Inr u \<and> u_username u = name \<and> u_state u = UserState.Active \<and>
     verify_password ax pw (u_encrypted_password u)"
proof -
  let ?Q = "\<lambda>name tok d. \<exists>u. find_user_by_name name d = Some u \<and> u_state u = UserState.Active \<and>
     verify_password ax pw (u_encrypted_password u) \<and> (\<exists>c. verify_token ax now' tok = Some c \<and>
       sub c = name \<and> u_auth_signature u = Some (sign c) \<and> now' \<le> exp c)"
  have "jwt_sound ax" using jwt by (simp add: jwt_sound_def)
  note tok = encoded_token_verified [OF this _ _ assms(5)]
  have new: "?Q (u_username u) t d'"
    if "update_user (u_id u) (signed_in now ip sg u) (db s) = Inr (x, d')" "u \<in> set (users (db s))"
      "jwt_encode ax \<lparr>raw_sub = u_username u, raw_exp = serialize_date (now + token_expires_in ax), raw_sign = sg\<rparr> = Some t"
      "is_date (now + token_expires_in ax)" "u_state u = UserState.Active"
      "verify_password ax pw (u_encrypted_password u)" for t sg u x d'
    using find_user_after_update [OF assms(1) that(2,1)] that(5,6) tok [OF that(3,4)] by (auto simp: signed_in_def)
  have "wp (user_login ax now r name pw retain ip) (\<lambda>tok s'. ?Q name tok (db s')) (\<lambda>_ _. True) s"
    unfolding user_login_def generate_token_def encode_token_def checked_date_def Let_def
    by (auto simp: wp_eqs split: option.splits sum.splits dest!: find_user_by_name_Some elim!: new)
  then obtain u c where "find_user_by_name name (db s') = Some u" "u_state u = UserState.Active"
      "verify_password ax pw (u_encrypted_password u)" "verify_token ax now' tok = Some c"
      "sub c = name" "u_auth_signature u = Some (sign c)" "now' \<le> exp c"
    using assms(3) by (auto simp: wp_ok_iff)
  then show ?thesis using user_auth_accepts [of ax now' tok c s' u] assms(4) by (auto dest: find_user_by_name_Some)
qed

theorem login_token_accepted_witness:
  "\<exists>s' u. user_login (one_token_ext (sample_claims 8)) 0 7 ''ada'' ''h'' False ''::1'' sample_pool = (Inr ''token'', s') \<and>
     fst (user_auth (one_token_ext (sample_claims 8)) (secs 3599) ''token'' s') = Inr u \<and> u_username u = ''ada''"
proof -
  let ?ax = "one_token_ext (sample_claims 8)"
  obtain s' where s': "user_login ?ax 0 7 ''ada'' ''h'' False ''::1'' sample_pool = (Inr ''token'', s')" "faults s' = []"
    by (simp add: user_login_def generate_token_def encode_token_def checked_date_def is_date_def serialize_date_def
        find_user_by_name_def update_user_def one_token_ext_def sample_claims_def fresh_sign_def login_sign_def secs_def sample_defs run_defs)
  have "jwt_decode ?ax n t = Some c" if "jwt_encode ?ax c = Some t" for c t n
    using that by (auto simp: one_token_ext_def split: if_splits)
  from login_token_accepted [OF _ this s', of "secs 3599"] s'(1) show ?thesis
    by (force simp: users_inv_def sample_defs one_token_ext_def secs_def)
qed

end
