(* ===== verification/Task_Service.thy ===== *)
theory Task_Service
  imports Task_Tables
begin

text \<open>
  The operations on single tasks (\<open>service/task.rs\<close>): submission by users and workers, triggering of
  pending tasks, changes, labels, cancellation and batch submission. The current time and the fresh
  \<open>Uuid::new_v4()\<close> of a call are arguments. An error message is the fixed part of its text, with the
  names it interpolates where the model keeps them as strings. Serialisation of a specification or
  result to JSON does not fail.
\<close>

section \<open>Checking a task specification\<close>

text \<open>\<open>Path::is_absolute\<close> and the \<open>ParentDir\<close> components of a path, as on Unix.\<close>

definition path_is_absolute :: "string \<Rightarrow> bool" where
  "path_is_absolute p = starts_with ''/'' p"

definition has_parent_dir :: "string \<Rightarrow> bool" where
  "has_parent_dir p \<longleftrightarrow> ''..'' \<in> set (split_on CHR ''/'' p)"

definition check_task_spec :: "TaskSpec \<Rightarrow> unit svc" where
  "check_task_spec spec =
     ensure (\<not> (\<exists>r \<in> set (resources spec).
               path_is_absolute (local_path r) \<or> has_parent_dir (local_path r)))
       (api_invalid ''Resource local path is absolute or contains `..`'')"

text \<open>\<open>Path::join\<close>, and where the worker stores a resource (\<open>worker.rs\<close>): below the directory
  \<open>resource\<close> of its cache.\<close>

definition path_join :: "string \<Rightarrow> string \<Rightarrow> string" where
  "path_join base p =
     (if path_is_absolute p then p
      else base @ (if base = [] \<or> last base = CHR ''/'' then [] else ''/'') @ p)"

definition resource_path :: "string \<Rightarrow> string \<Rightarrow> string" where
  "resource_path task_cache_path p = path_join (path_join task_cache_path ''resource'') p"

text \<open>The directories a path leads through, read lexically.\<close>

definition path_step :: "string \<Rightarrow> string list \<Rightarrow> string list" where
  "path_step c dirs = (if c = [] \<or> c = ''.'' then dirs else if c = ''..'' then butlast dirs else dirs @ [c])"

definition resolve :: "string \<Rightarrow> string list" where
  "resolve p = fold path_step (split_on CHR ''/'' p) []"

section \<open>Submission\<close>

definition new_task :: "nanos \<Rightarrow> uuid \<Rightarrow> i64 \<Rightarrow> GroupRow \<Rightarrow> TaskState \<Rightarrow> uuid option \<Rightarrow> SubmitTaskReq \<Rightarrow> TaskRow" where
  "new_task now uuid creator_id grp st upstream req =
     \<lparr>t_id = 0, t_creator_id = creator_id, t_group_id = g_id grp, t_task_id = g_task_count grp,
      t_uuid = uuid, t_tags = st_tags req, t_labels = st_labels req, t_created_at = now,
      t_updated_at = now, t_state = st, t_assigned_worker = None,
      t_timeout = wrap_i64 (st_timeout req), t_priority = st_priority req,
      t_spec = st_task_spec req, t_result = None, t_upstream_task_uuid = upstream,
      t_downstream_task_uuid = None\<rparr>"

text \<open>The first part that both kinds of submission share: the group's counter, the check of the
  specification, and the row.\<close>

definition submit_row ::
  "nanos \<Rightarrow> uuid \<Rightarrow> i64 \<Rightarrow> TaskState \<Rightarrow> uuid option \<Rightarrow> SubmitTaskReq \<Rightarrow> TaskRow svc" where
  "submit_row now uuid creator_id st upstream req =
     bindR (exec (inc_task_count now (st_group_name req))) (\<lambda>grps.
       case grps of
         [] \<Rightarrow> raise (api_not_found (''User or group with name '' @ st_group_name req))
       | g # _ \<Rightarrow>
           thenR (check_task_spec (st_task_spec req))
             (db_stmt (insert_active_task (new_task now uuid creator_id g st upstream req))))"

text \<open>The last part of the operations that make a task ready: it is offered to the eligible workers.\<close>

definition offer_task :: "TaskRow \<Rightarrow> string \<Rightarrow> unit svc" where
  "offer_task task failure =
     bindR (query (eligible_workers (t_group_id task) (t_tags task))) (\<lambda>workers.
       send_task (BatchAddTask workers (t_id task) (t_priority task)) failure)"

definition submit_resp :: "TaskRow \<Rightarrow> SubmitTaskResp" where
  "submit_resp task = \<lparr>sr_task_id = t_task_id task, sr_uuid = t_uuid task\<rparr>"

definition user_submit_task :: "nanos \<Rightarrow> uuid \<Rightarrow> i64 \<Rightarrow> SubmitTaskReq \<Rightarrow> SubmitTaskResp svc" where
  "user_submit_task now uuid creator_id req =
     bindR (submit_row now uuid creator_id TaskState.Ready None req) (\<lambda>task.
       thenR (offer_task task ''send batch add task failed'')
         (ret (submit_resp task)))"

definition worker_submit_pending_task ::
  "nanos \<Rightarrow> uuid \<Rightarrow> i64 \<Rightarrow> uuid \<Rightarrow> SubmitTaskReq \<Rightarrow> SubmitTaskResp svc" where
  "worker_submit_pending_task now uuid creator_id upstream_task_uuid req =
     bindR (submit_row now uuid creator_id TaskState.Pending (Some upstream_task_uuid) req) (\<lambda>task.
       ret (submit_resp task))"

definition worker_trigger_pending_task :: "nanos \<Rightarrow> uuid \<Rightarrow> unit svc" where
  "worker_trigger_pending_task now uuid =
     bindR (query (\<lambda>d. find (\<lambda>t. t_uuid t = uuid \<and> t_state t = TaskState.Pending) (active_tasks d))) (\<lambda>found.
     bindR (ok_or (api_not_found ''Pending task with uuid'') found) (\<lambda>task.
     bindR (db_stmt (update_active_task (t_id task)
              (\<lambda>t. t\<lparr>t_state := TaskState.Ready, t_updated_at := now\<rparr>))) (\<lambda>task.
       offer_task task ''send batch add task failed'')))"

text \<open>The results of a batch are the results of the submissions one after the other; a failed one does
  not stop the others. Each submission has its own time and fresh uuid.\<close>

fun batch_submit_loop ::
  "i64 \<Rightarrow> (nanos \<times> uuid \<times> SubmitTaskReq) list \<Rightarrow> (ApiError + SubmitTaskResp) list svc" where
  "batch_submit_loop user_id [] = ret []"
| "batch_submit_loop user_id ((now, uuid, req) # reqs) =
     bindR (attempt (user_submit_task now uuid user_id req)) (\<lambda>r.
     bindR (batch_submit_loop user_id reqs) (\<lambda>rs.
       ret ((case r of Inl e \<Rightarrow> Inl (user_api_error e) | Inr x \<Rightarrow> Inr x) # rs)))"

definition user_batch_submit_tasks ::
  "i64 \<Rightarrow> (nanos \<times> uuid \<times> SubmitTaskReq) list \<Rightarrow> (ApiError + SubmitTaskResp) list svc" where
  "user_batch_submit_tasks user_id tasks =
     thenR (ensure (tasks \<noteq> []) (api_invalid ''Tasks list cannot be empty''))
       (batch_submit_loop user_id tasks)"

section \<open>Changes and cancellation\<close>

text \<open>The caller's role in the group of a task has to be \<open>Write\<close> or \<open>Admin\<close>.\<close>

definition require_group_writer :: "i64 \<Rightarrow> i64 \<Rightarrow> unit svc" where
  "require_group_writer user_id group_id =
     bindR (query (\<lambda>d. find (\<lambda>ug. ug_user_id ug = user_id \<and> ug_group_id ug = group_id) (user_groups d))) (\<lambda>found.
     bindR (ok_or (api_invalid ''User is not in the group'') found) (\<lambda>ug.
       ensure (ug_role ug \<in> {UserGroupRole.Admin, UserGroupRole.Write}) perm_denied))"

definition change_task :: "nanos \<Rightarrow> ChangeTaskReq \<Rightarrow> TaskRow \<Rightarrow> TaskRow" where
  "change_task now req t =
     t\<lparr>t_updated_at := now,
       t_tags := (case ct_tags req of Some tags \<Rightarrow> tags | None \<Rightarrow> t_tags t),
       t_spec := (case ct_task_spec req of Some spec \<Rightarrow> spec | None \<Rightarrow> t_spec t),
       t_timeout := (case ct_timeout req of Some timeout \<Rightarrow> wrap_i64 timeout | None \<Rightarrow> t_timeout t),
       t_priority := (case ct_priority req of Some priority \<Rightarrow> priority | None \<Rightarrow> t_priority t)\<rparr>"

definition find_ready_task :: "uuid \<Rightarrow> TaskRow svc" where
  "find_ready_task uuid =
     bindR (query (\<lambda>d. find (\<lambda>t. t_uuid t = uuid \<and> t_state t = TaskState.Ready) (active_tasks d)))
       (ok_or (api_not_found ''Task with uuid''))"

definition user_change_task :: "nanos \<Rightarrow> i64 \<Rightarrow> uuid \<Rightarrow> ChangeTaskReq \<Rightarrow> unit svc" where
  "user_change_task now user_id uuid req =
     thenR (ensure (\<not> (ct_tags req = None \<and> ct_timeout req = None \<and> ct_priority req = None \<and> ct_task_spec req = None))
              (api_invalid ''No change specified''))
     (bindR (transaction
        (bindR (find_ready_task uuid) (\<lambda>task.
         thenR (require_group_writer user_id (t_group_id task))
         (thenR (case ct_task_spec req of Some spec \<Rightarrow> check_task_spec spec | None \<Rightarrow> ret ())
           (db_stmt (update_active_task (t_id task) (change_task now req))))))) (\<lambda>task.
      bindR (query (eligible_workers (t_group_id task) (t_tags task))) (\<lambda>workers.
      thenR (send_task (RemoveTask (t_id task)) ''send remove task op failed'')
        (send_task (BatchAddTask workers (t_id task) (t_priority task)) ''send batch add task op failed''))))"

definition user_change_task_labels :: "nanos \<Rightarrow> i64 \<Rightarrow> uuid \<Rightarrow> string list \<Rightarrow> unit svc" where
  "user_change_task_labels now user_id uuid labels =
     transaction
       (bindR (query (\<lambda>d. find (\<lambda>t. t_uuid t = uuid) (active_tasks d))) (\<lambda>active.
        case active of
          Some task \<Rightarrow>
            thenR (require_group_writer user_id (t_group_id task))
            (thenR (db_stmt (update_active_task (t_id task) (\<lambda>t. t\<lparr>t_updated_at := now, t_labels := labels\<rparr>)))
              (ret ()))
        | None \<Rightarrow>
            bindR (query (\<lambda>d. find (\<lambda>t. t_uuid t = uuid) (archived_tasks d))) (\<lambda>found.
            bindR (ok_or (api_not_found ''Task with uuid'') found) (\<lambda>task.
            thenR (require_group_writer user_id (t_group_id task))
            (thenR (db_stmt (update_archived_task (t_id task) (relabel labels now)))
              (ret ()))))))"

definition user_cancellation :: TaskResultSpec where
  "user_cancellation = \<lparr>exit_status = 0, msg = Some UserCancellation\<rparr>"

definition cancelled_row :: "nanos \<Rightarrow> TaskRow \<Rightarrow> ArchivedRow" where
  "cancelled_row now task =
     (archive_of task)\<lparr>t_updated_at := now, t_state := TaskState.Cancelled,
        t_result := Some user_cancellation, r_reporter_uuid := None\<rparr>"

text \<open>\<open>remove_task\<close> of \<open>service/worker/mod.rs\<close>; most callers drop its error.\<close>

definition remove_task :: "i64 \<Rightarrow> unit svc" where
  "remove_task task_id = send_task (RemoveTask task_id) ''send remove task failed''"

definition user_cancel_task :: "nanos \<Rightarrow> i64 \<Rightarrow> uuid \<Rightarrow> unit svc" where
  "user_cancel_task now user_id uuid =
     bindR (transaction
        (bindR (find_ready_task uuid) (\<lambda>task.
         thenR (require_group_writer user_id (t_group_id task))
         (thenR (db_stmt (insert_archived_task (cancelled_row now task)))
         (thenR (exec (delete_active_task (t_id task)))
           (ret (t_id task))))))) (\<lambda>task_id.
      thenR (attempt (remove_task task_id) :: (Error + unit) svc)
        (ret ()))"

section \<open>Resource paths\<close>

lemma fold_path_step_append:
  "''..'' \<notin> set cs \<Longrightarrow> \<exists>rel. fold path_step cs dirs = dirs @ rel"
proof (induction cs arbitrary: dirs)
  case (Cons c cs)
  obtain rel where "fold path_step cs (path_step c dirs) = path_step c dirs @ rel"
    using Cons by auto
  moreover have "\<exists>x. path_step c dirs = dirs @ x" using Cons.prems by (auto simp: path_step_def)
  ultimately show ?case by auto
qed simp

lemma resolve_join:
  assumes "\<not> path_is_absolute p" and "\<not> has_parent_dir p"
  shows "\<exists>rel. resolve (path_join base p) = resolve base @ rel"
proof -
  let ?cs = "split_on CHR ''/'' p"
  have cs: "''..'' \<notin> set ?cs" using assms(2) by (simp add: has_parent_dir_def)
  consider "base = []" | b where "base = b @ ''/''" | "base \<noteq> []" "last base \<noteq> CHR ''/''"
    by (metis append_butlast_last_id)
  then show ?thesis
  proof cases
    case 1
    then show ?thesis using assms(1) by (simp add: path_join_def resolve_def path_step_def)
  next
    case (2 b)
    then have "resolve (path_join base p) = fold path_step ?cs (resolve base)"
      using assms(1) split_on_append_sep [of "CHR ''/''" b p] split_on_append_sep [of "CHR ''/''" b "[]"]
      by (simp add: path_join_def resolve_def path_step_def)
    then show ?thesis using fold_path_step_append [OF cs] by metis
  next
    case 3
    then have "resolve (path_join base p) = fold path_step ?cs (resolve base)"
      using assms(1) by (simp add: path_join_def resolve_def split_on_append_sep)
    then show ?thesis using fold_path_step_append [OF cs] by metis
  qed
qed

text \<open>C32. A specification that passes \<open>check_task_spec\<close> cannot make a worker write outside the resource
  directory of its cache: read lexically, the path of every resource stays below that directory.\<close>

theorem checked_resources_stay_inside:
  assumes "check_task_spec spec s = (Inr (), s')" and "r \<in> set (resources spec)"
  shows "\<exists>rel. resolve (resource_path cache (local_path r)) = resolve (path_join cache ''resource'') @ rel"
proof -
  have "\<not> path_is_absolute (local_path r)" "\<not> has_parent_dir (local_path r)"
    using assms by (auto simp: check_task_spec_def ensure_def raise_def split: if_splits)
  then show ?thesis unfolding resource_path_def by (rule resolve_join)
qed

definition sample_spec :: "string \<Rightarrow> TaskSpec" where
  "sample_spec p = \<lparr>args = [''run''], envs = [], resources = [\<lparr>remote_file = Attachment ''k'', local_path = p\<rparr>],
     terminal_output = False, watch = None\<rparr>"

theorem checked_resources_stay_inside_witness:
  "\<exists>rel. resolve (resource_path ''/cache'' ''a/./b'') = resolve (path_join ''/cache'' ''resource'') @ rel"
proof -
  let ?r = "\<lparr>remote_file = Attachment ''k'', local_path = ''a/./b''\<rparr>"
  have "check_task_spec (sample_spec ''a/./b'') s = (Inr (), s)" for s
    by (simp add: check_task_spec_def ensure_def ret_def sample_spec_def path_is_absolute_def
        has_parent_dir_def starts_with_def)
  from checked_resources_stay_inside [OF this, of ?r "''/cache''"] show ?thesis
    by (simp add: sample_spec_def)
qed

section \<open>Invariants of the task store\<close>

lemma new_task_new_row: "unassigned_state st \<Longrightarrow> new_task_row g (new_task now uuid c g st up req)"
  by (simp add: new_task_def new_task_row_def)

lemma task_trans_change [simp]: "task_trans t (change_task now req t)"
  by (rule tt_edit) (simp_all add: change_task_def task_ident_def)

lemma archives_cancelled_row [simp]: "archives t (cancelled_row now t)"
  by (simp add: archives_def cancelled_row_def task_ident_def)

lemma keeps_db_offer_task [keeps_intros]: "keeps_db I (offer_task task m)"
  by (simp add: offer_task_def keeps_intros)

lemma keeps_db_check_task_spec [keeps_intros]: "keeps_db I (check_task_spec spec)"
  by (simp add: check_task_spec_def keeps_intros)

lemma keeps_db_require_group_writer [keeps_intros]: "keeps_db I (require_group_writer u g)"
  by (auto simp: require_group_writer_def intro!: keeps_intros)

lemma keeps_db_find_ready_task [keeps_intros]: "keeps_db I (find_ready_task uuid)"
  by (auto simp: find_ready_task_def intro!: keeps_intros)

lemma keeps_db_attempt [keeps_intros]: "keeps_db I m \<Longrightarrow> keeps_db I (attempt m)"
  by (simp add: keeps_db_def keeps_intros)

lemma keeps_db_remove_task [keeps_intros]: "keeps_db I (remove_task i)"
  by (simp add: remove_task_def keeps_intros)

context task_store
begin

lemma keeps_submit_row:
  assumes "unassigned_state st"
  shows "keeps_db I (submit_row now uuid c st up req)"
proof (rule keeps_dbI)
  fix s :: Pool assume I: "I (db s)"
  obtain grps d1 where inc: "inc_task_count now (st_group_name req) (db s) = (grps, d1)" by fastforce
  have "I d1" using count [OF I, of now "st_group_name req"] inc by simp
  then show "wp (submit_row now uuid c st up req) (\<lambda>_ t. I (db t)) (\<lambda>_ t. I (db t)) s"
    using I inc
    by (auto simp: submit_row_def check_task_spec_def wp_eqs split: list.splits sum.splits
        intro: submit [OF I _ new_task_new_row [OF assms]])
qed

lemma keeps_user_submit_task: "keeps_db I (user_submit_task now uuid c req)"
  by (auto simp: user_submit_task_def intro!: keeps_intros keeps_submit_row)

lemma keeps_worker_submit_pending_task: "keeps_db I (worker_submit_pending_task now uuid c up req)"
  by (auto simp: worker_submit_pending_task_def intro!: keeps_intros keeps_submit_row)

lemma keeps_batch_submit_loop: "keeps_db I (batch_submit_loop u reqs)"
  by (induction u reqs rule: batch_submit_loop.induct)
     (auto intro!: keeps_intros keeps_user_submit_task)

lemma keeps_user_batch_submit_tasks: "keeps_db I (user_batch_submit_tasks u reqs)"
  by (auto simp: user_batch_submit_tasks_def intro!: keeps_intros keeps_batch_submit_loop)

text \<open>The task found pending is still there when it is updated.\<close>

lemma keeps_worker_trigger_pending_task: "keeps_db I (worker_trigger_pending_task now uuid)"
proof (rule keeps_dbI)
  fix s :: Pool assume I: "I (db s)"
  show "wp (worker_trigger_pending_task now uuid) (\<lambda>_ t. I (db t)) (\<lambda>_ t. I (db t)) s"
    using I
    by (auto simp: worker_trigger_pending_task_def offer_task_def wp_eqs task_ident_def
        split: option.splits sum.splits dest!: find_SomeD
        intro!: tt_trigger elim: I_update_active_row [rotated 3])
qed

lemma keeps_user_change_task: "keeps_db I (user_change_task now u uuid req)"
  by (auto simp: user_change_task_def intro!: keeps_intros keeps_update_active)

lemma keeps_user_change_task_labels: "keeps_db I (user_change_task_labels now u uuid labels)"
proof -
  have "keeps_db I (db_stmt (update_archived_task i (relabel labels now)))" for i
    by (rule keeps_update_archived) simp
  moreover have "keeps_db I (db_stmt (update_active_task i (\<lambda>t. t\<lparr>t_updated_at := now, t_labels := labels\<rparr>)))" for i
    by (rule keeps_update_active) (rule tt_edit, simp_all add: task_ident_def)
  ultimately show ?thesis
    by (auto simp: user_change_task_labels_def intro!: keeps_intros)
qed

lemma keeps_user_cancel_task: "keeps_db I (user_cancel_task now u uuid)"
proof (rule keeps_dbI)
  fix s :: Pool assume I: "I (db s)"
  show "wp (user_cancel_task now u uuid) (\<lambda>_ t. I (db t)) (\<lambda>_ t. I (db t)) s"
    using I
    by (auto simp: user_cancel_task_def find_ready_task_def require_group_writer_def remove_task_def wp_eqs
        split: option.splits sum.splits dest!: find_SomeD
        elim: I_archive_one [rotated 3] intro: archives_cancelled_row)
qed

end

section \<open>Effects\<close>

lemma faults_Nil_not_faulty [simp]: "faults s = [] \<Longrightarrow> tick s = s"
  by (simp add: tick_def)

text \<open>The effect of a cancellation: a ready task of the given uuid, in a group where the user has the
  role \<open>Write\<close> or \<open>Admin\<close>, moves to the archive and the dispatcher is told.\<close>

definition cancelled_by :: "nanos \<Rightarrow> i64 \<Rightarrow> uuid \<Rightarrow> Pool \<Rightarrow> Pool \<Rightarrow> bool" where
  "cancelled_by now u uuid s s' \<longleftrightarrow>
     (\<exists>t \<in> set (active_tasks (db s)). \<exists>ug \<in> set (user_groups (db s)).
        t_uuid t = uuid \<and> t_state t = TaskState.Ready \<and>
        ug_user_id ug = u \<and> ug_group_id ug = t_group_id t \<and>
        ug_role ug \<in> {UserGroupRole.Write, UserGroupRole.Admin} \<and>
        db s' = (db s)\<lparr>archived_tasks := archived_tasks (db s) @ [cancelled_row now t],
                       active_tasks := filter (\<lambda>x. t_id x \<noteq> t_id t) (active_tasks (db s))\<rparr> \<and>
        task_tx s' = task_tx s @ (if task_rx_open s then [RemoveTask (t_id t)] else []))"

lemma cancelled_byI:
  assumes "t \<in> set (active_tasks (db s))" "ug \<in> set (user_groups (db s))" "t_state t = TaskState.Ready"
    "ug_group_id ug = t_group_id t" "ug_role ug = UserGroupRole.Write \<or> ug_role ug = UserGroupRole.Admin"
    "db s' = (db s)\<lparr>archived_tasks := archived_tasks (db s) @ [cancelled_row now t],
                       active_tasks := filter (\<lambda>x. t_id x \<noteq> t_id t) (active_tasks (db s))\<rparr>"
    "task_tx s' = task_tx s @ (if task_rx_open s then [RemoveTask (t_id t)] else [])"
  shows "cancelled_by now (ug_user_id ug) (t_uuid t) s s'"
  unfolding cancelled_by_def using assms by (intro bexI [of _ t] bexI [of _ ug]) auto

text \<open>C28. Cancelling a task is all or nothing, wherever a statement fails: either the caller gets an error
  and neither the tables nor the dispatcher's channel have changed, or a ready task of the given uuid, in a
  group where the caller has the role \<open>Write\<close> or \<open>Admin\<close>, has moved to the archive as cancelled by the user,
  nothing else in the tables has changed, and the dispatcher is told to drop it.\<close>

theorem user_cancel_task_effect:
  "case user_cancel_task now u uuid s of
     (Inl e, s') \<Rightarrow> db s' = db s \<and> task_tx s' = task_tx s
   | (Inr _, s') \<Rightarrow> cancelled_by now u uuid s s'"
proof -
  have "wp (user_cancel_task now u uuid) (\<lambda>_. cancelled_by now u uuid s)
          (\<lambda>_ s'. db s' = db s \<and> task_tx s' = task_tx s) s"
    by (auto simp: user_cancel_task_def find_ready_task_def require_group_writer_def remove_task_def
        delete_active_task_def del_where_def wp_eqs
        split: option.splits sum.splits dest!: find_SomeD insert_archived_task_Inr intro: cancelled_byI)
  then show ?thesis by (simp add: wp_def split: prod.splits sum.splits)
qed

lemma inc_task_count_unique:
  assumes "distinct (map g_group_name (groups d))" and "g \<in> set (groups d)"
  shows "\<exists>d1. inc_task_count now (g_group_name g) d
            = ([g\<lparr>g_task_count := g_task_count g + 1, g_updated_at := now\<rparr>], d1) \<and>
          active_tasks d1 = active_tasks d \<and> users d1 = users d \<and> workers d1 = workers d \<and>
          group_workers d1 = group_workers d \<and> nxt_task d1 = nxt_task d \<and>
          (\<exists>x \<in> set (groups d1). g_id x = g_id g)"
proof -
  have "filter (\<lambda>x. g_group_name x = g_group_name g) (groups d) = [g]"
    using assms by (rule filter_unique_key)
  moreover obtain x where "x \<in> set (groups (snd (inc_task_count now (g_group_name g) d)))" "g_id x = g_id g"
    using inc_task_count_mono [OF assms(2)] by blast
  ultimately show ?thesis by (auto simp: inc_task_count_def Let_def)
qed

lemma eligible_workers_cong:
  "workers d' = workers d \<Longrightarrow> group_workers d' = group_workers d \<Longrightarrow>
   eligible_workers g ts d' = eligible_workers g ts d"
  by (simp add: eligible_workers_def)


definition sample_req :: SubmitTaskReq where
  "sample_req = \<lparr>st_group_name = ''ada'', st_tags = [], st_labels = [], st_timeout = 60, st_priority = 3,
     st_task_spec = sample_spec ''data/in''\<rparr>"


end
