(* ===== verification/Priority_Queue.thy ===== *)
theory Priority_Queue
  imports Entities "HOL-Library.AList"
begin

text \<open>
  The interface of the \<open>priority_queue\<close> crate that the task dispatcher relies on.

  The crate is not part of the repository: its operations are the fields of a record that the
  dispatcher's definitions take as an argument, and its documented behaviour is the locale
  \<open>priority_queue\<close>. A queue is read through \<open>lookup\<close>, the map from the queued items to their
  priorities: \<open>push\<close> inserts an item or changes its priority, \<open>remove\<close> deletes an item wherever it
  is, \<open>pop\<close> takes an item of the highest priority. Which of several items of the same priority
  comes first is left open, as the crate leaves it open.
\<close>

record 'q pq_ops =
  pq_new :: 'q
  pq_push :: "i64 \<Rightarrow> i32 \<Rightarrow> 'q \<Rightarrow> 'q"
  pq_remove :: "i64 \<Rightarrow> 'q \<Rightarrow> 'q"
  pq_pop :: "'q \<Rightarrow> ((i64 \<times> i32) \<times> 'q) option"

text \<open>\<open>top_of m t p\<close>: item \<open>t\<close> with priority \<open>p\<close> may be popped from a queue that holds \<open>m\<close>.\<close>

definition top_of :: "(i64 \<rightharpoonup> i32) \<Rightarrow> i64 \<Rightarrow> i32 \<Rightarrow> bool" where
  "top_of m t p \<longleftrightarrow> m t = Some p \<and> (\<forall>t' p'. m t' = Some p' \<longrightarrow> p' \<le> p)"

lemma top_ofD: "top_of m t p \<Longrightarrow> m t = Some p" "top_of m t p \<Longrightarrow> m t' = Some p' \<Longrightarrow> p' \<le> p"
  by (auto simp: top_of_def)

locale priority_queue =
  fixes Q :: "'q pq_ops" and lookup :: "'q \<Rightarrow> i64 \<rightharpoonup> i32"
  assumes lookup_new [simp]: "lookup (pq_new Q) = Map.empty"
    and lookup_push [simp]: "lookup (pq_push Q t p q) = (lookup q)(t \<mapsto> p)"
    and lookup_remove [simp]: "lookup (pq_remove Q t q) = (lookup q)(t := None)"
    and pop_None_iff: "pq_pop Q q = None \<longleftrightarrow> lookup q = Map.empty"
    and pop_Some: "pq_pop Q q = Some ((t, p), q') \<Longrightarrow>
                     top_of (lookup q) t p \<and> lookup q' = (lookup q)(t := None)"
    and finite_lookup [simp]: "finite (dom (lookup q))"
begin

lemma pop_nonempty:
  assumes "lookup q t = Some p"
  obtains t' p' q' where "pq_pop Q q = Some ((t', p'), q')" "top_of (lookup q) t' p'" "p \<le> p'"
    "lookup q' = (lookup q)(t' := None)"
proof -
  have "pq_pop Q q \<noteq> None" using assms by (auto simp: pop_None_iff)
  then obtain t' p' q' where pop: "pq_pop Q q = Some ((t', p'), q')" by (metis not_None_eq surj_pair)
  from pop_Some [OF this] show thesis using assms pop by (auto intro!: that dest: top_ofD(2))
qed

lemma pop_dom: "pq_pop Q q = Some ((t, p), q') \<Longrightarrow> card (dom (lookup q')) < card (dom (lookup q))"
  using pop_Some [of q t p q'] by (auto simp: top_of_def intro!: psubset_card_mono)

end

section \<open>A reference queue\<close>

text \<open>An association list; it shows that the laws can hold and is the queue of the concrete runs.\<close>

fun best :: "i64 \<times> i32 \<Rightarrow> (i64 \<times> i32) list \<Rightarrow> i64 \<times> i32" where
  "best x [] = x"
| "best x (y # ys) = best (if snd y > snd x then y else x) ys"

definition alist_pop :: "(i64 \<times> i32) list \<Rightarrow> ((i64 \<times> i32) \<times> (i64 \<times> i32) list) option" where
  "alist_pop q =
     (case AList.clearjunk q of
        [] \<Rightarrow> None
      | x # xs \<Rightarrow> Some (best x xs, AList.delete (fst (best x xs)) q))"

definition alist_pq :: "(i64 \<times> i32) list pq_ops" where
  "alist_pq = \<lparr>pq_new = [], pq_push = AList.update, pq_remove = AList.delete, pq_pop = alist_pop\<rparr>"

lemma best_in: "best x xs \<in> set (x # xs)"
proof (induction x xs rule: best.induct)
  case (2 x y ys)
  then show ?case by (cases "snd y > snd x") auto
qed simp

lemma best_max: "y \<in> set (x # xs) \<Longrightarrow> snd y \<le> snd (best x xs)"
proof (induction x xs arbitrary: y rule: best.induct)
  case (2 x z zs)
  let ?m = "if snd z > snd x then z else x"
  have "snd ?m \<le> snd (best ?m zs)" by (rule "2.IH") simp
  moreover have "snd y \<le> snd ?m \<or> y \<in> set zs" using "2.prems" by auto
  ultimately show ?case using "2.IH" [of y] by auto
qed simp

lemma map_of_clearjunk_mem: "(t, p) \<in> set (AList.clearjunk q) \<longleftrightarrow> map_of q t = Some p"
  by (metis distinct_clearjunk map_of_clearjunk map_of_eq_Some_iff)

lemma alist_pop_None: "alist_pop q = None \<longleftrightarrow> map_of q = Map.empty"
proof -
  have "alist_pop q = None \<longleftrightarrow> AList.clearjunk q = []"
    by (simp add: alist_pop_def split: list.splits)
  also have "\<dots> \<longleftrightarrow> q = []" by (cases q) auto
  finally show ?thesis by simp
qed

lemma alist_pop_Some:
  assumes "alist_pop q = Some ((t, p), q')"
  shows "top_of (map_of q) t p \<and> map_of q' = (map_of q)(t := None)"
proof -
  obtain x xs where cj: "AList.clearjunk q = x # xs" and tp: "best x xs = (t, p)"
    and q': "q' = AList.delete t q"
    using assms by (auto simp: alist_pop_def split: list.splits)
  have "map_of q t = Some p" using best_in [of x xs] by (simp add: tp flip: cj map_of_clearjunk_mem)
  moreover have "p' \<le> p" if "map_of q t' = Some p'" for t' p'
    using that best_max [of "(t', p')" x xs] by (simp add: tp flip: cj map_of_clearjunk_mem)
  ultimately show ?thesis by (simp add: top_of_def q' delete_conv')
qed

interpretation alist_pq: priority_queue alist_pq map_of
  by unfold_locales
     (simp_all add: alist_pq_def update_conv' delete_conv' alist_pop_None alist_pop_Some
        finite_dom_map_of)

end
