(* ===== verification/Dispatcher.thy ===== *)
theory Dispatcher
  imports Priority_Queue
begin

text \<open>
  The task dispatcher (\<open>service/worker/queue.rs\<close>): one priority queue of (task id, priority) pairs per
  registered worker, owned by one background task that receives \<open>TaskDispatcherOp\<close> messages.

  \<open>TaskDispatcher\<close> is the struct, with the replies sent to \<open>FetchTask\<close> callers as a log; each method
  is a function on it that takes the operations of the \<open>priority_queue\<close> crate as its first argument.
  \<open>run\<close> is the receive loop over the sequence of what its \<open>select!\<close> yields.

  The abstract dispatcher is a map from workers to maps from tasks to priorities; \<open>disp_step\<close> says
  what each message may do to it. The refinement to it and the delivery theorems (at most one
  delivery per enqueueing, no delivery after removal, draining in order of priority) are proved
  in locales, once for every queue that satisfies the laws of the crate.
\<close>

section \<open>The dispatcher\<close>

record 'q TaskDispatcher =
  d_workers :: "i64 \<rightharpoonup> 'q"
  d_cancelled :: bool
  d_replies :: "(i64 \<times> i64 option) list"

definition new_dispatcher :: "'q TaskDispatcher" where
  "new_dispatcher = \<lparr>d_workers = Map.empty, d_cancelled = False, d_replies = []\<rparr>"

text \<open>\<open>entry(worker_id).or_default()\<close>: an existing queue is kept.\<close>

definition register_worker :: "'q pq_ops \<Rightarrow> i64 \<Rightarrow> 'q TaskDispatcher \<Rightarrow> 'q TaskDispatcher" where
  "register_worker Q worker_id d =
     (case d_workers d worker_id of
        None \<Rightarrow> d\<lparr>d_workers := (d_workers d)(worker_id \<mapsto> pq_new Q)\<rparr>
      | Some _ \<Rightarrow> d)"

definition unregister_worker :: "i64 \<Rightarrow> 'q TaskDispatcher \<Rightarrow> 'q TaskDispatcher" where
  "unregister_worker worker_id d = d\<lparr>d_workers := (d_workers d)(worker_id := None)\<rparr>"

definition add_task :: "'q pq_ops \<Rightarrow> i64 \<Rightarrow> i64 \<Rightarrow> i32 \<Rightarrow> 'q TaskDispatcher \<Rightarrow> 'q TaskDispatcher" where
  "add_task Q worker_id task_id priority d =
     (case d_workers d worker_id of
        Some worker \<Rightarrow>
          d\<lparr>d_workers := (d_workers d)(worker_id \<mapsto> pq_push Q task_id priority worker)\<rparr>
      | None \<Rightarrow> d)"

definition add_tasks ::
  "'q pq_ops \<Rightarrow> i64 \<Rightarrow> (i64 \<times> i32) list \<Rightarrow> 'q TaskDispatcher \<Rightarrow> 'q TaskDispatcher" where
  "add_tasks Q worker_id tasks d =
     (case d_workers d worker_id of
        Some worker \<Rightarrow>
          d\<lparr>d_workers := (d_workers d)(worker_id \<mapsto>
              fold (\<lambda>(task_id, priority) q. pq_push Q task_id priority q) tasks worker)\<rparr>
      | None \<Rightarrow> d)"

definition batch_add_task ::
  "'q pq_ops \<Rightarrow> i64 list \<Rightarrow> i64 \<Rightarrow> i32 \<Rightarrow> 'q TaskDispatcher \<Rightarrow> 'q TaskDispatcher" where
  "batch_add_task Q worker_ids task_id priority d =
     fold (\<lambda>worker_id. add_task Q worker_id task_id priority) worker_ids d"

definition batch_add_tasks ::
  "'q pq_ops \<Rightarrow> i64 list \<Rightarrow> (i64 \<times> i32) list \<Rightarrow> 'q TaskDispatcher \<Rightarrow> 'q TaskDispatcher" where
  "batch_add_tasks Q worker_ids tasks d = fold (\<lambda>worker_id. add_tasks Q worker_id tasks) worker_ids d"

definition disp_remove_task :: "'q pq_ops \<Rightarrow> i64 \<Rightarrow> 'q TaskDispatcher \<Rightarrow> 'q TaskDispatcher" where
  "disp_remove_task Q task_id d =
     d\<lparr>d_workers := \<lambda>worker_id. map_option (pq_remove Q task_id) (d_workers d worker_id)\<rparr>"

definition disp_fetch_task ::
  "'q pq_ops \<Rightarrow> i64 \<Rightarrow> 'q TaskDispatcher \<Rightarrow> i64 option \<times> 'q TaskDispatcher" where
  "disp_fetch_task Q worker_id d =
     (case d_workers d worker_id of
        Some worker \<Rightarrow>
          (case pq_pop Q worker of
             Some ((task_id, _), worker') \<Rightarrow>
               (Some task_id, d\<lparr>d_workers := (d_workers d)(worker_id \<mapsto> worker')\<rparr>)
           | None \<Rightarrow> (None, d))
      | None \<Rightarrow> (None, d))"

text \<open>The boolean says that the loop has to end: all senders are gone, or the reply to a \<open>FetchTask\<close>
  could not be delivered because its receiver was dropped.\<close>

fun handle_op ::
  "'q pq_ops \<Rightarrow> TaskDispatcherOp option \<Rightarrow> 'q TaskDispatcher \<Rightarrow> bool \<times> 'q TaskDispatcher" where
  "handle_op Q None d = (True, d)"
| "handle_op Q (Some (RegisterWorker worker_id)) d = (False, register_worker Q worker_id d)"
| "handle_op Q (Some (UnregisterWorker worker_id)) d = (False, unregister_worker worker_id d)"
| "handle_op Q (Some (AddTask worker_id task_id priority)) d =
     (False, add_task Q worker_id task_id priority d)"
| "handle_op Q (Some (AddTasks worker_id tasks)) d = (False, add_tasks Q worker_id tasks d)"
| "handle_op Q (Some (BatchAddTask worker_ids task_id priority)) d =
     (False, batch_add_task Q worker_ids task_id priority d)"
| "handle_op Q (Some (BatchAddTasks worker_ids tasks)) d =
     (False, batch_add_tasks Q worker_ids tasks d)"
| "handle_op Q (Some (RemoveTask task_id)) d = (False, disp_remove_task Q task_id d)"
| "handle_op Q (Some (FetchTask worker_id rx_alive)) d =
     (case disp_fetch_task Q worker_id d of
        (task_id, d') \<Rightarrow>
          if rx_alive then (False, d'\<lparr>d_replies := d_replies d' @ [(worker_id, task_id)]\<rparr>)
          else (True, d'))"

text \<open>What one turn of the \<open>select!\<close> yields: the cancellation of the token by another component, or
  the result of \<open>rx.recv()\<close>.\<close>

datatype RunEvent = TokenCancelled | Recv "TaskDispatcherOp option"

fun run :: "'q pq_ops \<Rightarrow> RunEvent list \<Rightarrow> 'q TaskDispatcher \<Rightarrow> 'q TaskDispatcher" where
  "run Q [] d = d"
| "run Q (TokenCancelled # evs) d = d\<lparr>d_cancelled := True\<rparr>"
| "run Q (Recv op # evs) d =
     (if d_cancelled d then d
      else case handle_op Q op d of
             (True, d') \<Rightarrow> d'\<lparr>d_cancelled := True\<rparr>
           | (False, d') \<Rightarrow> run Q evs d')"

section \<open>The abstract dispatcher\<close>

type_synonym queues = "i64 \<rightharpoonup> (i64 \<rightharpoonup> i32)"

definition q_register :: "i64 \<Rightarrow> queues \<Rightarrow> queues" where
  "q_register w m = (if m w = None then m(w \<mapsto> Map.empty) else m)"

text \<open>All four messages that add tasks are one operation: every registered worker of a set receives
  every task of a list, a later entry for the same task overriding an earlier one.\<close>

definition q_add :: "i64 set \<Rightarrow> (i64 \<times> i32) list \<Rightarrow> queues \<Rightarrow> queues" where
  "q_add ws ts m = (\<lambda>w. if w \<in> ws then map_option (\<lambda>q. q ++ map_of (rev ts)) (m w) else m w)"

definition q_remove :: "i64 \<Rightarrow> queues \<Rightarrow> queues" where
  "q_remove t m = (\<lambda>w. map_option (\<lambda>q. q(t := None)) (m w))"

inductive q_fetch :: "i64 \<Rightarrow> queues \<Rightarrow> i64 option \<Rightarrow> queues \<Rightarrow> bool" where
  q_fetch_none: "m w = None \<or> m w = Some Map.empty \<Longrightarrow> q_fetch w m None m"
| q_fetch_some: "m w = Some q \<Longrightarrow> top_of q t p \<Longrightarrow> q_fetch w m (Some t) (m(w \<mapsto> q(t := None)))"

fun op_adds :: "TaskDispatcherOp \<Rightarrow> i64 \<Rightarrow> i64 \<Rightarrow> bool" where
  "op_adds (AddTask w t p) w' t' \<longleftrightarrow> w = w' \<and> t = t'"
| "op_adds (AddTasks w ts) w' t' \<longleftrightarrow> w = w' \<and> t' \<in> fst ` set ts"
| "op_adds (BatchAddTask ws t p) w' t' \<longleftrightarrow> w' \<in> set ws \<and> t = t'"
| "op_adds (BatchAddTasks ws ts) w' t' \<longleftrightarrow> w' \<in> set ws \<and> t' \<in> fst ` set ts"
| "op_adds _ w' t' \<longleftrightarrow> False"

inductive disp_step ::
  "queues \<Rightarrow> TaskDispatcherOp \<Rightarrow> (i64 \<times> i64 option) list \<Rightarrow> queues \<Rightarrow> bool" where
  st_register: "disp_step m (RegisterWorker w) [] (q_register w m)"
| st_unregister: "disp_step m (UnregisterWorker w) [] (m(w := None))"
| st_add: "disp_step m (AddTask w t p) [] (q_add {w} [(t, p)] m)"
| st_adds: "disp_step m (AddTasks w ts) [] (q_add {w} ts m)"
| st_batch_add: "disp_step m (BatchAddTask ws t p) [] (q_add (set ws) [(t, p)] m)"
| st_batch_adds: "disp_step m (BatchAddTasks ws ts) [] (q_add (set ws) ts m)"
| st_remove: "disp_step m (RemoveTask t) [] (q_remove t m)"
| st_fetch: "q_fetch w m r m' \<Longrightarrow> disp_step m (FetchTask w True) [(w, r)] m'"
| st_fetch_dead: "q_fetch w m r m' \<Longrightarrow> disp_step m (FetchTask w False) [] m'"

inductive_cases q_fetch_SomeE: "q_fetch w m (Some t) m'"
inductive_cases q_fetch_NoneE: "q_fetch w m None m'"
inductive_simps disp_step_fetch_iff: "disp_step m (FetchTask w True) rs m'"

definition dabs :: "('q \<Rightarrow> i64 \<rightharpoonup> i32) \<Rightarrow> 'q TaskDispatcher \<Rightarrow> queues" where
  "dabs lookup d = (\<lambda>w. map_option lookup (d_workers d w))"

section \<open>Delivery\<close>

text \<open>\<open>queued m w t\<close> is 1 when task \<open>t\<close> waits in the queue of worker \<open>w\<close>, and 0 otherwise. A message
  can turn it from 0 to 1 only by adding the task, and a delivery turns it from 1 to 0.\<close>

definition queued :: "queues \<Rightarrow> i64 \<Rightarrow> i64 \<Rightarrow> nat" where
  "queued m w t = (case m w of Some q \<Rightarrow> (if t \<in> dom q then 1 else 0) | None \<Rightarrow> 0)"

lemma queued_q_add:
  "queued (q_add ws ts m) w t \<le> queued m w t + (if w \<in> ws \<and> t \<in> fst ` set ts then 1 else 0)"
  by (auto simp: queued_def q_add_def map_add_def dom_def split: option.splits if_splits
      dest!: map_of_SomeD intro: rev_image_eqI)

lemma queued_q_fetch:
  "q_fetch v m r m' \<Longrightarrow> queued m' w t + count_list [(v, r)] (w, Some t) \<le> queued m w t"
  by (induction rule: q_fetch.induct) (auto simp: queued_def top_of_def split: option.splits)

lemma queued_step:
  "disp_step m op rs m' \<Longrightarrow>
   queued m' w t + count_list rs (w, Some t) \<le> queued m w t + (if op_adds op w t then 1 else 0)"
proof (induction rule: disp_step.induct)
  case (st_fetch v m r m')
  then show ?case using queued_q_fetch [OF st_fetch, of w t] by simp
next
  case (st_fetch_dead v m r m')
  then show ?case using queued_q_fetch [OF st_fetch_dead, of w t] by simp
next
  case (st_add m w' t' p)
  then show ?case using queued_q_add [of "{w'}" "[(t', p)]" m w t] by (auto split: if_splits)
next
  case (st_adds m w' ts)
  then show ?case using queued_q_add [of "{w'}" ts m w t] by (auto split: if_splits)
next
  case (st_batch_add m ws t' p)
  then show ?case using queued_q_add [of "set ws" "[(t', p)]" m w t] by (auto split: if_splits)
next
  case (st_batch_adds m ws ts)
  then show ?case using queued_q_add [of "set ws" ts m w t] by (auto split: if_splits)
qed (auto simp: queued_def q_register_def q_remove_def split: option.splits)

text \<open>The contract of the dispatcher with its clients: every message it handles is a step of the
  abstract dispatcher, and its log of replies grows by the replies of the step.\<close>

locale dispatch_contract =
  fixes handle :: "TaskDispatcherOp \<Rightarrow> 's \<Rightarrow> 's" and abs :: "'s \<Rightarrow> queues"
    and log :: "'s \<Rightarrow> (i64 \<times> i64 option) list"
  assumes handle_step: "\<exists>rs. disp_step (abs s) op rs (abs (handle op s)) \<and> log (handle op s) = log s @ rs"
begin

lemma delivery_bound:
  "queued (abs (fold handle ops s)) w t + count_list (log (fold handle ops s)) (w, Some t)
     \<le> queued (abs s) w t + count_list (log s) (w, Some t) + length (filter (\<lambda>op. op_adds op w t) ops)"
proof (induction ops arbitrary: s)
  case (Cons op ops)
  obtain rs where step: "disp_step (abs s) op rs (abs (handle op s))"
    and log: "log (handle op s) = log s @ rs"
    using handle_step by blast
  show ?case using queued_step [OF step, of w t] Cons.IH [of "handle op s"] log by auto
qed simp

lemma log_extends: "\<exists>rs. log (fold handle ops s) = log s @ rs"
proof (induction ops arbitrary: s)
  case (Cons op ops)
  then show ?case using handle_step [of s op] by (metis append_assoc fold_simps(2))
qed simp

lemma no_delivery:
  assumes "queued (abs s) w t = 0" and "\<forall>op \<in> set ops. \<not> op_adds op w t"
  shows "count_list (log (fold handle ops s)) (w, Some t) = count_list (log s) (w, Some t)"
proof -
  obtain rs where "log (fold handle ops s) = log s @ rs" using log_extends by blast
  then show ?thesis using delivery_bound [of ops s w t] assms by (simp add: filter_False)
qed

lemma fetch_empty:
  assumes "abs s w = Some Map.empty"
  shows "abs (handle (FetchTask w True) s) = abs s \<and> log (handle (FetchTask w True) s) = log s @ [(w, None)]"
proof -
  obtain rs where "disp_step (abs s) (FetchTask w True) rs (abs (handle (FetchTask w True) s))"
    "log (handle (FetchTask w True) s) = log s @ rs" using handle_step by blast
  then show ?thesis using assms by (auto simp: disp_step_fetch_iff top_of_def elim!: q_fetch.cases)
qed

lemma fetch_top:
  assumes "abs s w = Some q" and "q \<noteq> Map.empty"
  obtains t p where "top_of q t p" "abs (handle (FetchTask w True) s) = (abs s)(w \<mapsto> q(t := None))"
    "log (handle (FetchTask w True) s) = log s @ [(w, Some t)]"
proof -
  obtain rs where "disp_step (abs s) (FetchTask w True) rs (abs (handle (FetchTask w True) s))"
    "log (handle (FetchTask w True) s) = log s @ rs" using handle_step by blast
  then show thesis using assms by (auto simp: disp_step_fetch_iff intro: that elim!: q_fetch.cases)
qed

lemma drain_empty:
  assumes "abs s w = Some Map.empty"
  shows "log (fold handle (replicate n (FetchTask w True)) s) = log s @ replicate n (w, None)"
  using assms by (induction n arbitrary: s) (auto simp: fetch_empty)

lemma drain:
  assumes "abs s w = Some q" and "finite (dom q)" and "card (dom q) \<le> n"
  shows "\<exists>ts. set ts = dom q \<and> distinct ts \<and> sorted_wrt (\<lambda>t t'. the (q t) \<ge> the (q t')) ts \<and>
           log (fold handle (replicate n (FetchTask w True)) s)
             = log s @ map (\<lambda>t. (w, Some t)) ts @ replicate (n - card (dom q)) (w, None)"
  using assms
proof (induction n arbitrary: s q)
  case 0
  then show ?case by (intro exI [of _ "[]"]) auto
next
  case (Suc n)
  show ?case
  proof (cases "q = Map.empty")
    case True
    then show ?thesis using Suc.prems drain_empty [of s w "Suc n"] by (intro exI [of _ "[]"]) simp
  next
    case False
    obtain t p where top: "top_of q t p"
      and abs: "abs (handle (FetchTask w True) s) w = Some (q(t := None))"
      and log: "log (handle (FetchTask w True) s) = log s @ [(w, Some t)]"
      using fetch_top [OF Suc.prems(1) False] by (metis fun_upd_same)
    have q: "q t = Some p" "t \<in> dom q" using top by (auto simp: top_of_def)
    have card: "card (dom (q(t := None))) = card (dom q) - 1" "card (dom q) > 0"
      using q Suc.prems(2) by (auto simp: card_gt_0_iff)
    have fin: "finite (dom (q(t := None)))" using Suc.prems(2) by simp
    have le: "card (dom (q(t := None))) \<le> n" using card Suc.prems(3) by simp
    obtain ts where ts: "set ts = dom (q(t := None))" "distinct ts"
      "sorted_wrt (\<lambda>x y. the ((q(t := None)) x) \<ge> the ((q(t := None)) y)) ts"
      "log (fold handle (replicate n (FetchTask w True)) (handle (FetchTask w True) s))
         = log (handle (FetchTask w True) s) @ map (\<lambda>t. (w, Some t)) ts
             @ replicate (n - card (dom (q(t := None)))) (w, None)"
      using Suc.IH [OF abs fin le] by blast
    have "sorted_wrt (\<lambda>x y. the (q x) \<ge> the (q y)) ts"
      using ts(3) by (rule sorted_wrt_mono_rel [rotated]) (use ts(1) in \<open>auto split: if_splits\<close>)
    moreover have "the (q t) \<ge> the (q y)" if "y \<in> set ts" for y
      using that ts(1) top by (auto simp: top_of_def split: if_splits)
    ultimately show ?thesis
      using ts q card log Suc.prems by (intro exI [of _ "t # ts"]) (auto split: if_splits)
  qed
qed

end

section \<open>The dispatcher implements the contract\<close>

abbreviation handle :: "'q pq_ops \<Rightarrow> TaskDispatcherOp \<Rightarrow> 'q TaskDispatcher \<Rightarrow> 'q TaskDispatcher" where
  "handle Q op d \<equiv> snd (handle_op Q (Some op) d)"

lemma d_replies_fold_add_task [simp]:
  "d_replies (fold (\<lambda>w. add_task Q w t p) ws d) = d_replies d"
  by (induction ws arbitrary: d) (auto simp: add_task_def split: option.splits)

lemma d_replies_fold_add_tasks [simp]:
  "d_replies (fold (\<lambda>w. add_tasks Q w ts) ws d) = d_replies d"
  by (induction ws arbitrary: d) (auto simp: add_tasks_def split: option.splits)

context priority_queue
begin

lemma lookup_pushes:
  "lookup (fold (\<lambda>(t, p) q. pq_push Q t p q) ts q) = lookup q ++ map_of (rev ts)"
proof (induction ts arbitrary: q)
  case (Cons x ts)
  then show ?case by (cases x) (auto simp: map_add_def fun_eq_iff split: option.splits)
qed simp

lemma dabs_add_tasks: "dabs lookup (add_tasks Q w ts d) = q_add {w} ts (dabs lookup d)"
  by (auto simp: dabs_def add_tasks_def q_add_def lookup_pushes fun_eq_iff split: option.splits)

lemma add_task_add_tasks: "add_task Q w t p = add_tasks Q w [(t, p)]"
  by (auto simp: add_task_def add_tasks_def split: option.splits)

lemma q_add_add: "q_add ws ts (q_add {w} ts m) = q_add (insert w ws) ts m"
  by (auto simp: q_add_def fun_eq_iff map_add_def option.map_comp comp_def
      intro!: option.map_cong split: option.splits)

lemma dabs_batch_add_tasks:
  "dabs lookup (batch_add_tasks Q ws ts d) = q_add (set ws) ts (dabs lookup d)"
proof (induction ws arbitrary: d)
  case Nil
  then show ?case by (simp add: batch_add_tasks_def q_add_def)
next
  case (Cons w ws)
  then show ?case by (simp add: batch_add_tasks_def dabs_add_tasks q_add_add)
qed

lemma dabs_batch_add_task:
  "dabs lookup (batch_add_task Q ws t p d) = q_add (set ws) [(t, p)] (dabs lookup d)"
  using dabs_batch_add_tasks [of ws "[(t, p)]" d]
  by (simp add: batch_add_task_def batch_add_tasks_def add_task_add_tasks)

lemma q_fetch_disp_fetch_task:
  assumes "disp_fetch_task Q w d = (r, d')"
  shows "q_fetch w (dabs lookup d) r (dabs lookup d') \<and> d_replies d' = d_replies d"
proof (cases "\<exists>q x. d_workers d w = Some q \<and> pq_pop Q q = Some x")
  case True
  then obtain q t p q' where q: "d_workers d w = Some q" "pq_pop Q q = Some ((t, p), q')" by auto
  have "dabs lookup (d\<lparr>d_workers := (d_workers d)(w \<mapsto> q')\<rparr>)
          = (dabs lookup d)(w \<mapsto> (lookup q)(t := None))"
    using pop_Some [OF q(2)] by (auto simp: dabs_def fun_eq_iff)
  then show ?thesis using assms q pop_Some [OF q(2)] q_fetch_some [of "dabs lookup d" w "lookup q" t p]
    by (auto simp: disp_fetch_task_def dabs_def)
next
  case False
  then show ?thesis using assms
    by (auto simp: disp_fetch_task_def pop_None_iff dabs_def split: option.splits
        intro!: q_fetch_none)
qed

lemma handle_refines:
  "\<exists>rs. disp_step (dabs lookup d) op rs (dabs lookup (handle Q op d)) \<and>
        d_replies (handle Q op d) = d_replies d @ rs"
proof (cases op)
  case (FetchTask w alive)
  obtain r d' where f: "disp_fetch_task Q w d = (r, d')" by fastforce
  have "dabs lookup (d'\<lparr>d_replies := x\<rparr>) = dabs lookup d'" for x by (simp add: dabs_def)
  then show ?thesis using q_fetch_disp_fetch_task [OF f] f FetchTask
    by (cases alive) (auto intro: disp_step.intros)
next
  case (RegisterWorker w)
  have "dabs lookup (register_worker Q w d) = q_register w (dabs lookup d)"
    by (auto simp: dabs_def register_worker_def q_register_def fun_eq_iff split: option.splits)
  then show ?thesis using RegisterWorker st_register
    by (auto simp: register_worker_def split: option.splits)
next
  case (UnregisterWorker w)
  have "dabs lookup (unregister_worker w d) = (dabs lookup d)(w := None)"
    by (simp add: dabs_def unregister_worker_def fun_eq_iff)
  then show ?thesis using UnregisterWorker st_unregister by (auto simp: unregister_worker_def)
next
  case (RemoveTask t)
  have "dabs lookup (disp_remove_task Q t d) = q_remove t (dabs lookup d)"
    by (simp add: dabs_def disp_remove_task_def q_remove_def option.map_comp comp_def)
  then show ?thesis using RemoveTask st_remove by (auto simp: disp_remove_task_def)
next
  case (AddTask w t p)
  then show ?thesis using dabs_add_tasks [of w "[(t, p)]" d] st_add
    by (auto simp: add_task_add_tasks add_tasks_def split: option.splits)
next
  case (AddTasks w ts)
  then show ?thesis using dabs_add_tasks [of w ts d] st_adds
    by (auto simp: add_tasks_def split: option.splits)
next
  case (BatchAddTask ws t p)
  then show ?thesis using dabs_batch_add_task [of ws t p d] st_batch_add
    by (auto simp: batch_add_task_def)
next
  case (BatchAddTasks ws ts)
  then show ?thesis using dabs_batch_add_tasks [of ws ts d] st_batch_adds
    by (auto simp: batch_add_tasks_def)
qed

end

sublocale priority_queue \<subseteq> dispatch: dispatch_contract "handle Q" "dabs lookup" d_replies
  by unfold_locales (rule handle_refines)

section \<open>The receive loop\<close>

text \<open>The messages that a sequence of \<open>select!\<close> results carries.\<close>

definition received :: "RunEvent list \<Rightarrow> TaskDispatcherOp list" where
  "received evs = List.map_filter (\<lambda>e. case e of Recv op \<Rightarrow> op | TokenCancelled \<Rightarrow> None) evs"

lemma received_simps [simp]:
  "received [] = []" "received (TokenCancelled # evs) = received evs"
  "received (Recv None # evs) = received evs" "received (Recv (Some op) # evs) = op # received evs"
  by (simp_all add: received_def map_filter_simps)

text \<open>The loop handles a prefix of the messages in order, then stops.\<close>

lemma run_prefix:
  "\<exists>n. d_workers (run Q evs d) = d_workers (fold (handle Q) (take n (received evs)) d) \<and>
       d_replies (run Q evs d) = d_replies (fold (handle Q) (take n (received evs)) d)"
proof (induction Q evs d rule: run.induct)
  case (3 Q op evs d)
  show ?case
  proof (cases op)
    case None
    then show ?thesis by (intro exI [of _ 0]) simp
  next
    case (Some op')
    obtain b d' where h: "handle_op Q op d = (b, d')" by fastforce
    show ?thesis
    proof (cases "d_cancelled d \<or> b")
      case True
      then show ?thesis using Some h
        by (cases "d_cancelled d") (auto intro: exI [of _ 0] exI [of _ "Suc 0"])
    next
      case False
      then obtain n where
        "d_workers (run Q evs d') = d_workers (fold (handle Q) (take n (received evs)) d') \<and>
         d_replies (run Q evs d') = d_replies (fold (handle Q) (take n (received evs)) d')"
        using 3 h by auto
      then show ?thesis using False Some h by (intro exI [of _ "Suc n"]) auto
    qed
  qed
qed (auto intro: exI [of _ 0])

lemma dabs_cong: "d_workers d = d_workers d' \<Longrightarrow> dabs lookup d = dabs lookup d'"
  by (simp add: dabs_def)

lemma run_cancelled: "d_cancelled d \<Longrightarrow> d_workers (run Q evs d) = d_workers d"
  by (cases "(Q, evs, d)" rule: run.cases) auto

lemma d_cancelled_handle [simp]: "d_cancelled (handle Q op d) = d_cancelled d"
proof (cases op)
  case (BatchAddTask ws t p)
  have "d_cancelled (fold (\<lambda>w. add_task Q w t p) ws d) = d_cancelled d"
    by (induction ws arbitrary: d) (auto simp: add_task_def split: option.splits)
  with BatchAddTask show ?thesis by (simp add: batch_add_task_def)
next
  case (BatchAddTasks ws ts)
  have "d_cancelled (fold (\<lambda>w. add_tasks Q w ts) ws d) = d_cancelled d"
    by (induction ws arbitrary: d) (auto simp: add_tasks_def split: option.splits)
  with BatchAddTasks show ?thesis by (simp add: batch_add_tasks_def)
qed (auto simp: register_worker_def unregister_worker_def add_task_def add_tasks_def
      disp_remove_task_def disp_fetch_task_def split: option.splits prod.splits)

text \<open>As long as every fetch has a living receiver, the loop handles every message.\<close>

definition replied :: "TaskDispatcherOp \<Rightarrow> bool" where
  "replied op \<longleftrightarrow> (case op of FetchTask w alive \<Rightarrow> alive | _ \<Rightarrow> True)"

lemma run_replied:
  assumes "\<not> d_cancelled d" and "\<forall>op \<in> set ops. replied op"
  shows "run Q (map (\<lambda>op. Recv (Some op)) ops) d = fold (handle Q) ops d"
  using assms
proof (induction ops arbitrary: d)
  case (Cons op ops)
  have "\<not> fst (handle_op Q (Some op) d)"
    using Cons.prems(2) by (cases op) (auto simp: replied_def split: prod.splits)
  then obtain d' where h: "handle_op Q (Some op) d = (False, d')"
    by (cases "handle_op Q (Some op) d") auto
  then have "\<not> d_cancelled d'" using Cons.prems(1) d_cancelled_handle [of Q op d] by simp
  then show ?case using Cons h by simp
qed simp

text \<open>A loop that is not cancelled afterwards has handled every message.\<close>

lemma run_not_cancelled:
  "\<not> d_cancelled (run Q (map (\<lambda>op. Recv (Some op)) ops) d) \<Longrightarrow>
   run Q (map (\<lambda>op. Recv (Some op)) ops) d = fold (handle Q) ops d"
proof (induction ops arbitrary: d)
  case (Cons op ops)
  then show ?case by (cases "handle_op Q (Some op) d") (auto split: if_splits bool.splits)
qed simp

context priority_queue
begin

lemma run_at_most_once:
  "count_list (d_replies (run Q evs new_dispatcher)) (w, Some t)
     \<le> length (filter (\<lambda>op. op_adds op w t) (received evs))"
proof -
  obtain n where n: "d_replies (run Q evs new_dispatcher)
      = d_replies (fold (handle Q) (take n (received evs)) new_dispatcher)"
    using run_prefix by blast
  have "length (filter (\<lambda>op. op_adds op w t) (take n (received evs)))
      \<le> length (filter (\<lambda>op. op_adds op w t) (received evs))"
    by (metis append_take_drop_id filter_append le_add1 length_append)
  moreover have "queued (dabs lookup new_dispatcher) w t = 0"
      "d_replies (new_dispatcher :: 'q TaskDispatcher) = []"
    by (simp_all add: dabs_def new_dispatcher_def queued_def)
  ultimately show ?thesis
    using dispatch.delivery_bound [of "take n (received evs)" new_dispatcher w t]
    by (simp add: n)
qed

lemma run_removed:
  assumes "\<forall>op \<in> set (received evs). \<not> op_adds op w t"
  shows "count_list (d_replies (run Q (Recv (Some (RemoveTask t)) # evs) d)) (w, Some t)
           = count_list (d_replies d) (w, Some t)"
proof (cases "d_cancelled d")
  case False
  let ?d = "disp_remove_task Q t d"
  obtain n where n: "d_replies (run Q evs ?d) = d_replies (fold (handle Q) (take n (received evs)) ?d)"
    using run_prefix by blast
  have "queued (dabs lookup ?d) w t = 0"
    by (auto simp: queued_def dabs_def disp_remove_task_def split: option.splits)
  moreover have "\<forall>op \<in> set (take n (received evs)). \<not> op_adds op w t"
    using assms by (auto dest: in_set_takeD)
  ultimately have "count_list (d_replies (fold (handle Q) (take n (received evs)) ?d)) (w, Some t)
      = count_list (d_replies ?d) (w, Some t)"
    by (rule dispatch.no_delivery)
  with False n show ?thesis by (simp add: disp_remove_task_def)
qed simp

lemma run_drain:
  assumes "\<not> d_cancelled d" and "d_workers d w = Some q" and "card (dom (lookup q)) \<le> n"
  shows "\<exists>ts. set ts = dom (lookup q) \<and> distinct ts \<and>
           sorted_wrt (\<lambda>t t'. the (lookup q t) \<ge> the (lookup q t')) ts \<and>
           d_replies (run Q (replicate n (Recv (Some (FetchTask w True)))) d)
             = d_replies d @ map (\<lambda>t. (w, Some t)) ts @ replicate (n - card (dom (lookup q))) (w, None)"
proof -
  have "run Q (replicate n (Recv (Some (FetchTask w True)))) d
      = fold (handle Q) (replicate n (FetchTask w True)) d"
    using run_replied [OF assms(1), of "replicate n (FetchTask w True)" Q]
    by (simp add: replied_def map_replicate)
  then show ?thesis
    using dispatch.drain [of d w "lookup q" n] assms by (simp add: dabs_def)
qed

lemma run_dead_receiver:
  assumes "\<not> d_cancelled d" and "d_workers d w = Some q" and "lookup q \<noteq> Map.empty"
  shows "\<exists>t p. top_of (lookup q) t p \<and>
           dabs lookup (run Q (Recv (Some (FetchTask w False)) # evs) d)
             = (dabs lookup d)(w \<mapsto> (lookup q)(t := None)) \<and>
           d_replies (run Q (Recv (Some (FetchTask w False)) # evs) d) = d_replies d \<and>
           d_cancelled (run Q (Recv (Some (FetchTask w False)) # evs) d)"
proof -
  obtain r d' where f: "disp_fetch_task Q w d = (r, d')" by fastforce
  have r: "q_fetch w (dabs lookup d) r (dabs lookup d')" "d_replies d' = d_replies d"
    using q_fetch_disp_fetch_task [OF f] by auto
  have d: "dabs lookup d w = Some (lookup q)" using assms(2) by (simp add: dabs_def)
  have "run Q (Recv (Some (FetchTask w False)) # evs) d = d'\<lparr>d_cancelled := True\<rparr>"
    using f assms(1) by simp
  moreover have "dabs lookup (d'\<lparr>d_cancelled := True\<rparr>) = dabs lookup d'" by (simp add: dabs_def)
  moreover obtain t p where "top_of (lookup q) t p"
    "dabs lookup d' = (dabs lookup d)(w \<mapsto> (lookup q)(t := None))"
    using r(1) d assms(3) by (auto elim!: q_fetch.cases)
  ultimately show ?thesis using r(2) by (intro exI [of _ t] exI [of _ p]) simp
qed

end

section \<open>Properties\<close>

text \<open>One registered worker with two queued tasks, for the concrete instances below.\<close>

definition sample_queue :: "(i64 \<times> i32) list" where
  "sample_queue = [(7, 2), (8, 5)]"

lemma dom_sample_queue [simp]: "dom (map_of sample_queue) = {7, 8}" "sample_queue \<noteq> []"
  by (auto simp: sample_queue_def dom_map_of_conv_image_fst)

definition sample_dispatcher :: "(i64 \<times> i32) list TaskDispatcher" where
  "sample_dispatcher =
     \<lparr>d_workers = [1 \<mapsto> sample_queue], d_cancelled = False, d_replies = []\<rparr>"

text \<open>C2. Every message the dispatcher handles is a step of the abstract dispatcher: registration
  keeps an existing queue, the four adding messages add every task to every registered worker named,
  removal deletes the task from every queue, and a fetch takes a task of the highest priority or
  answers that there is none.\<close>

theorem handle_op_refines:
  assumes "priority_queue Q lookup"
  shows "\<exists>rs. disp_step (dabs lookup d) op rs (dabs lookup (snd (handle_op Q (Some op) d))) \<and>
              d_replies (snd (handle_op Q (Some op) d)) = d_replies d @ rs"
  using assms by (rule priority_queue.handle_refines)

theorem handle_op_refines_witness:
  "priority_queue alist_pq map_of \<and>
   (\<exists>rs. disp_step (dabs map_of sample_dispatcher) (FetchTask 1 True) rs
       (dabs map_of (snd (handle_op alist_pq (Some (FetchTask 1 True))
          sample_dispatcher))) \<and>
     d_replies (snd (handle_op alist_pq (Some (FetchTask 1 True))
          sample_dispatcher))
       = d_replies sample_dispatcher @ rs)"
  by (intro conjI alist_pq.priority_queue_axioms
      handle_op_refines [OF alist_pq.priority_queue_axioms])

text \<open>C5. The dispatcher hands a task to a worker at most once for each message that enqueued the task
  for that worker, whatever the order of the messages: a task that nobody enqueued is never delivered.\<close>

theorem run_delivers_at_most_once:
  assumes "priority_queue Q lookup"
  shows "count_list (d_replies (run Q evs new_dispatcher)) (w, Some t)
           \<le> length (filter (\<lambda>op. op_adds op w t) (received evs))"
  using assms by (rule priority_queue.run_at_most_once)

theorem run_delivers_at_most_once_witness:
  "priority_queue alist_pq map_of \<and>
   count_list (d_replies (run alist_pq (map (\<lambda>op. Recv (Some op))
       [RegisterWorker 1, AddTask 1 7 2, FetchTask 1 True, FetchTask 1 True]) new_dispatcher)) (1, Some 7)
     \<le> length (filter (\<lambda>op. op_adds op 1 7) (received (map (\<lambda>op. Recv (Some op))
       [RegisterWorker 1, AddTask 1 7 2, FetchTask 1 True, FetchTask 1 True])))"
  by (intro conjI alist_pq.priority_queue_axioms
      run_delivers_at_most_once [OF alist_pq.priority_queue_axioms])

text \<open>C6. Once the dispatcher has handled \<open>RemoveTask\<close> for a task, no later fetch delivers it to a worker
  unless a later message enqueues it for that worker again.\<close>

theorem run_removed_not_delivered:
  assumes "priority_queue Q lookup" and "\<forall>op \<in> set (received evs). \<not> op_adds op w t"
  shows "count_list (d_replies (run Q (Recv (Some (RemoveTask t)) # evs) d)) (w, Some t)
           = count_list (d_replies d) (w, Some t)"
  using assms by (rule priority_queue.run_removed)

theorem run_removed_not_delivered_witness:
  "priority_queue alist_pq map_of \<and>
   count_list (d_replies (run alist_pq (Recv (Some (RemoveTask 7)) #
       [Recv (Some (FetchTask 1 True)), Recv (Some (AddTask 2 7 1))])
       sample_dispatcher)) (1, Some 7)
     = count_list (d_replies sample_dispatcher) (1, Some 7)"
  by (intro conjI alist_pq.priority_queue_axioms
      run_removed_not_delivered [OF alist_pq.priority_queue_axioms]) simp_all

text \<open>C7. A worker that keeps fetching receives every task of its queue exactly once, in an order of
  non-increasing priority, and then the answer that there is none.\<close>

theorem run_drains_by_priority:
  assumes "priority_queue Q lookup"
    and "\<not> d_cancelled d" and "d_workers d w = Some q" and "card (dom (lookup q)) \<le> n"
  shows "\<exists>ts. set ts = dom (lookup q) \<and> distinct ts \<and>
           sorted_wrt (\<lambda>t t'. the (lookup q t) \<ge> the (lookup q t')) ts \<and>
           d_replies (run Q (replicate n (Recv (Some (FetchTask w True)))) d)
             = d_replies d @ map (\<lambda>t. (w, Some t)) ts @ replicate (n - card (dom (lookup q))) (w, None)"
  using assms by (rule priority_queue.run_drain)

theorem run_drains_by_priority_witness:
  "priority_queue alist_pq map_of \<and>
   (\<exists>ts. set ts = dom (map_of sample_queue) \<and> distinct ts \<and>
      sorted_wrt (\<lambda>t t'. the (map_of sample_queue t) \<ge> the (map_of sample_queue t')) ts \<and>
      d_replies (run alist_pq (replicate 3 (Recv (Some (FetchTask 1 True))))
          sample_dispatcher)
        = d_replies sample_dispatcher
            @ map (\<lambda>t. (1, Some t)) ts
            @ replicate (3 - card (dom (map_of sample_queue))) (1, None))"
  by (intro conjI alist_pq.priority_queue_axioms
      run_drains_by_priority [OF alist_pq.priority_queue_axioms])
     (simp_all add: sample_dispatcher_def)

text \<open>A fetch whose requester has gone away takes the top task off the worker's queue, delivers it to
  nobody, and ends the dispatcher: it handles no later message, and the cancellation token it shares
  with the whole coordinator is cancelled.\<close>

lemma run_dead_receiver_stops:
  assumes "priority_queue Q lookup"
    and "\<not> d_cancelled d" and "d_workers d w = Some q" and "lookup q \<noteq> Map.empty"
  shows "\<exists>t p. top_of (lookup q) t p \<and>
           dabs lookup (run Q (Recv (Some (FetchTask w False)) # evs) d)
             = (dabs lookup d)(w \<mapsto> (lookup q)(t := None)) \<and>
           d_replies (run Q (Recv (Some (FetchTask w False)) # evs) d) = d_replies d \<and>
           d_cancelled (run Q (Recv (Some (FetchTask w False)) # evs) d)"
  using assms by (rule priority_queue.run_dead_receiver)

theorem run_dead_receiver_stops_witness:
  "priority_queue alist_pq map_of \<and>
   (\<exists>t p. top_of (map_of sample_queue) t p \<and>
      dabs map_of (run alist_pq (Recv (Some (FetchTask 1 False)) # [Recv (Some (FetchTask 1 True))])
          sample_dispatcher)
        = (dabs map_of sample_dispatcher)(1 \<mapsto> (map_of sample_queue)(t := None)) \<and>
      d_replies (run alist_pq (Recv (Some (FetchTask 1 False)) # [Recv (Some (FetchTask 1 True))])
          sample_dispatcher)
        = d_replies sample_dispatcher \<and>
      d_cancelled (run alist_pq (Recv (Some (FetchTask 1 False)) # [Recv (Some (FetchTask 1 True))])
          sample_dispatcher))"
  by (intro conjI alist_pq.priority_queue_axioms
      run_dead_receiver_stops [OF alist_pq.priority_queue_axioms]) (simp_all add: sample_dispatcher_def)

end
