(* ===== verification/Worker_Service.thy ===== *)
theory Worker_Service
  imports Task_Service Storage Dispatcher
begin

text \<open>
  The worker side of the coordinator (\<open>service/worker/mod.rs\<close>): registration, heartbeats, removal,
  fetching and reporting of tasks.

  \<open>fetch_task\<close> talks to the dispatcher: it works on the pool and the dispatcher together, and a
  message that it sends is handled, after the messages already in the channel, before it goes on. Its
  loop is a partial function to an option; that it returns is a theorem.
\<close>

section \<open>Registration\<close>

definition insert_worker :: "WorkerRow \<Rightarrow> Db \<Rightarrow> DbErr + WorkerRow \<times> Db" where
  "insert_worker row d =
     (let w = row\<lparr>w_id := nxt_worker d\<rparr>
      in if \<not> (\<exists>u \<in> set (users d). u_id u = w_creator_id w) then Inl ForeignKeyViolation
         else if \<exists>x \<in> set (workers d). w_worker_id x = w_worker_id w then Inl UniqueViolation
         else Inr (w, d\<lparr>nxt_worker := nxt_worker d + 1, workers := workers d @ [w]\<rparr>))"

definition insert_group_worker :: "i64 \<times> i64 \<times> GroupWorkerRole \<Rightarrow> Db \<Rightarrow> DbErr + Db" where
  "insert_group_worker r d =
     (case r of (group_id, worker_id, role) \<Rightarrow>
        if \<not> (\<exists>g \<in> set (groups d). g_id g = group_id) then Inl ForeignKeyViolation
        else if \<not> (\<exists>w \<in> set (workers d). w_id w = worker_id) then Inl ForeignKeyViolation
        else if \<exists>x \<in> set (group_workers d). gw_group_id x = group_id \<and> gw_worker_id x = worker_id
        then Inl UniqueViolation
        else Inr (d\<lparr>nxt_group_worker := nxt_group_worker d + 1,
                    group_workers := group_workers d @
                      [\<lparr>gw_id = nxt_group_worker d, gw_group_id = group_id, gw_worker_id = worker_id, gw_role = role\<rparr>]\<rparr>))"

fun insert_group_worker_rows :: "(i64 \<times> i64 \<times> GroupWorkerRole) list \<Rightarrow> Db \<Rightarrow> DbErr + Db" where
  "insert_group_worker_rows [] d = Inr d"
| "insert_group_worker_rows (r # rs) d =
     (case insert_group_worker r d of Inl e \<Rightarrow> Inl e | Inr d' \<Rightarrow> insert_group_worker_rows rs d')"

text \<open>\<open>name\<close> or \<open>name:role\<close>; an unknown role is \<open>Write\<close>, and anything with more colons is ignored.\<close>

definition parse_group_role :: "string \<Rightarrow> (string \<times> GroupWorkerRole) option" where
  "parse_group_role g =
     (case split_on CHR '':'' g of
        [name] \<Rightarrow> Some (name, GroupWorkerRole.Write)
      | [name, role] \<Rightarrow>
          Some (name, case group_worker_role_from_str role of Some r \<Rightarrow> r | None \<Rightarrow> GroupWorkerRole.Write)
      | _ \<Rightarrow> None)"

definition group_roles :: "string list \<Rightarrow> string \<Rightarrow> (string \<rightharpoonup> GroupWorkerRole)" where
  "group_roles specs username =
     (map_of (rev (List.map_filter parse_group_role specs)))(username \<mapsto> GroupWorkerRole.Admin)"

text \<open>\<open>INSERT INTO group_worker SELECT groups.id, worker.id, role FROM groups JOIN group_data\<close>.\<close>

definition insert_memberships :: "i64 \<Rightarrow> (string \<rightharpoonup> GroupWorkerRole) \<Rightarrow> Db \<Rightarrow> DbErr + unit \<times> Db" where
  "insert_memberships worker_id roles d =
     (case insert_group_worker_rows
             (List.map_filter (\<lambda>g. map_option (\<lambda>r. (g_id g, worker_id, r)) (roles (g_group_name g))) (groups d)) d of
        Inl e \<Rightarrow> Inl e
      | Inr d' \<Rightarrow> Inr ((), d'))"

text \<open>The tasks a worker may run: no condition on their state.\<close>

definition runnable_tasks :: "i64 \<Rightarrow> string list \<Rightarrow> Db \<Rightarrow> (i64 \<times> i32) list" where
  "runnable_tasks worker_id tags d =
     [(t_id t, t_priority t). t \<leftarrow> active_tasks d, gw \<leftarrow> group_workers d, w \<leftarrow> workers d,
        t_group_id t = gw_group_id gw, gw_worker_id gw = w_id w, gw_worker_id gw = worker_id,
        group_worker_role_i32 (gw_role gw) > 0, set (t_tags t) \<subseteq> set tags]"

definition setup_worker_queues :: "i64 \<Rightarrow> string list \<Rightarrow> unit svc" where
  "setup_worker_queues worker_id tags =
     thenR (send_hb (Heartbeat worker_id) ''send register worker failed'')
     (thenR (send_task (RegisterWorker worker_id) ''send register worker failed'')
     (bindR (query (runnable_tasks worker_id tags)) (\<lambda>tasks.
       send_task (AddTasks worker_id tasks) ''send add tasks failed'')))"

definition register_worker ::
  "nanos \<Rightarrow> uuid \<Rightarrow> i64 \<Rightarrow> string list \<Rightarrow> string list \<Rightarrow> string list \<Rightarrow> uuid svc" where
  "register_worker now uuid creator_id tags labels grps =
     bindR (db_stmt (insert_worker
       \<lparr>w_id = 0, w_worker_id = uuid, w_creator_id = creator_id, w_tags = tags, w_labels = labels,
        w_created_at = now, w_updated_at = now, w_state = Normal, w_last_heartbeat = now,
        w_assigned_task_id = None\<rparr>)) (\<lambda>worker.
     bindR (query (\<lambda>d. find (\<lambda>u. u_id u = creator_id) (users d))) (\<lambda>found.
     bindR (ok_or (api_not_found ''User not found'') found) (\<lambda>user.
     thenR (db_stmt (insert_memberships (w_id worker) (group_roles grps (u_username user))))
     (thenR (setup_worker_queues (w_id worker) (w_tags worker))
       (ret (w_worker_id worker))))))"

definition restore_workers :: "unit svc" where
  "restore_workers =
     bindR (query (\<lambda>d. map (\<lambda>w. (w_id w, w_tags w)) (workers d))) (\<lambda>ws.
       for_each (\<lambda>(worker_id, tags). setup_worker_queues worker_id tags) ws)"

section \<open>Removal\<close>

text \<open>The query of \<open>remove_worker\<close> selects by \<open>role > 0\<close>.\<close>

definition eligible_workers_gt :: "i64 \<Rightarrow> string list \<Rightarrow> Db \<Rightarrow> i64 list" where
  "eligible_workers_gt group_id tags d =
     [w_id w. w \<leftarrow> workers d, gw \<leftarrow> group_workers d,
        gw_worker_id gw = w_id w, gw_group_id gw = group_id,
        group_worker_role_i32 (gw_role gw) > 0,
        set tags \<subseteq> set (w_tags w)]"

definition release_task :: "nanos \<Rightarrow> TaskRow \<Rightarrow> TaskRow" where
  "release_task now t = t\<lparr>t_assigned_worker := None, t_state := TaskState.Ready, t_updated_at := now\<rparr>"

definition delete_worker_rows :: "i64 \<Rightarrow> unit svc" where
  "delete_worker_rows worker_id =
     thenR (exec (delete_group_workers worker_id)) (thenR (exec (delete_worker worker_id)) (ret ()))"

definition remove_worker :: "nanos \<Rightarrow> WorkerRow \<Rightarrow> unit svc" where
  "remove_worker now worker =
     thenR (case w_assigned_task_id worker of
              Some task_id \<Rightarrow>
                bindR (db_stmt (update_active_task task_id (release_task now))) (\<lambda>task.
                bindR (query (eligible_workers_gt (t_group_id task) (t_tags task))) (\<lambda>ws.
                  send_task (BatchAddTask ws (t_id task) (t_priority task)) ''send batch add task op failed''))
            | None \<Rightarrow> ret ())
     (thenR (transaction (delete_worker_rows (w_id worker)))
     (thenR (send_task (UnregisterWorker (w_id worker)) ''send remove worker op failed'')
       (send_hb (HbUnregisterWorker (w_id worker)) ''send remove worker op failed'')))"

definition find_worker :: "i64 \<Rightarrow> Db \<Rightarrow> WorkerRow option" where
  "find_worker worker_id d = find (\<lambda>w. w_id w = worker_id) (workers d)"

definition find_worker_by_uuid :: "uuid \<Rightarrow> WorkerRow svc" where
  "find_worker_by_uuid uuid =
     bindR (query (\<lambda>d. find (\<lambda>w. w_worker_id w = uuid) (workers d)))
       (ok_or (api_not_found ''Worker not found''))"

definition unregister_worker :: "nanos \<Rightarrow> i64 \<Rightarrow> unit svc" where
  "unregister_worker now worker_id =
     bindR (query (find_worker worker_id)) (\<lambda>found.
     bindR (ok_or (api_not_found (''Worker '' @ int_to_string worker_id @ '' not found'')) found)
       (remove_worker now))"

text \<open>A graceful shutdown waits for the assigned task, if there is one.\<close>

definition shutdown_worker :: "nanos \<Rightarrow> WorkerShutdownOp \<Rightarrow> WorkerRow \<Rightarrow> unit svc" where
  "shutdown_worker now op worker =
     (case op of
        Force \<Rightarrow> remove_worker now worker
      | Graceful \<Rightarrow>
          if w_assigned_task_id worker = None then remove_worker now worker
          else thenR (db_stmt (update_worker (w_id worker) (\<lambda>w. w\<lparr>w_state := GracefulShutdown\<rparr>))) (ret ()))"

definition remove_worker_by_uuid :: "nanos \<Rightarrow> uuid \<Rightarrow> WorkerShutdownOp \<Rightarrow> unit svc" where
  "remove_worker_by_uuid now worker_uuid op =
     bindR (find_worker_by_uuid worker_uuid) (shutdown_worker now op)"

text \<open>The user must be an admin of a group in which the worker has the role \<open>Admin\<close>.\<close>

definition user_manages_worker :: "i64 \<Rightarrow> i64 \<Rightarrow> Db \<Rightarrow> bool" where
  "user_manages_worker user_id worker_id d \<longleftrightarrow>
     (\<exists>gw \<in> set (group_workers d). \<exists>g \<in> set (groups d). \<exists>ug \<in> set (user_groups d).
        g_id g = gw_group_id gw \<and> ug_group_id ug = g_id g \<and> gw_worker_id gw = worker_id \<and>
        gw_role gw = GroupWorkerRole.Admin \<and> ug_user_id ug = user_id \<and> ug_role ug = UserGroupRole.Admin)"

definition user_remove_worker_by_uuid :: "nanos \<Rightarrow> i64 \<Rightarrow> uuid \<Rightarrow> WorkerShutdownOp \<Rightarrow> unit svc" where
  "user_remove_worker_by_uuid now user_id worker_uuid op =
     bindR (find_worker_by_uuid worker_uuid) (\<lambda>worker.
     bindR (query (user_manages_worker user_id (w_id worker))) (\<lambda>ok.
     thenR (ensure ok api_perm_denied)
       (shutdown_worker now op worker)))"

section \<open>Heartbeats\<close>

text \<open>The retry loop of \<open>update_worker_with_transaction\<close>, at most three attempts; \<open>retryable\<close> classifies the
  error (\<open>is_retryable_error\<close> looks at the SQL state of a driver error).\<close>

fun update_worker_retry :: "(Error \<Rightarrow> bool) \<Rightarrow> nanos \<Rightarrow> i64 \<Rightarrow> nat \<Rightarrow> WorkerRow svc" where
  "update_worker_retry retryable now worker_id 0 =
     raise (Custom ''Retry limit reached for updating worker'')"
| "update_worker_retry retryable now worker_id (Suc left) =
     bindR (attempt (transaction (db_stmt (update_worker worker_id (\<lambda>w. w\<lparr>w_last_heartbeat := now\<rparr>))))) (\<lambda>r.
       case r of
         Inr w \<Rightarrow> ret w
       | Inl e \<Rightarrow> if \<not> retryable e \<or> left = 0 then raise e
                   else update_worker_retry retryable now worker_id left)"

definition update_worker_with_transaction :: "(Error \<Rightarrow> bool) \<Rightarrow> nanos \<Rightarrow> i64 \<Rightarrow> WorkerRow svc" where
  "update_worker_with_transaction retryable now worker_id = update_worker_retry retryable now worker_id 3"

text \<open>A running task is expired a minute after its timeout.\<close>

definition task_expired :: "nanos \<Rightarrow> TaskRow \<Rightarrow> bool" where
  "task_expired now task \<longleftrightarrow>
     t_state task = TaskState.Running \<and> now - t_updated_at task > secs (wrap_i64 (t_timeout task + 60))"

definition heartbeat :: "(Error \<Rightarrow> bool) \<Rightarrow> nanos \<Rightarrow> nanos \<Rightarrow> i64 \<Rightarrow> unit svc" where
  "heartbeat retryable now now' worker_id =
     bindR (update_worker_with_transaction retryable now worker_id) (\<lambda>worker.
     bindR (case w_assigned_task_id worker of
              None \<Rightarrow> ret False
            | Some task_id \<Rightarrow>
                bindR (query (\<lambda>d. find (\<lambda>t. t_id t = task_id) (active_tasks d))) (\<lambda>task.
                  ret (case task of None \<Rightarrow> False | Some t \<Rightarrow> task_expired now' t))) (\<lambda>expired.
       if expired then remove_worker now' worker
       else send_hb (Heartbeat worker_id) ''send worker heartbeat failed''))"

section \<open>Fetching\<close>

definition claimable :: "i64 \<Rightarrow> TaskRow \<Rightarrow> bool" where
  "claimable i t \<longleftrightarrow> t_id t = i \<and> t_assigned_worker t = None \<and> t_state t = TaskState.Ready"

definition claimed :: "nanos \<Rightarrow> i64 \<Rightarrow> TaskRow \<Rightarrow> TaskRow" where
  "claimed now worker_id t =
     t\<lparr>t_assigned_worker := Some worker_id, t_updated_at := now, t_state := TaskState.Running\<rparr>"

definition worker_task_resp :: "TaskRow \<Rightarrow> WorkerTaskResp" where
  "worker_task_resp task =
     \<lparr>wt_id = t_id task, wt_uuid = t_uuid task, wt_timeout = as_u64 (t_timeout task),
      wt_upstream_task_uuid = t_upstream_task_uuid task, wt_spec = t_spec task\<rparr>"

text \<open>The conditional update that claims a task, and the worker's row; \<open>None\<close> when the task cannot be
  claimed any more.\<close>

definition claim_task :: "nanos \<Rightarrow> i64 \<Rightarrow> i64 \<Rightarrow> WorkerTaskResp option svc" where
  "claim_task now worker_id i =
     bindR (exec (update_active_where (claimable i) (claimed now worker_id))) (\<lambda>tasks.
       case tasks of
         [] \<Rightarrow> ret None
       | task # _ \<Rightarrow>
           thenR (db_stmt (update_worker worker_id
                    (\<lambda>w. w\<lparr>w_updated_at := now, w_assigned_task_id := Some (t_id task)\<rparr>)))
             (ret (Some (worker_task_resp task))))"

text \<open>The dispatcher handles what is in its channel, then the fetch of this worker; the reply is missing
  when the dispatcher has stopped before it came to the fetch.\<close>

definition ask_dispatcher ::
  "'q pq_ops \<Rightarrow> i64 \<Rightarrow> Pool \<Rightarrow> 'q TaskDispatcher \<Rightarrow> i64 option option \<times> Pool \<times> 'q TaskDispatcher" where
  "ask_dispatcher Q worker_id s d =
     (let d' = run Q (map (\<lambda>op. Recv (Some op)) (task_tx s @ [FetchTask worker_id True])) d
      in (if d_cancelled d' then None else Some (snd (last (d_replies d'))), s\<lparr>task_tx := []\<rparr>, d'))"

partial_function (option) fetch_task ::
  "'q pq_ops \<Rightarrow> nanos \<Rightarrow> i64 \<Rightarrow> Pool \<Rightarrow> 'q TaskDispatcher \<Rightarrow>
   ((Error + WorkerTaskResp option) \<times> Pool \<times> 'q TaskDispatcher) option" where
  "fetch_task Q now worker_id s d =
     (if \<not> task_rx_open s then Some (Inl (Custom ''send fetch task failed''), s, d)
      else case ask_dispatcher Q worker_id s d of
             (None, s1, d1) \<Rightarrow> Some (Inl (Custom ''recv fetch task failed''), s1, d1)
           | (Some None, s1, d1) \<Rightarrow> Some (Inr None, s1, d1)
           | (Some (Some i), s1, d1) \<Rightarrow>
               (case claim_task now worker_id i s1 of
                  (Inl e, s2) \<Rightarrow> Some (Inl e, s2, d1)
                | (Inr (Some resp), s2) \<Rightarrow> Some (Inr (Some resp), s2, d1)
                | (Inr None, s2) \<Rightarrow> fetch_task Q now worker_id s2 d1))"

section \<open>Reports\<close>

definition reported_row :: "nanos \<Rightarrow> uuid \<Rightarrow> TaskResultSpec \<Rightarrow> TaskRow \<Rightarrow> ArchivedRow" where
  "reported_row now worker_uuid res task =
     (archive_of task)\<lparr>t_updated_at := now, t_result := Some res, r_reporter_uuid := Some worker_uuid\<rparr>"

text \<open>The worker must be the one the task is assigned to; anything else looks like a missing task.\<close>

definition assigned_task :: "i64 \<Rightarrow> i64 \<Rightarrow> TaskRow svc" where
  "assigned_task worker_id task_id =
     (let missing = api_not_found (''Task '' @ int_to_string task_id @ '' not found'')
      in bindR (query (\<lambda>d. find (\<lambda>t. t_id t = task_id) (active_tasks d))) (\<lambda>found.
         bindR (ok_or missing found) (\<lambda>task.
         thenR (ensure (t_assigned_worker task = Some worker_id) missing)
           (ret task))))"

definition report_state :: "nanos \<Rightarrow> i64 \<Rightarrow> TaskState \<Rightarrow> unit svc" where
  "report_state now task_id st =
     thenR (db_stmt (update_active_task task_id (\<lambda>t. t\<lparr>t_state := st, t_updated_at := now\<rparr>))) (ret ())"

text \<open>\<open>Submit\<close>: a finished or cancelled task spawns a successor in its own group.\<close>

definition report_submit :: "nanos \<Rightarrow> uuid \<Rightarrow> i64 \<Rightarrow> TaskRow \<Rightarrow> SubmitTaskReq \<Rightarrow> unit svc" where
  "report_submit now new_uuid worker_id task req =
     thenR (ensure (t_state task = TaskState.Finished \<or> t_state task = TaskState.Cancelled)
              (api_invalid ''Task can not spawn new tasks''))
     (bindR (map_err (\<lambda>_. AuthErr WrongCredentials)
               (query (\<lambda>d. find (\<lambda>u. u_id u = t_creator_id task) (users d)) :: UserRow option svc)) (\<lambda>found.
      bindR (ok_or (AuthErr WrongCredentials) found) (\<lambda>user.
      thenR (ensure (u_state user = UserState.Active) perm_denied)
      (bindR (query (find_group (t_group_id task))) (\<lambda>g.
       bindR (ok_or (api_not_found ''Group not found'') g) (\<lambda>grp.
       thenR (ensure (st_group_name req = g_group_name grp) (api_invalid ''Group name mismatch''))
       (bindR (query (\<lambda>d. find (\<lambda>gw. gw_worker_id gw = worker_id \<and> gw_group_id gw = t_group_id task \<and>
                            group_worker_role_i32 (gw_role gw) > group_worker_role_i32 GroupWorkerRole.Read) (group_workers d))) (\<lambda>gw.
        thenR (ok_or api_perm_denied gw)
        (bindR (map_err (\<lambda>e. ApiErr (user_api_error e))
                  (worker_submit_pending_task now new_uuid (t_creator_id task) (t_uuid task) req)) (\<lambda>resp.
         thenR (db_stmt (update_active_task (t_id task)
                  (\<lambda>t. t\<lparr>t_updated_at := now, t_downstream_task_uuid := Some (sr_uuid resp)\<rparr>)))
           (ret ())))))))))))"

text \<open>\<open>Commit\<close>: the task moves to the archive, the worker is free again or, when it was asked to shut down
  gracefully, gone; then the successor of the task becomes ready.\<close>

definition commit_transaction ::
  "nanos \<Rightarrow> i64 \<Rightarrow> uuid \<Rightarrow> TaskRow \<Rightarrow> TaskResultSpec \<Rightarrow> (i64 \<times> WorkerState) svc" where
  "commit_transaction now worker_id worker_uuid task res =
     transaction
       (thenR (db_stmt (insert_archived_task (reported_row now worker_uuid res task)))
       (thenR (exec (delete_active_task (t_id task)))
       (bindR (db_stmt (update_worker worker_id (\<lambda>w. w\<lparr>w_updated_at := now, w_assigned_task_id := None\<rparr>))) (\<lambda>worker.
        thenR (if w_state worker = GracefulShutdown then delete_worker_rows (w_id worker) else ret ())
          (ret (w_id worker, w_state worker))))))"

definition after_commit :: "nanos \<Rightarrow> TaskRow \<Rightarrow> i64 \<times> WorkerState \<Rightarrow> unit svc" where
  "after_commit now task = (\<lambda>(worker_id, worker_state).
     thenR (attempt (remove_task (t_id task)) :: (Error + unit) svc)
     (thenR (case t_downstream_task_uuid task of
               Some uuid \<Rightarrow> worker_trigger_pending_task now uuid
             | None \<Rightarrow> ret ())
     (if worker_state = GracefulShutdown then
        thenR (send_task (UnregisterWorker worker_id) ''Worker was requested to gracefully shutdown but failed to send op through channels'')
          (send_hb (HbUnregisterWorker worker_id) ''Worker was requested to gracefully shutdown but failed to send op through channels'')
      else ret ())))"

definition report_commit :: "nanos \<Rightarrow> i64 \<Rightarrow> uuid \<Rightarrow> TaskRow \<Rightarrow> TaskResultSpec \<Rightarrow> unit svc" where
  "report_commit now worker_id worker_uuid task res =
     thenR (ensure (t_state task = TaskState.Finished \<or> t_state task = TaskState.Cancelled)
              (api_invalid ''Task can not be marked as done''))
     (bindR (commit_transaction now worker_id worker_uuid task res) (after_commit now task))"

definition report_task ::
  "Ext \<Rightarrow> nanos \<Rightarrow> uuid \<Rightarrow> i64 \<Rightarrow> uuid \<Rightarrow> i64 \<Rightarrow> ReportTaskOp \<Rightarrow> string option svc" where
  "report_task X now new_uuid worker_id worker_uuid task_id op =
     bindR (assigned_task worker_id task_id) (\<lambda>task.
       case op of
         Finish \<Rightarrow> thenR (report_state now task_id TaskState.Finished) (ret None)
       | Cancel \<Rightarrow> thenR (report_state now task_id TaskState.Cancelled) (ret None)
       | Submit req \<Rightarrow> thenR (report_submit now new_uuid worker_id task req) (ret None)
       | Commit res \<Rightarrow> thenR (report_commit now worker_id worker_uuid task res) (ret None)
       | Upload content_type content_length \<Rightarrow>
           bindR (group_upload_artifact X now (StoredActive task) content_type content_length) (\<lambda>(_, url).
             ret (Some url)))"

section \<open>Invariants of the task store\<close>

lemma insert_group_worker_same: "insert_group_worker r d = Inr d' \<Longrightarrow> tasks_same d d'"
  by (auto simp: insert_group_worker_def tasks_same_def split: prod.splits if_splits)

lemma tasks_same_trans: "tasks_same a b \<Longrightarrow> tasks_same b c \<Longrightarrow> tasks_same a c"
  by (simp add: tasks_same_def)

lemma insert_group_worker_rows_same: "insert_group_worker_rows rs d = Inr d' \<Longrightarrow> tasks_same d d'"
  by (induction rs d rule: insert_group_worker_rows.induct)
     (auto split: sum.splits dest: insert_group_worker_same intro: tasks_same_trans)

lemma keeps_db_setup_worker_queues [keeps_intros]: "keeps_db I (setup_worker_queues i tags)"
  by (auto simp: setup_worker_queues_def intro!: keeps_intros)

lemma keeps_db_find_worker_by_uuid [keeps_intros]: "keeps_db I (find_worker_by_uuid uuid)"
  by (auto simp: find_worker_by_uuid_def intro!: keeps_intros)

lemma keeps_db_assigned_task [keeps_intros]: "keeps_db I (assigned_task w t)"
  by (auto simp: assigned_task_def Let_def intro!: keeps_intros)

lemma keeps_db_map_err [keeps_intros]: "keeps_db I m \<Longrightarrow> keeps_db I (map_err g m)"
  by (simp add: keeps_db_def keeps_intros)

lemma task_trans_release [simp]: "task_trans t (release_task now t)"
  by (rule tt_release) (simp_all add: release_task_def task_ident_def)

lemma task_trans_claimed: "claimable i t \<Longrightarrow> task_trans t (claimed now w t)"
  by (rule tt_claim) (simp_all add: claimable_def claimed_def task_ident_def)

context task_store
begin

lemma keeps_insert_worker: "keeps_db I (db_stmt (insert_worker row))"
  by (rule keeps_frame_stmt) (auto simp: insert_worker_def tasks_same_def Let_def split: if_splits)

lemma keeps_insert_memberships: "keeps_db I (db_stmt (insert_memberships w roles))"
  by (rule keeps_frame_stmt)
     (auto simp: insert_memberships_def split: sum.splits dest: insert_group_worker_rows_same)

lemma keeps_register_worker: "keeps_db I (register_worker now uuid c tags labels grps)"
  by (auto simp: register_worker_def intro!: keeps_intros keeps_insert_worker keeps_insert_memberships)

lemma keeps_restore_workers: "keeps_db I restore_workers"
  by (auto simp: restore_workers_def intro!: keeps_intros)

lemma keeps_delete_worker_rows: "keeps_db I (delete_worker_rows i)"
  by (auto simp: delete_worker_rows_def intro!: keeps_intros keeps_stmts)

lemma keeps_remove_worker: "keeps_db I (remove_worker now worker)"
  by (auto simp: remove_worker_def intro!: keeps_intros keeps_delete_worker_rows keeps_update_active)

lemma keeps_shutdown_worker: "keeps_db I (shutdown_worker now op worker)"
  by (cases op) (auto simp: shutdown_worker_def intro!: keeps_intros keeps_remove_worker keeps_stmts)

lemma keeps_removal_services:
  "keeps_db I (unregister_worker now i)" "keeps_db I (remove_worker_by_uuid now uuid op)"
  "keeps_db I (user_remove_worker_by_uuid now u uuid op)"
  by (auto simp: unregister_worker_def remove_worker_by_uuid_def user_remove_worker_by_uuid_def
      intro!: keeps_intros keeps_remove_worker keeps_shutdown_worker)

lemma keeps_update_worker_retry: "keeps_db I (update_worker_retry rt now i n)"
  by (induction n) (auto intro!: keeps_intros keeps_stmts)

lemma keeps_heartbeat: "keeps_db I (heartbeat rt now now' i)"
  by (auto simp: heartbeat_def update_worker_with_transaction_def
      intro!: keeps_intros keeps_update_worker_retry keeps_remove_worker)

lemma keeps_claim_task: "keeps_db I (claim_task now w i)"
proof -
  have "keeps_db I (exec (update_active_where (claimable i) (claimed now w)))"
    by (rule keeps_db_exec) (simp add: update_active_where_def trans task_trans_claimed)
  moreover have "keeps_db I (case tasks of [] \<Rightarrow> ret None
      | task # _ \<Rightarrow> thenR (db_stmt (update_worker w (f task))) (ret (Some (worker_task_resp task))))" for tasks f
    by (cases tasks) (auto intro!: keeps_intros keeps_stmts)
  ultimately show ?thesis unfolding claim_task_def by (rule keeps_db_bindR)
qed

text \<open>The reports work on the task read first, which is still there, assigned, when they change it.\<close>

lemma I_report_state:
  assumes "I (db s)" and "t \<in> set (active_tasks (db s))" and "t_assigned_worker t = Some w" and "final_state st"
  shows "wp (report_state now (t_id t) st) (\<lambda>_ s'. I (db s')) (\<lambda>_ s'. I (db s')) s"
  using assms
  by (auto simp: report_state_def wp_eqs task_ident_def split: sum.splits
      intro!: tt_report elim!: I_update_active_row [rotated 3])

lemma keeps_report_submit: "keeps_db I (report_submit now uuid w task req)"
proof -
  have "keeps_db I (db_stmt (update_active_task i (\<lambda>t. t\<lparr>t_updated_at := now, t_downstream_task_uuid := x\<rparr>)))" for i x
    by (rule keeps_update_active) (rule tt_edit, simp_all add: task_ident_def)
  then show ?thesis
    by (auto simp: report_submit_def intro!: keeps_intros keeps_worker_submit_pending_task)
qed

lemma I_commit_transaction:
  assumes "I (db s)" and "t \<in> set (active_tasks (db s))" and "final_state (t_state t)"
  shows "wp (commit_transaction now w wu t res) (\<lambda>_ s'. I (db s')) (\<lambda>_ s'. I (db s')) s"
proof -
  have "archives t (reported_row now wu res t)"
    using assms(3) by (simp add: archives_def reported_row_def task_ident_def)
  note moved = I_archive_one [OF assms(1,2) this]
  have "wp (thenR (db_stmt (insert_archived_task (reported_row now wu res t))) (exec (delete_active_task (t_id t))))
     (\<lambda>_ s'. I (db s')) (\<lambda>_ _. True) (tick s)"
    using moved by (auto simp: wp_eqs split: sum.splits)
  note moved_wp = this
  let ?rest = "bindR (db_stmt (update_worker w (\<lambda>w. w\<lparr>w_updated_at := now, w_assigned_task_id := None\<rparr>))) (\<lambda>worker.
        thenR (if w_state worker = GracefulShutdown then delete_worker_rows (w_id worker) else ret ())
          (ret (w_id worker, w_state worker)))"
  have "keeps_db I ?rest"
    by (auto intro!: keeps_intros keeps_stmts keeps_delete_worker_rows)
  note rest = wp_mono [OF keeps_db_wp [OF this]]
  show ?thesis using assms(1)
    unfolding commit_transaction_def wp_transaction wp_thenR_assoc
    by (auto intro!: wp_mono [OF moved_wp] rest)
qed

lemma keeps_after_commit: "keeps_db I (after_commit now task x)"
  by (cases x) (auto simp: after_commit_def intro!: keeps_intros keeps_worker_trigger_pending_task)

lemma keeps_report_task: "keeps_db I (report_task X now uuid w wu i op)"
proof (rule keeps_dbI)
  fix s :: Pool assume I: "I (db s)"
  have body: "wp (case op of
         Finish \<Rightarrow> thenR (report_state now i TaskState.Finished) (ret None)
       | Cancel \<Rightarrow> thenR (report_state now i TaskState.Cancelled) (ret None)
       | Submit req \<Rightarrow> thenR (report_submit now uuid w t req) (ret None)
       | Commit res \<Rightarrow> thenR (report_commit now w wu t res) (ret None)
       | Upload ct len \<Rightarrow> bindR (group_upload_artifact X now (StoredActive t) ct len) (\<lambda>(_, url). ret (Some url)))
       (\<lambda>_ s'. I (db s')) (\<lambda>_ s'. I (db s')) (tick s)"
    if t: "t \<in> set (active_tasks (db s))" "t_id t = i" "t_assigned_worker t = Some w" for t
  proof (cases op)
    case Finish
    then show ?thesis using I t I_report_state [of "tick s" t w TaskState.Finished now] by (simp add: wp_eqs)
  next
    case Cancel
    then show ?thesis using I t I_report_state [of "tick s" t w TaskState.Cancelled now] by (simp add: wp_eqs)
  next
    case (Submit req)
    then show ?thesis using I by (simp add: wp_eqs keeps_db_wp [OF keeps_report_submit])
  next
    case (Commit res)
    show ?thesis
    proof (cases "final_state (t_state t)")
      case True
      have "wp (commit_transaction now w wu t res) (\<lambda>_ s'. I (db s')) (\<lambda>_ s'. I (db s')) (tick s)"
        using I t True by (intro I_commit_transaction) simp_all
      then show ?thesis using Commit True I keeps_db_wp [OF keeps_after_commit]
        by (auto simp: report_commit_def wp_eqs elim!: wp_mono)
    qed (use Commit I in \<open>simp add: report_commit_def wp_eqs\<close>)
  next
    case (Upload ct len)
    have "keeps_db I (bindR (group_upload_artifact X now (StoredActive t) ct len) (\<lambda>(_, url). ret (Some url)))"
      by (auto intro!: keeps_intros keeps_group_upload_artifact)
    then show ?thesis using Upload I by (simp add: keeps_db_wp)
  qed
  show "wp (report_task X now uuid w wu i op) (\<lambda>_ s'. I (db s')) (\<lambda>_ s'. I (db s')) s"
    using I body by (auto simp: report_task_def assigned_task_def Let_def wp_eqs split: option.splits dest!: find_SomeD)
qed

end

section \<open>Fetching returns the best claimable task\<close>

definition claimable_in :: "Db \<Rightarrow> i64 \<Rightarrow> bool" where
  "claimable_in d i \<longleftrightarrow> (\<exists>t \<in> set (active_tasks d). claimable i t)"

text \<open>The queue of a worker once the dispatcher has caught up with its channel.\<close>

definition eff_queue ::
  "'q pq_ops \<Rightarrow> ('q \<Rightarrow> i64 \<rightharpoonup> i32) \<Rightarrow> i64 \<Rightarrow> Pool \<Rightarrow> 'q TaskDispatcher \<Rightarrow> (i64 \<rightharpoonup> i32) option" where
  "eff_queue Q lookup w s d = dabs lookup (fold (handle Q) (task_tx s) d) w"

text \<open>The database after worker \<open>w\<close> has claimed task \<open>i\<close>.\<close>

definition claim_db :: "nanos \<Rightarrow> i64 \<Rightarrow> i64 \<Rightarrow> Db \<Rightarrow> Db" where
  "claim_db now w i d =
     d\<lparr>active_tasks := upd_where (claimable i) (claimed now w) (active_tasks d),
       workers := upd_where (\<lambda>x. w_id x = w) (\<lambda>x. x\<lparr>w_updated_at := now, w_assigned_task_id := Some i\<rparr>) (workers d)\<rparr>"

definition queue_size :: "(i64 \<rightharpoonup> i32) option \<Rightarrow> nat" where
  "queue_size x = (case x of None \<Rightarrow> 0 | Some q \<Rightarrow> card (dom q))"

text \<open>What a fetch promises: with an answer, a claimable task of the worker's queue whose priority no
  other claimable task of the queue exceeds, now running on the worker; without one, that no task of the
  queue can be claimed.\<close>

definition fetch_spec ::
  "(i64 \<rightharpoonup> i32) option \<Rightarrow> nanos \<Rightarrow> i64 \<Rightarrow> Db \<Rightarrow> Error + WorkerTaskResp option \<Rightarrow> Db \<Rightarrow> bool" where
  "fetch_spec qo now w d r d' \<longleftrightarrow>
     (case r of
        Inl _ \<Rightarrow> True
      | Inr None \<Rightarrow> d' = d \<and> (\<forall>q i. qo = Some q \<longrightarrow> q i \<noteq> None \<longrightarrow> \<not> claimable_in d i)
      | Inr (Some resp) \<Rightarrow>
          (\<exists>q p. \<exists>t \<in> set (active_tasks d). qo = Some q \<and> q (t_id t) = Some p \<and> claimable (t_id t) t \<and>
             resp = worker_task_resp (claimed now w t) \<and> d' = claim_db now w (t_id t) d \<and>
             (\<forall>i p'. q i = Some p' \<longrightarrow> claimable_in d i \<longrightarrow> p' \<le> p)))"

lemma claim_task_wp:
  "wp (claim_task now w i)
     (\<lambda>r s'. task_tx s' = task_tx s \<and> task_rx_open s' = task_rx_open s \<and>
        (case r of
           None \<Rightarrow> db s' = db s \<and> \<not> claimable_in (db s) i
         | Some resp \<Rightarrow> \<exists>t \<in> set (active_tasks (db s)). claimable i t \<and>
             resp = worker_task_resp (claimed now w t) \<and> db s' = claim_db now w i (db s)))
     (\<lambda>_ s'. task_tx s' = task_tx s) s"
proof (cases "filter (claimable i) (active_tasks (db s))")
  case Nil
  then have "\<not> claimable_in (db s) i" by (auto simp: claimable_in_def filter_empty_conv)
  then show ?thesis using Nil filter_upd_where_none [OF Nil]
    by (simp add: claim_task_def update_active_where_def wp_eqs)
next
  case (Cons t ts)
  then have t: "t \<in> set (active_tasks (db s))" "claimable i t"
    using Cons [symmetric] by (auto simp: Cons_eq_filter_iff)
  then have "t_id (claimed now w t) = i" by (simp add: claimable_def claimed_def)
  then show ?thesis using t Cons
    by (auto simp: claim_task_def update_active_where_def update_worker_def claim_db_def wp_eqs split: option.splits)
qed

context priority_queue
begin

lemma ask_dispatcher_Some:
  assumes "ask_dispatcher Q w s d = (Some r, s1, d1)"
  shows "s1 = s\<lparr>task_tx := []\<rparr>"
    and "q_fetch w (dabs lookup (fold (handle Q) (task_tx s) d)) r (dabs lookup d1)"
proof -
  let ?D = "fold (handle Q) (task_tx s) d"
  let ?ops = "task_tx s @ [FetchTask w True]"
  show "s1 = s\<lparr>task_tx := []\<rparr>" using assms by (auto simp: ask_dispatcher_def Let_def)
  have d1: "d1 = run Q (map (\<lambda>op. Recv (Some op)) ?ops) d" "\<not> d_cancelled d1" "r = snd (last (d_replies d1))"
    using assms by (auto simp: ask_dispatcher_def Let_def split: if_splits)
  then have "d1 = fold (handle Q) ?ops d" using run_not_cancelled by metis
  moreover obtain r' D' where f: "disp_fetch_task Q w ?D = (r', D')" by fastforce
  ultimately have "d1 = D'\<lparr>d_replies := d_replies D' @ [(w, r')]\<rparr>" by simp
  moreover have "dabs lookup (D'\<lparr>d_replies := x\<rparr>) = dabs lookup D'" for x by (simp add: dabs_def)
  ultimately show "q_fetch w (dabs lookup ?D) r (dabs lookup d1)"
    using d1(3) q_fetch_disp_fetch_task [OF f] by simp
qed

lemma eff_queue_empty_channel: "task_tx s = [] \<Longrightarrow> eff_queue Q lookup w s d = dabs lookup d w"
  by (simp add: eff_queue_def)

text \<open>What one turn of the loop does with a task it could not claim.\<close>

lemma fetch_skips:
  assumes "ask_dispatcher Q w s d = (Some (Some i), s1, d1)" and "claim_task now w i s1 = (Inr None, s2)"
  obtains q p where "eff_queue Q lookup w s d = Some q" "top_of q i p"
    "eff_queue Q lookup w s2 d1 = Some (q(i := None))" "db s2 = db s" "\<not> claimable_in (db s) i"
proof -
  note ask = ask_dispatcher_Some [OF assms(1)]
  have s2: "task_tx s2 = []" "db s2 = db s" "\<not> claimable_in (db s) i"
    using wp_okD [OF claim_task_wp assms(2)] ask(1) by simp_all
  from ask(2) obtain q p where "dabs lookup (fold (handle Q) (task_tx s) d) w = Some q" "top_of q i p"
    "dabs lookup d1 w = Some (q(i := None))" by (auto elim!: q_fetch_SomeE)
  then show thesis using that s2 by (simp add: eff_queue_empty_channel) (simp add: eff_queue_def)
qed

lemma finite_eff_queue: "eff_queue Q lookup w s d = Some q \<Longrightarrow> finite (dom q)"
  by (auto simp: eff_queue_def dabs_def)

lemma fetch_skips_smaller:
  assumes "ask_dispatcher Q w s d = (Some (Some i), s1, d1)" and "claim_task now w i s1 = (Inr None, s2)"
  shows "queue_size (eff_queue Q lookup w s2 d1) < queue_size (eff_queue Q lookup w s d)"
proof -
  obtain q p where q: "eff_queue Q lookup w s d = Some q" "top_of q i p"
    "eff_queue Q lookup w s2 d1 = Some (q(i := None))" using fetch_skips [OF assms] by metis
  have "dom (q(i := None)) \<subset> dom q" using q(2) by (auto simp: top_of_def)
  then show ?thesis using q finite_eff_queue [OF q(1)] by (simp add: queue_size_def psubset_card_mono)
qed

lemma fetch_returns: "\<exists>r s' d'. fetch_task Q now w s d = Some (r, s', d')"
proof (induction "queue_size (eff_queue Q lookup w s d)" arbitrary: s d rule: less_induct)
  case less
  show ?case
  proof (cases "\<exists>i s1 d1 s2. task_rx_open s \<and> ask_dispatcher Q w s d = (Some (Some i), s1, d1) \<and>
      claim_task now w i s1 = (Inr None, s2)")
    case True
    then show ?thesis using less fetch_skips_smaller
      by (subst fetch_task.simps) fastforce
  next
    case False
    then show ?thesis
      by (subst fetch_task.simps) (auto split: prod.splits option.splits sum.splits)
  qed
qed

lemma fetch_skip_spec:
  assumes "top_of q i p" and "\<not> claimable_in d i" and "fetch_spec (Some (q(i := None))) now w d r d'"
  shows "fetch_spec (Some q) now w d r d'"
  using assms by (auto simp: fetch_spec_def top_of_def split: sum.splits option.splits if_splits) (metis option.inject)+

lemma fetch_stops_spec:
  assumes "fetch_task Q now w s d = Some (r, s', d')"
    and "\<not> (\<exists>i s1 d1 s2. task_rx_open s \<and> ask_dispatcher Q w s d = (Some (Some i), s1, d1) \<and>
            claim_task now w i s1 = (Inr None, s2))"
  shows "fetch_spec (eff_queue Q lookup w s d) now w (db s) r (db s')"
proof (cases r)
  case (Inl e)
  then show ?thesis by (simp add: fetch_spec_def)
next
  case (Inr x)
  then obtain rep s1 d1 where ask: "ask_dispatcher Q w s d = (Some rep, s1, d1)" and rx: "task_rx_open s"
    using assms(1) by (subst (asm) fetch_task.simps) (auto split: if_splits option.splits prod.splits)
  note q = ask_dispatcher_Some [OF ask]
  show ?thesis
  proof (cases rep)
    case None
    then have "x = None" "s' = s1" using assms(1) ask rx Inr by (subst (asm) fetch_task.simps; simp)+
    moreover have "dabs lookup (fold (handle Q) (task_tx s) d) w \<in> {None, Some Map.empty}"
      using q(2) None by (auto elim: q_fetch_NoneE)
    ultimately show ?thesis using Inr q(1) by (auto simp: fetch_spec_def eff_queue_def)
  next
    case (Some i)
    obtain y s2 where claim: "claim_task now w i s1 = (y, s2)" by fastforce
    then obtain resp where y: "y = Inr (Some resp)" "x = Some resp" "s' = s2"
      using assms ask rx Inr Some by (subst (asm) fetch_task.simps) (auto split: sum.splits option.splits)
    from q(2) Some obtain m p where m: "eff_queue Q lookup w s d = Some m" "top_of m i p"
      by (auto simp: eff_queue_def elim!: q_fetch_SomeE)
    obtain t where t: "t \<in> set (active_tasks (db s))" "claimable i t" "resp = worker_task_resp (claimed now w t)"
      "db s2 = claim_db now w i (db s)"
      using wp_okD [OF claim_task_wp claim [unfolded y]] q(1) by auto
    then have "t_id t = i" by (simp add: claimable_def)
    then show ?thesis using Inr y m t unfolding fetch_spec_def by (auto simp: top_of_def)
  qed
qed

lemma fetch_correct:
  assumes "fetch_task Q now w s d = Some (r, s', d')"
  shows "fetch_spec (eff_queue Q lookup w s d) now w (db s) r (db s')"
  using assms
proof (induction "queue_size (eff_queue Q lookup w s d)" arbitrary: s d rule: less_induct)
  case less
  show ?case
  proof (cases "\<exists>i s1 d1 s2. task_rx_open s \<and> ask_dispatcher Q w s d = (Some (Some i), s1, d1) \<and>
      claim_task now w i s1 = (Inr None, s2)")
    case True
    then obtain i s1 d1 s2 where ask: "ask_dispatcher Q w s d = (Some (Some i), s1, d1)"
      and rx: "task_rx_open s" and claim: "claim_task now w i s1 = (Inr None, s2)" by blast
    obtain q p where q: "eff_queue Q lookup w s d = Some q" "top_of q i p"
      "eff_queue Q lookup w s2 d1 = Some (q(i := None))" "db s2 = db s" "\<not> claimable_in (db s) i"
      using fetch_skips [OF ask claim] by metis
    have "fetch_task Q now w s2 d1 = Some (r, s', d')"
      using less.prems ask claim rx by (subst (asm) fetch_task.simps) simp
    from less.hyps [OF fetch_skips_smaller [OF ask claim] this]
    show ?thesis using fetch_skip_spec q by simp
  next
    case False
    with less.prems show ?thesis by (rule fetch_stops_spec)
  qed
qed

end

context task_store
begin

lemma keeps_fetch_task:
  assumes "fetch_task Q now w s d = Some x" and "I (db s)"
  shows "I (db (fst (snd x)))"
proof -
  have "I (db s) \<longrightarrow> I (db (fst (snd x)))"
  proof (rule fetch_task.raw_induct [where P = "\<lambda>Q now w s d x. I (db s) \<longrightarrow> I (db (fst (snd x)))",
        OF _ assms(1)], rule impI)
    fix f Q now w s d x
    assume IH: "\<And>Q now w s d y. f Q now w s d = Some y \<Longrightarrow> I (db s) \<longrightarrow> I (db (fst (snd y)))"
      and x: "(if \<not> task_rx_open s then Some (Inl (Custom ''send fetch task failed''), s, d)
      else case ask_dispatcher Q w s d of
             (None, s1, d1) \<Rightarrow> Some (Inl (Custom ''recv fetch task failed''), s1, d1)
           | (Some None, s1, d1) \<Rightarrow> Some (Inr None, s1, d1)
           | (Some (Some i), s1, d1) \<Rightarrow>
               (case claim_task now w i s1 of
                  (Inl e, s2) \<Rightarrow> Some (Inl e, s2, d1)
                | (Inr (Some resp), s2) \<Rightarrow> Some (Inr (Some resp), s2, d1)
                | (Inr None, s2) \<Rightarrow> f Q now w s2 d1)) = Some x"
      and I: "I (db s)"
    have ask: "db s1 = db s" if "ask_dispatcher Q w s d = (rep, s1, d1)" for rep s1 d1
      using that by (auto simp: ask_dispatcher_def Let_def)
    have claim: "I (db s2)" if "claim_task now w i t = (y, s2)" "I (db t)" for i t y s2
      using keeps_dbD [OF keeps_claim_task that(2), of now w i] that(1) by simp
    show "I (db (fst (snd x)))"
      using x I by (auto split: if_splits prod.splits option.splits sum.splits dest!: ask IH dest: claim)
  qed
  with assms(2) show ?thesis by blast
qed

end

text \<open>The two forms of the role condition select the same workers.\<close>

lemma eligible_workers_gt_eq: "eligible_workers_gt = eligible_workers"
proof -
  have role: "r \<in> {GroupWorkerRole.Write, GroupWorkerRole.Admin} \<longleftrightarrow> group_worker_role_i32 r > 0" for r
    by (cases r) auto
  show ?thesis unfolding eligible_workers_gt_def eligible_workers_def role by (intro ext) simp
qed

section \<open>Properties\<close>

text \<open>C3. A fetch returns: the loop that skips tasks which can no longer be claimed ends, for every queue
  implementation that satisfies the laws, every state of the channel and the dispatcher, and wherever
  statements fail.\<close>

theorem fetch_task_returns:
  assumes "priority_queue Q lookup"
  shows "\<exists>r s' d'. fetch_task Q now w s d = Some (r, s', d')"
  using assms by (rule priority_queue.fetch_returns)

theorem fetch_task_returns_witness:
  "priority_queue alist_pq map_of \<and> (\<exists>r s' d'. fetch_task alist_pq 7 1 sample_pool sample_dispatcher = Some (r, s', d'))"
  by (intro conjI alist_pq.priority_queue_axioms fetch_task_returns [OF alist_pq.priority_queue_axioms])

text \<open>C4. A fetch is right: the task it returns was ready and unassigned, was in the worker's queue once the
  dispatcher had caught up, and has the highest priority of the claimable tasks there; it is now running
  on that worker and nothing else has changed. When it returns no task, none of the queue is claimable.\<close>

theorem fetch_task_best:
  assumes "priority_queue Q lookup" and "fetch_task Q now w s d = Some (r, s', d')"
  shows "fetch_spec (eff_queue Q lookup w s d) now w (db s) r (db s')"
  using assms by (rule priority_queue.fetch_correct)

text \<open>A queue whose first task is already running, so that the fetch skips it.\<close>

definition busy_dispatcher :: "(i64 \<times> i32) list TaskDispatcher" where
  "busy_dispatcher = \<lparr>d_workers = [1 \<mapsto> [(2, 3), (1, 9)]], d_cancelled = False, d_replies = []\<rparr>"

lemmas fetch_defs = ask_dispatcher_def claim_task_def update_active_where_def update_worker_def
  disp_fetch_task_def claimable_def claimed_def worker_task_resp_def upd_where_def alist_pq_def
  alist_pop_def busy_dispatcher_def run_defs sample_defs

theorem fetch_task_best_witness:
  "\<exists>resp s' d'. fetch_task alist_pq 7 1 sample_pool busy_dispatcher = Some (Inr (Some resp), s', d') \<and> wt_id resp = 2 \<and>
     fetch_spec (eff_queue alist_pq map_of 1 sample_pool busy_dispatcher) 7 1 (db sample_pool) (Inr (Some resp)) (db s')"
proof -
  have "\<exists>resp s' d'. fetch_task alist_pq 7 1 sample_pool busy_dispatcher = Some (Inr (Some resp), s', d') \<and> wt_id resp = 2"
    by (subst fetch_task.simps, simp add: fetch_defs, subst fetch_task.simps, simp add: fetch_defs)
  then show ?thesis using fetch_task_best [OF alist_pq.priority_queue_axioms] by blast
qed

text \<open>C10. Reports come from the assigned worker only: a report of any kind on a task that is not assigned to
  the reporting worker fails and changes neither the tables nor the channels.\<close>

theorem report_task_wrong_worker:
  assumes "\<And>t. t \<in> set (active_tasks (db s)) \<Longrightarrow> t_id t = i \<Longrightarrow> t_assigned_worker t \<noteq> Some w"
  shows "\<exists>e s'. report_task X now uuid w wu i op s = (Inl e, s') \<and>
           db s' = db s \<and> task_tx s' = task_tx s \<and> hb_tx s' = hb_tx s"
proof -
  have "wp (report_task X now uuid w wu i op) (\<lambda>_ _. False)
     (\<lambda>_ s'. db s' = db s \<and> task_tx s' = task_tx s \<and> hb_tx s' = hb_tx s) s"
    using assms by (auto simp: report_task_def assigned_task_def Let_def wp_eqs split: option.splits dest!: find_SomeD)
  then show ?thesis by (auto simp: wp_def split: prod.splits sum.splits)
qed

theorem report_task_wrong_worker_witness:
  "\<exists>e s'. report_task sample_ext 7 42 9 79 1 Finish sample_pool = (Inl e, s') \<and>
     db s' = db sample_pool \<and> task_tx s' = task_tx sample_pool \<and> hb_tx s' = hb_tx sample_pool"
  by (rule report_task_wrong_worker) (auto simp: sample_defs)

text \<open>C9. A worker that leaves gives its task back: when no statement fails, removing a worker with an
  assigned task makes the task ready and unassigned, deletes the worker and its memberships, offers the task
  to the eligible workers, and takes the worker out of the dispatcher and the heartbeat queue.\<close>

theorem remove_worker_requeues:
  assumes "faults s = []" and "task_rx_open s" and "hb_rx_open s" and "task_inv (db s)"
    and t: "t \<in> set (active_tasks (db s))" and w: "w_assigned_task_id w = Some (t_id t)"
  shows "\<exists>s'. remove_worker now w s = (Inr (), s') \<and>
     active_tasks (db s') = upd_where (\<lambda>x. t_id x = t_id t) (release_task now) (active_tasks (db s)) \<and>
     workers (db s') = filter (\<lambda>x. w_id x \<noteq> w_id w) (workers (db s)) \<and>
     group_workers (db s') = filter (\<lambda>x. gw_worker_id x \<noteq> w_id w) (group_workers (db s)) \<and>
     task_tx s' = task_tx s @ [BatchAddTask (eligible_workers (t_group_id t) (t_tags t) (db s)) (t_id t) (t_priority t),
                               UnregisterWorker (w_id w)] \<and>
     hb_tx s' = hb_tx s @ [HbUnregisterWorker (w_id w)]"
proof -
  have find: "find (\<lambda>x. t_id x = t_id t) (active_tasks (db s)) = Some t"
    using t task_inv_distinct_ids [OF assms(4)] by (rule find_unique_key [rotated])
  have "wp (remove_worker now w) (\<lambda>_ s'.
     active_tasks (db s') = upd_where (\<lambda>x. t_id x = t_id t) (release_task now) (active_tasks (db s)) \<and>
     workers (db s') = filter (\<lambda>x. w_id x \<noteq> w_id w) (workers (db s)) \<and>
     group_workers (db s') = filter (\<lambda>x. gw_worker_id x \<noteq> w_id w) (group_workers (db s)) \<and>
     task_tx s' = task_tx s @ [BatchAddTask (eligible_workers (t_group_id t) (t_tags t) (db s)) (t_id t) (t_priority t),
                               UnregisterWorker (w_id w)] \<and>
     hb_tx s' = hb_tx s @ [HbUnregisterWorker (w_id w)]) (\<lambda>_ _. False) s"
    using assms(1-3) w find
    by (simp add: remove_worker_def delete_worker_rows_def wp_eqs update_active_task_def eligible_workers_gt_eq release_task_def
        delete_worker_def delete_group_workers_def del_where_def)
  then show ?thesis unfolding wp_total_iff by auto
qed

theorem remove_worker_requeues_witness:
  "\<exists>s'. remove_worker 9 sample_worker sample_pool = (Inr (), s') \<and>
     active_tasks (db s') = upd_where (\<lambda>x. t_id x = t_id (sample_task 1 TaskState.Running (Some 1))) (release_task 9) (active_tasks (db sample_pool)) \<and>
     workers (db s') = filter (\<lambda>x. w_id x \<noteq> w_id sample_worker) (workers (db sample_pool)) \<and>
     group_workers (db s') = filter (\<lambda>x. gw_worker_id x \<noteq> w_id sample_worker) (group_workers (db sample_pool)) \<and>
     task_tx s' = task_tx sample_pool @ [BatchAddTask (eligible_workers (t_group_id (sample_task 1 TaskState.Running (Some 1)))
         (t_tags (sample_task 1 TaskState.Running (Some 1))) (db sample_pool)) (t_id (sample_task 1 TaskState.Running (Some 1))) (t_priority (sample_task 1 TaskState.Running (Some 1))),
                               UnregisterWorker (w_id sample_worker)] \<and>
     hb_tx s' = hb_tx sample_pool @ [HbUnregisterWorker (w_id sample_worker)]"
  by (rule remove_worker_requeues [OF _ _ _ sample_pool_inv]) (simp_all add: sample_defs)

text \<open>A committed task is in the archive and no longer active.\<close>

definition committed_in :: "ArchivedRow \<Rightarrow> Db \<Rightarrow> bool" where
  "committed_in r d \<longleftrightarrow> r \<in> set (archived_tasks d) \<and> t_id r \<notin> t_id ` set (active_tasks d)"

lemma keeps_committed_trigger: "keeps_db (committed_in r) (worker_trigger_pending_task now uuid)"
proof -
  have "keeps_db (committed_in r) (db_stmt (update_active_task i (\<lambda>t. t\<lparr>t_state := st, t_updated_at := now\<rparr>)))" for i st
    by (rule keeps_db_stmt)
       (auto simp: committed_in_def update_active_task_def split: option.splits elim!: upd_whereE)
  then show ?thesis by (auto simp: worker_trigger_pending_task_def intro!: keeps_intros)
qed

lemma commit_transaction_wp:
  "wp (commit_transaction now w wu t res) (\<lambda>_ s'. committed_in (reported_row now wu res t) (db s'))
     (\<lambda>_ s'. db s' = db s) s"
  by (auto simp: commit_transaction_def delete_worker_rows_def delete_active_task_def update_worker_def
      delete_worker_def delete_group_workers_def committed_in_def reported_row_def wp_eqs
      split: sum.splits option.splits dest!: insert_archived_task_Inr)


definition finished_db :: "uuid option \<Rightarrow> WorkerState \<Rightarrow> Db" where
  "finished_db next st = sample_db\<lparr>
     active_tasks := [(sample_task 1 TaskState.Finished (Some 1))\<lparr>t_downstream_task_uuid := next\<rparr>],
     workers := [sample_worker\<lparr>w_state := st\<rparr>]\<rparr>"

lemmas report_defs = report_task_def assigned_task_def report_commit_def commit_transaction_def after_commit_def
  delete_worker_rows_def insert_archived_task_def delete_active_task_def update_worker_def delete_worker_def
  delete_group_workers_def remove_task_def worker_trigger_pending_task_def reported_row_def archive_of_def
  upd_where_def del_where_def finished_db_def run_defs sample_defs TaskRow.defs ArchivedRow.defs


text \<open>A commit can fail after it has happened: when the successor of the task is no longer pending, the
  task is archived and a worker that was to shut down gracefully is deleted, but the call returns that the
  successor was not found, and the dispatcher and the heartbeat queue never learn that the worker is gone.\<close>

lemma report_commit_missing_successor:
  "let (r, s') = report_task sample_ext 9 42 1 77 1 (Commit \<lparr>exit_status = 0, msg = None\<rparr>)
                   (sample_pool\<lparr>db := finished_db (Some 99) GracefulShutdown\<rparr>)
   in r = Inl (api_not_found ''Pending task with uuid'') \<and>
      map t_id (archived_tasks (db s')) = [1] \<and> active_tasks (db s') = [] \<and> workers (db s') = [] \<and>
      task_tx s' = [RemoveTask 1] \<and> hb_tx s' = []"
  by (simp add: report_defs)

text \<open>A claim is not atomic: when the connection is lost between its two updates, the task is running
  and assigned to the worker, while the worker gets an error and its row does not mention the task, so the
  removal of the worker does not give the task back.\<close>

lemma claim_task_not_atomic:
  "let s = sample_pool\<lparr>db := sample_db\<lparr>workers := [sample_worker\<lparr>w_assigned_task_id := None\<rparr>],
                                          active_tasks := [sample_task 2 TaskState.Ready None]\<rparr>,
                        faults := [False, True]\<rparr>;
       (r, s') = claim_task 7 1 2 s; (r'', s'') = unregister_worker 8 1 s'
   in r = Inl (DbError ConnectionLost) \<and> r'' = Inr () \<and> workers (db s'') = [] \<and>
      map (\<lambda>t. (t_state t, t_assigned_worker t)) (active_tasks (db s'')) = [(TaskState.Running, Some 1)]"
  by (simp add: claim_task_def unregister_worker_def remove_worker_def find_worker_def update_active_where_def
      claimable_def claimed_def report_defs)

end
