(* ===== verification/Task_Query.thy ===== *)
theory Task_Query
  imports Task_Service Storage
begin

text \<open>
  Queries over tasks and the cancellation of many tasks (\<open>service/task.rs\<close>).

  A SELECT is a list comprehension over the tables; its WHERE clause is a predicate on the joined rows,
  in which a comparison with NULL is false. The exit status of a result is compared as text, in the
  order of the database collation, which is an argument. LIMIT and OFFSET are \<open>take\<close> and \<open>drop\<close>.
\<close>

section \<open>Requests and responses\<close>

record TasksQueryReq =
  tq_creator_usernames :: "string list option"
  tq_group_name :: "string option"
  tq_tags :: "string list option"
  tq_labels :: "string list option"
  tq_states :: "TaskState list option"
  tq_exit_status :: "string option"
  tq_priority :: "string option"
  tq_reporter_uuid :: "uuid option"
  tq_limit :: "nat option"
  tq_offset :: "nat option"
  tq_count :: bool

record TasksCancelByFilterReq =
  tc_creator_usernames :: "string list option"
  tc_group_name :: "string option"
  tc_tags :: "string list option"
  tc_labels :: "string list option"
  tc_states :: "TaskState list option"
  tc_exit_status :: "string option"
  tc_priority :: "string option"

record TaskQueryInfo =
  qi_uuid :: uuid
  qi_creator_username :: string
  qi_group_name :: string
  qi_task_id :: i64
  qi_tags :: "string list"
  qi_labels :: "string list"
  qi_created_at :: nanos
  qi_updated_at :: nanos
  qi_state :: TaskState
  qi_timeout :: i64
  qi_priority :: i32
  qi_spec :: TaskSpec
  qi_result :: "TaskResultSpec option"
  qi_upstream_task_uuid :: "uuid option"
  qi_downstream_task_uuid :: "uuid option"
  qi_reporter_uuid :: "uuid option"

record TasksQueryResp =
  qr_count :: u64
  qr_tasks :: "TaskQueryInfo list"
  qr_group_name :: string

definition task_query_info :: "'a TaskRow_scheme \<Rightarrow> UserRow \<Rightarrow> GroupRow \<Rightarrow> uuid option \<Rightarrow> TaskQueryInfo" where
  "task_query_info t u g reporter =
     \<lparr>qi_uuid = t_uuid t, qi_creator_username = u_username u, qi_group_name = g_group_name g,
      qi_task_id = t_task_id t, qi_tags = t_tags t, qi_labels = t_labels t, qi_created_at = t_created_at t,
      qi_updated_at = t_updated_at t, qi_state = t_state t, qi_timeout = t_timeout t,
      qi_priority = t_priority t, qi_spec = t_spec t, qi_result = t_result t,
      qi_upstream_task_uuid = t_upstream_task_uuid t, qi_downstream_task_uuid = t_downstream_task_uuid t,
      qi_reporter_uuid = reporter\<rparr>"

section \<open>One task\<close>

text \<open>\<open>FROM tasks JOIN users JOIN groups\<close>.\<close>

definition joined :: "'a TaskRow_scheme list \<Rightarrow> Db \<Rightarrow> ('a TaskRow_scheme \<times> UserRow \<times> GroupRow) list" where
  "joined ts d = [(t, u, g). t \<leftarrow> ts, u \<leftarrow> users d, u_id u = t_creator_id t, g \<leftarrow> groups d, t_group_id t = g_id g]"

definition active_infos :: "(TaskRow \<Rightarrow> UserRow \<Rightarrow> GroupRow \<Rightarrow> bool) \<Rightarrow> Db \<Rightarrow> TaskQueryInfo list" where
  "active_infos p d = [task_query_info t u g None. (t, u, g) \<leftarrow> joined (active_tasks d) d, p t u g]"

definition archived_infos :: "(ArchivedRow \<Rightarrow> UserRow \<Rightarrow> GroupRow \<Rightarrow> bool) \<Rightarrow> Db \<Rightarrow> TaskQueryInfo list" where
  "archived_infos p d = [task_query_info t u g (r_reporter_uuid t). (t, u, g) \<leftarrow> joined (archived_tasks d) d, p t u g]"

definition first :: "'a list \<Rightarrow> 'a option" where
  "first xs = (case xs of [] \<Rightarrow> None | x # _ \<Rightarrow> Some x)"

definition get_task_by_uuid :: "uuid \<Rightarrow> (TaskQueryInfo \<times> ArtifactRow list) svc" where
  "get_task_by_uuid uuid =
     bindR (query (\<lambda>d. first (active_infos (\<lambda>t _ _. t_uuid t = uuid) d))) (\<lambda>active.
     bindR (case active of
              Some i \<Rightarrow> ret (Some i)
            | None \<Rightarrow> query (\<lambda>d. first (archived_infos (\<lambda>t _ _. t_uuid t = uuid) d))) (\<lambda>found.
     bindR (ok_or (api_not_found ''Task with uuid'') found) (\<lambda>info.
     bindR (query (\<lambda>d. filter (\<lambda>a. f_task_id a = uuid) (artifacts d))) (\<lambda>arts.
       ret (info, arts)))))"

section \<open>Filters\<close>

datatype OperatorWithNumber = Eq i32 | Neq i32 | Gt i32 | Gte i32 | Lt i32 | Lte i32

definition parse_i32 :: "string \<Rightarrow> i32 svc" where
  "parse_i32 s = ok_or (api_invalid ''Failed to parse number'') (i32_from_str s)"

definition parse_operators_with_number :: "string \<Rightarrow> OperatorWithNumber svc" where
  "parse_operators_with_number s =
     (if starts_with ''>='' s then bindR (parse_i32 (drop 2 s)) (\<lambda>n. ret (Gte n))
      else if starts_with ''<='' s then bindR (parse_i32 (drop 2 s)) (\<lambda>n. ret (Lte n))
      else if starts_with ''!='' s then bindR (parse_i32 (drop 2 s)) (\<lambda>n. ret (Neq n))
      else if starts_with ''>'' s then bindR (parse_i32 (drop 1 s)) (\<lambda>n. ret (Gt n))
      else if starts_with ''<'' s then bindR (parse_i32 (drop 1 s)) (\<lambda>n. ret (Lt n))
      else if starts_with ''='' s then bindR (parse_i32 (drop 1 s)) (\<lambda>n. ret (Eq n))
      else bindR (parse_i32 s) (\<lambda>n. ret (Eq n)))"

text \<open>The comparison of the column \<open>priority\<close> with a number, and of \<open>result ->> 'exit_status'\<close>, a text,
  with the decimal form of a number.\<close>

fun number_matches :: "OperatorWithNumber \<Rightarrow> i32 \<Rightarrow> bool" where
  "number_matches (Eq n) x = (x = n)"
| "number_matches (Neq n) x = (x \<noteq> n)"
| "number_matches (Gt n) x = (x > n)"
| "number_matches (Gte n) x = (x \<ge> n)"
| "number_matches (Lt n) x = (x < n)"
| "number_matches (Lte n) x = (x \<le> n)"

fun text_matches :: "(string \<Rightarrow> string \<Rightarrow> bool) \<Rightarrow> OperatorWithNumber \<Rightarrow> string \<Rightarrow> bool" where
  "text_matches lt (Eq n) x = (x = int_to_string n)"
| "text_matches lt (Neq n) x = (x \<noteq> int_to_string n)"
| "text_matches lt (Gt n) x = lt (int_to_string n) x"
| "text_matches lt (Gte n) x = (\<not> lt x (int_to_string n))"
| "text_matches lt (Lt n) x = lt x (int_to_string n)"
| "text_matches lt (Lte n) x = (\<not> lt (int_to_string n) x)"

definition holds_if_set :: "('a \<Rightarrow> bool) \<Rightarrow> 'a option \<Rightarrow> bool" where
  "holds_if_set p x = (case x of None \<Rightarrow> True | Some a \<Rightarrow> p a)"

text \<open>The conditions that \<open>apply_task_filters\<close> adds to both statements, with the two operators parsed.\<close>

definition filters_match ::
  "(string \<Rightarrow> string \<Rightarrow> bool) \<Rightarrow> TasksQueryReq \<Rightarrow> OperatorWithNumber option \<times> OperatorWithNumber option \<Rightarrow>
   'a TaskRow_scheme \<Rightarrow> UserRow \<Rightarrow> GroupRow \<Rightarrow> bool" where
  "filters_match lt q ops t u g \<longleftrightarrow>
     holds_if_set (\<lambda>names. u_username u \<in> set names) (tq_creator_usernames q) \<and>
     holds_if_set (\<lambda>name. g_group_name g = name) (tq_group_name q) \<and>
     holds_if_set (\<lambda>tags. set tags \<subseteq> set (t_tags t)) (tq_tags q) \<and>
     holds_if_set (\<lambda>labels. set labels \<subseteq> set (t_labels t)) (tq_labels q) \<and>
     holds_if_set (\<lambda>states. t_state t \<in> set states) (tq_states q) \<and>
     holds_if_set (\<lambda>op. case t_result t of
                          None \<Rightarrow> False
                        | Some res \<Rightarrow> text_matches lt op (int_to_string (exit_status res))) (fst ops) \<and>
     holds_if_set (\<lambda>op. number_matches op (t_priority t)) (snd ops)"

definition active_match ::
  "(string \<Rightarrow> string \<Rightarrow> bool) \<Rightarrow> TasksQueryReq \<Rightarrow> OperatorWithNumber option \<times> OperatorWithNumber option \<Rightarrow>
   TaskRow \<Rightarrow> UserRow \<Rightarrow> GroupRow \<Rightarrow> bool" where
  "active_match lt q ops t u g \<longleftrightarrow> tq_reporter_uuid q = None \<and> filters_match lt q ops t u g"

definition archived_match ::
  "(string \<Rightarrow> string \<Rightarrow> bool) \<Rightarrow> TasksQueryReq \<Rightarrow> OperatorWithNumber option \<times> OperatorWithNumber option \<Rightarrow>
   ArchivedRow \<Rightarrow> UserRow \<Rightarrow> GroupRow \<Rightarrow> bool" where
  "archived_match lt q ops t u g \<longleftrightarrow>
     holds_if_set (\<lambda>uuid. r_reporter_uuid t = Some uuid) (tq_reporter_uuid q) \<and> filters_match lt q ops t u g"

definition parse_optional :: "string option \<Rightarrow> OperatorWithNumber option svc" where
  "parse_optional x =
     (case x of
        None \<Rightarrow> ret None
      | Some s \<Rightarrow> bindR (parse_operators_with_number s) (\<lambda>op. ret (Some op)))"

definition apply_task_filters ::
  "(string \<Rightarrow> string \<Rightarrow> bool) \<Rightarrow> TasksQueryReq \<Rightarrow>
   ((TaskRow \<Rightarrow> UserRow \<Rightarrow> GroupRow \<Rightarrow> bool) \<times> (ArchivedRow \<Rightarrow> UserRow \<Rightarrow> GroupRow \<Rightarrow> bool)) svc" where
  "apply_task_filters lt q =
     bindR (parse_optional (tq_exit_status q)) (\<lambda>exit_op.
     bindR (parse_optional (tq_priority q)) (\<lambda>priority_op.
       ret (active_match lt q (exit_op, priority_op), archived_match lt q (exit_op, priority_op))))"

definition paged :: "TasksQueryReq \<Rightarrow> 'a list \<Rightarrow> 'a list" where
  "paged q xs =
     (let ys = (case tq_offset q of None \<Rightarrow> xs | Some n \<Rightarrow> drop n xs)
      in case tq_limit q of None \<Rightarrow> ys | Some n \<Rightarrow> take n ys)"

text \<open>A request may leave a filter out but not leave it empty; without a group name the user's own group is
  meant; and the user needs the role in that group.\<close>

definition check_task_list_query :: "i64 \<Rightarrow> TasksQueryReq \<Rightarrow> UserGroupRole \<Rightarrow> TasksQueryReq svc" where
  "check_task_list_query user_id q role =
     thenR (ensure (tq_tags q \<noteq> Some []) (api_invalid ''Tags cannot be empty if specified''))
     (thenR (ensure (tq_labels q \<noteq> Some []) (api_invalid ''Labels cannot be empty if specified''))
     (thenR (ensure (tq_creator_usernames q \<noteq> Some []) (api_invalid ''Creator username cannot be empty if specified''))
     (thenR (ensure (tq_states q \<noteq> Some []) (api_invalid ''State cannot be empty if specified''))
     (bindR (case tq_group_name q of
               Some name \<Rightarrow> ret name
             | None \<Rightarrow>
                 bindR (query (\<lambda>d. find (\<lambda>u. u_id u = user_id) (users d))) (\<lambda>found.
                 bindR (ok_or (api_not_found ''User'') found) (\<lambda>u. ret (u_username u)))) (\<lambda>name.
      bindR (query (\<lambda>d. first [ug_role ug. ug \<leftarrow> user_groups d, g \<leftarrow> groups d, g_id g = ug_group_id ug,
                                  ug_user_id ug = user_id, g_group_name g = name])) (\<lambda>r.
        case r of
          Some r \<Rightarrow> if r \<ge> role then ret (q\<lparr>tq_group_name := Some name\<rparr>) else raise perm_denied
        | None \<Rightarrow> raise (api_invalid ''Group with name not found or user is not in the group'')))))))"

definition count_row :: "TasksQueryReq \<Rightarrow> 'a list \<Rightarrow> u64" where
  "count_row q xs = (case first (paged q [int (length xs)]) of None \<Rightarrow> 0 | Some n \<Rightarrow> n)"

definition query_tasks_by_filter :: "(string \<Rightarrow> string \<Rightarrow> bool) \<Rightarrow> i64 \<Rightarrow> TasksQueryReq \<Rightarrow> TasksQueryResp svc" where
  "query_tasks_by_filter lt user_id q0 =
     bindR (check_task_list_query user_id q0 UserGroupRole.Read) (\<lambda>q.
     bindR (apply_task_filters lt q) (\<lambda>(active, archived).
     let name = (case tq_group_name q of None \<Rightarrow> [] | Some n \<Rightarrow> n)
     in if tq_count q then
          bindR (query (\<lambda>d. count_row q (active_infos active d))) (\<lambda>active_count.
          bindR (query (\<lambda>d. count_row q (archived_infos archived d))) (\<lambda>archive_count.
            ret \<lparr>qr_count = active_count + archive_count, qr_tasks = [], qr_group_name = name\<rparr>))
        else
          bindR (query (\<lambda>d. paged q (active_infos active d))) (\<lambda>active_info.
          bindR (query (\<lambda>d. paged q (archived_infos archived d))) (\<lambda>archive_info.
            ret \<lparr>qr_count = int (length (active_info @ archive_info)), qr_tasks = active_info @ archive_info,
                 qr_group_name = name\<rparr>))))"

section \<open>Cancellation of many tasks\<close>

definition cancellable_states :: "TaskState list option \<Rightarrow> TaskState list" where
  "cancellable_states user_states =
     (let chosen = (case user_states of
                      None \<Rightarrow> []
                    | Some sts \<Rightarrow> (if TaskState.Ready \<in> set sts then [TaskState.Ready] else []) @
                                  (if TaskState.Pending \<in> set sts then [TaskState.Pending] else []))
      in if chosen = [] then [TaskState.Ready, TaskState.Pending] else chosen)"

definition cancel_query :: "TasksCancelByFilterReq \<Rightarrow> TasksQueryReq" where
  "cancel_query req =
     \<lparr>tq_creator_usernames = tc_creator_usernames req, tq_group_name = tc_group_name req, tq_tags = tc_tags req,
      tq_labels = tc_labels req, tq_states = Some (cancellable_states (tc_states req)),
      tq_exit_status = tc_exit_status req, tq_priority = tc_priority req, tq_reporter_uuid = None,
      tq_limit = None, tq_offset = None, tq_count = False\<rparr>"

text \<open>\<open>id IN (SELECT id FROM active_tasks JOIN users JOIN groups WHERE ...)\<close>.\<close>

definition in_active_query :: "(TaskRow \<Rightarrow> UserRow \<Rightarrow> GroupRow \<Rightarrow> bool) \<Rightarrow> Db \<Rightarrow> TaskRow \<Rightarrow> bool" where
  "in_active_query p d t \<longleftrightarrow> (\<exists>(x, u, g) \<in> set (joined (active_tasks d) d). p x u g \<and> t_id x = t_id t)"

text \<open>The transaction with the single statement that deletes the tasks and inserts them into the archive.\<close>

definition cancel_where :: "nanos \<Rightarrow> (Db \<Rightarrow> TaskRow \<Rightarrow> bool) \<Rightarrow> ArchivedRow list svc" where
  "cancel_where now p = transaction (db_stmt (\<lambda>d. move_to_archive (p d) (cancelled_row now) d))"

definition remove_tasks :: "i64 list \<Rightarrow> unit svc" where
  "remove_tasks ids = for_each (\<lambda>i. attempt (remove_task i) :: (Error + unit) svc) ids"

definition cancel_tasks_by_filter ::
  "(string \<Rightarrow> string \<Rightarrow> bool) \<Rightarrow> nanos \<Rightarrow> i64 \<Rightarrow> TasksCancelByFilterReq \<Rightarrow> (nat \<times> string) svc" where
  "cancel_tasks_by_filter lt now user_id req =
     bindR (check_task_list_query user_id (cancel_query req) UserGroupRole.Write) (\<lambda>q.
     bindR (apply_task_filters lt q) (\<lambda>(active, _).
     bindR (cancel_where now (in_active_query active)) (\<lambda>rows.
     let task_ids = map t_id rows
     in thenR (remove_tasks task_ids)
          (ret (length task_ids, case tq_group_name q of None \<Rightarrow> [] | Some n \<Rightarrow> n)))))"

text \<open>\<open>id IN (SELECT id FROM active_tasks JOIN user_group WHERE ...)\<close>.\<close>

definition cancellable_by :: "i64 \<Rightarrow> uuid list \<Rightarrow> Db \<Rightarrow> TaskRow \<Rightarrow> bool" where
  "cancellable_by user_id uuids d t \<longleftrightarrow>
     (\<exists>x \<in> set (active_tasks d). \<exists>ug \<in> set (user_groups d).
        ug_group_id ug = t_group_id x \<and> t_uuid x \<in> set uuids \<and> ug_user_id ug = user_id \<and>
        ug_role ug \<in> {UserGroupRole.Write, UserGroupRole.Admin} \<and>
        t_state x \<in> {TaskState.Ready, TaskState.Pending} \<and> t_id x = t_id t)"

text \<open>The loop over the chunks: a transaction each, at its own time, and the archived rows of all of them.\<close>

fun cancel_chunks :: "(nat \<Rightarrow> nanos) \<Rightarrow> i64 \<Rightarrow> uuid list list \<Rightarrow> ArchivedRow list svc" where
  "cancel_chunks clock user_id [] = ret []"
| "cancel_chunks clock user_id (c # cs) =
     bindR (cancel_where (clock 0) (cancellable_by user_id c)) (\<lambda>rows.
     bindR (cancel_chunks (\<lambda>n. clock (Suc n)) user_id cs) (\<lambda>rest.
       ret (rows @ rest)))"

definition CANCEL_CHUNK :: nat where
  "CANCEL_CHUNK = 1024"

definition cancel_tasks_by_uuids :: "(nat \<Rightarrow> nanos) \<Rightarrow> i64 \<Rightarrow> uuid list \<Rightarrow> (nat \<times> uuid list) svc" where
  "cancel_tasks_by_uuids clock user_id uuids =
     thenR (ensure (uuids \<noteq> []) (api_invalid ''UUIDs list cannot be empty''))
     (bindR (cancel_chunks clock user_id (chunks CANCEL_CHUNK uuids)) (\<lambda>rows.
      thenR (remove_tasks (map t_id rows))
        (ret (length rows, filter (\<lambda>uuid. uuid \<notin> t_uuid ` set rows) uuids))))"

section \<open>Invariants of the task store\<close>

lemma keeps_db_parse [keeps_intros]:
  "keeps_db I (parse_operators_with_number x)" "keeps_db I (parse_optional y)"
  by (auto simp: parse_operators_with_number_def parse_i32_def parse_optional_def intro!: keeps_intros)

lemma keeps_db_task_filters [keeps_intros]:
  "keeps_db I (apply_task_filters lt q)" "keeps_db I (check_task_list_query u q role)"
  by (auto simp: apply_task_filters_def check_task_list_query_def intro!: keeps_intros)

lemma keeps_db_remove_tasks [keeps_intros]: "keeps_db I (remove_tasks ids)"
  by (auto simp: remove_tasks_def intro!: keeps_intros)

context task_store
begin

lemma keeps_cancel_where: "keeps_db I (cancel_where now p)"
  unfolding cancel_where_def
  by (intro keeps_intros keeps_db_stmt) (auto dest!: move_to_archive_Inr intro: archive archives_cancelled_row)

lemma keeps_cancel_tasks_by_filter: "keeps_db I (cancel_tasks_by_filter lt now u req)"
  by (auto simp: cancel_tasks_by_filter_def Let_def intro!: keeps_intros keeps_cancel_where)

lemma keeps_cancel_chunks: "keeps_db I (cancel_chunks clock u cs)"
  by (induction clock u cs rule: cancel_chunks.induct) (auto intro!: keeps_intros keeps_cancel_where)

lemma keeps_cancel_tasks_by_uuids: "keeps_db I (cancel_tasks_by_uuids clock u uuids)"
  by (auto simp: cancel_tasks_by_uuids_def intro!: keeps_intros keeps_cancel_chunks)

end

section \<open>Reading numbers\<close>

lemma digit_char_range: "d < 10 \<Longrightarrow> digit_char d \<noteq> CHR ''+'' \<and> digit_char d \<noteq> CHR ''-''"
  using digit_of_digit_char [of d] by (auto simp: digit_of_def)

lemma i32_from_str_int_to_string: "is_i32 n \<Longrightarrow> i32_from_str (int_to_string n) = Some n"
proof -
  assume n: "is_i32 n"
  show ?thesis
  proof (cases "n < 0")
    case True
    then show ?thesis using n by (simp add: i32_from_str_def int_to_string_def parse_nat_nat_to_string)
  next
    case False
    obtain c cs where c: "nat_to_string (nat n) = c # cs" using nat_to_string_nonempty by (meson list.exhaust)
    then have "c \<noteq> CHR ''+'' \<and> c \<noteq> CHR ''-''"
      using nat_to_string_digits [of c "nat n"] digit_char_range by auto
    then show ?thesis using n False c parse_nat_nat_to_string [of "nat n"]
      by (simp add: i32_from_str_def int_to_string_def)
  qed
qed

fun show_operator :: "OperatorWithNumber \<Rightarrow> string" where
  "show_operator (Eq n) = ''='' @ int_to_string n"
| "show_operator (Neq n) = ''!='' @ int_to_string n"
| "show_operator (Gt n) = ''>'' @ int_to_string n"
| "show_operator (Gte n) = ''>='' @ int_to_string n"
| "show_operator (Lt n) = ''<'' @ int_to_string n"
| "show_operator (Lte n) = ''<='' @ int_to_string n"

fun operand :: "OperatorWithNumber \<Rightarrow> i32" where
  "operand (Eq n) = n" | "operand (Neq n) = n" | "operand (Gt n) = n"
| "operand (Gte n) = n" | "operand (Lt n) = n" | "operand (Lte n) = n"

lemma int_to_string_start: "\<exists>c cs. int_to_string n = c # cs \<and> c \<noteq> CHR ''=''"
proof -
  obtain c cs where c: "nat_to_string (nat n) = c # cs" using nat_to_string_nonempty by (meson list.exhaust)
  then obtain d where "d < 10" "c = digit_char d" using nat_to_string_digits [of c "nat n"] by auto
  then have "c \<noteq> CHR ''=''" using digit_of_digit_char [of d] by (auto simp: digit_of_def)
  with c show ?thesis by (simp add: int_to_string_def)
qed

text \<open>Every comparison a filter can express is read back as it was written, for every operator and every
  32-bit number: the two-character operators are not taken for the one-character ones.\<close>

lemma operator_roundtrip:
  assumes "is_i32 (operand op)"
  shows "parse_operators_with_number (show_operator op) s = (Inr op, s)"
proof -
  have p: "parse_i32 (int_to_string n) s = (Inr n, s)" if "is_i32 n" for n
    using that by (simp add: parse_i32_def i32_from_str_int_to_string ok_or_def ret_def)
  obtain c cs where "int_to_string (operand op) = c # cs" "c \<noteq> CHR ''=''" using int_to_string_start by blast
  then show ?thesis using assms p [OF assms]
    by (cases op) (auto simp: parse_operators_with_number_def starts_with_def bindR_def ret_def)
qed

theorem operator_roundtrip_witness:
  "parse_operators_with_number (show_operator (Lte (- 5))) sample_pool = (Inr (Lte (- 5)), sample_pool)"
  by (rule operator_roundtrip) (simp add: machine_bounds)

section \<open>Counting\<close>

lemma check_task_list_query_count:
  "check_task_list_query u (q\<lparr>tq_count := b\<rparr>) role s =
     bindR (check_task_list_query u q role) (\<lambda>q'. ret (q'\<lparr>tq_count := b\<rparr>)) s"
  by (auto simp: check_task_list_query_def run_defs split: option.splits sum.splits prod.splits)

lemma check_task_list_query_paging:
  "check_task_list_query u q role s = (Inr q', s') \<Longrightarrow> q' = q\<lparr>tq_group_name := tq_group_name q'\<rparr> \<and> tq_group_name q' \<noteq> None"
  by (auto simp: check_task_list_query_def run_defs split: option.splits sum.splits prod.splits if_splits)

lemma apply_task_filters_count: "apply_task_filters lt (q\<lparr>tq_count := b\<rparr>) = apply_task_filters lt q"
proof -
  have "active_match lt (q\<lparr>tq_count := b\<rparr>) = active_match lt q"
    "archived_match lt (q\<lparr>tq_count := b\<rparr>) = archived_match lt q"
    by (intro ext; simp add: active_match_def archived_match_def filters_match_def)+
  then show ?thesis by (simp add: apply_task_filters_def)
qed

text \<open>Asking for the number of tasks gives the number of tasks that asking for the tasks would list: without
  a page, both forms of a query fail alike or agree on the count, for every filter and every failure.\<close>

lemma query_count_agrees:
  assumes "tq_limit q = None" and "tq_offset q = None"
  shows "map_sum id qr_count (fst (query_tasks_by_filter lt u (q\<lparr>tq_count := True\<rparr>) s))
       = map_sum id qr_count (fst (query_tasks_by_filter lt u (q\<lparr>tq_count := False\<rparr>) s))"
proof -
  obtain r s1 where c: "check_task_list_query u q UserGroupRole.Read s = (r, s1)" by fastforce
  show ?thesis
  proof (cases r)
    case (Inl e)
    then show ?thesis using c by (simp add: query_tasks_by_filter_def check_task_list_query_count bindR_def)
  next
    case (Inr q')
    then have "q' = q\<lparr>tq_group_name := tq_group_name q'\<rparr>" using check_task_list_query_paging c by blast
    then have page: "tq_limit q' = None" "tq_offset q' = None" using assms by (metis TasksQueryReq.select_convs TasksQueryReq.update_convs TasksQueryReq.surjective)+
    obtain f s2 where f: "apply_task_filters lt q' s1 = (f, s2)" by fastforce
    show ?thesis using c Inr f page
      by (cases f)
         (auto simp: query_tasks_by_filter_def check_task_list_query_count apply_task_filters_count bindR_def ret_def
           count_row_def paged_def first_def Let_def query_def db_stmt_def)
  qed
qed

definition sample_query :: TasksQueryReq where
  "sample_query = \<lparr>tq_creator_usernames = None, tq_group_name = None, tq_tags = None, tq_labels = None,
     tq_states = None, tq_exit_status = None, tq_priority = Some ''>=3'', tq_reporter_uuid = None,
     tq_limit = None, tq_offset = None, tq_count = False\<rparr>"

theorem query_count_agrees_witness:
  "map_sum id qr_count (fst (query_tasks_by_filter (=) 1 (sample_query\<lparr>tq_count := True\<rparr>) sample_pool))
   = map_sum id qr_count (fst (query_tasks_by_filter (=) 1 (sample_query\<lparr>tq_count := False\<rparr>) sample_pool))"
  by (rule query_count_agrees) (simp_all add: sample_query_def)

lemmas query_defs = query_tasks_by_filter_def check_task_list_query_def apply_task_filters_def parse_optional_def
  parse_operators_with_number_def parse_i32_def i32_from_str_def parse_nat_def digit_of_def starts_with_def
  machine_bounds active_infos_def archived_infos_def joined_def active_match_def archived_match_def
  filters_match_def holds_if_set_def count_row_def paged_def first_def less_eq_UserGroupRole_def

text \<open>A page spoils the count: on two tasks, the count of the second page is zero, because the offset skips
  the row that holds the count.\<close>

lemma query_count_ignores_page:
  "map_sum id qr_count (fst (query_tasks_by_filter (=) 1 (sample_query\<lparr>tq_count := True\<rparr>) sample_pool)) = Inr 2 \<and>
   map_sum id qr_count (fst (query_tasks_by_filter (=) 1 (sample_query\<lparr>tq_count := True, tq_offset := Some 1\<rparr>) sample_pool)) = Inr 0"
  by (simp add: query_defs sample_query_def sample_defs run_defs)

section \<open>Cancelling many tasks\<close>

lemma remove_tasks_run:
  "remove_tasks ids s = (Inr (), s\<lparr>task_tx := task_tx s @ (if task_rx_open s then map RemoveTask ids else [])\<rparr>)"
  by (induction ids arbitrary: s)
     (auto simp: remove_tasks_def remove_task_def send_task_def attempt_def thenR_def bindR_def ret_def)

lemma wp_remove_tasks [wp_eqs]:
  "wp (remove_tasks ids) Q E s =
     Q () (s\<lparr>task_tx := task_tx s @ (if task_rx_open s then map RemoveTask ids else [])\<rparr>)"
  by (simp add: wp_def remove_tasks_run)

definition has_role :: "UserGroupRole \<Rightarrow> i64 \<Rightarrow> string \<Rightarrow> Db \<Rightarrow> bool" where
  "has_role role u name d \<longleftrightarrow> (\<exists>g \<in> set (groups d). \<exists>ug \<in> set (user_groups d).
     g_group_name g = name \<and> ug_group_id ug = g_id g \<and> ug_user_id ug = u \<and> role \<le> ug_role ug)"

text \<open>The tasks \<open>p\<close> were waiting tasks of the group, the user may write to it, all of them moved to the
  archive as cancelled by the user, and the dispatcher was told of each.\<close>

definition group_cancelled ::
  "(TaskRow \<Rightarrow> bool) \<Rightarrow> nanos \<Rightarrow> i64 \<Rightarrow> string \<Rightarrow> Pool \<Rightarrow> Pool \<Rightarrow> bool" where
  "group_cancelled p now u name s s' \<longleftrightarrow>
     db s' = archive_where p (cancelled_row now) (db s) \<and>
     task_tx s' = task_tx s @ (if task_rx_open s then map (RemoveTask \<circ> t_id) (filter p (active_tasks (db s))) else []) \<and>
     has_role UserGroupRole.Write u name (db s) \<and>
     (\<forall>t \<in> set (active_tasks (db s)). p t \<longrightarrow> unassigned_state (t_state t) \<and>
        (\<exists>g \<in> set (groups (db s)). g_group_name g = name \<and> t_group_id t = g_id g))"

abbreviation same_work :: "Pool \<Rightarrow> Pool \<Rightarrow> bool" where
  "same_work s s' \<equiv> db s' = db s \<and> task_tx s' = task_tx s \<and> task_rx_open s' = task_rx_open s"

lemma first_Some: "first xs = Some x \<Longrightarrow> x \<in> set xs"
  by (auto simp: first_def split: list.splits)

lemma first_role:
  assumes "first [ug_role ug. ug \<leftarrow> user_groups d, g \<leftarrow> groups d, g_id g = ug_group_id ug,
             ug_user_id ug = u, g_group_name g = name] = Some r" and "role \<le> r"
  shows "has_role role u name d"
  using first_Some [OF assms(1)] assms(2) by (auto simp: has_role_def split: if_splits)

lemma check_task_list_query_wp:
  "wp (check_task_list_query u q role)
     (\<lambda>q' s'. same_work s s' \<and> (\<exists>name. q' = q\<lparr>tq_group_name := Some name\<rparr> \<and> has_role role u name (db s)))
     (\<lambda>_. same_work s) s"
  unfolding check_task_list_query_def
  by (auto simp: wp_eqs split: option.splits intro: first_role)

lemma parse_optional_wp: "wp (parse_optional x) (\<lambda>_ s'. s' = s) (\<lambda>_ s'. s' = s) s"
  by (auto simp: parse_optional_def parse_operators_with_number_def parse_i32_def wp_eqs split: option.splits)

lemma apply_task_filters_wp:
  "wp (apply_task_filters lt q) (\<lambda>(a, _) s'. s' = s \<and> (\<exists>ops. a = active_match lt q ops)) (\<lambda>_ s'. s' = s) s"
  unfolding apply_task_filters_def wp_bindR
  by (rule wp_mono [OF parse_optional_wp], rule wp_mono [OF parse_optional_wp]) (auto simp: wp_eqs)

text \<open>What the filters of a cancellation select.\<close>

lemma cancel_query_matches:
  assumes "distinct (map t_id (active_tasks d))" and "t \<in> set (active_tasks d)"
    and "in_active_query (active_match lt ((cancel_query req)\<lparr>tq_group_name := Some name\<rparr>) ops) d t"
  shows "unassigned_state (t_state t) \<and> (\<exists>g \<in> set (groups d). g_group_name g = name \<and> t_group_id t = g_id g)"
proof -
  obtain x u g where x: "x \<in> set (active_tasks d)" "g \<in> set (groups d)" "t_group_id x = g_id g" "t_id x = t_id t"
      "active_match lt ((cancel_query req)\<lparr>tq_group_name := Some name\<rparr>) ops x u g"
    using assms(3) by (auto simp: in_active_query_def joined_def)
  then have "x = t" using assms(1,2) by (metis distinct_map_key)
  with x show ?thesis
    by (auto simp: active_match_def filters_match_def cancel_query_def holds_if_set_def cancellable_states_def Let_def
        split: option.splits if_splits)
qed

lemma cancel_where_wp:
  "wp (cancel_where now p)
     (\<lambda>rows s'. rows = map (cancelled_row now) (filter (p (db s)) (active_tasks (db s))) \<and>
        db s' = archive_where (p (db s)) (cancelled_row now) (db s) \<and>
        task_tx s' = task_tx s \<and> task_rx_open s' = task_rx_open s)
     (\<lambda>_. same_work s) s"
  by (auto simp: cancel_where_def wp_eqs split: sum.splits dest!: move_to_archive_Inr)

lemma cancelled_row_id [simp]:
  "t_id (cancelled_row now t) = t_id t" "t_uuid (cancelled_row now t) = t_uuid t"
  "t_creator_id (cancelled_row now t) = t_creator_id t" "t_group_id (cancelled_row now t) = t_group_id t"
  "task_ident (cancelled_row now t) = task_ident t"
  by (simp_all add: cancelled_row_def task_ident_def)

lemma cancel_where_group:
  assumes "same_work s s1" and "has_role UserGroupRole.Write u name (db s)"
    and "\<And>t. t \<in> set (active_tasks (db s)) \<Longrightarrow> p (db s) t \<Longrightarrow> unassigned_state (t_state t) \<and>
            (\<exists>g \<in> set (groups (db s)). g_group_name g = name \<and> t_group_id t = g_id g)"
  shows "wp (bindR (cancel_where now p) (\<lambda>rows. thenR (remove_tasks (map t_id rows)) (ret (length rows, name))))
     (\<lambda>(n, nm) s'. n = length (filter (p (db s)) (active_tasks (db s))) \<and> group_cancelled (p (db s)) now u nm s s')
     (\<lambda>_ s'. db s' = db s \<and> task_tx s' = task_tx s) s1"
  unfolding wp_bindR
  by (rule wp_mono [OF cancel_where_wp])
     (use assms in \<open>simp_all add: wp_eqs group_cancelled_def comp_def\<close>)

text \<open>C39. Cancelling by filter is all or nothing and stays in bounds, wherever a statement fails: on an error
  neither the tables nor the dispatcher's channel have changed; otherwise the cancelled tasks, as many as the
  answer says, were ready or pending tasks of the one named group in which the caller may write, they are all
  archived as cancelled by the user, and the dispatcher is told of each of them.\<close>

theorem cancel_tasks_by_filter_effect:
  assumes "task_inv (db s)"
  shows "case cancel_tasks_by_filter lt now u req s of
     (Inl e, s') \<Rightarrow> db s' = db s \<and> task_tx s' = task_tx s
   | (Inr (n, name), s') \<Rightarrow>
       \<exists>p. n = length (filter p (active_tasks (db s))) \<and> group_cancelled p now u name s s'"
proof -
  let ?Q = "\<lambda>(n, name) s'. \<exists>p. n = length (filter p (active_tasks (db s))) \<and> group_cancelled p now u name s s'"
  let ?E = "\<lambda>_ s'. db s' = db s \<and> task_tx s' = task_tx s"
  have ids: "distinct (map t_id (active_tasks (db s)))" using assms by (rule task_inv_distinct_ids)
  obtain r s1 where c: "check_task_list_query u (cancel_query req) UserGroupRole.Write s = (r, s1)" by fastforce
  have "wp (cancel_tasks_by_filter lt now u req) ?Q ?E s"
  proof (cases r)
    case (Inl e)
    then show ?thesis using c check_task_list_query_wp [of u "cancel_query req" UserGroupRole.Write s]
      by (simp add: cancel_tasks_by_filter_def wp_def bindR_def)
  next
    case (Inr q)
    then obtain name where q: "same_work s s1" "q = (cancel_query req)\<lparr>tq_group_name := Some name\<rparr>"
        "has_role UserGroupRole.Write u name (db s)"
      using c check_task_list_query_wp [of u "cancel_query req" UserGroupRole.Write s] by (auto simp: wp_def)
    obtain f where f: "apply_task_filters lt q s1 = (f, s1)" "\<And>a b. f = Inr (a, b) \<Longrightarrow> \<exists>ops. a = active_match lt q ops"
      using apply_task_filters_wp [of lt q s1] by (auto simp: wp_def split: prod.splits sum.splits)
    have "wp (bindR (cancel_where now (in_active_query (active_match lt q ops)))
        (\<lambda>rows. thenR (remove_tasks (map t_id rows)) (ret (length rows, name)))) ?Q ?E s1" for ops
      by (rule wp_mono, rule cancel_where_group [OF q(1,3)])
         (use cancel_query_matches [OF ids] q(2) in \<open>blast, auto\<close>)
    then have "wp (case a of (active, _) \<Rightarrow> bindR (cancel_where now (in_active_query active))
        (\<lambda>rows. thenR (remove_tasks (map t_id rows)) (ret (length rows, name)))) ?Q ?E s1"
      if "f = Inr a" for a using f(2) that by (cases a) auto
    then show ?thesis unfolding cancel_tasks_by_filter_def
      using f(1) q c [unfolded Inr]
      by (cases f) (auto simp: wp_bindR_ok [where s = s] wp_bindR_ok [where s = s1] wp_bindR_err [where s = s1] Let_def)
  qed
  then show ?thesis by (simp add: wp_def split: prod.splits sum.splits)
qed

definition sample_cancel :: "TaskState list option \<Rightarrow> TasksCancelByFilterReq" where
  "sample_cancel sts = \<lparr>tc_creator_usernames = None, tc_group_name = Some ''ada'', tc_tags = None, tc_labels = None,
     tc_states = sts, tc_exit_status = None, tc_priority = None\<rparr>"

theorem cancel_tasks_by_filter_effect_witness:
  "case cancel_tasks_by_filter (=) 7 1 (sample_cancel None) sample_pool of
     (Inl e, s') \<Rightarrow> db s' = db sample_pool \<and> task_tx s' = task_tx sample_pool
   | (Inr (n, name), s') \<Rightarrow>
       \<exists>p. n = length (filter p (active_tasks (db sample_pool))) \<and> group_cancelled p 7 1 name sample_pool s'"
  by (rule cancel_tasks_by_filter_effect) (rule sample_pool_inv)

text \<open>A cancellation that asks for running tasks only cancels the waiting ones: an empty intersection of the
  requested states with the cancellable ones counts as no request.\<close>

lemma cancel_running_cancels_waiting:
  "\<exists>s'. cancel_tasks_by_filter (=) 7 1 (sample_cancel (Some [TaskState.Running])) sample_pool = (Inr (1, ''ada''), s') \<and>
     map t_state (active_tasks (db s')) = [TaskState.Running] \<and> map t_id (archived_tasks (db s')) = [2]"
  by (simp add: cancel_tasks_by_filter_def cancel_query_def cancellable_states_def query_defs sample_cancel_def
      cancel_where_def move_to_archive_def in_active_query_def insert_archived_task_def del_where_def
      remove_tasks_def remove_task_def sample_defs run_defs)

section \<open>Chunks make no difference\<close>

definition writer_may_cancel :: "i64 \<Rightarrow> Db \<Rightarrow> TaskRow \<Rightarrow> bool" where
  "writer_may_cancel u d t \<longleftrightarrow> unassigned_state (t_state t) \<and>
     (\<exists>ug \<in> set (user_groups d). ug_group_id ug = t_group_id t \<and> ug_user_id ug = u \<and> ug_role ug \<noteq> UserGroupRole.Read)"

lemma cancellable_by_iff:
  assumes "distinct (map t_id (active_tasks d))" and "t \<in> set (active_tasks d)"
  shows "cancellable_by u uuids d t \<longleftrightarrow> writer_may_cancel u d t \<and> t_uuid t \<in> set uuids"
proof -
  have "x = t" if "x \<in> set (active_tasks d)" "t_id x = t_id t" for x
    using that assms by (metis distinct_map_key)
  moreover have "r \<in> {UserGroupRole.Write, UserGroupRole.Admin} \<longleftrightarrow> r \<noteq> UserGroupRole.Read" for r by (cases r) auto
  ultimately show ?thesis using assms(2) unfolding cancellable_by_def writer_may_cancel_def by blast
qed

lemma mset_filter_two:
  "mset (map f (filter P xs)) + mset (map f (filter Q (filter (\<lambda>x. \<not> P x) xs)))
   = mset (map f (filter (\<lambda>x. P x \<or> Q x) xs))"
  by (induction xs) (simp_all del: filter_filter mset_filter mset_map)

text \<open>The rows were archived for exactly the tasks that the user may cancel among the given ones.\<close>

definition uuids_cancelled :: "i64 \<Rightarrow> uuid list \<Rightarrow> Pool \<Rightarrow> ArchivedRow list \<Rightarrow> Pool \<Rightarrow> bool" where
  "uuids_cancelled u uuids s rows s' \<longleftrightarrow>
     (let p = (\<lambda>t. writer_may_cancel u (db s) t \<and> t_uuid t \<in> set uuids)
      in active_tasks (db s') = filter (\<lambda>t. \<not> p t) (active_tasks (db s)) \<and>
         archived_tasks (db s') = archived_tasks (db s) @ rows \<and>
         mset (map task_ident rows) = mset (map task_ident (filter p (active_tasks (db s)))) \<and>
         user_groups (db s') = user_groups (db s) \<and>
         task_tx s' = task_tx s \<and> task_rx_open s' = task_rx_open s)"

lemma uuids_cancelled_trans:
  assumes "uuids_cancelled u a s rows s1" and "uuids_cancelled u b s1 rest s2"
  shows "uuids_cancelled u (a @ b) s (rows @ rest) s2"
proof -
  let ?P = "\<lambda>t. writer_may_cancel u (db s) t \<and> t_uuid t \<in> set a"
  let ?R = "\<lambda>t. writer_may_cancel u (db s) t \<and> t_uuid t \<in> set b"
  have w: "writer_may_cancel u (db s1) = writer_may_cancel u (db s)"
    using assms(1) by (intro ext) (simp add: uuids_cancelled_def writer_may_cancel_def Let_def)
  have or: "(\<lambda>t. ?P t \<or> ?R t) = (\<lambda>t. writer_may_cancel u (db s) t \<and> (t_uuid t \<in> set a \<or> t_uuid t \<in> set b))" by auto
  show ?thesis using assms mset_filter_two [of task_ident ?P "active_tasks (db s)" ?R]
    unfolding uuids_cancelled_def Let_def w or
    by (simp del: mset_map mset_filter) (auto intro: filter_cong)
qed

lemma cancel_where_uuids:
  assumes "distinct (map t_id (active_tasks (db s)))"
  shows "wp (cancel_where now (cancellable_by u c)) (\<lambda>rows s'. uuids_cancelled u c s rows s' \<and>
     distinct (map t_id (active_tasks (db s')))) (\<lambda>_ s'. task_tx s' = task_tx s) s"
proof (rule wp_mono [OF cancel_where_wp])
  fix rows and s' :: Pool
  assume "rows = map (cancelled_row now) (filter (cancellable_by u c (db s)) (active_tasks (db s))) \<and>
    db s' = archive_where (cancellable_by u c (db s)) (cancelled_row now) (db s) \<and> task_tx s' = task_tx s \<and> task_rx_open s' = task_rx_open s"
  moreover have "filter (cancellable_by u c (db s)) (active_tasks (db s)) =
      filter (\<lambda>t. writer_may_cancel u (db s) t \<and> t_uuid t \<in> set c) (active_tasks (db s))"
    "filter (\<lambda>t. \<not> cancellable_by u c (db s) t) (active_tasks (db s)) =
      filter (\<lambda>t. \<not> (writer_may_cancel u (db s) t \<and> t_uuid t \<in> set c)) (active_tasks (db s))"
    using cancellable_by_iff [OF assms] by (auto intro: filter_cong)
  ultimately show "uuids_cancelled u c s rows s' \<and> distinct (map t_id (active_tasks (db s')))"
    using assms by (simp add: uuids_cancelled_def Let_def archive_where_def del_where_def comp_def distinct_map_filter)
qed simp

lemma cancel_chunks_wp:
  "distinct (map t_id (active_tasks (db s))) \<Longrightarrow>
   wp (cancel_chunks clock u cs) (uuids_cancelled u (concat cs) s) (\<lambda>_ s'. task_tx s' = task_tx s) s"
proof (induction cs arbitrary: s clock)
  case Nil
  then show ?case by (simp add: wp_eqs uuids_cancelled_def)
next
  case (Cons c cs)
  show ?case unfolding cancel_chunks.simps wp_bindR
  proof (rule wp_mono [OF cancel_where_uuids [OF Cons.prems]])
    fix rows s1 assume s1: "uuids_cancelled u c s rows s1 \<and> distinct (map t_id (active_tasks (db s1)))"
    then have "task_tx s1 = task_tx s" by (simp add: uuids_cancelled_def Let_def)
    with s1 show "wp (cancel_chunks (\<lambda>n. clock (Suc n)) u cs)
        (\<lambda>rest. wp (ret (rows @ rest)) (uuids_cancelled u (concat (c # cs)) s) (\<lambda>_ s'. task_tx s' = task_tx s))
        (\<lambda>_ s'. task_tx s' = task_tx s) s1"
      by (intro wp_mono [OF Cons.IH]) (auto simp: wp_eqs intro: uuids_cancelled_trans)
  qed
qed

text \<open>C38. Cancelling by a list of identifiers, which the code does in chunks of 1024, is one cancellation: when
  it succeeds, exactly the ready and pending tasks on the list in groups where the caller may write have left
  the active tasks, each of them is in the archive, the answer counts them and names every identifier on the
  list that none of them has, and the dispatcher is told of each.\<close>

theorem cancel_tasks_by_uuids_exact:
  assumes "task_inv (db s)" and "cancel_tasks_by_uuids clock u uuids s = (Inr (n, failed), s')"
  shows "let p = (\<lambda>t. writer_may_cancel u (db s) t \<and> t_uuid t \<in> set uuids); gone = filter p (active_tasks (db s))
     in active_tasks (db s') = filter (\<lambda>t. \<not> p t) (active_tasks (db s)) \<and>
        (\<exists>rows. archived_tasks (db s') = archived_tasks (db s) @ rows \<and>
           mset (map task_ident rows) = mset (map task_ident gone) \<and>
           task_tx s' = task_tx s @ (if task_rx_open s then map (RemoveTask \<circ> t_id) rows else [])) \<and>
        n = length gone \<and> failed = filter (\<lambda>x. x \<notin> t_uuid ` set gone) uuids"
proof -
  have ids: "distinct (map t_id (active_tasks (db s)))" using assms(1) by (rule task_inv_distinct_ids)
  have c: "concat (chunks CANCEL_CHUNK uuids) = uuids" by (simp add: CANCEL_CHUNK_def concat_chunks)
  let ?G = "filter (\<lambda>t. writer_may_cancel u (db s) t \<and> t_uuid t \<in> set uuids) (active_tasks (db s))"
  have len: "length rows = length ?G" and img: "t_uuid ` set rows = t_uuid ` set ?G"
    if "mset (map task_ident rows) = mset (map task_ident ?G)" for rows :: "ArchivedRow list"
  proof -
    have "set (map task_ident rows) = set (map task_ident ?G)" using that by (rule mset_eq_setD)
    then have "(\<lambda>(_, _, _, _, x). x) ` task_ident ` set rows = (\<lambda>(_, _, _, _, x). x) ` task_ident ` set ?G" by simp
    then show "t_uuid ` set rows = t_uuid ` set ?G" by (simp add: image_image task_ident_def)
    show "length rows = length ?G" using mset_eq_length [OF that] by simp
  qed
  have "wp (cancel_tasks_by_uuids clock u uuids) (\<lambda>(n, failed) s'. \<exists>rows. uuids_cancelled u uuids s rows (s'\<lparr>task_tx := task_tx s\<rparr>) \<and>
      n = length rows \<and> failed = filter (\<lambda>x. x \<notin> t_uuid ` set rows) uuids \<and>
      task_tx s' = task_tx s @ (if task_rx_open s then map (RemoveTask \<circ> t_id) rows else [])) (\<lambda>_ _. True) s"
    unfolding cancel_tasks_by_uuids_def
    by (simp add: wp_ensure wp_thenR wp_bindR)
       (auto intro!: wp_mono [OF cancel_chunks_wp [OF ids]] simp: c wp_eqs uuids_cancelled_def Let_def)
  with assms(2) obtain rows where "uuids_cancelled u uuids s rows (s'\<lparr>task_tx := task_tx s\<rparr>)" "n = length rows"
      "failed = filter (\<lambda>x. x \<notin> t_uuid ` set rows) uuids"
      "task_tx s' = task_tx s @ (if task_rx_open s then map (RemoveTask \<circ> t_id) rows else [])"
    by (auto simp: wp_ok_iff)
  then show ?thesis using len [of rows] img [of rows] by (auto simp: uuids_cancelled_def Let_def)
qed

theorem cancel_tasks_by_uuids_exact_witness:
  "\<exists>s'. cancel_tasks_by_uuids (\<lambda>_. 7) 1 [12, 99] sample_pool = (Inr (1, [99]), s') \<and>
     active_tasks (db s') = [sample_task 1 TaskState.Running (Some 1)]"
proof -
  have c: "chunks CANCEL_CHUNK [12, 99] = [[12, 99 :: nat]]" by (simp add: CANCEL_CHUNK_def chunks_one)
  obtain s' where s': "cancel_tasks_by_uuids (\<lambda>_. 7) 1 [12, 99] sample_pool = (Inr (1, [99]), s')"
    by (simp add: cancel_tasks_by_uuids_def c cancel_where_def move_to_archive_def cancellable_by_def
        insert_archived_task_def del_where_def remove_tasks_def remove_task_def sample_defs run_defs)
  from cancel_tasks_by_uuids_exact [OF sample_pool_inv this] s' show ?thesis
    by (simp add: Let_def writer_may_cancel_def sample_defs)
qed

section \<open>Exit statuses are compared as text\<close>

text \<open>The byte order of texts, as in the collation \<open>C\<close>.\<close>

fun byte_less :: "string \<Rightarrow> string \<Rightarrow> bool" where
  "byte_less a [] = False"
| "byte_less [] (y # ys) = True"
| "byte_less (x # xs) (y # ys) =
     ((of_char x :: nat) < of_char y \<or> ((of_char x :: nat) = of_char y \<and> byte_less xs ys))"

definition failed_task :: ArchivedRow where
  "failed_task = (archive_of (sample_task 3 TaskState.Finished (Some 1)))\<lparr>t_result := Some \<lparr>exit_status = 10, msg = None\<rparr>\<rparr>"

text \<open>A filter on the exit status does not compare numbers: a task that ended with status 10 is not found by
  \<open>>9\<close>, because the text \<open>10\<close> comes before the text \<open>9\<close>.\<close>

lemma exit_status_compared_as_text:
  "map_sum id qr_tasks (fst (query_tasks_by_filter byte_less 1 (sample_query\<lparr>tq_exit_status := Some ''>9''\<rparr>)
     (sample_pool\<lparr>db := sample_db\<lparr>active_tasks := [], archived_tasks := [failed_task]\<rparr>\<rparr>))) = Inr []"
  by (simp add: query_defs sample_query_def failed_task_def int_to_string_def nat_to_string.simps
      digit_char_def sample_defs run_defs)

end
