(* ===== verification/Worker_Admin.thy ===== *)
theory Worker_Admin
  imports Worker_Service Task_Query
begin

text \<open>
  Administration of workers (\<open>service/worker/mod.rs\<close>): queries, shutdown of many workers by filter or by a
  list of identifiers, and changes of tags, labels and groups.

  The SQL conditions are predicates on joined rows, as in \<open>Task_Query\<close>. A joined query returns a row per
  combination: a worker that two groups give access to occurs twice.
\<close>

section \<open>Queries\<close>

record WorkersQueryReq =
  wq_group_name :: "string option"
  wq_role :: "GroupWorkerRole list option"
  wq_tags :: "string list option"
  wq_labels :: "string list option"
  wq_creator_username :: "string option"
  wq_count :: bool

record WorkerQueryInfo =
  wi_worker_id :: uuid
  wi_creator_username :: string
  wi_tags :: "string list"
  wi_labels :: "string list"
  wi_created_at :: nanos
  wi_updated_at :: nanos
  wi_state :: WorkerState
  wi_last_heartbeat :: nanos
  wi_assigned_task_id :: "uuid option"

text \<open>\<open>CASE WHEN assigned_task_id IS NULL THEN NULL ELSE active_tasks.uuid END\<close> over a left join.\<close>

definition assigned_uuid :: "WorkerRow \<Rightarrow> Db \<Rightarrow> uuid option" where
  "assigned_uuid w d =
     (case w_assigned_task_id w of
        None \<Rightarrow> None
      | Some i \<Rightarrow> map_option t_uuid (find (\<lambda>t. t_id t = i) (active_tasks d)))"

definition worker_info :: "WorkerRow \<Rightarrow> UserRow \<Rightarrow> Db \<Rightarrow> WorkerQueryInfo" where
  "worker_info w u d =
     \<lparr>wi_worker_id = w_worker_id w, wi_creator_username = u_username u, wi_tags = w_tags w, wi_labels = w_labels w,
      wi_created_at = w_created_at w, wi_updated_at = w_updated_at w, wi_state = w_state w,
      wi_last_heartbeat = w_last_heartbeat w, wi_assigned_task_id = assigned_uuid w d\<rparr>"

definition get_worker_by_uuid :: "uuid \<Rightarrow> (WorkerQueryInfo \<times> (string \<rightharpoonup> GroupWorkerRole)) svc" where
  "get_worker_by_uuid uuid =
     bindR (query (\<lambda>d. first [(w_id w, worker_info w u d). w \<leftarrow> workers d, u \<leftarrow> users d,
                                u_id u = w_creator_id w, w_worker_id w = uuid])) (\<lambda>found.
     bindR (ok_or (api_not_found ''Worker'') found) (\<lambda>(i, info).
     bindR (query (\<lambda>d. [(g_group_name g, gw_role gw). g \<leftarrow> groups d, gw \<leftarrow> group_workers d,
                          gw_group_id gw = g_id g, gw_worker_id gw = i])) (\<lambda>rows.
       ret (info, map_of (rev rows)))))"

text \<open>The group a request is about: the named one, or the user's own; the user has to be a member.\<close>

definition user_group_role :: "i64 \<Rightarrow> string option \<Rightarrow> Db \<Rightarrow> (i64 \<times> UserGroupRole \<times> string) option" where
  "user_group_role user_id group_name d =
     first (case group_name of
              Some name \<Rightarrow>
                [(ug_group_id ug, ug_role ug, g_group_name g). ug \<leftarrow> user_groups d, g \<leftarrow> groups d,
                   g_id g = ug_group_id ug, ug_user_id ug = user_id, g_group_name g = name]
            | None \<Rightarrow>
                [(ug_group_id ug, ug_role ug, g_group_name g). ug \<leftarrow> user_groups d, g \<leftarrow> groups d, u \<leftarrow> users d,
                   g_id g = ug_group_id ug, ug_user_id ug = user_id, u_username u = g_group_name g, u_id u = user_id])"

definition worker_matches :: "WorkersQueryReq \<Rightarrow> WorkerRow \<Rightarrow> GroupWorkerRow \<Rightarrow> UserRow \<Rightarrow> bool" where
  "worker_matches q w gw u \<longleftrightarrow>
     holds_if_set (\<lambda>tags. set tags \<subseteq> set (w_tags w)) (wq_tags q) \<and>
     holds_if_set (\<lambda>labels. set labels \<subseteq> set (w_labels w)) (wq_labels q) \<and>
     holds_if_set (\<lambda>name. u_username u = name) (wq_creator_username q) \<and>
     holds_if_set (\<lambda>roles. gw_role gw \<in> set roles) (wq_role q)"

definition group_members :: "i64 \<Rightarrow> Db \<Rightarrow> (WorkerRow \<times> GroupWorkerRow \<times> UserRow) list" where
  "group_members group_id d =
     [(w, gw, u). w \<leftarrow> workers d, gw \<leftarrow> group_workers d, gw_worker_id gw = w_id w,
        u \<leftarrow> users d, u_id u = w_creator_id w, gw_group_id gw = group_id]"

definition query_workers_by_filter :: "i64 \<Rightarrow> WorkersQueryReq \<Rightarrow> (nat \<times> WorkerQueryInfo list \<times> string) svc" where
  "query_workers_by_filter user_id q =
     bindR (query (user_group_role user_id (wq_group_name q))) (\<lambda>found.
     bindR (ok_or perm_denied found) (\<lambda>(group_id, _, group_name).
     bindR (query (\<lambda>d. [worker_info w u d. (w, gw, u) \<leftarrow> group_members group_id d, worker_matches q w gw u])) (\<lambda>infos.
       if wq_count q then ret (length infos, [], group_name) else ret (length infos, infos, group_name))))"

section \<open>Shutdown of many workers\<close>

record WorkersShutdownByFilterReq =
  ws_group_name :: "string option"
  ws_role :: "GroupWorkerRole list option"
  ws_tags :: "string list option"
  ws_labels :: "string list option"
  ws_creator_username :: "string option"
  ws_op :: WorkerShutdownOp

definition shutdown_query :: "WorkersShutdownByFilterReq \<Rightarrow> WorkersQueryReq" where
  "shutdown_query req =
     \<lparr>wq_group_name = ws_group_name req, wq_role = ws_role req, wq_tags = ws_tags req, wq_labels = ws_labels req,
      wq_creator_username = ws_creator_username req, wq_count = False\<rparr>"

text \<open>The subquery: workers of the group with the role \<open>Admin\<close> there that match the filters.\<close>

definition shutdown_ids :: "i64 \<Rightarrow> WorkersQueryReq \<Rightarrow> (WorkerRow \<Rightarrow> bool) \<Rightarrow> Db \<Rightarrow> i64 list" where
  "shutdown_ids group_id q p d =
     [w_id w. (w, gw, u) \<leftarrow> group_members group_id d, gw_role gw = GroupWorkerRole.Admin, worker_matches q w gw u, p w]"

definition assigned_to :: "i64 list \<Rightarrow> TaskRow \<Rightarrow> bool" where
  "assigned_to ids t \<longleftrightarrow> (case t_assigned_worker t of None \<Rightarrow> False | Some w \<Rightarrow> w \<in> set ids)"

text \<open>\<open>WITH del_gw AS (DELETE FROM group_worker ... RETURNING worker_id) DELETE FROM workers WHERE id IN del_gw\<close>.\<close>

definition delete_group_worker_workers :: "(Db \<Rightarrow> i64 list) \<Rightarrow> Db \<Rightarrow> i64 list \<times> Db" where
  "delete_group_worker_workers sub d =
     (let ids = sub d;
          del = [gw_worker_id gw. gw \<leftarrow> group_workers d, gw_worker_id gw \<in> set ids]
      in (map w_id (filter (\<lambda>w. w_id w \<in> set del) (workers d)),
          d\<lparr>group_workers := del_where (\<lambda>gw. gw_worker_id gw \<in> set ids) (group_workers d),
            workers := del_where (\<lambda>w. w_id w \<in> set del) (workers d)\<rparr>))"

definition update_workers_where :: "(Db \<Rightarrow> i64 list) \<Rightarrow> (WorkerRow \<Rightarrow> WorkerRow) \<Rightarrow> Db \<Rightarrow> nat \<times> Db" where
  "update_workers_where sub f d =
     (let ids = sub d
      in (length (filter (\<lambda>w. w_id w \<in> set ids) (workers d)),
          d\<lparr>workers := upd_where (\<lambda>w. w_id w \<in> set ids) f (workers d)\<rparr>))"

definition graceful :: "nanos \<Rightarrow> WorkerRow \<Rightarrow> WorkerRow" where
  "graceful now w = w\<lparr>w_state := GracefulShutdown, w_updated_at := now\<rparr>"

text \<open>The transaction of \<open>shutdown_workers_by_filter\<close>: how many workers were affected, the tasks to hand out
  again, and the workers that are gone.\<close>

definition shutdown_transaction ::
  "nanos \<Rightarrow> WorkerShutdownOp \<Rightarrow> ((WorkerRow \<Rightarrow> bool) \<Rightarrow> Db \<Rightarrow> i64 list) \<Rightarrow> (nat \<times> TaskRow list \<times> i64 list) svc" where
  "shutdown_transaction now op sub =
     transaction
       (case op of
          Force \<Rightarrow>
            bindR (exec (\<lambda>d. update_active_where (assigned_to (sub (\<lambda>_. True) d)) (release_task now) d)) (\<lambda>tasks.
            bindR (exec (delete_group_worker_workers (sub (\<lambda>_. True)))) (\<lambda>removed.
              ret (length removed, tasks, removed)))
        | Graceful \<Rightarrow>
            bindR (exec (delete_group_worker_workers (sub (\<lambda>w. w_assigned_task_id w = None)))) (\<lambda>removed.
            bindR (exec (update_workers_where (sub (\<lambda>w. w_assigned_task_id w \<noteq> None)) (graceful now))) (\<lambda>updated.
              ret (length removed + updated, [], removed))))"

definition reassign_tasks :: "TaskRow list \<Rightarrow> unit svc" where
  "reassign_tasks tasks =
     for_each (\<lambda>task.
       bindR (query (eligible_workers_gt (t_group_id task) (t_tags task))) (\<lambda>ws.
         attempt (send_task (BatchAddTask ws (t_id task) (t_priority task)) ''reassign'') :: (Error + unit) svc)) tasks"

definition unregister_workers :: "i64 list \<Rightarrow> unit svc" where
  "unregister_workers ids =
     for_each (\<lambda>i. thenR (attempt (send_task (UnregisterWorker i) ''unregister'') :: (Error + unit) svc)
       (attempt (send_hb (HbUnregisterWorker i) ''unregister'') :: (Error + unit) svc)) ids"

definition shutdown_workers_by_filter :: "nanos \<Rightarrow> i64 \<Rightarrow> WorkersShutdownByFilterReq \<Rightarrow> (nat \<times> string) svc" where
  "shutdown_workers_by_filter now user_id req =
     (let q = shutdown_query req
      in bindR (query (user_group_role user_id (wq_group_name q))) (\<lambda>found.
         bindR (ok_or perm_denied found) (\<lambda>(group_id, role, group_name).
         thenR (ensure (role = UserGroupRole.Admin) perm_denied)
         (bindR (shutdown_transaction now (ws_op req) (shutdown_ids group_id q)) (\<lambda>(n, tasks, removed).
          thenR (reassign_tasks tasks)
          (thenR (unregister_workers removed)
            (ret (n, group_name))))))))"

text \<open>A row per group that gives the user access, so a worker may occur more than once.\<close>

definition managed_workers :: "i64 \<Rightarrow> uuid list \<Rightarrow> Db \<Rightarrow> WorkerRow list" where
  "managed_workers user_id uuids d =
     [w. w \<leftarrow> workers d, gw \<leftarrow> group_workers d, gw_worker_id gw = w_id w,
         ug \<leftarrow> user_groups d, ug_group_id ug = gw_group_id gw,
         w_worker_id w \<in> set uuids, ug_user_id ug = user_id, ug_role ug = UserGroupRole.Admin,
         gw_role gw = GroupWorkerRole.Admin]"

definition delete_workers_in :: "i64 list \<Rightarrow> unit svc" where
  "delete_workers_in ids =
     thenR (exec (\<lambda>d. ((), d\<lparr>group_workers := del_where (\<lambda>gw. gw_worker_id gw \<in> set ids) (group_workers d)\<rparr>)))
       (exec (\<lambda>d. ((), d\<lparr>workers := del_where (\<lambda>w. w_id w \<in> set ids) (workers d)\<rparr>)))"

definition shutdown_chunk ::
  "nanos \<Rightarrow> i64 \<Rightarrow> WorkerShutdownOp \<Rightarrow> uuid list \<Rightarrow> (nat \<times> TaskRow list \<times> i64 list \<times> uuid list) svc" where
  "shutdown_chunk now user_id op chunk =
     transaction
       (bindR (query (managed_workers user_id chunk)) (\<lambda>ws.
        if ws = [] then ret (0, [], [], [])
        else case op of
            Force \<Rightarrow>
              (let worker_ids = map w_id ws; task_ids = List.map_filter w_assigned_task_id ws
               in bindR (if task_ids = [] then ret []
                         else exec (update_active_where (\<lambda>t. t_id t \<in> set task_ids) (release_task now))) (\<lambda>tasks.
                  thenR (delete_workers_in worker_ids)
                    (ret (length worker_ids, tasks, worker_ids, map w_worker_id ws))))
          | Graceful \<Rightarrow>
              (let with_tasks = map w_id (filter (\<lambda>w. w_assigned_task_id w \<noteq> None) ws);
                   without_tasks = map w_id (filter (\<lambda>w. w_assigned_task_id w = None) ws)
               in thenR (if without_tasks = [] then ret () else delete_workers_in without_tasks)
                  (thenR (if with_tasks = [] then ret 0 else exec (update_workers_where (\<lambda>_. with_tasks) (graceful now)))
                    (ret (length without_tasks + length with_tasks, [], without_tasks, map w_worker_id ws))))))"

fun shutdown_chunks ::
  "(nat \<Rightarrow> nanos) \<Rightarrow> i64 \<Rightarrow> WorkerShutdownOp \<Rightarrow> uuid list list \<Rightarrow> (nat \<times> TaskRow list \<times> i64 list \<times> uuid list) svc" where
  "shutdown_chunks clock user_id op [] = ret (0, [], [], [])"
| "shutdown_chunks clock user_id op (c # cs) =
     bindR (shutdown_chunk (clock 0) user_id op c) (\<lambda>(n, tasks, removed, found).
     bindR (shutdown_chunks (\<lambda>i. clock (Suc i)) user_id op cs) (\<lambda>(n', tasks', removed', found').
       ret (n + n', tasks @ tasks', removed @ removed', found @ found')))"

definition shutdown_workers_by_uuids ::
  "(nat \<Rightarrow> nanos) \<Rightarrow> i64 \<Rightarrow> WorkerShutdownOp \<Rightarrow> uuid list \<Rightarrow> (nat \<times> uuid list) svc" where
  "shutdown_workers_by_uuids clock user_id op uuids =
     thenR (ensure (uuids \<noteq> []) (api_invalid ''UUIDs list cannot be empty''))
     (bindR (shutdown_chunks clock user_id op (chunks 1024 uuids)) (\<lambda>(n, tasks, removed, found).
      thenR (reassign_tasks tasks)
      (thenR (unregister_workers removed)
        (ret (n, filter (\<lambda>uuid. uuid \<notin> set found) uuids)))))"

section \<open>Tags, labels and groups\<close>

definition user_writes_worker :: "i64 \<Rightarrow> i64 \<Rightarrow> Db \<Rightarrow> bool" where
  "user_writes_worker user_id worker_id d \<longleftrightarrow>
     (\<exists>gw \<in> set (group_workers d). \<exists>g \<in> set (groups d). \<exists>ug \<in> set (user_groups d).
        g_id g = gw_group_id gw \<and> ug_group_id ug = g_id g \<and> gw_worker_id gw = worker_id \<and>
        gw_role gw \<in> {GroupWorkerRole.Write, GroupWorkerRole.Admin} \<and> ug_user_id ug = user_id \<and>
        ug_role ug \<in> {UserGroupRole.Write, UserGroupRole.Admin})"

definition writable_worker :: "i64 \<Rightarrow> uuid \<Rightarrow> WorkerRow svc" where
  "writable_worker user_id worker_uuid =
     bindR (find_worker_by_uuid worker_uuid) (\<lambda>worker.
     bindR (query (user_writes_worker user_id (w_id worker))) (\<lambda>ok.
     thenR (ensure ok api_perm_denied) (ret worker)))"

definition user_replace_worker_tags :: "nanos \<Rightarrow> i64 \<Rightarrow> uuid \<Rightarrow> string list \<Rightarrow> unit svc" where
  "user_replace_worker_tags now user_id worker_uuid tags =
     thenR (ensure (tags \<noteq> []) (api_invalid ''Empty tags''))
     (bindR (writable_worker user_id worker_uuid) (\<lambda>worker.
      thenR (db_stmt (update_worker (w_id worker) (\<lambda>w. w\<lparr>w_tags := tags, w_updated_at := now\<rparr>)))
        (ret ())))"

definition user_replace_worker_labels :: "nanos \<Rightarrow> i64 \<Rightarrow> uuid \<Rightarrow> string list \<Rightarrow> unit svc" where
  "user_replace_worker_labels now user_id worker_uuid labels =
     thenR (ensure (labels \<noteq> []) (api_invalid ''Empty labels''))
     (bindR (writable_worker user_id worker_uuid) (\<lambda>worker.
      thenR (db_stmt (update_worker (w_id worker) (\<lambda>w. w\<lparr>w_labels := labels, w_updated_at := now\<rparr>)))
        (ret ())))"

definition managed_worker :: "i64 \<Rightarrow> uuid \<Rightarrow> WorkerRow svc" where
  "managed_worker user_id worker_uuid =
     bindR (find_worker_by_uuid worker_uuid) (\<lambda>worker.
     bindR (query (user_manages_worker user_id (w_id worker))) (\<lambda>ok.
     thenR (ensure ok api_perm_denied) (ret worker)))"

definition groups_named :: "string list \<Rightarrow> Db \<Rightarrow> (i64 \<times> string) list" where
  "groups_named names d = [(g_id g, g_group_name g). g \<leftarrow> groups d, g_group_name g \<in> set names]"

text \<open>\<open>INSERT ... ON CONFLICT (group_id, worker_id) DO UPDATE SET role\<close>.\<close>

definition upsert_group_worker :: "i64 \<Rightarrow> i64 \<times> GroupWorkerRole \<Rightarrow> Db \<Rightarrow> DbErr + Db" where
  "upsert_group_worker worker_id r d =
     (case r of (group_id, role) \<Rightarrow>
        if \<exists>x \<in> set (group_workers d). gw_group_id x = group_id \<and> gw_worker_id x = worker_id
        then Inr (d\<lparr>group_workers := upd_where (\<lambda>x. gw_group_id x = group_id \<and> gw_worker_id x = worker_id)
                      (\<lambda>x. x\<lparr>gw_role := role\<rparr>) (group_workers d)\<rparr>)
        else insert_group_worker (group_id, worker_id, role) d)"

fun upsert_group_worker_rows :: "i64 \<Rightarrow> (i64 \<times> GroupWorkerRole) list \<Rightarrow> Db \<Rightarrow> DbErr + unit \<times> Db" where
  "upsert_group_worker_rows worker_id [] d = Inr ((), d)"
| "upsert_group_worker_rows worker_id (r # rs) d =
     (case upsert_group_worker worker_id r d of Inl e \<Rightarrow> Inl e | Inr d' \<Rightarrow> upsert_group_worker_rows worker_id rs d')"

definition user_update_worker_groups :: "i64 \<Rightarrow> uuid \<Rightarrow> (string \<times> GroupWorkerRole) list \<Rightarrow> unit svc" where
  "user_update_worker_groups user_id worker_uuid relations =
     thenR (ensure (relations \<noteq> []) (api_invalid ''Empty group relations''))
     (bindR (managed_worker user_id worker_uuid) (\<lambda>worker.
      bindR (query (groups_named (map fst relations))) (\<lambda>gs.
      thenR (ensure (length gs = length relations) (api_invalid ''Some groups do not exist''))
        (db_stmt (upsert_group_worker_rows (w_id worker)
           (List.map_filter (\<lambda>(i, name). map_option (Pair i) (map_of relations name)) gs))))))"

definition user_remove_worker_groups :: "i64 \<Rightarrow> uuid \<Rightarrow> string list \<Rightarrow> unit svc" where
  "user_remove_worker_groups user_id worker_uuid names =
     thenR (ensure (names \<noteq> []) (api_invalid ''Empty group names''))
     (bindR (managed_worker user_id worker_uuid) (\<lambda>worker.
      bindR (query (groups_named names)) (\<lambda>gs.
      thenR (ensure (length gs = length names) (api_invalid ''Some groups do not exist''))
        (exec (\<lambda>d. ((), d\<lparr>group_workers := del_where (\<lambda>gw. gw_group_id gw \<in> fst ` set gs \<and> gw_worker_id gw = w_id worker)
                              (group_workers d)\<rparr>))))))"

section \<open>Invariants of the task store\<close>

lemma keeps_db_worker_lookups [keeps_intros]:
  "keeps_db I (writable_worker u uuid)" "keeps_db I (managed_worker u uuid)"
  "keeps_db I (reassign_tasks ts)" "keeps_db I (unregister_workers ids)"
  by (auto simp: writable_worker_def managed_worker_def reassign_tasks_def unregister_workers_def intro!: keeps_intros)

lemma upsert_group_worker_same: "upsert_group_worker w r d = Inr d' \<Longrightarrow> tasks_same d d'"
  by (auto simp: upsert_group_worker_def tasks_same_def split: prod.splits if_splits
      dest!: insert_group_worker_same)

lemma upsert_group_worker_rows_same: "upsert_group_worker_rows w rs d = Inr (x, d') \<Longrightarrow> tasks_same d d'"
  by (induction w rs d rule: upsert_group_worker_rows.induct)
     (auto split: sum.splits dest!: upsert_group_worker_same intro: tasks_same_trans)

context task_store
begin

lemma keeps_release_where: "keeps_db I (exec (\<lambda>d. update_active_where (p d) (release_task now) d))"
  by (rule keeps_db_exec) (simp add: update_active_where_def trans task_trans_release)

lemma keeps_worker_admin_stmts:
  "keeps_db I (exec (delete_group_worker_workers sub))" "keeps_db I (exec (update_workers_where sub f))"
  "keeps_db I (delete_workers_in ids)" "keeps_db I (db_stmt (upsert_group_worker_rows w rs))"
  "keeps_db I (exec (\<lambda>d. ((), d\<lparr>group_workers := x d\<rparr>)))"
  unfolding delete_workers_in_def
  by (intro keeps_intros keeps_frame_exec keeps_frame_stmt;
      auto simp: delete_group_worker_workers_def update_workers_where_def tasks_same_def Let_def
        dest!: upsert_group_worker_rows_same)+

lemma keeps_shutdown_chunks: "keeps_db I (shutdown_chunks clock u op cs)"
proof (induction clock u op cs rule: shutdown_chunks.induct)
  case (2 clock u op c cs)
  have "keeps_db I (shutdown_chunk now u op c)" for now
    using keeps_release_where [of "\<lambda>_. p" for p]
    by (cases op) (auto simp: shutdown_chunk_def Let_def intro!: keeps_intros keeps_worker_admin_stmts)
  with 2 show ?case by (auto intro!: keeps_intros)
qed (auto intro!: keeps_intros)

lemma keeps_worker_admin_services:
  "keeps_db I (shutdown_workers_by_filter now u req)" "keeps_db I (shutdown_workers_by_uuids clock u op uuids)"
  "keeps_db I (user_replace_worker_tags now u uuid tags)" "keeps_db I (user_replace_worker_labels now u uuid tags)"
  "keeps_db I (user_update_worker_groups u uuid rels)" "keeps_db I (user_remove_worker_groups u uuid names)"
  by (auto simp: shutdown_workers_by_filter_def shutdown_workers_by_uuids_def shutdown_transaction_def Let_def
      user_replace_worker_tags_def user_replace_worker_labels_def user_update_worker_groups_def user_remove_worker_groups_def
      split: WorkerShutdownOp.splits
      intro!: keeps_intros keeps_worker_admin_stmts keeps_stmts keeps_release_where keeps_shutdown_chunks)

end

section \<open>Shutdown by force\<close>

lemma unregister_workers_run:
  "unregister_workers ids s =
     (Inr (), s\<lparr>task_tx := task_tx s @ (if task_rx_open s then map UnregisterWorker ids else []),
                hb_tx := hb_tx s @ (if hb_rx_open s then map HbUnregisterWorker ids else [])\<rparr>)"
  by (induction ids arbitrary: s)
     (auto simp: unregister_workers_def send_task_def send_hb_def attempt_def thenR_def bindR_def ret_def)

lemma wp_unregister_workers [wp_eqs]:
  "wp (unregister_workers ids) Q E s =
     Q () (s\<lparr>task_tx := task_tx s @ (if task_rx_open s then map UnregisterWorker ids else []),
             hb_tx := hb_tx s @ (if hb_rx_open s then map HbUnregisterWorker ids else [])\<rparr>)"
  by (simp add: wp_def unregister_workers_run)

abbreviation same_tables :: "Pool \<Rightarrow> Pool \<Rightarrow> bool" where
  "same_tables s s' \<equiv> db s' = db s \<and> task_rx_open s' = task_rx_open s \<and> hb_rx_open s' = hb_rx_open s"

lemma reassign_tasks_wp: "wp (reassign_tasks ts) (\<lambda>_. same_tables s) (\<lambda>_ _. True) s"
  unfolding reassign_tasks_def by (rule wp_for_each_inv) (auto simp: wp_eqs)

lemma has_roleI:
  "g \<in> set (groups d) \<Longrightarrow> ug \<in> set (user_groups d) \<Longrightarrow> g_id g = ug_group_id ug \<Longrightarrow>
   has_role (ug_role ug) (ug_user_id ug) (g_group_name g) d"
  unfolding has_role_def by (intro bexI [of _ g] bexI [of _ ug]) auto

lemma user_group_role_Some:
  "user_group_role u gn d = Some (gid, role, name) \<Longrightarrow> has_role role u name d"
  by (auto simp: user_group_role_def split: option.splits if_splits dest!: first_Some intro: has_roleI)

definition forced_out :: "nanos \<Rightarrow> i64 list \<Rightarrow> Pool \<Rightarrow> Pool \<Rightarrow> bool" where
  "forced_out now ids s s' \<longleftrightarrow>
     workers (db s') = filter (\<lambda>w. w_id w \<notin> set ids) (workers (db s)) \<and>
     group_workers (db s') = filter (\<lambda>gw. gw_worker_id gw \<notin> set ids) (group_workers (db s)) \<and>
     active_tasks (db s') = map (\<lambda>t. if assigned_to ids t then release_task now t else t) (active_tasks (db s)) \<and>
     (\<exists>msgs. task_tx s' = msgs @ (if task_rx_open s then map UnregisterWorker (map w_id (filter (\<lambda>w. w_id w \<in> set ids) (workers (db s)))) else []))"

lemma shutdown_ids_members: "i \<in> set (shutdown_ids gid q p d) \<Longrightarrow> \<exists>gw \<in> set (group_workers d). gw_worker_id gw = i"
  by (auto simp: shutdown_ids_def group_members_def split: if_splits)

lemma delete_group_worker_workers_all:
  assumes "\<And>i. i \<in> set (sub d) \<Longrightarrow> \<exists>gw \<in> set (group_workers d). gw_worker_id gw = i"
  shows "delete_group_worker_workers sub d =
     (map w_id (filter (\<lambda>w. w_id w \<in> set (sub d)) (workers d)),
      d\<lparr>group_workers := filter (\<lambda>gw. gw_worker_id gw \<notin> set (sub d)) (group_workers d),
        workers := filter (\<lambda>w. w_id w \<notin> set (sub d)) (workers d)\<rparr>)"
proof -
  have "set [gw_worker_id gw. gw \<leftarrow> group_workers d, gw_worker_id gw \<in> set (sub d)] = set (sub d)"
    using assms by (force split: if_splits)
  then show ?thesis by (simp only: delete_group_worker_workers_def Let_def del_where_def)
qed

lemma shutdown_force_wp:
  assumes "\<And>d i. i \<in> set (sub (\<lambda>_. True) d) \<Longrightarrow> \<exists>gw \<in> set (group_workers d). gw_worker_id gw = i"
    and "\<And>d x. sub (\<lambda>_. True) (d\<lparr>active_tasks := x\<rparr>) = sub (\<lambda>_. True) d"
  shows "wp (shutdown_transaction now Force sub)
     (\<lambda>(n, _, removed) s'. n = length removed \<and> removed = map w_id (filter (\<lambda>w. w_id w \<in> set (sub (\<lambda>_. True) (db s))) (workers (db s))) \<and>
        task_rx_open s' = task_rx_open s \<and> forced_out now (sub (\<lambda>_. True) (db s)) s (s'\<lparr>task_tx := map UnregisterWorker removed\<rparr>))
     (\<lambda>_ s'. db s' = db s) s"
proof -
  let ?S = "sub (\<lambda>_. True)"
  have "delete_group_worker_workers ?S d = (map w_id (filter (\<lambda>w. w_id w \<in> set (?S d)) (workers d)),
      d\<lparr>group_workers := filter (\<lambda>gw. gw_worker_id gw \<notin> set (?S d)) (group_workers d),
        workers := filter (\<lambda>w. w_id w \<notin> set (?S d)) (workers d)\<rparr>)" for d
    by (rule delete_group_worker_workers_all) (rule assms(1))
  then show ?thesis using assms(2)
    by (simp add: shutdown_transaction_def wp_eqs update_active_where_def forced_out_def upd_where_def)
qed

text \<open>A forced shutdown by filter is complete: when it succeeds the caller is an admin of the group it was
  about, every worker that matched, and no other, is gone with all its memberships, the number is right, every
  task that ran on one of them is ready again and no other task has changed, and the dispatcher is told to
  drop their queues.\<close>

lemma shutdown_workers_by_filter_force:
  assumes "shutdown_workers_by_filter now u req s = (Inr (n, name), s')" and "ws_op req = Force"
  shows "\<exists>gid. has_role UserGroupRole.Admin u name (db s) \<and>
     forced_out now (shutdown_ids gid (shutdown_query req) (\<lambda>_. True) (db s)) s s' \<and>
     n = length (filter (\<lambda>w. w_id w \<in> set (shutdown_ids gid (shutdown_query req) (\<lambda>_. True) (db s))) (workers (db s)))"
proof -
  let ?sub = "\<lambda>gid. shutdown_ids gid (shutdown_query req)"
  have ids: "?sub gid p (d\<lparr>active_tasks := x\<rparr>) = ?sub gid p d" for gid p d x
    by (simp add: shutdown_ids_def group_members_def cong: if_cong)
  let ?P = "\<lambda>gid (n, nm) s'. forced_out now (?sub gid (\<lambda>_. True) (db s)) s s' \<and>
       n = length (filter (\<lambda>w. w_id w \<in> set (?sub gid (\<lambda>_. True) (db s))) (workers (db s)))"
  have rest: "wp (bindR (shutdown_transaction now Force (?sub gid)) (\<lambda>(n, tasks, removed).
        thenR (reassign_tasks tasks) (thenR (unregister_workers removed) (ret (n, name'))))) (\<lambda>(n, nm) s'. ?P gid (n, nm) s' \<and> nm = name') (\<lambda>_ _. True) t"
    if "db t = db s" "task_rx_open t = task_rx_open s" for t gid name'
    unfolding wp_bindR
    by (rule wp_mono [OF shutdown_force_wp]; (rule shutdown_ids_members | rule ids | simp)?)
       (auto simp: wp_thenR that intro!: wp_mono [OF reassign_tasks_wp] simp: wp_eqs forced_out_def)
  let ?Q = "\<lambda>(n, name) s'. has_role UserGroupRole.Admin u name (db s) \<and> (\<exists>gid. ?P gid (n, name) s')"
  have rest': "wp (bindR (shutdown_transaction now Force (?sub gid)) (\<lambda>(n, tasks, removed).
        thenR (reassign_tasks tasks) (thenR (unregister_workers removed) (ret (n, name'))))) ?Q (\<lambda>_ _. True) (tick s)"
    if "has_role UserGroupRole.Admin u name' (db s)" for gid name'
    by (rule wp_mono [OF rest]) (use that in auto)
  have "wp (shutdown_workers_by_filter now u req) ?Q (\<lambda>_ _. True) s"
    using assms(2)
    by (auto simp: shutdown_workers_by_filter_def Let_def wp_eqs split: option.splits
        dest!: user_group_role_Some rest' [unfolded wp_bindR])
  then show ?thesis using assms(1) by (auto simp: wp_ok_iff)
qed

definition sample_shutdown :: WorkersShutdownByFilterReq where
  "sample_shutdown = \<lparr>ws_group_name = Some ''ada'', ws_role = None, ws_tags = Some [''gpu''], ws_labels = None,
     ws_creator_username = None, ws_op = Force\<rparr>"

lemmas worker_admin_defs = shutdown_workers_by_filter_def shutdown_query_def user_group_role_def first_def
  shutdown_transaction_def shutdown_ids_def group_members_def worker_matches_def holds_if_set_def
  update_active_where_def upd_where_def del_where_def assigned_to_def release_task_def
  delete_group_worker_workers_def reassign_tasks_def eligible_workers_gt_def unregister_workers_def

theorem shutdown_workers_by_filter_force_witness:
  "\<exists>s'. shutdown_workers_by_filter 7 1 sample_shutdown sample_pool = (Inr (1, ''ada''), s') \<and>
     (\<exists>gid. forced_out 7 (shutdown_ids gid (shutdown_query sample_shutdown) (\<lambda>_. True) (db sample_pool)) sample_pool s')"
proof -
  obtain s' where s': "shutdown_workers_by_filter 7 1 sample_shutdown sample_pool = (Inr (1, ''ada''), s')"
    by (simp add: worker_admin_defs sample_shutdown_def sample_defs run_defs)
  from shutdown_workers_by_filter_force [OF this] s' show ?thesis by (auto simp: sample_shutdown_def)
qed

section \<open>Shutdown by identifiers\<close>

text \<open>A second group of the same user, in which the worker has the role \<open>Admin\<close> too.\<close>

definition two_groups_pool :: Pool where
  "two_groups_pool = sample_pool\<lparr>db := sample_db\<lparr>
     groups := [sample_group, sample_group\<lparr>g_id := 2, g_group_name := ''lab''\<rparr>],
     user_groups := [sample_member, sample_member\<lparr>ug_id := 2, ug_group_id := 2\<rparr>],
     group_workers := [sample_membership, sample_membership\<lparr>gw_id := 2, gw_group_id := 2\<rparr>]\<rparr>\<rparr>"

text \<open>A shutdown by identifiers counts a worker once for every group through which the caller manages it:
  the answer says two workers when there was one.\<close>

lemma shutdown_by_uuids_overcounts:
  "\<exists>s'. shutdown_workers_by_uuids (\<lambda>_. 7) 1 Force [77] two_groups_pool = (Inr (2, []), s') \<and>
     length (workers (db two_groups_pool)) = 1 \<and> workers (db s') = []"
proof -
  have "chunks 1024 [77] = [[77 :: nat]]" by (simp add: chunks_one)
  then show ?thesis
    by (simp add: shutdown_workers_by_uuids_def shutdown_chunk_def managed_workers_def delete_workers_in_def
        worker_admin_defs List.map_filter_def two_groups_pool_def sample_defs run_defs)
qed

section \<open>Who may change a worker\<close>

lemma user_manages_writes: "user_manages_worker u w d \<Longrightarrow> user_writes_worker u w d"
  unfolding user_manages_worker_def user_writes_worker_def by auto

text \<open>C40. A user who has no write access to a worker, that is no group in which both have the role \<open>Write\<close> or
  \<open>Admin\<close>, cannot change its tags, its labels or its groups, nor shut it down: every such call fails and
  leaves the tables as they are.\<close>

theorem worker_changes_require_role:
  assumes "\<not> (\<exists>w \<in> set (workers (db s)). w_worker_id w = uuid \<and> user_writes_worker u (w_id w) (db s))"
  shows "(\<exists>e s'. user_replace_worker_tags now u uuid tags s = (Inl e, s') \<and> db s' = db s) \<and>
         (\<exists>e s'. user_replace_worker_labels now u uuid labels s = (Inl e, s') \<and> db s' = db s) \<and>
         (\<exists>e s'. user_update_worker_groups u uuid rels s = (Inl e, s') \<and> db s' = db s) \<and>
         (\<exists>e s'. user_remove_worker_groups u uuid names s = (Inl e, s') \<and> db s' = db s) \<and>
         (\<exists>e s'. user_remove_worker_by_uuid now u uuid op s = (Inl e, s') \<and> db s' = db s)"
proof -
  have "wp (user_replace_worker_tags now u uuid tags) (\<lambda>_ _. False) (\<lambda>_ s'. db s' = db s) s"
    "wp (user_replace_worker_labels now u uuid labels) (\<lambda>_ _. False) (\<lambda>_ s'. db s' = db s) s"
    "wp (user_update_worker_groups u uuid rels) (\<lambda>_ _. False) (\<lambda>_ s'. db s' = db s) s"
    "wp (user_remove_worker_groups u uuid names) (\<lambda>_ _. False) (\<lambda>_ s'. db s' = db s) s"
    "wp (user_remove_worker_by_uuid now u uuid op) (\<lambda>_ _. False) (\<lambda>_ s'. db s' = db s) s"
    using assms
    by (auto simp: user_replace_worker_tags_def user_replace_worker_labels_def user_update_worker_groups_def
        user_remove_worker_groups_def user_remove_worker_by_uuid_def writable_worker_def managed_worker_def
        find_worker_by_uuid_def wp_eqs split: option.splits dest!: find_SomeD dest: user_manages_writes)
  then show ?thesis by (auto simp: wp_def split: prod.splits sum.splits)
qed

theorem worker_changes_require_role_witness:
  "(\<exists>e s'. user_replace_worker_tags 7 2 77 [''x''] sample_pool = (Inl e, s') \<and> db s' = db sample_pool) \<and>
   (\<exists>e s'. user_replace_worker_labels 7 2 77 [''x''] sample_pool = (Inl e, s') \<and> db s' = db sample_pool) \<and>
   (\<exists>e s'. user_update_worker_groups 2 77 [(''bob'', GroupWorkerRole.Admin)] sample_pool = (Inl e, s') \<and> db s' = db sample_pool) \<and>
   (\<exists>e s'. user_remove_worker_groups 2 77 [''ada''] sample_pool = (Inl e, s') \<and> db s' = db sample_pool) \<and>
   (\<exists>e s'. user_remove_worker_by_uuid 7 2 77 Force sample_pool = (Inl e, s') \<and> db s' = db sample_pool)"
  by (rule worker_changes_require_role) (simp add: user_writes_worker_def sample_defs)

end
