(* ===== verification/Storage_Batch.thy ===== *)
theory Storage_Batch
  imports Storage Task_Query
begin

text \<open>
  The operations of \<open>service/s3.rs\<close> on many artifacts or attachments: queries, download links and deletions
  by filter or by a list.

  A query by part of a key is SQL's LIKE with the pattern \<open>%key%\<close>, in which the caller's \<open>%\<close>, \<open>_\<close> and
  backslash keep their meaning. The loops of the deletions read the clock once per object; the argument
  \<open>clock\<close> gives these times.
\<close>

section \<open>Download links of artifacts\<close>

record ArtifactDownloadItem =
  ad_uuid :: uuid
  ad_url :: string
  ad_size :: i64

definition DOWNLOAD_CHUNK :: nat where
  "DOWNLOAD_CHUNK = 2048"

definition artifacts_of :: "uuid list \<Rightarrow> ArtifactContentType \<Rightarrow> Db \<Rightarrow> ArtifactRow list" where
  "artifacts_of uuids content_type d =
     filter (\<lambda>a. f_task_id a \<in> set uuids \<and> f_content_type a = content_type) (artifacts d)"

text \<open>The loop that reads rows chunk by chunk.\<close>

fun query_chunks :: "('k list \<Rightarrow> Db \<Rightarrow> 'r list) \<Rightarrow> 'k list list \<Rightarrow> 'r list svc" where
  "query_chunks f [] = ret []"
| "query_chunks f (c # cs) =
     bindR (query (f c)) (\<lambda>rows. bindR (query_chunks f cs) (\<lambda>rest. ret (rows @ rest)))"

fun artifact_links :: "Ext \<Rightarrow> ArtifactContentType \<Rightarrow> ArtifactRow list \<Rightarrow> ArtifactDownloadItem list svc" where
  "artifact_links X content_type [] = ret []"
| "artifact_links X content_type (a # as) =
     bindR (lift_s3 S3Err (get_presigned_download_link X (x_artifacts_bucket X)
              (artifact_key X (f_task_id a) content_type) (f_size a) 86400)) (\<lambda>url.
     bindR (artifact_links X content_type as) (\<lambda>rest.
       ret (\<lparr>ad_uuid = f_task_id a, ad_url = url, ad_size = f_size a\<rparr> # rest)))"

definition generate_artifact_downloads ::
  "Ext \<Rightarrow> uuid list \<Rightarrow> ArtifactContentType \<Rightarrow> ArtifactDownloadItem list svc" where
  "generate_artifact_downloads X uuids content_type =
     bindR (query_chunks (\<lambda>c. artifacts_of c content_type) (chunks DOWNLOAD_CHUNK uuids))
       (artifact_links X content_type)"

text \<open>The request has the fields of \<open>TasksQueryReq\<close> without the page, and the type of the artifacts.\<close>

record ArtifactsByFilterReq =
  af_creator_usernames :: "string list option"
  af_group_name :: "string option"
  af_tags :: "string list option"
  af_labels :: "string list option"
  af_states :: "TaskState list option"
  af_exit_status :: "string option"
  af_priority :: "string option"
  af_reporter_uuid :: "uuid option"
  af_content_type :: ArtifactContentType

definition artifacts_query :: "ArtifactsByFilterReq \<Rightarrow> TasksQueryReq" where
  "artifacts_query req =
     \<lparr>tq_creator_usernames = af_creator_usernames req, tq_group_name = af_group_name req, tq_tags = af_tags req,
      tq_labels = af_labels req, tq_states = af_states req, tq_exit_status = af_exit_status req,
      tq_priority = af_priority req, tq_reporter_uuid = af_reporter_uuid req,
      tq_limit = None, tq_offset = None, tq_count = False\<rparr>"

definition batch_download_artifacts_by_filter ::
  "Ext \<Rightarrow> (string \<Rightarrow> string \<Rightarrow> bool) \<Rightarrow> i64 \<Rightarrow> ArtifactsByFilterReq \<Rightarrow> ArtifactDownloadItem list svc" where
  "batch_download_artifacts_by_filter X lt user_id req =
     bindR (query_tasks_by_filter lt user_id (artifacts_query req)) (\<lambda>resp.
       generate_artifact_downloads X (map qi_uuid (qr_tasks resp)) (af_content_type req))"

definition batch_download_artifacts_by_uuids ::
  "Ext \<Rightarrow> uuid list \<Rightarrow> ArtifactContentType \<Rightarrow> ArtifactDownloadItem list svc" where
  "batch_download_artifacts_by_uuids X uuids content_type =
     thenR (ensure (uuids \<noteq> []) (api_invalid ''UUIDs list cannot be empty''))
       (generate_artifact_downloads X uuids content_type)"

section \<open>Queries over attachments\<close>

record AttachmentsQueryReq =
  aq_key :: "string option"
  aq_limit :: "nat option"
  aq_offset :: "nat option"
  aq_count :: bool

record AttachmentQueryInfo =
  ai_key :: string
  ai_content_type :: AttachmentContentType
  ai_size :: i64
  ai_created_at :: nanos
  ai_updated_at :: nanos

text \<open>SQL's LIKE: \<open>%\<close> is any text, \<open>_\<close> any character, and a backslash takes the next one literally. (A pattern
  that ends in a lone backslash is an error of the database; the patterns here end in \<open>%\<close>.)\<close>

fun sql_like :: "string \<Rightarrow> string \<Rightarrow> bool" where
  "sql_like [] s = (s = [])"
| "sql_like (p # ps) [] = (p = CHR ''%'' \<and> sql_like ps [])"
| "sql_like (p # ps) (c # s) =
     (if p = CHR ''%'' then sql_like ps (c # s) \<or> sql_like (p # ps) s
      else if p = CHR ''_'' then sql_like ps s
      else if p = CHR 92 then (case ps of [] \<Rightarrow> False | q # qs \<Rightarrow> q = c \<and> sql_like qs s)
      else p = c \<and> sql_like ps s)"

definition check_group_member :: "i64 \<Rightarrow> string \<Rightarrow> unit svc" where
  "check_group_member user_id group_name =
     bindR (query (\<lambda>d. first [ug_role ug. ug \<leftarrow> user_groups d, g \<leftarrow> groups d, g_id g = ug_group_id ug,
                                 ug_user_id ug = user_id, g_group_name g = group_name])) (\<lambda>role.
       ensure (role \<noteq> None) (api_invalid ''Group with name not found or user is not in the group''))"

definition attachments_like :: "string \<Rightarrow> string \<Rightarrow> Db \<Rightarrow> AttachmentRow list" where
  "attachments_like group_name key d =
     [a. a \<leftarrow> attachments d, g \<leftarrow> groups d, g_id g = a_group_id a, g_group_name g = group_name,
         sql_like (''%'' @ key @ ''%'') (a_key a)]"

definition attachment_info :: "AttachmentRow \<Rightarrow> AttachmentQueryInfo" where
  "attachment_info a =
     \<lparr>ai_key = a_key a, ai_content_type = a_content_type a, ai_size = a_size a,
      ai_created_at = a_created_at a, ai_updated_at = a_updated_at a\<rparr>"

definition attachment_page :: "AttachmentsQueryReq \<Rightarrow> 'a list \<Rightarrow> 'a list" where
  "attachment_page q xs =
     (let ys = (case aq_offset q of None \<Rightarrow> xs | Some n \<Rightarrow> drop n xs)
      in case aq_limit q of None \<Rightarrow> ys | Some n \<Rightarrow> take n ys)"

definition query_attachments_by_filter ::
  "i64 \<Rightarrow> string \<Rightarrow> AttachmentsQueryReq \<Rightarrow> (u64 \<times> AttachmentQueryInfo list \<times> string) svc" where
  "query_attachments_by_filter user_id group_name q =
     thenR (check_group_member user_id group_name)
     (let key = (case aq_key q of None \<Rightarrow> [] | Some k \<Rightarrow> k)
      in if aq_count q then
           bindR (query (\<lambda>d. first (attachment_page q [int (length (attachments_like group_name key d))]))) (\<lambda>c.
             ret (case c of None \<Rightarrow> 0 | Some n \<Rightarrow> n, [], group_name))
         else
           bindR (query (\<lambda>d. attachment_page q (map attachment_info (attachments_like group_name key d)))) (\<lambda>infos.
             ret (int (length infos), infos, group_name)))"

section \<open>Download links of attachments\<close>

record AttachmentDownloadItem =
  td_key :: string
  td_url :: string
  td_size :: i64

definition attachments_of :: "i64 \<Rightarrow> string list \<Rightarrow> Db \<Rightarrow> AttachmentRow list" where
  "attachments_of group_id keys d = filter (\<lambda>a. a_key a \<in> set keys \<and> a_group_id a = group_id) (attachments d)"

fun attachment_links :: "Ext \<Rightarrow> string \<Rightarrow> AttachmentRow list \<Rightarrow> AttachmentDownloadItem list svc" where
  "attachment_links X group_name [] = ret []"
| "attachment_links X group_name (a # as) =
     bindR (lift_s3 S3Err (get_presigned_download_link X (x_attachments_bucket X)
              (attachment_key group_name (a_key a)) (a_size a) 86400)) (\<lambda>url.
     bindR (attachment_links X group_name as) (\<lambda>rest.
       ret (\<lparr>td_key = a_key a, td_url = url, td_size = a_size a\<rparr> # rest)))"

definition generate_attachment_downloads ::
  "Ext \<Rightarrow> string \<Rightarrow> string list \<Rightarrow> AttachmentDownloadItem list svc" where
  "generate_attachment_downloads X group_name keys =
     bindR (query (find_group_by_name group_name)) (\<lambda>found.
     bindR (ok_or (api_not_found (''Group '' @ group_name @ '' not found'')) found) (\<lambda>grp.
     bindR (query_chunks (attachments_of (g_id grp)) (chunks DOWNLOAD_CHUNK keys))
       (attachment_links X group_name)))"

text \<open>\<open>AttachmentsDownloadByFilterReq\<close> and \<open>AttachmentsDeleteByFilterReq\<close>: a key and a page.\<close>

definition attachments_query :: "string option \<Rightarrow> nat option \<Rightarrow> nat option \<Rightarrow> AttachmentsQueryReq" where
  "attachments_query key lim off = \<lparr>aq_key = key, aq_limit = lim, aq_offset = off, aq_count = False\<rparr>"

definition batch_download_attachments_by_filter ::
  "Ext \<Rightarrow> i64 \<Rightarrow> string \<Rightarrow> string option \<Rightarrow> nat option \<Rightarrow> nat option \<Rightarrow>
   (AttachmentDownloadItem list \<times> string) svc" where
  "batch_download_attachments_by_filter X user_id group_name key lim off =
     bindR (query_attachments_by_filter user_id group_name (attachments_query key lim off)) (\<lambda>(_, infos, _).
     bindR (generate_attachment_downloads X group_name (map ai_key infos)) (\<lambda>downloads.
       ret (downloads, group_name)))"

definition batch_download_attachments_by_keys ::
  "Ext \<Rightarrow> i64 \<Rightarrow> string \<Rightarrow> string list \<Rightarrow> (AttachmentDownloadItem list \<times> string) svc" where
  "batch_download_attachments_by_keys X user_id group_name keys =
     thenR (check_group_member user_id group_name)
     (thenR (ensure (keys \<noteq> []) (api_invalid ''Keys list cannot be empty''))
     (bindR (generate_attachment_downloads X group_name keys) (\<lambda>downloads.
       ret (downloads, group_name))))"

section \<open>Deletion of artifacts\<close>

text \<open>One artifact of the loop: \<open>True\<close> when it was deleted. A task that is missing and an error of the deletion
  are logged; an error of the query for the role ends the loop.\<close>

definition delete_one_artifact :: "Ext \<Rightarrow> nanos \<Rightarrow> i64 \<Rightarrow> ArtifactContentType \<Rightarrow> ArtifactRow \<Rightarrow> bool svc" where
  "delete_one_artifact X now user_id content_type artifact =
     bindR (attempt (find_task_by_uuid (f_task_id artifact)) :: (Error + i64 \<times> StoredTaskModel) svc) (\<lambda>r.
       case r of
         Inl _ \<Rightarrow> ret False
       | Inr (group_id, task) \<Rightarrow>
           bindR (query (\<lambda>d. find (\<lambda>ug. ug_user_id ug = user_id \<and> ug_group_id ug = group_id) (user_groups d))) (\<lambda>m.
             case m of
               None \<Rightarrow> ret False
             | Some ug \<Rightarrow>
                 if ug_role ug \<noteq> UserGroupRole.Read \<and> f_updated_at artifact \<le> now - secs UPLOAD_VALID_SECS then
                   bindR (attempt (delete_artifact X now task content_type False) :: (Error + unit) svc) (\<lambda>r.
                     ret (case r of Inl _ \<Rightarrow> False | Inr _ \<Rightarrow> True))
                 else ret False))"

fun delete_artifact_loop ::
  "Ext \<Rightarrow> (nat \<Rightarrow> nanos) \<Rightarrow> i64 \<Rightarrow> ArtifactContentType \<Rightarrow> ArtifactRow list \<Rightarrow> uuid list svc" where
  "delete_artifact_loop X clock user_id content_type [] = ret []"
| "delete_artifact_loop X clock user_id content_type (a # as) =
     bindR (delete_one_artifact X (clock 0) user_id content_type a) (\<lambda>deleted.
     bindR (delete_artifact_loop X (\<lambda>n. clock (Suc n)) user_id content_type as) (\<lambda>rest.
       ret (if deleted then f_task_id a # rest else rest)))"

definition delete_artifacts_by_uuids_internal ::
  "Ext \<Rightarrow> (nat \<Rightarrow> nanos) \<Rightarrow> i64 \<Rightarrow> uuid list \<Rightarrow> ArtifactContentType \<Rightarrow> (nat \<times> uuid list) svc" where
  "delete_artifacts_by_uuids_internal X clock user_id uuids content_type =
     bindR (query_chunks (\<lambda>c. artifacts_of c content_type) (chunks DOWNLOAD_CHUNK uuids)) (\<lambda>arts.
     bindR (delete_artifact_loop X clock user_id content_type arts) (\<lambda>deleted.
       ret (length deleted, filter (\<lambda>uuid. uuid \<notin> set deleted) uuids)))"

definition batch_delete_artifacts_by_filter ::
  "Ext \<Rightarrow> (string \<Rightarrow> string \<Rightarrow> bool) \<Rightarrow> (nat \<Rightarrow> nanos) \<Rightarrow> i64 \<Rightarrow> ArtifactsByFilterReq \<Rightarrow> nat svc" where
  "batch_delete_artifacts_by_filter X lt clock user_id req =
     bindR (query_tasks_by_filter lt user_id (artifacts_query req)) (\<lambda>resp.
     bindR (delete_artifacts_by_uuids_internal X clock user_id (map qi_uuid (qr_tasks resp)) (af_content_type req))
       (\<lambda>(deleted_count, _). ret deleted_count))"

definition batch_delete_artifacts_by_uuids ::
  "Ext \<Rightarrow> (nat \<Rightarrow> nanos) \<Rightarrow> i64 \<Rightarrow> uuid list \<Rightarrow> ArtifactContentType \<Rightarrow> (nat \<times> uuid list) svc" where
  "batch_delete_artifacts_by_uuids X clock user_id uuids content_type =
     thenR (ensure (uuids \<noteq> []) (api_invalid ''UUIDs list cannot be empty''))
       (delete_artifacts_by_uuids_internal X clock user_id uuids content_type)"

section \<open>Deletion of attachments\<close>

definition delete_one_attachment :: "Ext \<Rightarrow> nanos \<Rightarrow> string \<Rightarrow> AttachmentRow \<Rightarrow> bool svc" where
  "delete_one_attachment X now group_name attachment =
     (if a_updated_at attachment \<le> now - secs UPLOAD_VALID_SECS then
        bindR (attempt (delete_attachment X now attachment group_name (a_key attachment)) :: (Error + unit) svc) (\<lambda>r.
          ret (case r of Inl _ \<Rightarrow> False | Inr _ \<Rightarrow> True))
      else ret False)"

fun delete_attachment_loop ::
  "Ext \<Rightarrow> (nat \<Rightarrow> nanos) \<Rightarrow> string \<Rightarrow> AttachmentRow list \<Rightarrow> string list svc" where
  "delete_attachment_loop X clock group_name [] = ret []"
| "delete_attachment_loop X clock group_name (a # as) =
     bindR (delete_one_attachment X (clock 0) group_name a) (\<lambda>deleted.
     bindR (delete_attachment_loop X (\<lambda>n. clock (Suc n)) group_name as) (\<lambda>rest.
       ret (if deleted then a_key a # rest else rest)))"

definition delete_attachments_by_keys_internal ::
  "Ext \<Rightarrow> (nat \<Rightarrow> nanos) \<Rightarrow> i64 \<Rightarrow> string \<Rightarrow> string list \<Rightarrow> (nat \<times> string list) svc" where
  "delete_attachments_by_keys_internal X clock user_id group_name keys =
     bindR (query (find_group_by_name group_name)) (\<lambda>found.
     bindR (ok_or (api_not_found (''Group '' @ group_name @ '' not found'')) found) (\<lambda>grp.
     thenR (require_not_reader user_id (g_id grp))
     (bindR (query (attachments_of (g_id grp) keys)) (\<lambda>ats.
      bindR (delete_attachment_loop X clock group_name ats) (\<lambda>deleted.
        ret (length deleted, filter (\<lambda>key. key \<notin> set deleted) keys))))))"

definition batch_delete_attachments_by_filter ::
  "Ext \<Rightarrow> (nat \<Rightarrow> nanos) \<Rightarrow> i64 \<Rightarrow> string \<Rightarrow> string option \<Rightarrow> nat option \<Rightarrow> nat option \<Rightarrow> (nat \<times> string) svc" where
  "batch_delete_attachments_by_filter X clock user_id group_name key lim off =
     bindR (query_attachments_by_filter user_id group_name (attachments_query key lim off)) (\<lambda>(_, infos, _).
     bindR (delete_attachments_by_keys_internal X clock user_id group_name (map ai_key infos)) (\<lambda>(deleted_count, _).
       ret (deleted_count, group_name)))"

definition batch_delete_attachments_by_keys ::
  "Ext \<Rightarrow> (nat \<Rightarrow> nanos) \<Rightarrow> i64 \<Rightarrow> string \<Rightarrow> string list \<Rightarrow> (nat \<times> string list \<times> string) svc" where
  "batch_delete_attachments_by_keys X clock user_id group_name keys =
     thenR (check_group_member user_id group_name)
     (thenR (ensure (keys \<noteq> []) (api_invalid ''Keys list cannot be empty''))
     (bindR (delete_attachments_by_keys_internal X clock user_id group_name keys) (\<lambda>(deleted_count, failed_keys).
       ret (deleted_count, failed_keys, group_name))))"

section \<open>Invariants of the task store\<close>

lemma keeps_db_query_chunks [keeps_intros]: "keeps_db I (query_chunks f cs)"
  by (induction cs) (auto intro!: keeps_intros)

lemma keeps_db_storage_queries [keeps_intros]:
  "keeps_db I (check_group_member u gn)" "keeps_db I (query_attachments_by_filter u gn q)"
  "keeps_db I (query_tasks_by_filter lt u tq)"
  by (auto simp: check_group_member_def query_attachments_by_filter_def query_tasks_by_filter_def Let_def
      intro!: keeps_intros)

context task_store
begin

lemma keeps_delete_artifact_loop: "keeps_db I (delete_artifact_loop X clock u ct as)"
  by (induction as arbitrary: clock)
     (auto simp: delete_one_artifact_def split: option.splits intro!: keeps_intros keeps_delete_artifact)

lemma keeps_delete_attachment_loop: "keeps_db I (delete_attachment_loop X clock gn as)"
  by (induction as arbitrary: clock)
     (auto simp: delete_one_attachment_def delete_attachment_def intro!: keeps_intros keeps_storage_stmts)

lemma keeps_storage_batch_services:
  "keeps_db I (batch_delete_artifacts_by_filter X lt clock u req)"
  "keeps_db I (batch_delete_artifacts_by_uuids X clock u uuids ct)"
  "keeps_db I (batch_delete_attachments_by_filter X clock u gn key lim off)"
  "keeps_db I (batch_delete_attachments_by_keys X clock u gn keys)"
  by (auto simp: batch_delete_artifacts_by_filter_def batch_delete_artifacts_by_uuids_def
      batch_delete_attachments_by_filter_def batch_delete_attachments_by_keys_def
      delete_artifacts_by_uuids_internal_def delete_attachments_by_keys_internal_def
      intro!: keeps_intros keeps_delete_artifact_loop keeps_delete_attachment_loop)

end

section \<open>Queries by part of a key\<close>

definition plain_text :: "string \<Rightarrow> bool" where
  "plain_text s \<longleftrightarrow> set s \<inter> {CHR ''%'', CHR ''_'', CHR 92} = {}"

lemma sql_like_any [simp]: "sql_like [CHR ''%''] s"
  by (induction s) auto

lemma sql_like_prefix: "plain_text k \<Longrightarrow> sql_like (k @ ''%'') s \<longleftrightarrow> starts_with k s"
proof (induction k arbitrary: s)
  case Nil
  then show ?case by (simp add: starts_with_def)
next
  case (Cons c k)
  then show ?case by (cases s) (auto simp: plain_text_def starts_with_def)
qed

lemma sql_like_infix: "plain_text k \<Longrightarrow> sql_like (''%'' @ k @ ''%'') s \<longleftrightarrow> str_contains k s"
proof (induction s)
  case Nil
  then show ?case using sql_like_prefix [of k "[]"] by (auto simp: starts_with_def)
next
  case (Cons c s)
  then show ?case using sql_like_prefix [of k "c # s"] by simp
qed

section \<open>Accounting of deletions\<close>

definition accounts :: "Db \<Rightarrow> bool" where
  "accounts d \<longleftrightarrow> storage_inv d \<and> (\<forall>g \<in> set (groups d). g_storage_used g \<le> i64_max)"

text \<open>The database after the deletion of an attachment of the group \<open>g\<close>.\<close>

definition attachment_gone :: "nanos \<Rightarrow> AttachmentRow \<Rightarrow> GroupRow \<Rightarrow> Db \<Rightarrow> Db" where
  "attachment_gone now a g d =
     d\<lparr>groups := upd_where (\<lambda>x. g_id x = g_id g) (set_storage_used now (g_storage_used g - a_size a)) (groups d),
       attachments := filter (\<lambda>x. x \<noteq> a) (attachments d)\<rparr>"

lemma reserved_covers:
  assumes "objects_inv d" and "a \<in> set (attachments d)"
  shows "a_size a \<le> reserved d (a_group_id a)"
proof -
  have "distinct (map a_id (attachments d))" using assms(1) by (simp add: objects_inv_def)
  from sum_list_del_key [OF this assms(2), of "attachment_weight (a_group_id a)"]
  have "sum_list (map (attachment_weight (a_group_id a)) (attachments d)) =
      a_size a + sum_list (map (attachment_weight (a_group_id a)) (del_where (\<lambda>y. a_id y = a_id a) (attachments d)))"
    by (simp add: attachment_weight_def)
  moreover have "0 \<le> sum_list (map (attachment_weight (a_group_id a)) (del_where (\<lambda>y. a_id y = a_id a) (attachments d)))"
    using assms(1) by (intro sum_list_nonneg) (auto simp: attachment_weight_def objects_inv_def)
  moreover have "0 \<le> sum_list (map (artifact_weight d (a_group_id a)) (artifacts d))"
    using assms(1) by (intro sum_list_nonneg) (auto simp: artifact_weight_def objects_inv_def)
  ultimately show ?thesis by (simp add: reserved_def)
qed

lemma del_where_id:
  "distinct (map a_id xs) \<Longrightarrow> a \<in> set xs \<Longrightarrow> del_where (\<lambda>y. a_id y = a_id a) xs = filter (\<lambda>x. x \<noteq> a) xs"
  unfolding del_where_def by (rule filter_cong) (auto dest: distinct_map_key)

lemma accounts_attachment_gone:
  assumes acc: "accounts d" and a: "a \<in> set (attachments d)" and g: "g \<in> set (groups d)" "g_id g = a_group_id a"
  shows "accounts (attachment_gone now a g d)" and "saturating_sub_i64 (g_storage_used g) (a_size a) = g_storage_used g - a_size a"
proof -
  let ?d = "attachment_gone now a g d"
  have I: "storage_inv d" and O: "objects_inv d" and dist: "distinct (map a_id (attachments d))"
    using acc by (simp_all add: accounts_def storage_inv_def objects_inv_def)
  have used: "g_storage_used g = reserved d (a_group_id a)" using I g by (simp add: storage_inv_def)
  have bounds: "a_size a \<le> g_storage_used g" "0 \<le> a_size a" "g_storage_used g \<le> i64_max"
    using reserved_covers [OF O a] used O a acc g(1) by (auto simp: objects_inv_def accounts_def)
  then show "saturating_sub_i64 (g_storage_used g) (a_size a) = g_storage_used g - a_size a"
    by (simp add: saturating_sub_i64_def machine_bounds)
  have w: "artifact_weight ?d = artifact_weight d"
    by (rule artifact_weight_cong) (simp add: attachment_gone_def task_idents_def)
  have "storage_inv ?d"
  proof (rule storage_inv_set_used [OF I g(1), where used = "g_storage_used g - a_size a" and now = now])
    show "objects_inv ?d" using O by (auto simp: objects_inv_def attachment_gone_def distinct_map_filter)
    show "reserved ?d gid = reserved d gid + (if gid = g_id g then g_storage_used g - a_size a - g_storage_used g else 0)" for gid
      using sum_list_del_key [OF dist a, of "attachment_weight gid"] g(2) del_where_id [OF dist a]
      unfolding reserved_def w by (simp add: attachment_gone_def attachment_weight_def)
  qed (simp add: attachment_gone_def)
  moreover have "g_storage_used x \<le> i64_max" if "x \<in> set (groups ?d)" for x
    using that acc bounds by (auto simp: attachment_gone_def accounts_def set_storage_used_def elim!: upd_whereE)
  ultimately show "accounts ?d" by (simp add: accounts_def)
qed

text \<open>A deployment in which no call fails.\<close>

definition calm :: "Ext \<Rightarrow> Pool \<Rightarrow> bool" where
  "calm X s \<longleftrightarrow> faults s = [] \<and> (\<forall>b k. x_delete X b k = Inr ())"

lemma delete_attachment_wp:
  assumes "accounts (db s)" and "a \<in> set (attachments (db s))"
  shows "wp (delete_attachment X now a gn key)
     (\<lambda>_ s'. \<exists>g \<in> set (groups (db s)). g_id g = a_group_id a \<and> db s' = attachment_gone now a g (db s) \<and> (calm X s \<longrightarrow> calm X s'))
     (\<lambda>_ s'. db s' = db s \<and> (calm X s \<longrightarrow> a_group_id a \<notin> g_id ` set (groups (db s)))) s"
proof (cases "find_group (a_group_id a) (db s)")
  case None
  then have "a_group_id a \<notin> g_id ` set (groups (db s))" by (auto simp: find_group_def find_None_iff)
  then show ?thesis using None
    by (auto simp: delete_attachment_def delete_object_def wp_eqs calm_def split: sum.splits)
next
  case (Some g)
  then have g: "g \<in> set (groups (db s))" "g_id g = a_group_id a" by (auto simp: find_group_def dest: find_SomeD)
  have upd: "find (\<lambda>x. g_id x = a_group_id a) (groups (db s)) = Some g" using Some by (simp add: find_group_def)
  have "distinct (map a_id (attachments (db s)))" using assms(1) by (simp add: accounts_def storage_inv_def objects_inv_def)
  note del = del_where_id [OF this assms(2)]
  show ?thesis using Some g accounts_attachment_gone(2) [OF assms g]
    by (auto simp: delete_attachment_def delete_object_def wp_eqs calm_def update_group_def upd delete_attachment_row_def
        attachment_gone_def del split: sum.splits intro!: bexI [of _ g])
qed

text \<open>The attachments of a list that are old enough when the loop comes to them.\<close>

fun old_attachments :: "(nat \<Rightarrow> nanos) \<Rightarrow> AttachmentRow list \<Rightarrow> AttachmentRow set" where
  "old_attachments clock [] = {}"
| "old_attachments clock (a # as) =
     (if a_updated_at a \<le> clock 0 - secs UPLOAD_VALID_SECS then {a} else {}) \<union> old_attachments (\<lambda>n. clock (Suc n)) as"

lemma old_attachments_subset: "old_attachments clock as \<subseteq> set as"
  by (induction as arbitrary: clock) (fastforce split: if_splits)+

text \<open>\<open>attachments_deleted D d d'\<close>: the attachments \<open>D\<close> are gone, the counters of the groups follow, and nothing
  else has changed.\<close>

definition attachments_deleted :: "AttachmentRow set \<Rightarrow> Db \<Rightarrow> Db \<Rightarrow> bool" where
  "attachments_deleted D d d' \<longleftrightarrow> accounts d' \<and>
     (\<exists>gs. g_id ` set gs = g_id ` set (groups d) \<and>
           d' = d\<lparr>groups := gs, attachments := filter (\<lambda>x. x \<notin> D) (attachments d)\<rparr>)"

lemma attachments_deleted_none: "accounts d \<Longrightarrow> attachments_deleted {} d d"
  unfolding attachments_deleted_def by (simp add: exI [of _ "groups d"])

lemma attachments_deleted_one:
  assumes "accounts d" and "a \<in> set (attachments d)" and "g \<in> set (groups d)" "g_id g = a_group_id a"
  shows "attachments_deleted {a} d (attachment_gone now a g d)"
proof -
  have "map g_id (upd_where p (set_storage_used now u) xs) = map g_id xs" for p u xs
    by (rule map_upd_where) (simp add: set_storage_used_def)
  then have "g_id ` set (upd_where p (set_storage_used now u) xs) = g_id ` set xs" for p u xs by (metis list.set_map)
  then show ?thesis using accounts_attachment_gone(1) [OF assms, of now]
    unfolding attachments_deleted_def
    by (intro conjI exI [of _ "groups (attachment_gone now a g d)"]) (simp_all add: attachment_gone_def)
qed

lemma attachments_deleted_trans:
  assumes "attachments_deleted A d d1" and "attachments_deleted B d1 d2"
  shows "attachments_deleted (A \<union> B) d d2"
proof -
  obtain gs where "g_id ` set gs = g_id ` set (groups d)"
    "d1 = d\<lparr>groups := gs, attachments := filter (\<lambda>x. x \<notin> A) (attachments d)\<rparr>"
    using assms(1) by (auto simp: attachments_deleted_def)
  moreover obtain gs' where "g_id ` set gs' = g_id ` set (groups d1)" "accounts d2"
    "d2 = d1\<lparr>groups := gs', attachments := filter (\<lambda>x. x \<notin> B) (attachments d1)\<rparr>"
    using assms(2) by (auto simp: attachments_deleted_def)
  ultimately show ?thesis unfolding attachments_deleted_def by (intro conjI exI [of _ gs']) simp_all
qed

lemma attachments_deleted_sel:
  assumes "attachments_deleted D d d'"
  shows "attachments d' = filter (\<lambda>x. x \<notin> D) (attachments d)" and "g_id ` set (groups d') = g_id ` set (groups d)"
    and "accounts d'"
  using assms by (auto simp: attachments_deleted_def)

lemma delete_one_attachment_wp:
  assumes "accounts (db s)" and "a \<in> set (attachments (db s))" and "a_group_id a \<in> g_id ` set (groups (db s))"
  shows "wp (delete_one_attachment X now gn a)
     (\<lambda>deleted s'. attachments_deleted (if deleted then {a} else {}) (db s) (db s') \<and>
        (deleted \<longrightarrow> a_updated_at a \<le> now - secs UPLOAD_VALID_SECS) \<and>
        (calm X s \<longrightarrow> calm X s' \<and> (deleted \<longleftrightarrow> a_updated_at a \<le> now - secs UPLOAD_VALID_SECS)))
     (\<lambda>_ _. False) s"
proof (cases "a_updated_at a \<le> now - secs UPLOAD_VALID_SECS")
  case True
  then show ?thesis
    by (auto simp: delete_one_attachment_def wp_eqs attachments_deleted_none [OF assms(1)] assms(3)
        intro!: wp_mono [OF delete_attachment_wp [OF assms(1,2)]] attachments_deleted_one [OF assms(1,2)])
next
  case False
  then show ?thesis by (simp add: delete_one_attachment_def wp_eqs attachments_deleted_none [OF assms(1)])
qed

lemma delete_attachment_loop_wp:
  assumes "accounts (db s)" and "set as \<subseteq> set (attachments (db s))" and "distinct as"
    and "\<And>a. a \<in> set as \<Longrightarrow> a_group_id a \<in> g_id ` set (groups (db s))"
  shows "wp (delete_attachment_loop X clock gn as)
     (\<lambda>del s'. \<exists>D. D \<subseteq> old_attachments clock as \<and> attachments_deleted D (db s) (db s') \<and>
        set del = a_key ` D \<and> length del = card D \<and> (calm X s \<longrightarrow> D = old_attachments clock as))
     (\<lambda>_ _. False) s"
  using assms
proof (induction as arbitrary: s clock)
  case Nil
  then show ?case by (simp add: wp_eqs attachments_deleted_none)
next
  case (Cons a as)
  have one: "wp (delete_one_attachment X (clock 0) gn a)
     (\<lambda>deleted s'. attachments_deleted (if deleted then {a} else {}) (db s) (db s') \<and>
        (deleted \<longrightarrow> a_updated_at a \<le> clock 0 - secs UPLOAD_VALID_SECS) \<and>
        (calm X s \<longrightarrow> calm X s' \<and> (deleted \<longleftrightarrow> a_updated_at a \<le> clock 0 - secs UPLOAD_VALID_SECS)))
     (\<lambda>_ _. False) s"
    by (rule delete_one_attachment_wp) (use Cons.prems in auto)
  show ?case unfolding delete_attachment_loop.simps wp_bindR
  proof (rule wp_mono [OF one])
    fix deleted s1
    assume s1: "attachments_deleted (if deleted then {a} else {}) (db s) (db s1) \<and>
        (deleted \<longrightarrow> a_updated_at a \<le> clock 0 - secs UPLOAD_VALID_SECS) \<and>
        (calm X s \<longrightarrow> calm X s1 \<and> (deleted \<longleftrightarrow> a_updated_at a \<le> clock 0 - secs UPLOAD_VALID_SECS))"
    note sel = attachments_deleted_sel [OF conjunct1 [OF s1]]
    have sub: "set as \<subseteq> set (attachments (db s1))" using Cons.prems(2,3) sel(1) by (auto split: if_splits)
    have grp: "a_group_id x \<in> g_id ` set (groups (db s1))" if "x \<in> set as" for x using that Cons.prems(4) sel(2) by simp
    let ?old = "old_attachments (\<lambda>n. clock (Suc n)) as"
    have fresh: "a \<notin> ?old" using Cons.prems(3) old_attachments_subset [of _ as] by auto
    show "wp (delete_attachment_loop X (\<lambda>n. clock (Suc n)) gn as)
       (\<lambda>rest. wp (ret (if deleted then a_key a # rest else rest))
         (\<lambda>del s'. \<exists>D. D \<subseteq> old_attachments clock (a # as) \<and> attachments_deleted D (db s) (db s') \<and>
            set del = a_key ` D \<and> length del = card D \<and> (calm X s \<longrightarrow> D = old_attachments clock (a # as))) (\<lambda>_ _. False))
       (\<lambda>_ _. False) s1"
    proof (rule wp_mono [OF Cons.IH [OF sel(3) sub _ grp]])
      fix rest s2
      assume "\<exists>D. D \<subseteq> ?old \<and> attachments_deleted D (db s1) (db s2) \<and> set rest = a_key ` D \<and> length rest = card D \<and>
          (calm X s1 \<longrightarrow> D = ?old)"
      then obtain D where D: "D \<subseteq> ?old" "attachments_deleted D (db s1) (db s2)" "set rest = a_key ` D" "length rest = card D"
        "calm X s1 \<longrightarrow> D = ?old" by blast
      have "finite D" "a \<notin> D"
        using D(1) fresh old_attachments_subset [of "\<lambda>n. clock (Suc n)" as] by (auto intro: finite_subset)
      then show "wp (ret (if deleted then a_key a # rest else rest))
         (\<lambda>del s'. \<exists>D. D \<subseteq> old_attachments clock (a # as) \<and> attachments_deleted D (db s) (db s') \<and>
            set del = a_key ` D \<and> length del = card D \<and> (calm X s \<longrightarrow> D = old_attachments clock (a # as))) (\<lambda>_ _. False) s2"
        using s1 D attachments_deleted_trans [OF conjunct1 [OF s1] D(2)]
        by (intro exI [of _ "(if deleted then {a} else {}) \<union> D"] iffD2 [OF wp_ret]) auto
    qed (use Cons.prems(3) in auto)
  qed
qed

lemma calm_tick: "calm X s \<Longrightarrow> calm X (tick s)"
  by (simp add: calm_def)

text \<open>What a deletion of attachments by keys promises: the caller may write to the group; a set \<open>D\<close> of attachments
  with the given keys, all old enough, is gone and the storage in use has shrunk by their sizes; the answer
  counts them and lists the other keys; and when no call fails, \<open>D\<close> are all the old ones.\<close>

definition keys_deleted ::
  "Ext \<Rightarrow> (nat \<Rightarrow> nanos) \<Rightarrow> i64 \<Rightarrow> string \<Rightarrow> string list \<Rightarrow> Pool \<Rightarrow> nat \<Rightarrow> string list \<Rightarrow> Pool \<Rightarrow> bool" where
  "keys_deleted X clock u gn keys s n failed s' \<longleftrightarrow>
     (\<exists>g \<in> set (groups (db s)). \<exists>ug \<in> set (user_groups (db s)). \<exists>D.
        let old = old_attachments clock (attachments_of (g_id g) keys (db s))
        in g_group_name g = gn \<and> ug_user_id ug = u \<and> ug_group_id ug = g_id g \<and> ug_role ug \<noteq> UserGroupRole.Read \<and>
           D \<subseteq> old \<and> attachments_deleted D (db s) (db s') \<and> n = card D \<and>
           failed = filter (\<lambda>k. k \<notin> a_key ` D) keys \<and> (calm X s \<longrightarrow> D = old))"

lemma delete_attachments_loop_keys:
  assumes acc: "accounts (db s)" and s1: "db s1 = db s" "calm X s \<longrightarrow> calm X s1"
    and g: "g \<in> set (groups (db s))" "g_group_name g = gn"
    and ug: "ug \<in> set (user_groups (db s))" "ug_user_id ug = u" "ug_group_id ug = g_id g" "ug_role ug \<noteq> UserGroupRole.Read"
  shows "wp (delete_attachment_loop X clock gn (attachments_of (g_id g) keys (db s)))
     (\<lambda>del s'. keys_deleted X clock u gn keys s (length del) (filter (\<lambda>k. k \<notin> set del) keys) s') (\<lambda>_ _. False) s1"
proof -
  let ?as = "attachments_of (g_id g) keys (db s)"
  have "distinct (map a_id (attachments (db s)))" using acc by (simp add: accounts_def storage_inv_def objects_inv_def)
  then have "distinct ?as" by (simp add: attachments_of_def distinct_map)
  then have "wp (delete_attachment_loop X clock gn ?as)
     (\<lambda>del s'. \<exists>D. D \<subseteq> old_attachments clock ?as \<and> attachments_deleted D (db s1) (db s') \<and>
        set del = a_key ` D \<and> length del = card D \<and> (calm X s1 \<longrightarrow> D = old_attachments clock ?as)) (\<lambda>_ _. False) s1"
    using acc g(1) by (intro delete_attachment_loop_wp) (auto simp: s1 attachments_of_def)
  then show ?thesis
  proof (rule wp_mono)
    fix del and s' :: Pool
    assume "\<exists>D. D \<subseteq> old_attachments clock ?as \<and> attachments_deleted D (db s1) (db s') \<and>
        set del = a_key ` D \<and> length del = card D \<and> (calm X s1 \<longrightarrow> D = old_attachments clock ?as)"
    then show "keys_deleted X clock u gn keys s (length del) (filter (\<lambda>k. k \<notin> set del) keys) s'"
      unfolding keys_deleted_def Let_def using s1 ug g by (intro bexI [OF _ g(1)] bexI [OF _ ug(1)]) auto
  qed
qed

lemma delete_attachments_by_keys_internal_wp:
  assumes acc: "accounts (db s)" and s1: "db s1 = db s" "calm X s \<longrightarrow> calm X s1"
  shows "wp (delete_attachments_by_keys_internal X clock u gn keys)
     (\<lambda>(n, failed) s'. keys_deleted X clock u gn keys s n failed s') (\<lambda>_ s'. db s' = db s) s1"
proof -
  note loop = wp_mono [OF delete_attachments_loop_keys [OF acc]]
  show ?thesis using s1
    by (auto simp: delete_attachments_by_keys_internal_def require_not_reader_def find_group_by_name_def wp_eqs
        split: option.splits dest!: find_SomeD intro!: loop calm_tick)
qed

section \<open>Properties\<close>

text \<open>C31. A deletion of attachments by keys does what it reports, and keeps the storage accounts: on an error
  nothing has changed; otherwise the caller may write to the group, exactly the counted attachments, all with
  the given keys and not updated in the last hour, are gone with the storage they used, the keys of the others
  are listed as failed, and nothing else has changed. When no call fails, no such attachment remains.\<close>

theorem batch_delete_attachments_exact:
  assumes "accounts (db s)"
  shows "case batch_delete_attachments_by_keys X clock u gn keys s of
     (Inl e, s') \<Rightarrow> db s' = db s
   | (Inr (n, failed, name), s') \<Rightarrow> name = gn \<and> keys_deleted X clock u gn keys s n failed s'"
proof -
  note internal = wp_mono [OF delete_attachments_by_keys_internal_wp [OF assms]]
  have "wp (batch_delete_attachments_by_keys X clock u gn keys)
     (\<lambda>(n, failed, name) s'. name = gn \<and> keys_deleted X clock u gn keys s n failed s') (\<lambda>_ s'. db s' = db s) s"
    by (auto simp: batch_delete_attachments_by_keys_def check_group_member_def wp_eqs intro!: internal calm_tick)
  then show ?thesis by (auto simp: wp_def split: prod.splits sum.splits)
qed

definition stored_db :: Db where
  "stored_db = sample_db\<lparr>groups := [sample_group\<lparr>g_storage_used := 100\<rparr>],
     attachments := [\<lparr>a_id = 1, a_group_id = 1, a_key = ''data'', a_content_type = NoSet, a_size = 70, a_created_at = 0, a_updated_at = 0\<rparr>,
                     \<lparr>a_id = 2, a_group_id = 1, a_key = ''new'', a_content_type = NoSet, a_size = 30, a_created_at = 0, a_updated_at = secs 4000\<rparr>],
     nxt_attachment := 3\<rparr>"

lemma accounts_stored_db: "accounts stored_db"
  by (simp add: accounts_def storage_inv_def objects_inv_def reserved_def attachment_weight_def stored_db_def sample_defs machine_bounds)

theorem batch_delete_attachments_exact_witness:
  "\<exists>s'. batch_delete_attachments_by_keys sample_ext (\<lambda>_. secs 5000) 1 ''ada'' [''data'', ''new'', ''old''] (sample_pool\<lparr>db := stored_db\<rparr>)
          = (Inr (1, [''new'', ''old''], ''ada''), s') \<and> map a_key (attachments (db s')) = [''new''] \<and>
        keys_deleted sample_ext (\<lambda>_. secs 5000) 1 ''ada'' [''data'', ''new'', ''old''] (sample_pool\<lparr>db := stored_db\<rparr>) 1 [''new'', ''old''] s'"
proof -
  let ?s = "sample_pool\<lparr>db := stored_db\<rparr>"
  have "\<exists>s'. batch_delete_attachments_by_keys sample_ext (\<lambda>_. secs 5000) 1 ''ada'' [''data'', ''new'', ''old''] ?s
          = (Inr (1, [''new'', ''old''], ''ada''), s') \<and> map a_key (attachments (db s')) = [''new'']"
    by (simp add: batch_delete_attachments_by_keys_def check_group_member_def delete_attachments_by_keys_internal_def
        require_not_reader_def find_group_by_name_def attachments_of_def delete_one_attachment_def delete_attachment_def
        delete_object_def lift_s3_def find_group_def update_group_def upd_where_def del_where_def delete_attachment_row_def
        set_storage_used_def first_def UPLOAD_VALID_SECS_def secs_def sample_ext_def stored_db_def sample_defs run_defs)
  moreover have "accounts (db ?s)" by (simp add: accounts_stored_db)
  ultimately show ?thesis using batch_delete_attachments_exact [where s = ?s and X = sample_ext and clock = "\<lambda>_. secs 5000" and u = 1
      and gn = "''ada''" and keys = "[''data'', ''new'', ''old'']"]
    by auto
qed

text \<open>A query for attachments by a part of their key, free of the wildcards of SQL, lists exactly the
  attachments of the group whose key contains it.\<close>

lemma attachments_like_contains:
  assumes "plain_text key"
  shows "attachments_like gn key d =
     [a. a \<leftarrow> attachments d, g \<leftarrow> groups d, g_id g = a_group_id a, g_group_name g = gn, str_contains key (a_key a)]"
  unfolding attachments_like_def sql_like_infix [OF assms] ..

theorem attachments_like_contains_witness:
  "map a_key (attachments_like ''ada'' ''at'' stored_db) = [''data'']"
  by (subst attachments_like_contains) (simp_all add: plain_text_def stored_db_def sample_defs starts_with_def)

text \<open>The wildcards of the caller are not escaped: deleting by the key \<open>_\<close> deletes every attachment of the group,
  whatever its key.\<close>

lemma attachment_key_wildcard:
  "map a_key (attachments_like ''ada'' ''_'' stored_db) = [''data'', ''new'']"
  by (simp add: attachments_like_def stored_db_def sample_defs)

end
