(* ===== verification/Api.thy ===== *)
theory Api
  imports Auth Worker_Admin Storage_Batch
begin

text \<open>
  The HTTP interface of the coordinator (\<open>api/\<close>): routers, handlers, the authentication of their requests
  and the translation of errors.

  A route with its path, query and body parameters is a constructor of a request type, one type per router;
  parsing them is the business of axum. A router takes the identity that its middleware has established and
  runs the service function of the handler. Everything that a handler draws from outside, the clock, fresh
  identifiers, random numbers and the peer's address, is in the record \<open>ReqEnv\<close>; what is fixed when the
  coordinator starts is in \<open>Deployment\<close>. The fetching of tasks, which talks to the dispatcher, is
  \<open>worker_fetch_task\<close>.
\<close>

section \<open>Deployment and requests\<close>

record RedisConnection =
  rc_addr :: string
  rc_worker_pass :: string
  rc_client_pass :: string

definition worker_url :: "RedisConnection \<Rightarrow> string" where
  "worker_url i = ''redis://mitosis_worker:'' @ rc_worker_pass i @ ''@'' @ rc_addr i @ ''/?protocol=resp3''"

definition client_url :: "RedisConnection \<Rightarrow> string" where
  "client_url i = ''redis://mitosis_client:'' @ rc_client_pass i @ ''@'' @ rc_addr i @ ''/?protocol=resp3''"

record Deployment =
  dp_store :: Ext
  dp_auth :: AuthExt
  dp_collation :: "string \<Rightarrow> string \<Rightarrow> bool"
  dp_parse_size :: "string \<Rightarrow> u64 option"
  dp_retryable :: "Error \<Rightarrow> bool"
  dp_redis :: "RedisConnection option"
  dp_shutdown_secret :: "string option"

record ReqEnv =
  e_clock :: "nat \<Rightarrow> nanos"
  e_uuid :: "nat \<Rightarrow> uuid"
  e_random :: int
  e_ip :: string

abbreviation e_now :: "ReqEnv \<Rightarrow> nanos" where
  "e_now e \<equiv> e_clock e 1"

datatype TaskRequest =
    SubmitTask SubmitTaskReq
  | ChangeTask uuid ChangeTaskReq
  | ChangeTaskLabels uuid "string list"
  | CancelTask uuid
  | QueryTask uuid
  | QueryTasks TasksQueryReq
  | CancelTasks TasksCancelByFilterReq
  | CancelTasksByUuids "uuid list"
  | UploadArtifact uuid ArtifactContentType u64
  | DownloadArtifact uuid ArtifactContentType
  | DeleteArtifact uuid ArtifactContentType
  | BatchDownloadArtifacts ArtifactsByFilterReq
  | BatchDownloadArtifactsByUuids "uuid list" ArtifactContentType
  | BatchDeleteArtifacts ArtifactsByFilterReq
  | BatchDeleteArtifactsByUuids "uuid list" ArtifactContentType
  | BatchSubmitTasks "SubmitTaskReq list"

datatype GroupRequest =
    CreateGroup string
  | GetGroup string
  | UpdateUserGroup string "(string \<times> UserGroupRole) list"
  | RemoveUserGroup string "string list"
  | UploadAttachment string string u64
  | DownloadAttachment string string
  | DeleteAttachment string string
  | QueryAttachment string string
  | QueryAttachments string AttachmentsQueryReq
  | BatchDownloadAttachments string "string option" "nat option" "nat option"
  | BatchDownloadAttachmentsByKeys string "string list"
  | BatchDeleteAttachments string "string option" "nat option" "nat option"
  | BatchDeleteAttachmentsByKeys string "string list"

datatype UserRequest = ChangePassword string string string | QueryGroups | QueryRedis | WhoAmI

datatype WorkerUserRequest =
    RegisterWorkerReq "string list" "string list" "string list" "u64 option"
  | QueryWorker uuid
  | ShutdownWorker uuid "WorkerShutdownOp option"
  | ReplaceWorkerTags uuid "string list"
  | ReplaceWorkerLabels uuid "string list"
  | UpdateWorkerGroups uuid "(string \<times> GroupWorkerRole) list"
  | RemoveWorkerGroups uuid "string list"
  | QueryWorkers WorkersQueryReq
  | ShutdownWorkers WorkersShutdownByFilterReq
  | ShutdownWorkersByUuids WorkerShutdownOp "uuid list"

datatype WorkerRequest =
    Unregister
  | SendHeartbeat
  | ReportTask i64 ReportTaskOp
  | WorkerQueryTask uuid
  | WorkerDownloadArtifact uuid ArtifactContentType
  | WorkerDownloadAttachment uuid string

datatype AdminRequest =
    AdminCreateUser string string bool
  | AdminDeleteUser string
  | AdminChangePassword string string
  | AdminChangeUserGroupQuota string string
  | AdminChangeUserState string UserState
  | AdminChangeGroupStorageQuota string string
  | AdminShutdownWorker uuid "WorkerShutdownOp option"
  | AdminDeleteAttachment string string
  | AdminDeleteArtifact uuid ArtifactContentType
  | AdminShutdown string

datatype Request =
    Health
  | Login string string bool
  | UserReq string UserRequest
  | TaskReq string TaskRequest
  | GroupReq string GroupRequest
  | WorkerUserReq string WorkerUserRequest
  | WorkerReq string WorkerRequest
  | AdminReq string AdminRequest

text \<open>The bodies of the responses, one constructor per structure of \<open>schema.rs\<close>. After \<open>RShutdown\<close> the cancellation token of the coordinator is cancelled.\<close>

datatype Response =
    RUnit
  | RHealthy
  | RText string
  | RToken string
  | RRedis "string option"
  | RGroups "(string \<times> UserGroupRole) list"
  | RSubmitted SubmitTaskResp
  | RBatch "(ApiError + SubmitTaskResp) list"
  | RTask "TaskQueryInfo \<times> ArtifactRow list"
  | RTasks TasksQueryResp
  | RCancelled "nat \<times> string"
  | RCancelledList "nat \<times> uuid list"
  | RUpload "bool \<times> string"
  | RLink "string \<times> i64"
  | RArtifactLinks "ArtifactDownloadItem list"
  | RDeleted nat
  | RDeletedUuids "nat \<times> uuid list"
  | RGroup GroupQueryInfo
  | RAttachment "AttachmentContentType \<times> i64 \<times> nanos \<times> nanos"
  | RAttachments "u64 \<times> AttachmentQueryInfo list \<times> string"
  | RAttachmentLinks "AttachmentDownloadItem list \<times> string"
  | RDeletedAttachments "nat \<times> string"
  | RDeletedKeys "nat \<times> string list \<times> string"
  | RRegistered uuid string "string option"
  | RWorker "WorkerQueryInfo \<times> (string \<rightharpoonup> GroupWorkerRole)"
  | RWorkers "nat \<times> WorkerQueryInfo list \<times> string"
  | RShutdownCount "nat \<times> string"
  | RShutdownUuids "nat \<times> uuid list"
  | RReported "string option"
  | RFetched "WorkerTaskResp option"
  | RUserState UserState
  | RGroupQuota i32
  | RStorageQuota i64
  | RShutdown

type_synonym 'a api = "(Pool, ApiError, 'a) rm"

definition reply :: "('a \<Rightarrow> Response) \<Rightarrow> ('s, 'e, 'a) rm \<Rightarrow> ('s, 'e, Response) rm" where
  "reply f m = bindR m (\<lambda>a. ret (f a))"

section \<open>Routers\<close>

fun tasks_router :: "Deployment \<Rightarrow> ReqEnv \<Rightarrow> i64 \<Rightarrow> TaskRequest \<Rightarrow> Response svc" where
  "tasks_router D e u (SubmitTask req) = reply RSubmitted (user_submit_task (e_now e) (e_uuid e 0) u req)"
| "tasks_router D e u (ChangeTask uuid req) = reply (\<lambda>_. RUnit) (user_change_task (e_now e) u uuid req)"
| "tasks_router D e u (ChangeTaskLabels uuid labels) =
     reply (\<lambda>_. RUnit) (user_change_task_labels (e_now e) u uuid labels)"
| "tasks_router D e u (CancelTask uuid) = reply (\<lambda>_. RUnit) (user_cancel_task (e_now e) u uuid)"
| "tasks_router D e u (QueryTask uuid) = reply RTask (get_task_by_uuid uuid)"
| "tasks_router D e u (QueryTasks req) = reply RTasks (query_tasks_by_filter (dp_collation D) u req)"
| "tasks_router D e u (CancelTasks req) =
     reply RCancelled (cancel_tasks_by_filter (dp_collation D) (e_now e) u req)"
| "tasks_router D e u (CancelTasksByUuids uuids) = reply RCancelledList (cancel_tasks_by_uuids (e_clock e) u uuids)"
| "tasks_router D e u (UploadArtifact uuid ct len) =
     reply RUpload (user_upload_artifact (dp_store D) (e_now e) u uuid ct len)"
| "tasks_router D e u (DownloadArtifact uuid ct) = reply RLink (download_artifact_by_uuid (dp_store D) uuid ct)"
| "tasks_router D e u (DeleteArtifact uuid ct) =
     reply (\<lambda>_. RUnit) (user_delete_artifact (dp_store D) (e_now e) u uuid ct)"
| "tasks_router D e u (BatchDownloadArtifacts req) =
     reply RArtifactLinks (batch_download_artifacts_by_filter (dp_store D) (dp_collation D) u req)"
| "tasks_router D e u (BatchDownloadArtifactsByUuids uuids ct) =
     reply RArtifactLinks (batch_download_artifacts_by_uuids (dp_store D) uuids ct)"
| "tasks_router D e u (BatchDeleteArtifacts req) =
     reply RDeleted (batch_delete_artifacts_by_filter (dp_store D) (dp_collation D) (e_clock e) u req)"
| "tasks_router D e u (BatchDeleteArtifactsByUuids uuids ct) =
     reply RDeletedUuids (batch_delete_artifacts_by_uuids (dp_store D) (e_clock e) u uuids ct)"
| "tasks_router D e u (BatchSubmitTasks reqs) =
     reply RBatch (user_batch_submit_tasks u (map (\<lambda>(i, req). (e_clock e (Suc i), e_uuid e i, req)) (enumerate 0 reqs)))"

fun groups_router :: "Deployment \<Rightarrow> ReqEnv \<Rightarrow> i64 \<Rightarrow> GroupRequest \<Rightarrow> Response svc" where
  "groups_router D e u (CreateGroup gn) = reply (\<lambda>_. RUnit) (user_create_group (e_now e) u gn)"
| "groups_router D e u (GetGroup gn) = reply RGroup (user_get_group_by_name u gn)"
| "groups_router D e u (UpdateUserGroup gn rels) = reply (\<lambda>_. RUnit) (update_user_group_role u gn rels)"
| "groups_router D e u (RemoveUserGroup gn names) = reply (\<lambda>_. RUnit) (remove_user_group_role u gn names)"
| "groups_router D e u (UploadAttachment gn key len) =
     reply RUpload (user_upload_attachment (dp_store D) (e_now e) u gn key len)"
| "groups_router D e u (DownloadAttachment gn key) = reply RLink (user_get_attachment (dp_store D) u gn key)"
| "groups_router D e u (DeleteAttachment gn key) =
     reply (\<lambda>_. RUnit) (user_delete_attachment (dp_store D) (e_now e) u gn key)"
| "groups_router D e u (QueryAttachment gn key) = reply RAttachment (user_query_attachment u gn key)"
| "groups_router D e u (QueryAttachments gn q) = reply RAttachments (query_attachments_by_filter u gn q)"
| "groups_router D e u (BatchDownloadAttachments gn key lim off) =
     reply RAttachmentLinks (batch_download_attachments_by_filter (dp_store D) u gn key lim off)"
| "groups_router D e u (BatchDownloadAttachmentsByKeys gn keys) =
     reply RAttachmentLinks (batch_download_attachments_by_keys (dp_store D) u gn keys)"
| "groups_router D e u (BatchDeleteAttachments gn key lim off) =
     reply RDeletedAttachments (batch_delete_attachments_by_filter (dp_store D) (e_clock e) u gn key lim off)"
| "groups_router D e u (BatchDeleteAttachmentsByKeys gn keys) =
     reply RDeletedKeys (batch_delete_attachments_by_keys (dp_store D) (e_clock e) u gn keys)"

fun users_router :: "Deployment \<Rightarrow> ReqEnv \<Rightarrow> UserRow \<Rightarrow> UserRequest \<Rightarrow> Response svc" where
  "users_router D e u (ChangePassword username old new) =
     reply RToken (user_change_password (dp_auth D) (e_now e) (e_random e) (u_id u) (e_ip e) username old new)"
| "users_router D e u QueryGroups = reply RGroups (query_user_groups (u_id u))"
| "users_router D e u QueryRedis = ret (RRedis (map_option client_url (dp_redis D)))"
| "users_router D e u WhoAmI = ret (RText (u_username u))"

text \<open>The default operation of a shutdown is \<open>Graceful\<close>.\<close>

definition shutdown_op :: "WorkerShutdownOp option \<Rightarrow> WorkerShutdownOp" where
  "shutdown_op op = (case op of Some x \<Rightarrow> x | None \<Rightarrow> Graceful)"

text \<open>Registration treats an authentication error of the service as an internal one, the other handlers for users
  do not.\<close>

definition user_register_worker ::
  "Deployment \<Rightarrow> ReqEnv \<Rightarrow> i64 \<Rightarrow> string list \<Rightarrow> string list \<Rightarrow> string list \<Rightarrow> u64 option \<Rightarrow> Response api" where
  "user_register_worker D e u tags labels grps lifetime =
     bindR (map_err worker_api_error (Worker_Service.register_worker (e_now e) (e_uuid e 0) u tags labels grps)) (\<lambda>uuid.
     bindR (map_err user_api_error (generate_worker_token (dp_auth D) (e_now e) (x_uuid_str (dp_store D) uuid) 0 lifetime)) (\<lambda>token.
       ret (RRegistered uuid token (map_option worker_url (dp_redis D)))))"

fun workers_user_router :: "Deployment \<Rightarrow> ReqEnv \<Rightarrow> i64 \<Rightarrow> WorkerUserRequest \<Rightarrow> Response api" where
  "workers_user_router D e u (RegisterWorkerReq tags labels grps lifetime) =
     user_register_worker D e u tags labels grps lifetime"
| "workers_user_router D e u (QueryWorker uuid) = map_err user_api_error (reply RWorker (get_worker_by_uuid uuid))"
| "workers_user_router D e u (ShutdownWorker uuid op) =
     map_err user_api_error (reply (\<lambda>_. RUnit) (user_remove_worker_by_uuid (e_now e) u uuid (shutdown_op op)))"
| "workers_user_router D e u (ReplaceWorkerTags uuid tags) =
     map_err user_api_error (reply (\<lambda>_. RUnit) (user_replace_worker_tags (e_now e) u uuid tags))"
| "workers_user_router D e u (ReplaceWorkerLabels uuid labels) =
     map_err user_api_error (reply (\<lambda>_. RUnit) (user_replace_worker_labels (e_now e) u uuid labels))"
| "workers_user_router D e u (UpdateWorkerGroups uuid rels) =
     map_err user_api_error (reply (\<lambda>_. RUnit) (user_update_worker_groups u uuid rels))"
| "workers_user_router D e u (RemoveWorkerGroups uuid names) =
     map_err user_api_error (reply (\<lambda>_. RUnit) (user_remove_worker_groups u uuid names))"
| "workers_user_router D e u (QueryWorkers q) = map_err user_api_error (reply RWorkers (query_workers_by_filter u q))"
| "workers_user_router D e u (ShutdownWorkers req) =
     map_err user_api_error (reply RShutdownCount (shutdown_workers_by_filter (e_now e) u req))"
| "workers_user_router D e u (ShutdownWorkersByUuids op uuids) =
     map_err user_api_error (reply RShutdownUuids (shutdown_workers_by_uuids (e_clock e) u op uuids))"

fun workers_router :: "Deployment \<Rightarrow> ReqEnv \<Rightarrow> i64 \<times> uuid \<Rightarrow> WorkerRequest \<Rightarrow> Response api" where
  "workers_router D e (w, wu) Unregister =
     map_err worker_api_error (reply (\<lambda>_. RUnit) (Worker_Service.unregister_worker (e_now e) w))"
| "workers_router D e (w, wu) SendHeartbeat =
     map_err worker_api_error (reply (\<lambda>_. RUnit) (heartbeat (dp_retryable D) (e_clock e 1) (e_clock e 2) w))"
| "workers_router D e (w, wu) (ReportTask i op) =
     map_err worker_api_error (reply RReported (report_task (dp_store D) (e_now e) (e_uuid e 0) w wu i op))"
| "workers_router D e (w, wu) (WorkerQueryTask uuid) = map_err user_api_error (reply RTask (get_task_by_uuid uuid))"
| "workers_router D e (w, wu) (WorkerDownloadArtifact uuid ct) =
     map_err user_api_error (reply RLink (download_artifact_by_uuid (dp_store D) uuid ct))"
| "workers_router D e (w, wu) (WorkerDownloadAttachment uuid key) =
     map_err user_api_error (reply RLink (worker_download_attachment (dp_store D) uuid key))"

text \<open>\<open>admin_create_user\<close> and \<open>admin_change_user_state\<close> translate the error of a name that is taken or unknown.\<close>

fun create_user_error :: "string \<Rightarrow> Error \<Rightarrow> ApiError" where
  "create_user_error name (ApiErr e) = e"
| "create_user_error name (DbError RecordNotInserted) = AlreadyExists name"
| "create_user_error name _ = InternalServerError"

fun user_state_error :: "string \<Rightarrow> Error \<Rightarrow> ApiError" where
  "user_state_error name (DbError RecordNotUpdated) = NotFound (''User or group with name '' @ name)"
| "user_state_error name _ = InternalServerError"

definition admin_create_user :: "Deployment \<Rightarrow> ReqEnv \<Rightarrow> string \<Rightarrow> string \<Rightarrow> bool \<Rightarrow> Response api" where
  "admin_create_user D e username md5_password admin =
     thenR (ensure (name_validator username) (InvalidRequest ''Invalid username''))
       (map_err (create_user_error username)
          (reply (\<lambda>_. RUnit) (create_user (hash_password (dp_auth D)) (e_now e) username md5_password admin)))"

definition admin_delete_user :: "string \<Rightarrow> Response api" where
  "admin_delete_user username =
     bindR (map_err (user_state_error username) (change_user_state username UserState.Deleted)) (\<lambda>st.
       if st = UserState.Deleted then ret (RUserState st) else raise InternalServerError)"

definition admin_shutdown_coordinator :: "Deployment \<Rightarrow> string \<Rightarrow> Response api" where
  "admin_shutdown_coordinator D secret =
     (case dp_shutdown_secret D of
        Some x \<Rightarrow> if x = secret then ret RShutdown else raise (ApiAuthError PermissionDenied)
      | None \<Rightarrow> raise InternalServerError)"

fun admin_router :: "Deployment \<Rightarrow> ReqEnv \<Rightarrow> AdminRequest \<Rightarrow> Response api" where
  "admin_router D e (AdminCreateUser username pw admin) = admin_create_user D e username pw admin"
| "admin_router D e (AdminDeleteUser username) = admin_delete_user username"
| "admin_router D e (AdminChangePassword username pw) =
     map_err user_api_error (reply (\<lambda>_. RUnit) (admin_change_password (dp_auth D) (e_now e) (e_random e) username pw))"
| "admin_router D e (AdminChangeUserGroupQuota username q) =
     map_err user_api_error (reply RGroupQuota (change_user_group_quota (e_now e) username q))"
| "admin_router D e (AdminChangeUserState username st) =
     map_err (user_state_error username) (reply RUserState (change_user_state username st))"
| "admin_router D e (AdminChangeGroupStorageQuota gn q) =
     map_err user_api_error (reply RStorageQuota (change_group_storage_quota (dp_parse_size D) (e_now e) gn q))"
| "admin_router D e (AdminShutdownWorker uuid op) =
     map_err user_api_error (reply (\<lambda>_. RUnit) (remove_worker_by_uuid (e_now e) uuid (shutdown_op op)))"
| "admin_router D e (AdminDeleteAttachment gn key) =
     map_err user_api_error (reply (\<lambda>_. RUnit) (admin_delete_attachment (dp_store D) (e_now e) gn key))"
| "admin_router D e (AdminDeleteArtifact uuid ct) =
     map_err user_api_error (reply (\<lambda>_. RUnit) (admin_delete_artifact (dp_store D) (e_now e) uuid ct))"
| "admin_router D e (AdminShutdown secret) = admin_shutdown_coordinator D secret"

section \<open>Middlewares\<close>

definition user_auth_middleware :: "Deployment \<Rightarrow> ReqEnv \<Rightarrow> string \<Rightarrow> (UserRow \<Rightarrow> Response api) \<Rightarrow> Response api" where
  "user_auth_middleware D e token next = bindR (map_err ApiAuthError (user_auth (dp_auth D) (e_clock e 0) token)) next"

definition admin_auth_middleware :: "Deployment \<Rightarrow> ReqEnv \<Rightarrow> string \<Rightarrow> Response api \<Rightarrow> Response api" where
  "admin_auth_middleware D e token next = thenR (map_err ApiAuthError (admin_auth (dp_auth D) (e_clock e 0) token)) next"

definition worker_auth_middleware ::
  "Deployment \<Rightarrow> ReqEnv \<Rightarrow> string \<Rightarrow> (i64 \<times> uuid \<Rightarrow> Response api) \<Rightarrow> Response api" where
  "worker_auth_middleware D e token next = bindR (map_err ApiAuthError (worker_auth (dp_auth D) (e_clock e 0) token)) next"

fun router :: "Deployment \<Rightarrow> ReqEnv \<Rightarrow> Request \<Rightarrow> Response api" where
  "router D e Health = ret RHealthy"
| "router D e (Login username pw retain) =
     map_err user_api_error
       (reply RToken (user_login (dp_auth D) (e_now e) (e_random e) username pw retain (e_ip e)))"
| "router D e (UserReq token r) =
     user_auth_middleware D e token (\<lambda>u. map_err user_api_error (users_router D e u r))"
| "router D e (TaskReq token r) =
     user_auth_middleware D e token (\<lambda>u. map_err user_api_error (tasks_router D e (u_id u) r))"
| "router D e (GroupReq token r) =
     user_auth_middleware D e token (\<lambda>u. map_err user_api_error (groups_router D e (u_id u) r))"
| "router D e (WorkerUserReq token r) =
     user_auth_middleware D e token (\<lambda>u. workers_user_router D e (u_id u) r)"
| "router D e (WorkerReq token r) = worker_auth_middleware D e token (\<lambda>w. workers_router D e w r)"
| "router D e (AdminReq token r) = admin_auth_middleware D e token (admin_router D e r)"

definition worker_fetch_task ::
  "'q pq_ops \<Rightarrow> Deployment \<Rightarrow> ReqEnv \<Rightarrow> string \<Rightarrow> Pool \<Rightarrow> 'q TaskDispatcher \<Rightarrow>
   ((ApiError + Response) \<times> Pool \<times> 'q TaskDispatcher) option" where
  "worker_fetch_task Q D e token s d =
     (case worker_auth (dp_auth D) (e_clock e 0) token s of
        (Inl err, s') \<Rightarrow> Some (Inl (ApiAuthError err), s', d)
      | (Inr (w, _), s') \<Rightarrow>
          map_option (\<lambda>(r, s'', d'). (map_sum worker_api_error RFetched r, s'', d')) (fetch_task Q (e_now e) w s' d))"

section \<open>Invariants of the task store\<close>

lemma keeps_db_reply [keeps_intros]: "keeps_db I m \<Longrightarrow> keeps_db I (reply f m)"
  by (auto simp: reply_def intro!: keeps_intros)

lemma keeps_db_auth [keeps_intros]:
  "keeps_db I (user_auth ax now token)" "keeps_db I (admin_auth ax now token)" "keeps_db I (worker_auth ax now token)"
  by (auto simp: user_auth_def admin_auth_def worker_auth_def claimed_user_def intro!: keeps_intros)

lemma keeps_db_links [keeps_intros]:
  "keeps_db I (artifact_links X ct as)" "keeps_db I (attachment_links X gn ts)"
  by (induction as, simp_all add: keeps_intros, induction ts, simp_all add: keeps_intros)

lemma keeps_db_reads [keeps_intros]:
  "keeps_db I (get_task_by_uuid uuid)" "keeps_db I (download_artifact_by_uuid X uuid ct)"
  "keeps_db I (generate_artifact_downloads X uuids ct)" "keeps_db I (generate_attachment_downloads X gn keys)"
  "keeps_db I (user_get_group_by_name u gn)" "keeps_db I (user_get_attachment X u gn key)"
  "keeps_db I (user_query_attachment u gn key)" "keeps_db I (query_user_groups u)"
  "keeps_db I (get_worker_by_uuid uuid)" "keeps_db I (query_workers_by_filter u wq)"
  "keeps_db I (worker_download_attachment X uuid key)"
  by (auto simp: get_task_by_uuid_def download_artifact_by_uuid_def generate_artifact_downloads_def
      generate_attachment_downloads_def user_get_group_by_name_def user_get_attachment_def user_query_attachment_def
      query_user_groups_def get_worker_by_uuid_def query_workers_by_filter_def worker_download_attachment_def Let_def
      intro!: keeps_intros)

lemma keeps_db_batch_downloads [keeps_intros]:
  "keeps_db I (batch_download_artifacts_by_filter X lt u req)" "keeps_db I (batch_download_artifacts_by_uuids X uuids ct)"
  "keeps_db I (batch_download_attachments_by_filter X u gn key lim off)"
  "keeps_db I (batch_download_attachments_by_keys X u gn keys)"
  by (auto simp: batch_download_artifacts_by_filter_def batch_download_artifacts_by_uuids_def
      batch_download_attachments_by_filter_def batch_download_attachments_by_keys_def intro!: keeps_intros)

context task_store
begin

lemmas keeps_services = keeps_user_submit_task keeps_user_change_task keeps_user_change_task_labels keeps_user_cancel_task
  keeps_cancel_tasks_by_filter keeps_cancel_tasks_by_uuids keeps_user_batch_submit_tasks keeps_storage_services
  keeps_storage_batch_services keeps_user_group_services keeps_auth_services keeps_register_worker
  keeps_removal_services keeps_heartbeat keeps_report_task keeps_worker_admin_services

lemma keeps_tasks_router: "keeps_db I (tasks_router D e u r)"
  by (cases r) (auto intro!: keeps_intros keeps_services)

lemma keeps_groups_router: "keeps_db I (groups_router D e u r)"
  by (cases r) (auto intro!: keeps_intros keeps_services)

lemma keeps_users_router: "keeps_db I (users_router D e u r)"
  by (cases r) (auto intro!: keeps_intros keeps_services)

lemma keeps_workers_user_router: "keeps_db I (workers_user_router D e u r)"
  by (cases r) (auto simp: user_register_worker_def intro!: keeps_intros keeps_services)

lemma keeps_workers_router: "keeps_db I (workers_router D e w r)"
  by (cases w; cases r) (auto intro!: keeps_intros keeps_services)

lemma keeps_admin_router: "keeps_db I (admin_router D e r)"
  by (cases r) (auto simp: admin_create_user_def admin_delete_user_def admin_shutdown_coordinator_def
      intro!: keeps_intros keeps_services)

lemma keeps_router: "keeps_db I (router D e r)"
  by (cases r) (auto simp: user_auth_middleware_def admin_auth_middleware_def worker_auth_middleware_def
      intro!: keeps_intros keeps_services keeps_tasks_router keeps_groups_router keeps_users_router
        keeps_workers_user_router keeps_workers_router keeps_admin_router)

lemma keeps_worker_fetch_task:
  assumes "worker_fetch_task Q D e token s d = Some (r, s', d')" and "I (db s)"
  shows "I (db s')"
proof -
  obtain x t where auth: "worker_auth (dp_auth D) (e_clock e 0) token s = (x, t)" by fastforce
  have "I (db t)" using keeps_dbD [where I = I and s = s, OF keeps_db_auth(3) assms(2), of "dp_auth D" "e_clock e 0" token] auth by simp
  then show ?thesis using assms(1) auth
    by (auto simp: worker_fetch_task_def split: sum.splits dest!: keeps_fetch_task)
qed

end

section \<open>Properties\<close>

definition user_token_ok :: "AuthExt \<Rightarrow> nanos \<Rightarrow> string \<Rightarrow> Db \<Rightarrow> (UserRow \<Rightarrow> bool) \<Rightarrow> bool" where
  "user_token_ok ax now token d p \<longleftrightarrow>
     (\<exists>claims u. verify_token ax now token = Some claims \<and> now \<le> exp claims \<and> find_user_by_name (sub claims) d = Some u \<and>
        u_state u = UserState.Active \<and> u_auth_signature u = Some (sign claims) \<and> p u)"

definition worker_token_ok :: "AuthExt \<Rightarrow> nanos \<Rightarrow> string \<Rightarrow> Db \<Rightarrow> bool" where
  "worker_token_ok ax now token d \<longleftrightarrow>
     (\<exists>claims uuid. verify_token ax now token = Some claims \<and> uuid_parse_str ax (sub claims) = Some uuid \<and>
        uuid \<in> w_worker_id ` set (workers d))"

fun authorised :: "Deployment \<Rightarrow> ReqEnv \<Rightarrow> Request \<Rightarrow> Db \<Rightarrow> bool" where
  "authorised D e Health d = True"
| "authorised D e (Login _ _ _) d = True"
| "authorised D e (UserReq token _) d = user_token_ok (dp_auth D) (e_clock e 0) token d (\<lambda>_. True)"
| "authorised D e (TaskReq token _) d = user_token_ok (dp_auth D) (e_clock e 0) token d (\<lambda>_. True)"
| "authorised D e (GroupReq token _) d = user_token_ok (dp_auth D) (e_clock e 0) token d (\<lambda>_. True)"
| "authorised D e (WorkerUserReq token _) d = user_token_ok (dp_auth D) (e_clock e 0) token d (\<lambda>_. True)"
| "authorised D e (WorkerReq token _) d = worker_token_ok (dp_auth D) (e_clock e 0) token d"
| "authorised D e (AdminReq token _) d = user_token_ok (dp_auth D) (e_clock e 0) token d u_admin"

definition refused :: "Pool \<Rightarrow> ApiError \<Rightarrow> Pool \<Rightarrow> bool" where
  "refused s err s' \<longleftrightarrow> get_status_code err \<in> {UNAUTHORIZED, FORBIDDEN} \<and> db s' = db s \<and> task_tx s' = task_tx s \<and> hb_tx s' = hb_tx s"

lemma auth_status [simp]: "auth_status_code a = UNAUTHORIZED \<or> auth_status_code a = FORBIDDEN"
  by (cases a) auto

lemma claimed_user_wp:
  "wp (claimed_user ax now token)
     (\<lambda>(claims, u) s'. verify_token ax now token = Some claims \<and> now \<le> exp claims \<and> find_user_by_name (sub claims) (db s) = Some u \<and>
        db s' = db s \<and> task_tx s' = task_tx s \<and> hb_tx s' = hb_tx s)
     (\<lambda>_ s'. db s' = db s \<and> task_tx s' = task_tx s \<and> hb_tx s' = hb_tx s) s"
  by (auto simp: claimed_user_def wp_eqs split: option.splits)

lemma user_route_refuses:
  "\<not> user_token_ok ax now token (db s) (\<lambda>_. True) \<Longrightarrow> wp (map_err ApiAuthError (user_auth ax now token)) (\<lambda>_ _. False) (refused s) s"
  unfolding user_auth_def wp_map_err wp_bindR
  by (rule wp_mono [OF claimed_user_wp]) (auto simp: user_token_ok_def refused_def wp_eqs)

lemma admin_route_refuses:
  "\<not> user_token_ok ax now token (db s) u_admin \<Longrightarrow> wp (map_err ApiAuthError (admin_auth ax now token)) (\<lambda>_ _. False) (refused s) s"
  unfolding admin_auth_def wp_map_err wp_bindR
  by (rule wp_mono [OF claimed_user_wp]) (auto simp: user_token_ok_def refused_def wp_eqs)

lemma worker_route_refuses:
  "\<not> worker_token_ok ax now token (db s) \<Longrightarrow> wp (map_err ApiAuthError (worker_auth ax now token)) (\<lambda>_ _. False) (refused s) s"
  by (auto simp: worker_auth_def worker_token_ok_def refused_def wp_eqs split: option.splits dest!: find_SomeD)

lemmas route_refuses = user_route_refuses admin_route_refuses worker_route_refuses

lemma wp_bindR_never: "wp m (\<lambda>_ _. False) E s \<Longrightarrow> wp (bindR m f) (\<lambda>_ _. False) E s"
  unfolding wp_bindR by (erule wp_mono) auto


text \<open>A token that the store of tokens does not know.\<close>

definition sample_auth :: AuthExt where
  "sample_auth = \<lparr>hash_is_valid = (\<lambda>_. True), verify_password = (\<lambda>p h. p = h), hash_password = Some,
     jwt_encode = (\<lambda>c. Some (raw_sub c)), jwt_decode = (\<lambda>_ _. None), uuid_parse_str = (\<lambda>_. None), token_expires_in = secs 60\<rparr>"

definition sample_deployment :: Deployment where
  "sample_deployment = \<lparr>dp_store = sample_ext, dp_auth = sample_auth, dp_collation = (\<lambda>_ _. False), dp_parse_size = (\<lambda>_. None),
     dp_retryable = (\<lambda>_. False), dp_redis = None, dp_shutdown_secret = None\<rparr>"

definition sample_env :: ReqEnv where
  "sample_env = \<lparr>e_clock = (\<lambda>n. int n), e_uuid = (\<lambda>n. n + 100), e_random = 7, e_ip = ''::1''\<rparr>"


text \<open>Changing a quota of a group or a user that does not exist, or to a text that is not a quota, is an internal
  error, while changing the state of a user that does not exist is a missing resource.\<close>

lemma unknown_name_status:
  "map_sum get_status_code id (fst (admin_router sample_deployment sample_env (AdminChangeUserGroupQuota ''bob'' ''+1'') sample_pool)) =
     Inl INTERNAL_SERVER_ERROR \<and>
   map_sum get_status_code id (fst (admin_router sample_deployment sample_env (AdminChangeUserState ''bob'' UserState.Active) sample_pool)) =
     Inl NOT_FOUND"
  by (simp add: reply_def change_user_group_quota_def change_user_state_def find_user_by_name_def run_defs sample_defs)

end
