(* ===== verification/Heartbeat.thy ===== *)
theory Heartbeat
  imports Worker_Service
begin

text \<open>
  The heartbeat queue (\<open>service/worker/heartbeat.rs\<close>): a task of the coordinator that removes the workers
  which have been silent for too long.

  The queue is a \<open>PriorityQueue<i64, Reverse<Instant>>\<close>. The crate's operations are those of
  \<open>Priority_Queue\<close> and \<open>peek\<close>, with the laws of the locale \<open>peek_queue\<close>; an instant is a number of
  nanoseconds, and \<open>Reverse\<close>, which turns the order around, is the negation of it, so the item on top has
  the earliest deadline. A future that a timeout drops stops at one of its awaits, that is at a database
  statement; what it has done by then is what the same call does when that statement fails, so a call cut
  off by its timeout is a failing call of which the timeout is reported instead of the error.
\<close>

section \<open>The queue with \<open>peek\<close>\<close>

locale peek_queue = priority_queue Q lookup
  for Q :: "'q pq_ops" and lookup :: "'q \<Rightarrow> i64 \<rightharpoonup> i32" +
  fixes peek :: "'q \<Rightarrow> (i64 \<times> i32) option"
  assumes peek_None_iff: "peek q = None \<longleftrightarrow> lookup q = Map.empty"
    and peek_Some: "peek q = Some (t, p) \<Longrightarrow> top_of (lookup q) t p"

definition alist_peek :: "(i64 \<times> i32) list \<Rightarrow> (i64 \<times> i32) option" where
  "alist_peek q = map_option fst (alist_pop q)"

interpretation alist_peek: peek_queue alist_pq map_of alist_peek
  by unfold_locales (auto simp: alist_peek_def alist_pop_None dest!: alist_pop_Some)

definition Reverse :: "nanos \<Rightarrow> i32" where
  "Reverse t = - t"

section \<open>The heartbeat queue\<close>

record 'q HeartbeatQueue =
  hb_workers :: 'q
  hb_cancelled :: bool
  heartbeat_timeout :: nanos

definition new_heartbeat_queue :: "'q pq_ops \<Rightarrow> nanos \<Rightarrow> 'q HeartbeatQueue" where
  "new_heartbeat_queue Q timeout = \<lparr>hb_workers = pq_new Q, hb_cancelled = False, heartbeat_timeout = timeout\<rparr>"

definition hb_unregister_worker :: "'q pq_ops \<Rightarrow> i64 \<Rightarrow> 'q HeartbeatQueue \<Rightarrow> 'q HeartbeatQueue" where
  "hb_unregister_worker Q worker_id h = h\<lparr>hb_workers := pq_remove Q worker_id (hb_workers h)\<rparr>"

definition hb_heartbeat :: "'q pq_ops \<Rightarrow> nanos \<Rightarrow> i64 \<Rightarrow> 'q HeartbeatQueue \<Rightarrow> 'q HeartbeatQueue" where
  "hb_heartbeat Q now worker_id h =
     h\<lparr>hb_workers := pq_push Q worker_id (Reverse (now + heartbeat_timeout h)) (hb_workers h)\<rparr>"

fun hb_handle_op :: "'q pq_ops \<Rightarrow> nanos \<Rightarrow> HeartbeatOp \<Rightarrow> 'q HeartbeatQueue \<Rightarrow> 'q HeartbeatQueue" where
  "hb_handle_op Q now (HbUnregisterWorker worker_id) h = hb_unregister_worker Q worker_id h"
| "hb_handle_op Q now (Heartbeat worker_id) h = hb_heartbeat Q now worker_id h"

text \<open>What happens to the two guarded calls: \<open>find_late\<close> when the query takes longer than ten seconds,
  \<open>remove_late\<close> when the removal is cut off by its timeout. An error of the removal itself is dropped.\<close>

definition expire_worker :: "nanos \<Rightarrow> bool \<Rightarrow> bool \<Rightarrow> i64 \<Rightarrow> unit svc" where
  "expire_worker now find_late remove_late worker_id =
     (if find_late then raise (Custom (''Worker '' @ int_to_string worker_id @ '' database timeout''))
      else bindR (query (find_worker worker_id)) (\<lambda>found.
        case found of
          None \<Rightarrow> ret ()
        | Some worker \<Rightarrow>
            bindR (attempt (remove_worker now worker)) (\<lambda>r.
              case r of
                Inl _ \<Rightarrow> if remove_late then raise (Custom (''Worker '' @ int_to_string worker_id @ '' removal timeout''))
                          else ret ()
              | Inr _ \<Rightarrow> ret ())))"

definition handle_timeout ::
  "'q pq_ops \<Rightarrow> ('q \<Rightarrow> (i64 \<times> i32) option) \<Rightarrow> nanos \<Rightarrow> bool \<Rightarrow> bool \<Rightarrow> 'q HeartbeatQueue \<Rightarrow> Pool \<Rightarrow>
   (Error + unit) \<times> 'q HeartbeatQueue \<times> Pool" where
  "handle_timeout Q peek now find_late remove_late h s =
     (case peek (hb_workers h) of
        Some (_, r) \<Rightarrow>
          if Reverse now \<le> r then
            (case pq_pop Q (hb_workers h) of
               Some ((worker_id, _), ws) \<Rightarrow>
                 (case expire_worker now find_late remove_late worker_id s of
                    (res, s') \<Rightarrow> (res, h\<lparr>hb_workers := ws\<rparr>, s'))
             | None \<Rightarrow> (Inr (), h, s))
          else (Inr (), h, s)
      | None \<Rightarrow> (Inr (), h, s))"

text \<open>How long the loop sleeps next; the difference of two instants is zero when it would be negative.\<close>

definition timeout_duration :: "('q \<Rightarrow> (i64 \<times> i32) option) \<Rightarrow> nanos \<Rightarrow> 'q HeartbeatQueue \<Rightarrow> nanos" where
  "timeout_duration peek now h =
     (case peek (hb_workers h) of
        Some (_, r) \<Rightarrow> max 0 (- r - now)
      | None \<Rightarrow> heartbeat_timeout h)"

text \<open>What one turn of the \<open>select!\<close> yields: the cancellation of the token, the result of \<open>rx.recv()\<close>, or the
  end of the sleep; the last two at a time, and the last with the fate of its guarded calls.\<close>

datatype HbEvent = HbCancel | HbRecv nanos "HeartbeatOp option" | HbElapsed nanos bool bool

text \<open>The loop. It returns the queue and the pool it leaves and the durations it slept or would have slept.
  A failure of \<open>handle_timeout\<close> cancels the token, unless that has happened already; either way the loop ends.\<close>

fun hb_run ::
  "'q pq_ops \<Rightarrow> ('q \<Rightarrow> (i64 \<times> i32) option) \<Rightarrow> HbEvent list \<Rightarrow> 'q HeartbeatQueue \<times> Pool \<times> nanos \<Rightarrow>
   'q HeartbeatQueue \<times> Pool \<times> nanos" where
  "hb_run Q peek [] c = c"
| "hb_run Q peek (ev # evs) (h, s, dur) =
     (if hb_cancelled h then (h, s, dur)
      else case ev of
        HbCancel \<Rightarrow> (h\<lparr>hb_cancelled := True\<rparr>, s, dur)
      | HbRecv now None \<Rightarrow> (h, s, dur)
      | HbRecv now (Some op) \<Rightarrow>
          (let h' = hb_handle_op Q now op h
           in hb_run Q peek evs (h', s, timeout_duration peek now h'))
      | HbElapsed now find_late remove_late \<Rightarrow>
          (case handle_timeout Q peek now find_late remove_late h s of
             (Inl e, h', s') \<Rightarrow> (h'\<lparr>hb_cancelled := True\<rparr>, s', dur)
           | (Inr _, h', s') \<Rightarrow> hb_run Q peek evs (h', s', timeout_duration peek now h')))"


section \<open>Turns of the loop\<close>

definition registered :: "i64 \<Rightarrow> Db \<Rightarrow> bool" where
  "registered w d \<longleftrightarrow> w \<in> w_id ` set (workers d)"

lemma keeps_registered_remove_worker:
  assumes "w_id x \<noteq> w"
  shows "keeps_db (registered w) (remove_worker now x)"
proof -
  have "keeps_db (registered w) (db_stmt (update_active_task i (release_task now)))" for i
    by (rule keeps_db_stmt) (auto simp: registered_def update_active_task_def split: option.splits)
  moreover have "keeps_db (registered w) (delete_worker_rows (w_id x))"
    using assms by (auto simp: delete_worker_rows_def delete_group_workers_def delete_worker_def registered_def
        intro!: keeps_intros keeps_db_exec)
  ultimately show ?thesis
    by (auto simp: remove_worker_def intro!: keeps_intros)
qed

lemma registered_expire_other:
  assumes "registered w (db s)" and "v \<noteq> w" and "expire_worker now fl rl v s = (r, s')"
  shows "registered w (db s')"
proof -
  have "wp (expire_worker now fl rl v) (\<lambda>_ s'. registered w (db s')) (\<lambda>_ s'. registered w (db s')) s"
    using assms(1,2)
    by (auto simp: expire_worker_def find_worker_def wp_eqs split: option.splits sum.splits dest!: find_SomeD
        intro!: wp_mono [OF keeps_db_wp [OF keeps_registered_remove_worker]])
  from wp_sndD [OF this] show ?thesis using assms(3) by simp
qed

text \<open>A deployment in which removing a worker cannot fail.\<close>

definition assigned_active :: "Db \<Rightarrow> bool" where
  "assigned_active d \<longleftrightarrow>
     (\<forall>w \<in> set (workers d). case w_assigned_task_id w of None \<Rightarrow> True | Some i \<Rightarrow> i \<in> t_id ` set (active_tasks d))"

definition healthy :: "Pool \<Rightarrow> bool" where
  "healthy s \<longleftrightarrow> faults s = [] \<and> task_rx_open s \<and> hb_rx_open s \<and> assigned_active (db s)"

lemma assigned_active_smaller:
  assumes "assigned_active d" and "set (workers d') \<subseteq> set (workers d)"
    and "t_id ` set (active_tasks d') = t_id ` set (active_tasks d)"
  shows "assigned_active d'"
  using assms unfolding assigned_active_def by (metis subsetD)

lemma release_task_ids [simp]:
  "t_id ` set (upd_where p (release_task now) ts) = t_id ` set ts"
proof -
  have "map t_id (upd_where p (release_task now) ts) = map t_id ts"
    by (rule map_upd_where) (simp add: release_task_def)
  then show ?thesis by (metis list.set_map)
qed

lemma remove_worker_healthy:
  assumes "healthy s" and "x \<in> set (workers (db s))"
  shows "wp (remove_worker now x) (\<lambda>_ s'. healthy s' \<and> workers (db s') = filter (\<lambda>y. w_id y \<noteq> w_id x) (workers (db s)))
     (\<lambda>_ _. False) s"
proof (cases "w_assigned_task_id x")
  case None
  then show ?thesis using assms assigned_active_smaller [of "db s"]
    by (simp add: healthy_def remove_worker_def delete_worker_rows_def wp_eqs delete_worker_def delete_group_workers_def del_where_def)
next
  case (Some i)
  then have "i \<in> t_id ` set (active_tasks (db s))"
    using assms by (force simp: healthy_def assigned_active_def)
  then obtain t where "find (\<lambda>t. t_id t = i) (active_tasks (db s)) = Some t"
    by (cases "find (\<lambda>t. t_id t = i) (active_tasks (db s))") (auto simp: find_None_iff)
  then show ?thesis using assms Some assigned_active_smaller [of "db s"]
    by (simp add: healthy_def remove_worker_def delete_worker_rows_def wp_eqs update_active_task_def delete_worker_def
        delete_group_workers_def del_where_def)
qed

lemma expire_worker_healthy:
  assumes "healthy s"
  shows "wp (expire_worker now False False v) (\<lambda>_ s'. healthy s' \<and> workers (db s') = filter (\<lambda>y. w_id y \<noteq> v) (workers (db s)))
     (\<lambda>_ _. False) s"
proof (cases "find (\<lambda>x. w_id x = v) (workers (db s))")
  case None
  then have "filter (\<lambda>y. w_id y \<noteq> v) (workers (db s)) = workers (db s)" by (auto simp: find_None_iff filter_id_conv)
  then show ?thesis using None assms by (simp add: expire_worker_def find_worker_def wp_eqs healthy_def)
next
  case (Some x)
  have s: "tick s = s" using assms by (simp add: tick_def healthy_def)
  have "x \<in> set (workers (db s))" "w_id x = v" using Some by (auto dest: find_SomeD)
  then show ?thesis using Some assms s
    by (auto simp: expire_worker_def find_worker_def wp_eqs healthy_def [of s]
        intro!: wp_mono [OF remove_worker_healthy [OF assms]])
qed

context peek_queue
begin

text \<open>A turn after a sleep either finds no deadline that has passed and does nothing, or takes a worker with
  the earliest deadline out of the queue.\<close>

lemma handle_timeout_cases:
  obtains (idle) "handle_timeout Q peek now fl rl h s = (Inr (), h, s)"
      "\<And>w p. lookup (hb_workers h) w = Some p \<Longrightarrow> now < - p"
  | (pops) t p ws where "top_of (lookup (hb_workers h)) t p" "- p \<le> now"
      "lookup ws = (lookup (hb_workers h))(t := None)"
      "handle_timeout Q peek now fl rl h s =
         (fst (expire_worker now fl rl t s), h\<lparr>hb_workers := ws\<rparr>, snd (expire_worker now fl rl t s))"
proof (cases "peek (hb_workers h)")
  case None
  then have "lookup (hb_workers h) = Map.empty" using peek_None_iff by blast
  then show thesis using None by (intro idle) (simp_all add: handle_timeout_def)
next
  case (Some x)
  then obtain t p where peek: "peek (hb_workers h) = Some (t, p)" by (cases x) auto
  note top = peek_Some [OF this]
  show thesis
  proof (cases "Reverse now \<le> p")
    case True
    obtain t' p' ws where pop: "pq_pop Q (hb_workers h) = Some ((t', p'), ws)"
      "top_of (lookup (hb_workers h)) t' p'" "p \<le> p'" "lookup ws = (lookup (hb_workers h))(t' := None)"
      using pop_nonempty top_ofD(1) [OF top] by metis
    then show thesis using True peek
      by (intro pops [of t' p' ws]) (auto simp: handle_timeout_def Reverse_def split: prod.splits)
  next
    case False
    have "now < - p'" if "lookup (hb_workers h) w' = Some p'" for w' p'
      using top_ofD(2) [OF top that] False by (simp add: Reverse_def)
    then show thesis using False peek by (intro idle) (auto simp: handle_timeout_def)
  qed
qed


lemma hb_handle_op_lookup:
  "lookup (hb_workers (hb_handle_op Q now op h)) =
     (case op of
        HbUnregisterWorker v \<Rightarrow> (lookup (hb_workers h))(v := None)
      | Heartbeat v \<Rightarrow> (lookup (hb_workers h))(v \<mapsto> - (now + heartbeat_timeout h)))"
  "heartbeat_timeout (hb_handle_op Q now op h) = heartbeat_timeout h"
  "hb_cancelled (hb_handle_op Q now op h) = hb_cancelled h"
  by (cases op; simp add: hb_unregister_worker_def hb_heartbeat_def Reverse_def)+

end

section \<open>Workers that are heard of stay\<close>

text \<open>\<open>heard T w seen evs\<close>: whenever the loop wakes from a sleep, the last heartbeat of worker \<open>w\<close> that it has
  received, at first the one at \<open>seen\<close>, is less than \<open>T\<close> old.\<close>

fun heard :: "nanos \<Rightarrow> i64 \<Rightarrow> nanos \<Rightarrow> HbEvent list \<Rightarrow> bool" where
  "heard T w seen [] = True"
| "heard T w seen (HbCancel # evs) = heard T w seen evs"
| "heard T w seen (HbRecv now op # evs) = heard T w (if op = Some (Heartbeat w) then now else seen) evs"
| "heard T w seen (HbElapsed now fl rl # evs) = (now < seen + T \<and> heard T w seen evs)"

definition deadline_after :: "('q \<Rightarrow> i64 \<rightharpoonup> i32) \<Rightarrow> i64 \<Rightarrow> nanos \<Rightarrow> 'q HeartbeatQueue \<Rightarrow> bool" where
  "deadline_after lookup w t h \<longleftrightarrow> (case lookup (hb_workers h) w of None \<Rightarrow> True | Some p \<Rightarrow> t \<le> - p)"

context peek_queue
begin

lemma handle_timeout_heard:
  assumes "deadline_after lookup w t h" and "now < t" and "registered w (db s)"
    and "handle_timeout Q peek now fl rl h s = (r, h', s')"
  shows "deadline_after lookup w t h' \<and> registered w (db s') \<and> heartbeat_timeout h' = heartbeat_timeout h"
proof (cases rule: handle_timeout_cases [of now fl rl h s])
  case idle
  with assms show ?thesis by simp
next
  case (pops v p ws)
  have "v \<noteq> w" using pops(1,2) assms(1,2) by (auto simp: deadline_after_def top_of_def)
  then show ?thesis using pops assms registered_expire_other [OF assms(3)]
    by (auto simp: deadline_after_def) (metis prod.collapse)+
qed

lemma hb_run_heard:
  "registered w (db s) \<Longrightarrow> heard (heartbeat_timeout h) w seen evs \<Longrightarrow>
   deadline_after lookup w (seen + heartbeat_timeout h) h \<Longrightarrow>
   registered w (db (fst (snd (hb_run Q peek evs (h, s, dur)))))"
proof (induction evs arbitrary: h s dur seen)
  case (Cons ev evs)
  show ?case
  proof (cases "hb_cancelled h")
    case False
    show ?thesis
    proof (cases ev)
      case (HbRecv now op)
      show ?thesis
      proof (cases op)
        case (Some x)
        have "registered w (db (fst (snd (hb_run Q peek evs
                (hb_handle_op Q now x h, s, timeout_duration peek now (hb_handle_op Q now x h))))))"
          using Cons.prems HbRecv Some
          by (intro Cons.IH [where seen = "if op = Some (Heartbeat w) then now else seen"])
             (auto simp: deadline_after_def hb_handle_op_lookup split: HeartbeatOp.splits)
        then show ?thesis using False HbRecv Some by (simp add: Let_def)
      qed (use False HbRecv Cons.prems in simp)
    next
      case (HbElapsed now fl rl)
      obtain r h' s' where ht: "handle_timeout Q peek now fl rl h s = (r, h', s')" by (meson prod_cases3)
      with Cons.prems HbElapsed have "deadline_after lookup w (seen + heartbeat_timeout h) h' \<and>
          registered w (db s') \<and> heartbeat_timeout h' = heartbeat_timeout h"
        by (intro handle_timeout_heard [OF _ _ _ ht]) auto
      note step = this
      show ?thesis
      proof (cases r)
        case (Inr u)
        have "registered w (db (fst (snd (hb_run Q peek evs (h', s', timeout_duration peek now h')))))"
          using step Cons.prems(2) HbElapsed by (intro Cons.IH [of s' h' seen]) simp_all
        then show ?thesis using False HbElapsed ht Inr by simp
      qed (use step False HbElapsed ht in simp)
    qed (use False Cons.prems in simp)
  qed (use Cons.prems in simp)
qed simp

end

section \<open>Workers that fall silent go\<close>

definition due :: "('q \<Rightarrow> i64 \<rightharpoonup> i32) \<Rightarrow> nanos \<Rightarrow> 'q HeartbeatQueue \<Rightarrow> i64 set" where
  "due lookup t h = {w. \<exists>p. lookup (hb_workers h) w = Some p \<and> - p \<le> t}"

definition elapsed_at :: "nanos list \<Rightarrow> HbEvent list" where
  "elapsed_at ts = map (\<lambda>t. HbElapsed t False False) ts"

context peek_queue
begin

lemma finite_due: "finite (due lookup t h)"
  by (rule finite_subset [OF _ finite_lookup [of "hb_workers h"]]) (auto simp: due_def)

lemma handle_timeout_due:
  assumes "healthy s" and "D \<le> now"
  obtains (drained) "due lookup D h = {}" "handle_timeout Q peek now False False h s = (Inr (), h, s)"
  | (one) h' s' v where "handle_timeout Q peek now False False h s = (Inr (), h', s')" "healthy s'"
      "hb_cancelled h' = hb_cancelled h" "due lookup D h' = due lookup D h - {v}"
      "due lookup D h = {} \<or> v \<in> due lookup D h"
      "workers (db s') = filter (\<lambda>y. w_id y \<noteq> v) (workers (db s))"
proof (cases rule: handle_timeout_cases [of now False False h s])
  case idle
  then have "due lookup D h = {}" using assms(2) by (force simp: due_def)
  then show thesis using idle by (intro drained)
next
  case (pops v p ws)
  obtain s' where s': "expire_worker now False False v s = (Inr (), s')" "healthy s'"
    "workers (db s') = filter (\<lambda>y. w_id y \<noteq> v) (workers (db s))"
    using expire_worker_healthy [OF assms(1), of now v] unfolding wp_total_iff by auto
  have "due lookup D h = {} \<or> v \<in> due lookup D h"
    using pops(1) by (force simp: due_def top_of_def)
  moreover have "due lookup D (h\<lparr>hb_workers := ws\<rparr>) = due lookup D h - {v}"
    using pops(3) by (auto simp: due_def)
  ultimately show thesis using pops(4) s' by (intro one [of "h\<lparr>hb_workers := ws\<rparr>" s' v]) auto
qed

lemma hb_run_drains:
  assumes "healthy s" and "\<not> hb_cancelled h" and "\<And>t. t \<in> set ts \<Longrightarrow> D \<le> t"
    and "card (due lookup D h) \<le> length ts"
  shows "\<exists>h' s' dur'. hb_run Q peek (elapsed_at ts) (h, s, dur) = (h', s', dur') \<and> \<not> hb_cancelled h' \<and>
     due lookup D h' = {} \<and> (\<forall>w. w \<in> due lookup D h \<or> \<not> registered w (db s) \<longrightarrow> \<not> registered w (db s'))"
  using assms
proof (induction ts arbitrary: h s dur)
  case Nil
  then show ?case using finite_due [of D h] by (auto simp: elapsed_at_def)
next
  case (Cons t ts)
  have "D \<le> t" using Cons.prems by simp
  with Cons.prems(1) show ?case
  proof (cases rule: handle_timeout_due [of s D t h])
    case drained
    have "hb_run Q peek (elapsed_at (t # ts)) (h, s, dur) = hb_run Q peek (elapsed_at ts) (h, s, timeout_duration peek t h)"
      using drained(2) Cons.prems(2) by (simp add: elapsed_at_def)
    then show ?thesis using Cons.prems Cons.IH [of s h "timeout_duration peek t h"] drained(1) by simp
  next
    case (one h' s' v)
    have "card (due lookup D h') \<le> length ts"
      using one(4,5) Cons.prems(4) finite_due [of D h] by (cases "due lookup D h = {}") (auto simp: card_Diff_singleton)
    then have "\<exists>h2 s2 dur2. hb_run Q peek (elapsed_at ts) (h', s', timeout_duration peek t h') = (h2, s2, dur2) \<and>
        \<not> hb_cancelled h2 \<and> due lookup D h2 = {} \<and>
        (\<forall>w. w \<in> due lookup D h' \<or> \<not> registered w (db s') \<longrightarrow> \<not> registered w (db s2))"
      using one(2,3) Cons.prems by (intro Cons.IH) simp_all
    then obtain h2 s2 dur2 where "hb_run Q peek (elapsed_at ts) (h', s', timeout_duration peek t h') = (h2, s2, dur2)"
      "\<not> hb_cancelled h2" "due lookup D h2 = {}"
      "\<And>w. w \<in> due lookup D h' \<or> \<not> registered w (db s') \<Longrightarrow> \<not> registered w (db s2)"
      by blast
    moreover have "w \<in> due lookup D h' \<or> \<not> registered w (db s')" if "w \<in> due lookup D h \<or> \<not> registered w (db s)" for w
      using that one(4,6) by (auto simp: registered_def)
    moreover have "hb_run Q peek (elapsed_at (t # ts)) (h, s, dur) =
        hb_run Q peek (elapsed_at ts) (h', s', timeout_duration peek t h')"
      using one(1) Cons.prems(2) by (simp add: elapsed_at_def)
    ultimately show ?thesis by simp
  qed
qed

end

section \<open>Properties\<close>

text \<open>C14. A worker that is heard of in time is never removed: if at every turn in which the loop wakes from its
  sleep the last heartbeat received from a registered worker is younger than the timeout, the worker is
  still registered at the end, whatever the other workers do and whichever calls fail or are cut off.\<close>

theorem heard_worker_stays:
  assumes "peek_queue Q lookup peek" and "registered w (db s)" and "heard (heartbeat_timeout h) w seen evs"
    and "deadline_after lookup w (seen + heartbeat_timeout h) h"
  shows "registered w (db (fst (snd (hb_run Q peek evs (h, s, dur)))))"
  using assms by (rule peek_queue.hb_run_heard)

text \<open>Worker 1 sends a heartbeat at time 5, the loop wakes at 7 and again at 12; worker 2, unknown to the
  database, is overdue.\<close>

definition sample_heartbeats :: "(i64 \<times> i32) list HeartbeatQueue" where
  "sample_heartbeats = \<lparr>hb_workers = [(1, -10), (2, -6)], hb_cancelled = False, heartbeat_timeout = 10\<rparr>"

theorem heard_worker_stays_witness:
  "registered 1 (db (fst (snd (hb_run alist_pq alist_peek
     [HbRecv 5 (Some (Heartbeat 1)), HbElapsed 7 False False, HbElapsed 12 False False]
     (sample_heartbeats, sample_pool, 10)))))"
  by (rule heard_worker_stays [OF alist_peek.peek_queue_axioms, of _ _ _ 0])
     (simp_all add: sample_heartbeats_def registered_def deadline_after_def sample_defs)

text \<open>C15. Silent workers are removed: in a deployment in which no call fails, once the loop has woken at or after
  a time \<open>D\<close> as often as there are workers whose deadline is at most \<open>D\<close>, none of them is in the queue or
  in the table of workers any more, and the loop is still running.\<close>

theorem silent_workers_go:
  assumes "peek_queue Q lookup peek" and "healthy s" and "\<not> hb_cancelled h" and "\<And>t. t \<in> set ts \<Longrightarrow> D \<le> t"
    and "card (due lookup D h) \<le> length ts"
  shows "\<exists>h' s' dur'. hb_run Q peek (elapsed_at ts) (h, s, dur) = (h', s', dur') \<and> \<not> hb_cancelled h' \<and>
     due lookup D h' = {} \<and> (\<forall>w. w \<in> due lookup D h \<or> \<not> registered w (db s) \<longrightarrow> \<not> registered w (db s'))"
  using assms by (rule peek_queue.hb_run_drains)

lemma sample_due: "due map_of 20 sample_heartbeats = {1, 2}"
  by (auto simp: due_def sample_heartbeats_def)

theorem silent_workers_go_witness:
  "\<exists>h' s' dur'. hb_run alist_pq alist_peek (elapsed_at [20, 21]) (sample_heartbeats, sample_pool, 10) = (h', s', dur') \<and>
     \<not> hb_cancelled h' \<and> due map_of 20 h' = {} \<and> \<not> registered 1 (db s') \<and> \<not> registered 2 (db s')"
proof -
  have "healthy sample_pool" by (simp add: healthy_def assigned_active_def sample_defs)
  then have "\<exists>h' s' dur'. hb_run alist_pq alist_peek (elapsed_at [20, 21]) (sample_heartbeats, sample_pool, 10) = (h', s', dur') \<and>
     \<not> hb_cancelled h' \<and> due map_of 20 h' = {} \<and>
     (\<forall>w. w \<in> due map_of 20 sample_heartbeats \<or> \<not> registered w (db sample_pool) \<longrightarrow> \<not> registered w (db s'))"
    by (rule silent_workers_go [OF alist_peek.peek_queue_axioms])
       (auto simp: sample_due, simp add: sample_heartbeats_def)
  then show ?thesis by (auto simp: sample_due)
qed

text \<open>A removal that fails is forgotten: the connection is lost at the first statement of the removal of a
  silent worker, the turn still counts as a success, the worker is out of the heartbeat queue, and both its
  row and its running task stay as they are, so nothing will ever give the task back.\<close>

lemma failed_removal_forgotten:
  "let (r, h', s') = handle_timeout alist_pq alist_peek 20 False False
                       (sample_heartbeats\<lparr>hb_workers := [(1, -10)]\<rparr>) (sample_pool\<lparr>faults := [False, True]\<rparr>)
   in r = Inr () \<and> hb_workers h' = [] \<and> registered 1 (db s') \<and> faults s' = [] \<and>
      map (\<lambda>t. (t_state t, t_assigned_worker t)) (filter (\<lambda>t. t_id t = 1) (active_tasks (db s'))) = [(TaskState.Running, Some 1)]"
  by (simp add: handle_timeout_def expire_worker_def remove_worker_def find_worker_def alist_peek_def alist_pq_def
      alist_pop_def sample_heartbeats_def registered_def Reverse_def run_defs sample_defs)

end
