(* ===== verification/Lifecycle.thy ===== *)
theory Lifecycle
  imports Api Heartbeat
begin

text \<open>
  The coordinator as a whole: the database and channels of the pool, the dispatcher and the heartbeat queue,
  and the steps by which they change. A step is a request, a fetch, a message received by one of the two
  loops, a deadline that passes, the restoration of the workers at start-up, a stop, or a change of the
  failures that the coming statements meet. A request runs to its end before the next step: interleavings of
  the statements of two requests are not modelled, while a request that is cut off by a lost connection is.
\<close>

section \<open>Step systems\<close>

locale invariant_system =
  fixes step :: "'s \<Rightarrow> 's \<Rightarrow> bool" and I :: "'s \<Rightarrow> bool"
  assumes step_keeps: "step s s' \<Longrightarrow> I s \<Longrightarrow> I s'"
begin

lemma run_keeps: "step\<^sup>*\<^sup>* s s' \<Longrightarrow> I s \<Longrightarrow> I s'"
  by (induction rule: rtranclp_induct) (auto intro: step_keeps)

end

section \<open>The coordinator\<close>

record 'q Coordinator =
  c_pool :: Pool
  c_disp :: "'q TaskDispatcher"
  c_hb :: "'q HeartbeatQueue"

inductive sys_step ::
  "'q pq_ops \<Rightarrow> ('q \<Rightarrow> (i64 \<times> i32) option) \<Rightarrow> Deployment \<Rightarrow> 'q Coordinator \<Rightarrow> 'q Coordinator \<Rightarrow> bool"
  for Q peek D where
  sys_request: "router D e r (c_pool c) = (res, s') \<Longrightarrow> sys_step Q peek D c (c\<lparr>c_pool := s'\<rparr>)"
| sys_fetch: "worker_fetch_task Q D e token (c_pool c) (c_disp c) = Some (res, s', d') \<Longrightarrow>
     sys_step Q peek D c (c\<lparr>c_pool := s', c_disp := d'\<rparr>)"
| sys_dispatch: "\<not> d_cancelled (c_disp c) \<Longrightarrow> task_tx (c_pool c) = op # ops \<Longrightarrow>
     sys_step Q peek D c (c\<lparr>c_pool := (c_pool c)\<lparr>task_tx := ops\<rparr>, c_disp := run Q [Recv (Some op)] (c_disp c)\<rparr>)"
| sys_heartbeat: "\<not> hb_cancelled (c_hb c) \<Longrightarrow> hb_tx (c_pool c) = op # ops \<Longrightarrow>
     sys_step Q peek D c (c\<lparr>c_pool := (c_pool c)\<lparr>hb_tx := ops\<rparr>, c_hb := hb_handle_op Q now op (c_hb c)\<rparr>)"
| sys_timeout: "\<not> hb_cancelled (c_hb c) \<Longrightarrow> hb_tx (c_pool c) = [] \<Longrightarrow>
     hb_run Q peek [HbElapsed now fl rl] (c_hb c, c_pool c, dur) = (h', s', dur') \<Longrightarrow>
     sys_step Q peek D c (c\<lparr>c_pool := s', c_hb := h'\<rparr>)"
| sys_restore: "restore_workers (c_pool c) = (res, s') \<Longrightarrow> sys_step Q peek D c (c\<lparr>c_pool := s'\<rparr>)"
| sys_stop: "sys_step Q peek D c (c\<lparr>c_pool := (c_pool c)\<lparr>task_rx_open := False, hb_rx_open := False\<rparr>,
     c_disp := (c_disp c)\<lparr>d_cancelled := True\<rparr>, c_hb := (c_hb c)\<lparr>hb_cancelled := True\<rparr>\<rparr>)"
| sys_faults: "sys_step Q peek D c (c\<lparr>c_pool := (c_pool c)\<lparr>faults := fs\<rparr>\<rparr>)"

section \<open>Invariants\<close>

context task_store
begin

lemma keeps_expire_worker: "keeps_db I (expire_worker now fl rl w)"
  by (auto simp: expire_worker_def intro!: keeps_intros keeps_remove_worker)

lemma keeps_handle_timeout:
  assumes "handle_timeout Q peek now fl rl h s = (r, h', s')" and "I (db s)"
  shows "I (db s')"
proof -
  have "I (db t)" if "expire_worker now fl rl w s = (x, t)" for w x t
    using keeps_dbD [where I = I and s = s, OF keeps_expire_worker assms(2), of now fl rl w] that by simp
  then show ?thesis using assms
    by (auto simp: handle_timeout_def split: option.splits if_splits prod.splits)
qed

lemma keeps_hb_timeout:
  assumes "hb_run Q peek [HbElapsed now fl rl] (h, s, dur) = (h', s', dur')" and "I (db s)"
  shows "I (db s')"
proof -
  obtain r h1 s1 where "handle_timeout Q peek now fl rl h s = (r, h1, s1)" by (meson prod_cases3)
  then show ?thesis using assms keeps_handle_timeout [of Q peek now fl rl h s r h1 s1]
    by (auto split: if_splits sum.splits)
qed

lemma sys_step_keeps:
  assumes "sys_step Q peek D c c'" and "I (db (c_pool c))"
  shows "I (db (c_pool c'))"
  using assms(1)
proof (cases rule: sys_step.cases)
  case (sys_request e r res s')
  then show ?thesis using keeps_dbD [where I = I and s = "c_pool c", OF keeps_router assms(2), of D e r] by simp
next
  case (sys_restore res s')
  then show ?thesis using keeps_dbD [where I = I and s = "c_pool c", OF keeps_restore_workers assms(2)] by simp
next
  case (sys_timeout now fl rl dur h' s' dur')
  then show ?thesis using keeps_hb_timeout [OF sys_timeout(4) assms(2)] by simp
qed (use assms(2) keeps_worker_fetch_task in auto)

end

interpretation coordinator_tasks: invariant_system "sys_step Q peek D" "\<lambda>c. task_inv (db (c_pool c))" for Q peek D
  by unfold_locales (rule task_inv.sys_step_keeps)

interpretation coordinator_history:
  invariant_system "sys_step Q peek D" "\<lambda>c. task_inv (db (c_pool c)) \<and> history d0 (db (c_pool c))" for Q peek D d0
  by unfold_locales (rule history.sys_step_keeps)

lemma task_inv_empty: "task_inv empty_db"
  by (simp add: task_inv_def groups_inv_def idents_inv_def rows_inv_def task_idents_def empty_db_def)

section \<open>Properties\<close>

text \<open>C1. No task is ever lost, duplicated or rewritten: along every run of the coordinator, that is every sequence
  of requests, fetches, messages, timeouts, stops and failures at any statement, each task keeps its identity,
  creator, group, number and uuid and is in exactly one of the two tables; an archived task stays archived with
  everything but its labels and its time of change fixed; identifiers and numbers within a group stay unique;
  a task has a worker exactly when it is not waiting; and archived tasks are finished or cancelled and have a
  result.\<close>

theorem no_task_lost:
  assumes "task_inv (db (c_pool c))" and "(sys_step Q peek D)\<^sup>*\<^sup>* c c'"
  shows "task_inv (db (c_pool c')) \<and> history (db (c_pool c)) (db (c_pool c'))"
  using assms by (intro coordinator_history.run_keeps [OF assms(2)]) simp

text \<open>The sample deployment with its dispatcher and heartbeat queue: the deadline of its worker passes, the worker
  is removed and its task is given back.\<close>

definition sample_coordinator :: "(i64 \<times> i32) list Coordinator" where
  "sample_coordinator = \<lparr>c_pool = sample_pool, c_disp = sample_dispatcher, c_hb = sample_heartbeats\<lparr>hb_workers := [(1, -10)]\<rparr>\<rparr>"

theorem no_task_lost_witness:
  "\<exists>c'. (sys_step alist_pq alist_peek sample_deployment)\<^sup>*\<^sup>* sample_coordinator c' \<and> workers (db (c_pool c')) = [] \<and>
     task_inv (db (c_pool c')) \<and> history (db (c_pool sample_coordinator)) (db (c_pool c'))"
proof -
  let ?c = sample_coordinator
  obtain h' s' dur' where run: "hb_run alist_pq alist_peek [HbElapsed 20 False False] (c_hb ?c, c_pool ?c, 0) = (h', s', dur')"
    by (meson prod_cases3)
  then have "workers (db s') = []"
    by (auto simp: sample_coordinator_def sample_heartbeats_def handle_timeout_def expire_worker_def remove_worker_def
        find_worker_def delete_worker_rows_def update_active_task_def delete_worker_def delete_group_workers_def
        del_where_def alist_peek_def alist_pq_def alist_pop_def Reverse_def run_defs sample_defs)
  moreover have step: "sys_step alist_pq alist_peek sample_deployment ?c (?c\<lparr>c_pool := s', c_hb := h'\<rparr>)"
    by (rule sys_timeout [OF _ _ run]) (simp_all add: sample_coordinator_def sample_heartbeats_def sample_defs)
  moreover have "task_inv (db (c_pool ?c))" using sample_pool_inv by (simp add: sample_coordinator_def)
  note no_task_lost [OF this r_into_rtranclp, OF step]
  ultimately show ?thesis by (intro exI [of _ "?c\<lparr>c_pool := s', c_hb := h'\<rparr>"]) auto
qed

end
