(* ===== verification/Worker_Process.thy ===== *)
theory Worker_Process
  imports Api
begin

text \<open>
  The worker side of the system, \<open>netmito/src/worker.rs\<close>: the executor that fetches a task, downloads its
  resources, waits for a watched task, runs the command, uploads the results and reports to the coordinator.

  Everything the worker waits for is an answer of its environment, taken in order from one stream per kind of
  wait (\<open>World\<close>); when a stream is used up the run ends in \<open>Waiting\<close>, so a statement about every world is a
  statement about every prefix of every behaviour. An answer of the network comes with what happened while
  the worker waited for it: the cancellation token was cancelled by a signal or by the heartbeat loop, or the
  deadline of the surrounding \<open>select!\<close> passed. What the worker does to the outside is the list \<open>trace\<close>.
\<close>

section \<open>The environment\<close>

datatype Path =
    Workers
  | WorkersHeartbeat
  | WorkersTasks
  | TaskPath uuid
  | ArtifactPath uuid ArtifactContentType
  | AttachmentPath uuid string

datatype Call =
    GetPath Path
  | PostPath Path
  | PostReport Path i64 ReportTaskOp
  | DeletePath Path
  | PutFile string ArtifactContentType u64

text \<open>The answer to a request: a status with a body that is the JSON of a response or some other text, or one
  of the two classes of \<open>reqwest\<close> errors that the code tells apart.\<close>

datatype HttpBody = Json Response | Other string

datatype HttpAnswer = Answered nat HttpBody | NoConnection | SendFailed

datatype Interrupt = Quiet | Stopped | ForcedOut | DeadlineHit

text \<open>Which branch of a \<open>select!\<close> over the token, a sleep and a deadline is ready first.\<close>

datatype Wake = WakeCancelled | WakeTimer | WakeDeadline

text \<open>How a download ends; the flag says whether a file was created.\<close>

datatype DownloadEnd = DlDone | DlFailed bool | DlStopped bool | DlSlow bool | DlDeadline bool

text \<open>The next event of the watch loop: a message of the subscription (its channel, and its payload if it is
  an integer), the end of the stream, or the poll timer.\<close>

datatype WatchEvent = WMessage uuid "i32 option" | WStreamEnd | WTick

datatype NewTaskFile = Unreadable | Content string

text \<open>The cache directory: the files below \<open>resource\<close> with what they were downloaded from, whether
  \<open>result\<close> and \<open>exec\<close> have entries, and \<open>new_task.json\<close>.\<close>

record Cache =
  c_resources :: "(string \<times> RemoteResource) list"
  c_result :: bool
  c_exec :: bool
  c_new_task :: "NewTaskFile option"

definition empty_cache :: Cache where
  "empty_cache = \<lparr>c_resources = [], c_result = False, c_exec = False, c_new_task = None\<rparr>"

text \<open>How the wait for the child ends: with its status, its output and the cache directory it leaves, or at the
  deadline, when the process itself may have been reaped already and only its pipes be open.\<close>

datatype ChildEnd =
    ChildExited i32 string string Cache
  | ChildWaitFailed
  | ChildStopped
  | ChildDeadline bool

datatype GraceEnd = GraceExited | GraceStopped | GraceOver

datatype ArchiveEnd = Compressed u64 | CompressFailed | ArchiveIoError | ArchiveStopped | ArchiveTimedOut

record World =
  http :: "(HttpAnswer \<times> Interrupt) list"
  wakes :: "Wake list"
  downloads :: "DownloadEnd list"
  watch_events :: "(WatchEvent \<times> Interrupt) list"
  gets :: "i32 option list"
  children :: "ChildEnd list"
  graces :: "GraceEnd list"
  late_exits :: "(i32 \<times> Cache) list"
  archives :: "(ArchiveEnd \<times> Interrupt) list"
  io_results :: "bool list"

section \<open>The executor\<close>

datatype EnvValue = Text string | UuidText uuid

datatype Action =
    SetState uuid i32 "u64 option"
  | Publish uuid i32
  | Subscribe uuid
  | Unsubscribe uuid
  | Heard uuid i32
  | GotState uuid i32
  | Exchange Call HttpAnswer
  | Spawn "string list" "(string \<times> EnvValue) list"
  | Terminate
  | Kill

datatype ArchiveTask = Stages "ArtifactContentType list" | Ended bool

record Executor =
  task_url :: Path
  task_cancelled :: bool
  coordinator_force_exit :: bool
  task_cache_path :: string
  task_redis_conn :: bool
  task_redis_pubsub :: bool
  cache :: Cache
  archive :: ArchiveTask
  archive_barred :: bool
  world :: World
  trace :: "Action list"

datatype WorkerError =
    Waiting
  | Cancelled_Wait
  | DeadlinePassed
  | RequestError
  | CustomError string
  | IoError

type_synonym 'a exec = "(Executor, WorkerError, 'a) rm"

section \<open>Primitive steps\<close>

definition act :: "Action \<Rightarrow> unit exec" where
  "act a x = (Inr (), x\<lparr>trace := trace x @ [a]\<rparr>)"

definition gets_x :: "(Executor \<Rightarrow> 'a) \<Rightarrow> 'a exec" where
  "gets_x f x = (Inr (f x), x)"

definition update_x :: "(Executor \<Rightarrow> Executor) \<Rightarrow> unit exec" where
  "update_x f x = (Inr (), f x)"

definition set_path :: "Path \<Rightarrow> unit exec" where
  "set_path p = update_x (\<lambda>x. x\<lparr>task_url := p\<rparr>)"

definition cancel :: "unit exec" where
  "cancel = update_x (\<lambda>x. x\<lparr>task_cancelled := True\<rparr>)"

text \<open>The store to \<open>coordinator_force_exit\<close> and the \<open>cancel()\<close> that follow every 401.\<close>

definition force_exit :: "unit exec" where
  "force_exit = update_x (\<lambda>x. x\<lparr>coordinator_force_exit := True, task_cancelled := True\<rparr>)"

fun interrupted :: "Interrupt \<Rightarrow> Executor \<Rightarrow> Executor" where
  "interrupted Quiet x = x"
| "interrupted Stopped x = x\<lparr>task_cancelled := True\<rparr>"
| "interrupted ForcedOut x = x\<lparr>coordinator_force_exit := True, task_cancelled := True\<rparr>"
| "interrupted DeadlineHit x = x"

text \<open>The next answer of a stream, or \<open>Waiting\<close>.\<close>

definition next_of :: "(World \<Rightarrow> 'a list) \<Rightarrow> ('a list \<Rightarrow> World \<Rightarrow> World) \<Rightarrow> 'a exec" where
  "next_of sel upd x =
     (case sel (world x) of
        [] \<Rightarrow> (Inl Waiting, x)
      | a # rest \<Rightarrow> (Inr a, x\<lparr>world := upd rest (world x)\<rparr>))"

definition send :: "Call \<Rightarrow> (HttpAnswer \<times> Interrupt) exec" where
  "send call =
     bindR (next_of http (\<lambda>r w. w\<lparr>http := r\<rparr>)) (\<lambda>(a, i).
       thenR (act (Exchange call a)) (thenR (update_x (interrupted i)) (ret (a, i))))"

definition send_plain :: "Call \<Rightarrow> HttpAnswer exec" where
  "send_plain call = bindR (send call) (\<lambda>(a, _). ret a)"

text \<open>A request within a future that its \<open>select!\<close> drops when the deadline passes.\<close>

definition send_within :: "Call \<Rightarrow> HttpAnswer exec" where
  "send_within call =
     bindR (send call) (\<lambda>(a, i). if i = DeadlineHit then raise DeadlinePassed else ret a)"

definition io :: "unit exec" where
  "io = bindR (next_of io_results (\<lambda>r w. w\<lparr>io_results := r\<rparr>)) (\<lambda>ok. ensure ok IoError)"

text \<open>\<open>select!\<close> on the token and a sleep, the token first.\<close>

definition pause :: "Wake exec" where
  "pause =
     bindR (gets_x task_cancelled) (\<lambda>c.
       if c then ret WakeCancelled
       else bindR (next_of wakes (\<lambda>r w. w\<lparr>wakes := r\<rparr>)) (\<lambda>k.
              thenR (if k = WakeCancelled then cancel else ret ()) (ret k)))"

definition is_success :: "nat \<Rightarrow> bool" where
  "is_success n \<longleftrightarrow> 200 \<le> n \<and> n < 300"

definition error_msg :: "HttpBody \<Rightarrow> string" where
  "error_msg b = (case b of Other m \<Rightarrow> m | Json _ \<Rightarrow> ''error decoding response body'')"

text \<open>\<open>resp.json::<T>()\<close> for the three responses that the worker decodes.\<close>

definition json_link :: "HttpBody \<Rightarrow> (string \<times> i64) option" where
  "json_link b = (case b of Json (RLink l) \<Rightarrow> Some l | _ \<Rightarrow> None)"

definition json_report :: "HttpBody \<Rightarrow> string option option" where
  "json_report b = (case b of Json (RReported u) \<Rightarrow> Some u | _ \<Rightarrow> None)"

definition json_fetched :: "HttpBody \<Rightarrow> WorkerTaskResp option option" where
  "json_fetched b = (case b of Json (RFetched t) \<Rightarrow> Some t | _ \<Rightarrow> None)"

text \<open>A loop that consumes an answer of a stream in every round may run once more than the stream is long.\<close>

definition looped :: "(World \<Rightarrow> 'a list) \<Rightarrow> (nat \<Rightarrow> 'b exec) \<Rightarrow> 'b exec" where
  "looped sel f x = f (Suc (length (sel (world x)))) x"

section \<open>Execution states\<close>

definition set_task_state_ex :: "uuid \<Rightarrow> TaskExecState \<Rightarrow> u64 \<Rightarrow> unit exec" where
  "set_task_state_ex uuid st ex =
     bindR (gets_x task_redis_conn) (\<lambda>c. if c then act (SetState uuid (exec_to_i32 st) (Some ex)) else ret ())"

definition set_task_state :: "uuid \<Rightarrow> TaskExecState \<Rightarrow> unit exec" where
  "set_task_state uuid st =
     bindR (gets_x task_redis_conn) (\<lambda>c. if c then act (SetState uuid (exec_to_i32 st) None) else ret ())"

definition get_task_state :: "uuid \<Rightarrow> TaskExecState option exec" where
  "get_task_state uuid =
     bindR (gets_x task_redis_conn) (\<lambda>c.
       if c then
         bindR (next_of gets (\<lambda>r w. w\<lparr>gets := r\<rparr>)) (\<lambda>v.
           case v of
             None \<Rightarrow> ret None
           | Some n \<Rightarrow> thenR (act (GotState uuid n)) (ret (Some (exec_from_i32 n))))
       else ret None)"

definition publish_state :: "uuid \<Rightarrow> TaskExecState \<Rightarrow> unit exec" where
  "publish_state uuid st =
     bindR (gets_x task_redis_conn) (\<lambda>c. if c then act (Publish uuid (exec_to_i32 st)) else ret ())"

definition announce_task_state :: "uuid \<Rightarrow> TaskExecState \<Rightarrow> unit exec" where
  "announce_task_state uuid st = thenR (set_task_state uuid st) (publish_state uuid st)"

definition announce_task_state_ex :: "uuid \<Rightarrow> TaskExecState \<Rightarrow> u64 \<Rightarrow> unit exec" where
  "announce_task_state_ex uuid st ex = thenR (set_task_state_ex uuid st ex) (publish_state uuid st)"

definition subscribe_task_exec_state :: "uuid \<Rightarrow> unit exec" where
  "subscribe_task_exec_state uuid =
     bindR (gets_x task_redis_pubsub) (\<lambda>p. if p then act (Subscribe uuid) else ret ())"

definition unsubscribe_task_exec_state :: "uuid \<Rightarrow> unit exec" where
  "unsubscribe_task_exec_state uuid =
     bindR (gets_x task_redis_pubsub) (\<lambda>p. if p then act (Unsubscribe uuid) else ret ())"

section \<open>Watching another task\<close>

text \<open>The watch runs inside a \<open>select!\<close> that polls the token first: once the token is cancelled, or the deadline
  passes during a wait, the future is dropped where it stands.\<close>

definition watch_guard :: "Interrupt \<Rightarrow> unit exec" where
  "watch_guard i =
     bindR (gets_x task_cancelled) (\<lambda>c.
       if c then raise Cancelled_Wait else if i = DeadlineHit then raise DeadlinePassed else ret ())"

definition next_watch_event :: "WatchEvent exec" where
  "next_watch_event =
     bindR (next_of watch_events (\<lambda>r w. w\<lparr>watch_events := r\<rparr>)) (\<lambda>(e, i).
       thenR (update_x (interrupted i)) (thenR (watch_guard i) (ret e)))"

definition watch_sleep :: "unit exec" where
  "watch_sleep =
     bindR (next_of wakes (\<lambda>r w. w\<lparr>wakes := r\<rparr>)) (\<lambda>k.
       case k of
         WakeCancelled \<Rightarrow> thenR cancel (raise Cancelled_Wait)
       | WakeTimer \<Rightarrow> ret ()
       | WakeDeadline \<Rightarrow> raise DeadlinePassed)"

definition reaches :: "TaskExecState \<Rightarrow> TaskExecState option \<Rightarrow> bool" where
  "reaches st cur = (case cur of None \<Rightarrow> False | Some c \<Rightarrow> exec_is_reach c st)"

text \<open>What an answer to the query of a task says about the watched state.\<close>

definition answer_reaches :: "TaskExecState \<Rightarrow> HttpAnswer \<Rightarrow> bool" where
  "answer_reaches st a =
     (case a of
        Answered n (Json (RTask (info, _))) \<Rightarrow> is_success n \<and> task_is_reach (qi_state info) st (qi_result info)
      | _ \<Rightarrow> False)"

definition poll_task :: "uuid \<Rightarrow> TaskExecState \<Rightarrow> bool exec" where
  "poll_task uuid st =
     bindR (get_task_state uuid) (\<lambda>cur.
       if reaches st cur then ret True
       else
         thenR (set_path (TaskPath uuid))
           (bindR (gets_x task_url) (\<lambda>url.
            bindR (send (GetPath url)) (\<lambda>(a, i).
            thenR (watch_guard i) (ret (answer_reaches st a))))))"

fun watch_loop :: "nat \<Rightarrow> uuid \<Rightarrow> TaskExecState \<Rightarrow> unit exec" where
  "watch_loop 0 uuid st = raise Waiting"
| "watch_loop (Suc n) uuid st =
     bindR next_watch_event (\<lambda>e.
       case e of
         WStreamEnd \<Rightarrow> watch_loop n uuid st
       | WMessage channel payload \<Rightarrow>
           (if channel = uuid then
              (case payload of
                 None \<Rightarrow> watch_loop n uuid st
               | Some v \<Rightarrow>
                   thenR (act (Heard uuid v))
                     (if exec_is_reach (exec_from_i32 v) st then ret () else watch_loop n uuid st))
            else watch_loop n uuid st)
       | WTick \<Rightarrow> bindR (poll_task uuid st) (\<lambda>r. if r then ret () else watch_loop n uuid st))"

fun poll_loop :: "nat \<Rightarrow> uuid \<Rightarrow> TaskExecState \<Rightarrow> unit exec" where
  "poll_loop 0 uuid st = raise Waiting"
| "poll_loop (Suc n) uuid st =
     thenR watch_sleep (bindR (poll_task uuid st) (\<lambda>r. if r then ret () else poll_loop n uuid st))"

definition watch_task :: "uuid \<Rightarrow> TaskExecState \<Rightarrow> unit exec" where
  "watch_task uuid st =
     bindR (gets_x task_redis_pubsub) (\<lambda>p.
       if p then thenR (act (Subscribe uuid)) (looped watch_events (\<lambda>n. watch_loop n uuid st))
       else looped wakes (\<lambda>n. poll_loop n uuid st))"

section \<open>Reports\<close>

text \<open>\<open>report_task\<close>: a lost connection is retried until the token is cancelled, and then counts as success;
  so do a 401, which stops the worker, and a 404.\<close>

fun report_loop :: "nat \<Rightarrow> i64 \<Rightarrow> ReportTaskOp \<Rightarrow> unit exec" where
  "report_loop 0 i op = raise Waiting"
| "report_loop (Suc n) i op =
     bindR (gets_x task_url) (\<lambda>url.
     bindR (send_plain (PostReport url i op)) (\<lambda>a.
       case a of
         Answered s b \<Rightarrow>
           (if is_success s then ret ()
            else if s = 401 then force_exit
            else if s = 404 then ret ()
            else raise (CustomError (error_msg b)))
       | NoConnection \<Rightarrow> bindR pause (\<lambda>k. if k = WakeCancelled then ret () else report_loop n i op)
       | SendFailed \<Rightarrow> raise RequestError))"

definition worker_report :: "i64 \<Rightarrow> ReportTaskOp \<Rightarrow> unit exec" where
  "worker_report i op = thenR (set_path WorkersTasks) (looped http (\<lambda>n. report_loop n i op))"

definition commit_op :: "i32 \<Rightarrow> TaskResultMessage option \<Rightarrow> ReportTaskOp" where
  "commit_op st m = Commit \<lparr>exit_status = st, msg = m\<rparr>"

text \<open>The block that ends a task before its command has run: cancelled and committed with a message, then
  announced, first with the state given and then as committed.\<close>

definition give_up :: "WorkerTaskResp \<Rightarrow> TaskResultMessage \<Rightarrow> unit exec \<Rightarrow> unit exec" where
  "give_up task m announce =
     thenR (worker_report (wt_id task) Cancel)
     (thenR (worker_report (wt_id task) (commit_op 0 (Some m)))
     (thenR announce
       (announce_task_state_ex (wt_uuid task) TaskCommitted 60)))"

section \<open>Resources\<close>

text \<open>Whether the function goes on or has returned \<open>Ok(())\<close>.\<close>

datatype Flow = Proceed | Leave

definition resource_request :: "WorkerTaskResp \<Rightarrow> RemoteResource \<Rightarrow> unit exec" where
  "resource_request task r =
     (case r of
        Artifact uuid ct \<Rightarrow> set_path (ArtifactPath uuid ct)
      | Attachment key \<Rightarrow> set_path (AttachmentPath (wt_uuid task) key))"

fun fetch_info_loop :: "nat \<Rightarrow> WorkerTaskResp \<Rightarrow> (nat \<times> HttpBody) option exec" where
  "fetch_info_loop 0 task = raise Waiting"
| "fetch_info_loop (Suc n) task =
     bindR (gets_x task_url) (\<lambda>url.
     bindR (send_plain (GetPath url)) (\<lambda>a.
       case a of
         Answered s b \<Rightarrow> ret (Some (s, b))
       | NoConnection \<Rightarrow>
           bindR pause (\<lambda>k.
             case k of
               WakeCancelled \<Rightarrow> ret None
             | WakeTimer \<Rightarrow> fetch_info_loop n task
             | WakeDeadline \<Rightarrow>
                 thenR (give_up task TaskResultMessage.FetchResourceTimeout
                          (announce_task_state_ex (wt_uuid task) TaskExecState.FetchResourceTimeout 60))
                   (ret None))
       | SendFailed \<Rightarrow>
           thenR (announce_task_state_ex (wt_uuid task) FetchResourceError 60) (raise RequestError)))"

definition store_resource :: "RemoteResourceDownload \<Rightarrow> bool \<Rightarrow> unit exec" where
  "store_resource r created =
     update_x (\<lambda>x. if created then
       x\<lparr>cache := (cache x)\<lparr>c_resources :=
            (resource_path (task_cache_path x) (local_path r), remote_file r) # c_resources (cache x)\<rparr>\<rparr>
       else x)"

text \<open>The download runs in a \<open>select!\<close> that polls it before the token, the 120 seconds and the deadline: once
  the token is cancelled, only the end of the download can come before it.\<close>

definition next_download :: "DownloadEnd exec" where
  "next_download =
     bindR (next_of downloads (\<lambda>r w. w\<lparr>downloads := r\<rparr>)) (\<lambda>e.
     bindR (gets_x task_cancelled) (\<lambda>c.
       ret (if c then (case e of DlSlow b \<Rightarrow> DlStopped b | DlDeadline b \<Rightarrow> DlStopped b | _ \<Rightarrow> e) else e)))"

definition download_resource :: "WorkerTaskResp \<Rightarrow> RemoteResourceDownload \<Rightarrow> Flow exec" where
  "download_resource task r =
     bindR next_download (\<lambda>e.
       case e of
         DlDone \<Rightarrow> thenR (store_resource r True) (ret Proceed)
       | DlFailed b \<Rightarrow>
           thenR (store_resource r b)
             (thenR (give_up task ResourceForbidden (announce_task_state (wt_uuid task) FetchResourceForbidden))
               (ret Leave))
       | DlStopped b \<Rightarrow> thenR (store_resource r b) (thenR cancel (ret Leave))
       | DlSlow b \<Rightarrow>
           thenR (store_resource r b)
             (thenR (give_up task TaskResultMessage.FetchResourceTimeout
                (announce_task_state_ex (wt_uuid task) TaskExecState.FetchResourceTimeout 60)) (ret Leave))
       | DlDeadline b \<Rightarrow>
           thenR (store_resource r b)
             (thenR (give_up task TaskResultMessage.FetchResourceTimeout
                (announce_task_state_ex (wt_uuid task) TaskExecState.FetchResourceTimeout 60)) (ret Leave)))"

definition fetch_resource :: "WorkerTaskResp \<Rightarrow> RemoteResourceDownload \<Rightarrow> Flow exec" where
  "fetch_resource task r =
     thenR (resource_request task (remote_file r))
     (bindR (looped http (\<lambda>n. fetch_info_loop n task)) (\<lambda>resp.
       case resp of
         None \<Rightarrow> ret Leave
       | Some (s, b) \<Rightarrow>
           (if is_success s then
              (case json_link b of Some _ \<Rightarrow> download_resource task r | None \<Rightarrow> raise RequestError)
            else if s = 404 then
              thenR (give_up task ResourceNotFound
                       (announce_task_state_ex (wt_uuid task) FetchResourceNotFound 60)) (ret Leave)
            else if s = 403 then
              thenR (give_up task ResourceForbidden
                       (announce_task_state_ex (wt_uuid task) FetchResourceForbidden 60)) (ret Leave)
            else
              thenR (announce_task_state_ex (wt_uuid task) FetchResourceError 60)
                (raise (CustomError (error_msg b))))))"

fun fetch_resources :: "WorkerTaskResp \<Rightarrow> RemoteResourceDownload list \<Rightarrow> Flow exec" where
  "fetch_resources task [] = ret Proceed"
| "fetch_resources task (r # rs) =
     bindR (fetch_resource task r) (\<lambda>f. case f of Leave \<Rightarrow> ret Leave | Proceed \<Rightarrow> fetch_resources task rs)"

section \<open>The watched task\<close>

definition watch_stage :: "WorkerTaskResp \<Rightarrow> Flow exec" where
  "watch_stage task =
     (case watch (wt_spec task) of
        None \<Rightarrow> ret Proceed
      | Some (uuid, st) \<Rightarrow>
          bindR (gets_x (\<lambda>x. task_redis_conn x \<and> task_redis_pubsub x)) (\<lambda>redis.
            if redis then
              thenR (announce_task_state (wt_uuid task) Watch)
              (bindR (attempt (thenR (watch_guard Quiet) (watch_task uuid st))) (\<lambda>r.
                 case r of
                   Inr _ \<Rightarrow> ret Proceed
                 | Inl Cancelled_Wait \<Rightarrow>
                     thenR (unsubscribe_task_exec_state uuid)
                     (thenR (announce_task_state_ex (wt_uuid task) WorkerExited 60) (ret Leave))
                 | Inl DeadlinePassed \<Rightarrow>
                     thenR (unsubscribe_task_exec_state uuid)
                     (thenR (give_up task TaskResultMessage.WatchTimeout
                               (announce_task_state_ex (wt_uuid task) TaskExecState.WatchTimeout 60)) (ret Leave))
                 | Inl e \<Rightarrow> raise e))
            else ret Proceed))"

end
