(* ===== verification/Worker_Run.thy ===== *)
theory Worker_Run
  imports Worker_Process
begin

text \<open>
  The second half of \<open>netmito/src/worker.rs\<close>: running the command of a task, packing and uploading its
  results, the commit, and the loops that fetch tasks and send heartbeats.
\<close>

section \<open>Running the command\<close>

datatype ProcessOutput = WithLog string string i32 | WithoutLog i32

fun get_exit_status :: "ProcessOutput \<Rightarrow> i32" where
  "get_exit_status (WithLog _ _ st) = st"
| "get_exit_status (WithoutLog st) = st"

datatype TaskResult = TaskFinish ProcessOutput | TaskTimeout ProcessOutput

fun result_state :: "TaskResult \<Rightarrow> bool \<times> i32" where
  "result_state (TaskFinish output) = (True, get_exit_status output)"
| "result_state (TaskTimeout output) = (False, get_exit_status output)"

fun get_output :: "TaskResult \<Rightarrow> ProcessOutput" where
  "get_output (TaskFinish output) = output"
| "get_output (TaskTimeout output) = output"

text \<open>The variables of the command, in the order in which they are set: a later one wins.\<close>

definition child_envs :: "string \<Rightarrow> WorkerTaskResp \<Rightarrow> (string \<times> EnvValue) list" where
  "child_envs cache_path task =
     map (\<lambda>(k, v). (k, Text v)) (envs (wt_spec task)) @
     [(''MITO_RESULT_DIR'', Text (path_join cache_path ''result'')),
      (''MITO_EXEC_DIR'', Text (path_join cache_path ''exec'')),
      (''MITO_RESOURCE_DIR'', Text (path_join cache_path ''resource'')),
      (''MITO_TASK_UUID'', UuidText (wt_uuid task)),
      (''MITO_NEW_TASK'', Text (path_join cache_path ''new_task.json''))] @
     (case wt_upstream_task_uuid task of None \<Rightarrow> [] | Some u \<Rightarrow> [(''MITO_UPSTREAM_TASK_UUID'', UuidText u)])"

definition try_io :: "bool exec" where
  "try_io = next_of io_results (\<lambda>r w. w\<lparr>io_results := r\<rparr>)"

text \<open>\<open>let _ = remove_file(new_task_path)\<close>.\<close>

definition discard_new_task :: "unit exec" where
  "discard_new_task =
     bindR try_io (\<lambda>ok. update_x (\<lambda>x. if ok then x\<lparr>cache := (cache x)\<lparr>c_new_task := None\<rparr>\<rparr> else x))"

definition set_cache :: "Cache \<Rightarrow> unit exec" where
  "set_cache c = update_x (\<lambda>x. x\<lparr>cache := c\<rparr>)"

definition kill_child :: "unit exec" where
  "kill_child = thenR (act Kill) io"

definition spawn_child :: "WorkerTaskResp \<Rightarrow> unit exec" where
  "spawn_child task =
     thenR (announce_task_state_ex (wt_uuid task) ExecPending (wt_timeout task + 60))
     (thenR discard_new_task
     (bindR (gets_x task_cache_path) (\<lambda>p.
      thenR io
      (thenR (act (Spawn (''/usr/bin/env'' # args (wt_spec task)) (child_envs p task)))
        (announce_task_state (wt_uuid task) ExecSpawned)))))"

text \<open>The two \<open>select!\<close>s on the child: the first polls the token before the child, the second, after the
  timeout, the child before the token.\<close>

definition next_child :: "ChildEnd exec" where
  "next_child =
     bindR (gets_x task_cancelled) (\<lambda>c.
       if c then ret ChildStopped else next_of children (\<lambda>r w. w\<lparr>children := r\<rparr>))"

definition next_grace :: "GraceEnd exec" where
  "next_grace =
     bindR (next_of graces (\<lambda>r w. w\<lparr>graces := r\<rparr>)) (\<lambda>g.
     bindR (gets_x task_cancelled) (\<lambda>c. ret (if c \<and> g = GraceOver then GraceStopped else g)))"

text \<open>After a timeout the pipes have been taken by the dropped output future, so \<open>wait_with_output\<close> collects
  nothing.\<close>

definition collect_late :: "WorkerTaskResp \<Rightarrow> TaskResult exec" where
  "collect_late task =
     thenR io
     (bindR (next_of late_exits (\<lambda>r w. w\<lparr>late_exits := r\<rparr>)) (\<lambda>(st, c).
      thenR (set_cache c)
        (ret (TaskTimeout (if terminal_output (wt_spec task) then WithLog [] [] st else WithoutLog st)))))"

definition terminate_child :: "WorkerTaskResp \<Rightarrow> bool \<Rightarrow> TaskResult option exec" where
  "terminate_child task reaped =
     thenR (announce_task_state_ex (wt_uuid task) TaskExecState.ExecTimeout 60)
     (thenR (if reaped then ret () else act Terminate)
     (bindR next_grace (\<lambda>g.
        case g of
          GraceExited \<Rightarrow> bindR (collect_late task) (\<lambda>r. ret (Some r))
        | GraceStopped \<Rightarrow> thenR cancel (thenR kill_child (ret None))
        | GraceOver \<Rightarrow> thenR kill_child (bindR (collect_late task) (\<lambda>r. ret (Some r))))))"

definition run_child :: "WorkerTaskResp \<Rightarrow> TaskResult option exec" where
  "run_child task =
     thenR (spawn_child task)
     (bindR next_child (\<lambda>e.
        case e of
          ChildStopped \<Rightarrow>
            thenR cancel (thenR kill_child
              (thenR (announce_task_state_ex (wt_uuid task) WorkerExited 60) (ret None)))
        | ChildExited st out err c \<Rightarrow>
            thenR (set_cache c)
            (thenR (announce_task_state_ex (wt_uuid task) ExecFinished 660)
              (ret (Some (TaskFinish (if terminal_output (wt_spec task) then WithLog out err st else WithoutLog st)))))
        | ChildWaitFailed \<Rightarrow>
            thenR (announce_task_state_ex (wt_uuid task) ExecFinished 660) (raise IoError)
        | ChildDeadline reaped \<Rightarrow> terminate_child task reaped))"

section \<open>Packing the results\<close>

text \<open>The archive task is spawned with up to three stages. It runs while the results are uploaded, then it is
  joined, in time or after the upload deadline has cancelled it.\<close>

datatype ArchivePhase = Uploading | Joining | Late

definition spawn_archive :: "TaskResult \<Rightarrow> unit exec" where
  "spawn_archive output =
     update_x (\<lambda>x. x\<lparr>archive := Stages ([Result, ExecLog] @
                        (case get_output output of WithLog _ _ _ \<Rightarrow> [StdLog] | WithoutLog _ \<Rightarrow> [])),
                     archive_barred := task_cancelled x\<rparr>)"

definition has_output :: "ArtifactContentType \<Rightarrow> Executor \<Rightarrow> bool" where
  "has_output ct x = (case ct of Result \<Rightarrow> c_result (cache x) | ExecLog \<Rightarrow> c_exec (cache x) | StdLog \<Rightarrow> True)"

text \<open>How the packing of one archive ends. With the token cancelled from the start it can only be broken off;
  the timeout token is cancelled only when the upload deadline has passed.\<close>

definition archive_outcome :: "ArchivePhase \<Rightarrow> ArchiveEnd exec" where
  "archive_outcome ph =
     bindR (gets_x archive_barred) (\<lambda>b.
       if b then bindR try_io (\<lambda>ok. ret (if ok then ArchiveStopped else ArchiveIoError))
       else
         bindR (next_of archives (\<lambda>r w. w\<lparr>archives := r\<rparr>)) (\<lambda>(e, i).
         thenR (update_x (interrupted i))
           (if ph = Uploading \<and> i = DeadlineHit then raise DeadlinePassed
            else if e = ArchiveTimedOut \<and> ph \<noteq> Late then raise Waiting
            else ret e)))"

definition set_archive :: "ArchiveTask \<Rightarrow> unit exec" where
  "set_archive a = update_x (\<lambda>x. x\<lparr>archive := a\<rparr>)"

fun archive_next ::
  "ArchivePhase \<Rightarrow> ArtifactContentType list \<Rightarrow> (ArtifactContentType \<times> u64) option exec" where
  "archive_next ph [] = thenR (set_archive (Ended True)) (ret None)"
| "archive_next ph (ct # cts) =
     bindR (gets_x (has_output ct)) (\<lambda>h.
       if \<not> h then archive_next ph cts
       else
         bindR (archive_outcome ph) (\<lambda>e.
           case e of
             Compressed n \<Rightarrow> thenR (set_archive (Stages cts)) (ret (Some (ct, n)))
           | CompressFailed \<Rightarrow> thenR cancel (thenR (set_archive (Ended False)) (ret None))
           | ArchiveIoError \<Rightarrow> thenR (set_archive (Ended False)) (ret None)
           | ArchiveStopped \<Rightarrow> thenR cancel (thenR (set_archive (Ended True)) (ret None))
           | ArchiveTimedOut \<Rightarrow> thenR (set_archive (Ended True)) (ret None)))"

text \<open>\<open>rx.recv()\<close>: the next packed archive, or \<open>None\<close> once the archive task has ended.\<close>

definition recv :: "ArchivePhase \<Rightarrow> (ArtifactContentType \<times> u64) option exec" where
  "recv ph = bindR (gets_x archive) (\<lambda>a. case a of Stages cts \<Rightarrow> archive_next ph cts | Ended _ \<Rightarrow> ret None)"

text \<open>\<open>archive_hd.await??\<close>: the remaining stages run to their end; three are the most there are.\<close>

fun drain :: "nat \<Rightarrow> ArchivePhase \<Rightarrow> unit exec" where
  "drain 0 ph = ret ()"
| "drain (Suc n) ph = bindR (recv ph) (\<lambda>m. case m of None \<Rightarrow> ret () | Some _ \<Rightarrow> drain n ph)"

definition join_archive :: "ArchivePhase \<Rightarrow> unit exec" where
  "join_archive ph = thenR (drain 4 ph) (bindR (gets_x archive) (\<lambda>a. ensure (a \<noteq> Ended False) IoError))"

section \<open>Uploading the results\<close>

definition pause_within :: "Wake exec" where
  "pause_within = bindR pause (\<lambda>k. if k = WakeDeadline then raise DeadlinePassed else ret k)"

text \<open>The request for the link of an upload: \<open>None\<close> where the code returns \<open>Ok(())\<close>.\<close>

fun url_loop :: "nat \<Rightarrow> i64 \<Rightarrow> ArtifactContentType \<Rightarrow> u64 \<Rightarrow> string option option exec" where
  "url_loop 0 i ct len = raise Waiting"
| "url_loop (Suc n) i ct len =
     bindR (gets_x task_url) (\<lambda>url.
     bindR (send_within (PostReport url i (Upload ct len))) (\<lambda>a.
       case a of
         Answered s b \<Rightarrow>
           (if is_success s then (case json_report b of Some u \<Rightarrow> ret (Some u) | None \<Rightarrow> raise RequestError)
            else if s = 401 then thenR force_exit (ret None)
            else if s = 404 then ret None
            else if s = 403 then ret None
            else thenR cancel (raise (CustomError (error_msg b))))
       | NoConnection \<Rightarrow>
           bindR pause_within (\<lambda>k. if k = WakeCancelled then ret None else url_loop n i ct len)
       | SendFailed \<Rightarrow> thenR cancel (raise RequestError)))"

fun put_loop :: "nat \<Rightarrow> string \<Rightarrow> ArtifactContentType \<Rightarrow> u64 \<Rightarrow> Flow exec" where
  "put_loop 0 url ct len = raise Waiting"
| "put_loop (Suc n) url ct len =
     thenR io
     (bindR (gets_x task_cancelled) (\<lambda>c.
      if c then ret Leave
      else
        bindR (send_within (PutFile url ct len)) (\<lambda>a.
        bindR (gets_x task_cancelled) (\<lambda>c.
        if c then ret Leave
        else
          case a of
            Answered s b \<Rightarrow>
              (if is_success s then ret Proceed else raise (CustomError ''Upload failed with status code''))
          | NoConnection \<Rightarrow>
              bindR pause_within (\<lambda>k. if k = WakeCancelled then ret Leave else put_loop n url ct len)
          | SendFailed \<Rightarrow> raise RequestError))))"

definition upload_artifact :: "i64 \<Rightarrow> ArtifactContentType \<Rightarrow> u64 \<Rightarrow> Flow exec" where
  "upload_artifact i ct len =
     thenR (set_path WorkersTasks)
     (bindR (looped http (\<lambda>n. url_loop n i ct len)) (\<lambda>u.
        case u of
          None \<Rightarrow> ret Leave
        | Some None \<Rightarrow> ret Proceed
        | Some (Some url) \<Rightarrow> looped http (\<lambda>n. put_loop n url ct len)))"

text \<open>The loop over the channel: it carries at most three archives.\<close>

fun upload_loop :: "nat \<Rightarrow> i64 \<Rightarrow> unit exec" where
  "upload_loop 0 i = raise Waiting"
| "upload_loop (Suc n) i =
     bindR (recv Uploading) (\<lambda>m.
       case m of
         None \<Rightarrow> ret ()
       | Some (ct, len) \<Rightarrow>
           bindR (upload_artifact i ct len) (\<lambda>f. case f of Leave \<Rightarrow> ret () | Proceed \<Rightarrow> upload_loop n i))"

section \<open>The successor task\<close>

definition blank :: "string \<Rightarrow> bool" where
  "blank s \<longleftrightarrow> (\<forall>c \<in> set s. c \<in> set [CHR '' '', CHR 0x09, CHR 0x0A, CHR 0x0B, CHR 0x0C, CHR 0x0D])"

text \<open>\<open>from_json\<close> is \<open>serde_json::from_str\<close> at the type of a submission.\<close>

definition submit_new_task_if_present :: "(string \<Rightarrow> SubmitTaskReq option) \<Rightarrow> i64 \<Rightarrow> bool exec" where
  "submit_new_task_if_present from_json i =
     bindR (gets_x (\<lambda>x. c_new_task (cache x))) (\<lambda>file.
       case file of
         None \<Rightarrow> ret True
       | Some Unreadable \<Rightarrow> thenR discard_new_task (ret False)
       | Some (Content text) \<Rightarrow>
           (if blank text then thenR discard_new_task (ret True)
            else
              (case from_json text of
                 None \<Rightarrow> thenR discard_new_task (ret False)
               | Some req \<Rightarrow>
                   bindR (attempt (worker_report i (Submit req))) (\<lambda>r.
                     case r of
                       Inl Waiting \<Rightarrow> raise Waiting
                     | Inl _ \<Rightarrow> ret False
                     | Inr _ \<Rightarrow> thenR discard_new_task (ret True)))))"

section \<open>The result of a task\<close>

definition clean_cache :: "unit exec" where
  "clean_cache = thenR io (thenR (set_cache empty_cache) (thenR io (thenR io io)))"

definition commit_after_timeout :: "i64 \<Rightarrow> uuid \<Rightarrow> i32 \<Rightarrow> unit exec" where
  "commit_after_timeout i uuid st =
     thenR (worker_report i (commit_op st (Some TaskResultMessage.UploadResultTimeout)))
     (thenR (announce_task_state_ex uuid TaskExecState.UploadResultTimeout 60)
     (thenR (announce_task_state_ex uuid TaskCommitted 60)
     (thenR (join_archive Late) clean_cache)))"

definition final_message :: "bool \<Rightarrow> bool \<Rightarrow> TaskResultMessage option" where
  "final_message is_finished submitted =
     (if is_finished then (if submitted then None else Some SubmitNewTaskFailed)
      else Some TaskResultMessage.ExecTimeout)"

definition commit_result ::
  "(string \<Rightarrow> SubmitTaskReq option) \<Rightarrow> i64 \<Rightarrow> uuid \<Rightarrow> bool \<Rightarrow> i32 \<Rightarrow> unit exec" where
  "commit_result from_json i uuid is_finished st =
     thenR (join_archive Joining)
     (bindR (gets_x task_cancelled) (\<lambda>c.
        if c then announce_task_state_ex uuid WorkerExited 60
        else
          thenR (announce_task_state_ex uuid UploadResultFinished 60)
          (bindR (submit_new_task_if_present from_json i) (\<lambda>submitted.
           thenR (worker_report i (commit_op st (final_message is_finished submitted)))
           (thenR (announce_task_state_ex uuid TaskCommitted 60) clean_cache)))))"

definition process_task_result ::
  "(string \<Rightarrow> SubmitTaskReq option) \<Rightarrow> i64 \<Rightarrow> uuid \<Rightarrow> TaskResult \<Rightarrow> unit exec" where
  "process_task_result from_json i uuid output =
     (case result_state output of
        (is_finished, st) \<Rightarrow>
          thenR (if is_finished
                 then thenR (announce_task_state_ex uuid UploadFinishedResult 660) (worker_report i Finish)
                 else thenR (announce_task_state_ex uuid UploadCancelledResult 660) (worker_report i Cancel))
          (thenR (spawn_archive output)
          (bindR (attempt (upload_loop 4 i)) (\<lambda>r.
             case r of
               Inl DeadlinePassed \<Rightarrow> commit_after_timeout i uuid st
             | Inl e \<Rightarrow> raise e
             | Inr _ \<Rightarrow> commit_result from_json i uuid is_finished st))))"

section \<open>Executing a task\<close>

definition execute_task :: "(string \<Rightarrow> SubmitTaskReq option) \<Rightarrow> WorkerTaskResp \<Rightarrow> unit exec" where
  "execute_task from_json task =
     thenR (announce_task_state_ex (wt_uuid task) FetchResource 360)
     (bindR (fetch_resources task (resources (wt_spec task))) (\<lambda>f.
      case f of Leave \<Rightarrow> ret () | Proceed \<Rightarrow>
     (bindR (watch_stage task) (\<lambda>f.
      case f of Leave \<Rightarrow> ret () | Proceed \<Rightarrow>
     (bindR (run_child task) (\<lambda>out.
      case out of None \<Rightarrow> ret () | Some output \<Rightarrow>
        thenR (announce_task_state_ex (wt_uuid task) UploadResult 660)
          (process_task_result from_json (wt_id task) (wt_uuid task) output)))))))"

section \<open>The loops of the worker\<close>

fun task_loop :: "nat \<Rightarrow> (string \<Rightarrow> SubmitTaskReq option) \<Rightarrow> unit exec" where
  "task_loop 0 from_json = raise Waiting"
| "task_loop (Suc n) from_json =
     bindR (gets_x task_cancelled) (\<lambda>c.
       if c then ret ()
       else
         thenR (set_path WorkersTasks)
         (bindR (gets_x task_url) (\<lambda>url.
          bindR (send_plain (GetPath url)) (\<lambda>a.
            case a of
              Answered s b \<Rightarrow>
                (if is_success s then
                   (case json_fetched b of
                      None \<Rightarrow> cancel
                    | Some None \<Rightarrow>
                        bindR pause (\<lambda>k. if k = WakeCancelled then ret () else task_loop n from_json)
                    | Some (Some task) \<Rightarrow>
                        bindR (attempt (execute_task from_json task)) (\<lambda>r.
                          case r of
                            Inr _ \<Rightarrow> task_loop n from_json
                          | Inl Waiting \<Rightarrow> raise Waiting
                          | Inl _ \<Rightarrow> thenR cancel (task_loop n from_json)))
                 else if s = 401 then force_exit
                 else cancel)
            | NoConnection \<Rightarrow>
                bindR pause (\<lambda>k. if k = WakeCancelled then ret () else task_loop n from_json)
            | SendFailed \<Rightarrow> cancel))))"

definition run_tasks :: "(string \<Rightarrow> SubmitTaskReq option) \<Rightarrow> unit exec" where
  "run_tasks from_json = looped http (\<lambda>n. task_loop n from_json)"

fun heartbeat_loop :: "nat \<Rightarrow> unit exec" where
  "heartbeat_loop 0 = raise Waiting"
| "heartbeat_loop (Suc n) =
     bindR pause (\<lambda>k.
       if k = WakeCancelled then ret ()
       else
         bindR (send_plain (PostPath WorkersHeartbeat)) (\<lambda>a.
           case a of
             Answered s b \<Rightarrow>
               (if is_success s then heartbeat_loop n
                else if s = 401 then force_exit
                else cancel)
           | NoConnection \<Rightarrow> heartbeat_loop n
           | SendFailed \<Rightarrow> cancel))"

definition run_heartbeats :: "unit exec" where
  "run_heartbeats = looped wakes heartbeat_loop"

text \<open>\<open>cleanup\<close>: the worker unregisters, whatever the answer, and removes its cache.\<close>

definition cleanup :: "unit exec" where
  "cleanup = thenR (send_plain (DeletePath Workers)) (bindR try_io (\<lambda>ok. if ok then set_cache empty_cache else ret ()))"

end
