(* ===== verification/Worker_Frame.thy ===== *)
theory Worker_Frame
  imports Worker_Run
begin

text \<open>
  The proof rules for the programs of the worker: weakest preconditions of its primitive steps, and a locale for
  what a program leaves alone. An invariant that tolerates changes outside the trace and the actions of a
  program is kept by the program, whatever its environment answers.
\<close>

section \<open>Weakest preconditions of the primitive steps\<close>

lemma wp_act [wp_eqs]: "wp (act a) Q E x = Q () (x\<lparr>trace := trace x @ [a]\<rparr>)"
  by (simp add: wp_def act_def)

lemma wp_gets_x [wp_eqs]: "wp (gets_x f) Q E x = Q (f x) x"
  by (simp add: wp_def gets_x_def)

lemma wp_update_x [wp_eqs]: "wp (update_x f) Q E x = Q () (f x)"
  by (simp add: wp_def update_x_def)

lemma wp_next_of [wp_eqs]:
  "wp (next_of sel upd) Q E x =
     (case sel (world x) of [] \<Rightarrow> E Waiting x | a # r \<Rightarrow> Q a (x\<lparr>world := upd r (world x)\<rparr>))"
  by (simp add: wp_def next_of_def split: list.splits)

lemma wp_looped [wp_eqs]: "wp (looped sel f) Q E x = wp (f (Suc (length (sel (world x))))) Q E x"
  by (simp add: wp_def looped_def)

lemmas step_defs = set_path_def cancel_def force_exit_def send_def send_plain_def send_within_def io_def
  try_io_def set_cache_def set_archive_def

lemma keeps_looped [keeps_intros]: "(\<And>n. keeps I (f n)) \<Longrightarrow> keeps I (looped sel f)"
  by (simp add: keeps_def wp_looped)

lemma keeps_gets_x [keeps_intros]: "keeps I (gets_x f)"
  by (simp add: keeps_def wp_gets_x)

lemma keeps_case_Flow [keeps_intros]:
  "(f = Proceed \<Longrightarrow> keeps I m) \<Longrightarrow> (f = Leave \<Longrightarrow> keeps I n) \<Longrightarrow>
   keeps I (case f of Proceed \<Rightarrow> m | Leave \<Rightarrow> n)"
  by (cases f) auto

lemma wp_kept:
  assumes "keeps I m" and "I x" and "\<And>a y. I y \<Longrightarrow> Q a y" and "\<And>e y. I y \<Longrightarrow> E e y"
  shows "wp m Q E x"
  using keeps_wp [OF assms(1,2)] by (rule wp_mono) (simp_all add: assms(3,4))

section \<open>Invariants of worker programs\<close>

text \<open>Changes of the state that leave the trace, the Redis connections and a cancelled token alone.\<close>

definition calm_update :: "(Executor \<Rightarrow> Executor) \<Rightarrow> bool" where
  "calm_update f \<longleftrightarrow>
     (\<forall>x. trace (f x) = trace x \<and> (task_cancelled x \<longrightarrow> task_cancelled (f x)) \<and>
          task_redis_conn (f x) = task_redis_conn x \<and> task_redis_pubsub (f x) = task_redis_pubsub x)"

lemma calm_updateD:
  assumes "calm_update f"
  shows "trace (f x) = trace x" and "task_cancelled x \<Longrightarrow> task_cancelled (f x)"
    and "task_redis_conn (f x) = task_redis_conn x" and "task_redis_pubsub (f x) = task_redis_pubsub x"
  using assms unfolding calm_update_def by blast+

lemma calm_updates [simp]:
  "calm_update (interrupted i)" "calm_update (\<lambda>x. x\<lparr>task_url := p\<rparr>)" "calm_update (\<lambda>x. x\<lparr>task_cancelled := True\<rparr>)"
  "calm_update (\<lambda>x. x\<lparr>coordinator_force_exit := True, task_cancelled := True\<rparr>)"
  "calm_update (\<lambda>x. x\<lparr>cache := c\<rparr>)" "calm_update (\<lambda>x. x\<lparr>archive := t\<rparr>)"
  by (cases i; auto simp: calm_update_def)+

fun reporting :: "Call \<Rightarrow> bool" where
  "reporting (PostReport _ _ _) = True"
| "reporting _ = False"

text \<open>The actions that every invariant below tolerates: all but reports and the start of the command.\<close>

fun plain :: "Action \<Rightarrow> bool" where
  "plain (Exchange c _) = (\<not> reporting c)"
| "plain (Spawn _ _) = False"
| "plain _ = True"

locale worker_frame =
  fixes I :: "Executor \<Rightarrow> bool" and ok :: "Action \<Rightarrow> bool"
  assumes calm: "calm_update f \<Longrightarrow> I x \<Longrightarrow> I (f x)"
    and step: "ok a \<Longrightarrow> I x \<Longrightarrow> I (x\<lparr>trace := trace x @ [a]\<rparr>)"
    and plain_ok: "plain a \<Longrightarrow> ok a"
begin

lemma plain_oks [simp]:
  "ok (SetState u n e)" "ok (Publish u n)" "ok (Subscribe u)" "ok (Unsubscribe u)" "ok (Heard u n)"
  "ok (GotState u n)" "ok Terminate" "ok Kill" "\<not> reporting c \<Longrightarrow> ok (Exchange c a)"
  by (simp_all add: plain_ok)

lemma keeps_update_x [keeps_intros]: "calm_update f \<Longrightarrow> keeps I (update_x f)"
  by (simp add: keeps_def wp_update_x calm)

lemma keeps_act [keeps_intros]: "ok a \<Longrightarrow> keeps I (act a)"
  by (simp add: keeps_def wp_act step)

lemma keeps_next_of [keeps_intros]: "keeps I (next_of sel upd)"
  using calm [of "\<lambda>x. x\<lparr>world := w\<rparr>" for w]
  by (auto simp: keeps_def wp_next_of calm_update_def split: list.splits)

lemma keeps_steps [keeps_intros]:
  "keeps I (set_path p)" "keeps I cancel" "keeps I force_exit" "keeps I io" "keeps I try_io"
  "keeps I (set_cache c)" "keeps I (set_archive t)"
  by (auto simp: step_defs intro!: keeps_intros)

lemma keeps_send [keeps_intros]:
  "\<not> reporting c \<Longrightarrow> keeps I (send c)" "\<not> reporting c \<Longrightarrow> keeps I (send_plain c)"
  "\<not> reporting c \<Longrightarrow> keeps I (send_within c)"
  by (auto simp: send_def send_plain_def send_within_def intro!: keeps_intros)

lemma keeps_pause [keeps_intros]: "keeps I pause" "keeps I pause_within"
  by (auto simp: pause_def pause_within_def intro!: keeps_intros)

lemma keeps_announce [keeps_intros]:
  "keeps I (announce_task_state u st)" "keeps I (announce_task_state_ex u st ex)"
  "keeps I (subscribe_task_exec_state u)" "keeps I (unsubscribe_task_exec_state u)" "keeps I (get_task_state u)"
  by (auto simp: announce_task_state_def announce_task_state_ex_def set_task_state_def set_task_state_ex_def
      publish_state_def subscribe_task_exec_state_def unsubscribe_task_exec_state_def get_task_state_def
      intro!: keeps_intros)

lemma keeps_store_resource [keeps_intros]: "keeps I (store_resource r b)"
  unfolding store_resource_def by (intro keeps_intros) (auto simp: calm_update_def)

lemma keeps_watch [keeps_intros]:
  "keeps I (watch_guard j)" "keeps I next_watch_event" "keeps I watch_sleep" "keeps I (poll_task u st)"
  by (auto simp: watch_guard_def next_watch_event_def watch_sleep_def poll_task_def
      intro!: keeps_intros split: Wake.split)

lemma keeps_watch_loop [keeps_intros]: "keeps I (watch_loop n u st)"
  by (induction n) (auto intro!: keeps_intros split: WatchEvent.split option.split)

lemma keeps_poll_loop [keeps_intros]: "keeps I (poll_loop n u st)"
  by (induction n) (auto intro!: keeps_intros)

lemma keeps_watch_task [keeps_intros]: "keeps I (watch_task u st)"
  unfolding watch_task_def by (intro keeps_intros) auto

lemma keeps_child_steps [keeps_intros]:
  "keeps I discard_new_task" "keeps I kill_child" "keeps I next_child" "keeps I next_grace"
  "keeps I (collect_late task)"
  by (auto simp: discard_new_task_def kill_child_def next_child_def next_grace_def collect_late_def
      calm_update_def intro!: keeps_intros)

lemma keeps_spawn_child [keeps_intros]: "(\<And>a e. ok (Spawn a e)) \<Longrightarrow> keeps I (spawn_child task)"
  unfolding spawn_child_def by (intro keeps_intros)

lemma keeps_archive [keeps_intros]: "keeps I (spawn_archive out)" "keeps I (archive_outcome ph)" "keeps I (archive_next ph cts)"
proof -
  show "keeps I (spawn_archive out)"
    unfolding spawn_archive_def by (intro keeps_intros) (auto simp: calm_update_def)
  show out: "keeps I (archive_outcome ph)"
    by (auto simp: archive_outcome_def intro!: keeps_intros)
  show "keeps I (archive_next ph cts)"
    by (induction cts) (auto intro!: keeps_intros out split: ArchiveEnd.split)
qed

lemma keeps_recv [keeps_intros]: "keeps I (recv ph)"
  unfolding recv_def by (auto intro!: keeps_intros split: ArchiveTask.split)

lemma keeps_drain [keeps_intros]: "keeps I (drain n ph)"
  by (induction n) (auto intro!: keeps_intros)

lemma keeps_join_archive [keeps_intros]: "keeps I (join_archive ph)"
  unfolding join_archive_def by (intro keeps_intros)

lemma keeps_put_loop [keeps_intros]: "keeps I (put_loop n url ct len)"
  by (induction n) (auto intro!: keeps_intros split: HttpAnswer.split)

lemma keeps_clean_cache [keeps_intros]: "keeps I clean_cache"
  unfolding clean_cache_def by (intro keeps_intros)


text \<open>Programs that report keep \<open>I\<close> if their reports are tolerated.\<close>

lemma keeps_report_loop:
  "(\<And>p a. ok (Exchange (PostReport p i op) a)) \<Longrightarrow> keeps I (report_loop n i op)"
  by (induction n) (auto simp: send_plain_def send_def intro!: keeps_intros split: HttpAnswer.split)

lemma keeps_worker_report [keeps_intros]:
  "(\<And>p a. ok (Exchange (PostReport p i op) a)) \<Longrightarrow> keeps I (worker_report i op)"
  unfolding worker_report_def by (intro keeps_intros keeps_report_loop)

lemma keeps_give_up [keeps_intros]:
  assumes "\<And>p a. ok (Exchange (PostReport p (wt_id task) Cancel) a)"
    and "\<And>p a. ok (Exchange (PostReport p (wt_id task) (commit_op 0 (Some m))) a)" and "keeps I announce"
  shows "keeps I (give_up task m announce)"
  unfolding give_up_def by (intro keeps_intros assms)

lemma keeps_upload_artifact [keeps_intros]:
  assumes "\<And>p a. ok (Exchange (PostReport p i (Upload ct len)) a)"
  shows "keeps I (upload_artifact i ct len)"
proof -
  have "keeps I (url_loop n i ct len)" for n
    by (induction n) (auto simp: send_within_def send_def assms intro!: keeps_intros split: HttpAnswer.split option.split)
  then show ?thesis unfolding upload_artifact_def by (auto intro!: keeps_intros split: option.split)
qed

lemma keeps_upload_loop [keeps_intros]:
  assumes "\<And>p ct len a. ok (Exchange (PostReport p i (Upload ct len)) a)"
  shows "keeps I (upload_loop n i)"
  by (induction n) (auto intro!: keeps_intros assms split: option.split)

lemma keeps_submit [keeps_intros]:
  assumes "\<And>p req a. ok (Exchange (PostReport p i (Submit req)) a)"
  shows "keeps I (submit_new_task_if_present from_json i)"
  unfolding submit_new_task_if_present_def
  by (auto intro!: keeps_intros assms split: option.split NewTaskFile.split WorkerError.split)

lemma keeps_commit_after_timeout [keeps_intros]:
  assumes "\<And>p a. ok (Exchange (PostReport p i (commit_op st (Some TaskResultMessage.UploadResultTimeout))) a)"
  shows "keeps I (commit_after_timeout i uuid st)"
  unfolding commit_after_timeout_def by (intro keeps_intros assms)

lemma keeps_commit_result [keeps_intros]:
  assumes "\<And>p req a. ok (Exchange (PostReport p i (Submit req)) a)"
    and "\<And>p b a. ok (Exchange (PostReport p i (commit_op st (final_message fin b))) a)"
  shows "keeps I (commit_result from_json i uuid fin st)"
  unfolding commit_result_def by (intro keeps_intros assms)

lemma keeps_process_task_result:
  assumes "result_state out = (fin, st)"
    and "\<And>p a. ok (Exchange (PostReport p i (if fin then Finish else Cancel)) a)"
    and "\<And>p ct len a. ok (Exchange (PostReport p i (Upload ct len)) a)"
    and "\<And>p req a. ok (Exchange (PostReport p i (Submit req)) a)"
    and "\<And>p a. ok (Exchange (PostReport p i (commit_op st (Some TaskResultMessage.UploadResultTimeout))) a)"
    and "\<And>p b a. ok (Exchange (PostReport p i (commit_op st (final_message fin b))) a)"
  shows "keeps I (process_task_result from_json i uuid out)"
  unfolding process_task_result_def assms(1) prod.case
  using assms(2-) by (auto intro!: keeps_intros split: WorkerError.split)

lemma keeps_fetch_resource:
  assumes "\<And>p op a. ok (Exchange (PostReport p (wt_id task) op) a)"
  shows "keeps I (fetch_resource task r)"
proof -
  have "keeps I (fetch_info_loop n task)" for n
    by (induction n) (auto intro!: keeps_intros assms split: HttpAnswer.split Wake.split)
  moreover have "keeps I (download_resource task r)"
    by (auto simp: download_resource_def next_download_def intro!: keeps_intros assms split: DownloadEnd.split)
  moreover have "keeps I (resource_request task (remote_file r))"
    by (auto simp: resource_request_def intro!: keeps_intros split: RemoteResource.split)
  ultimately show ?thesis
    by (auto simp: fetch_resource_def intro!: keeps_intros assms split: option.split)
qed

lemma keeps_before_child:
  assumes "\<And>p op a. ok (Exchange (PostReport p (wt_id task) op) a)"
  shows "keeps I (fetch_resources task rs)" and "keeps I (watch_stage task)"
proof -
  show "keeps I (fetch_resources task rs)"
    by (induction rs) (auto intro!: keeps_intros keeps_fetch_resource assms)
  show "keeps I (watch_stage task)"
    by (auto simp: watch_stage_def intro!: keeps_intros assms split: option.split WorkerError.split)
qed

lemma keeps_run_child:
  assumes "\<And>a e. ok (Spawn a e)"
  shows "keeps I (run_child task)"
  by (auto simp: run_child_def terminate_child_def intro!: keeps_intros assms split: ChildEnd.split GraceEnd.split)

lemma keeps_execute_task:
  assumes "\<And>p op a. ok (Exchange (PostReport p (wt_id task) op) a)" and "\<And>a e. ok (Spawn a e)"
  shows "keeps I (execute_task from_json task)"
proof -
  have "keeps I (process_task_result from_json (wt_id task) (wt_uuid task) out)" for out
    by (cases "result_state out") (rule keeps_process_task_result, auto intro: assms)
  then show ?thesis
    unfolding execute_task_def by (intro keeps_intros keeps_before_child keeps_run_child assms)
qed

end

section \<open>Frames over the new actions\<close>

text \<open>Since the trace had length \<open>k\<close>, every action was tolerated.\<close>

definition new_actions :: "nat \<Rightarrow> Executor \<Rightarrow> Action list" where
  "new_actions k x = drop k (trace x)"

definition all_new :: "(Action \<Rightarrow> bool) \<Rightarrow> nat \<Rightarrow> Executor \<Rightarrow> bool" where
  "all_new P k x \<longleftrightarrow> k \<le> length (trace x) \<and> list_all P (new_actions k x)"

lemma all_new_frame:
  assumes "\<And>a. plain a \<Longrightarrow> P a"
  shows "worker_frame (all_new P k) P"
  by unfold_locales (auto simp: all_new_def new_actions_def calm_updateD assms)

lemma all_new_start: "all_new P (length (trace x)) x"
  by (simp add: all_new_def new_actions_def)

interpretation connected: worker_frame "\<lambda>x. task_redis_conn x \<and> task_redis_pubsub x" "\<lambda>_. True"
  by unfold_locales (auto simp: calm_updateD)

text \<open>What a run appends stays a prefix of what later runs append.\<close>

definition extends :: "Action list \<Rightarrow> Executor \<Rightarrow> bool" where
  "extends as x \<longleftrightarrow> (\<exists>bs. trace x = as @ bs)"

interpretation extends: worker_frame "extends as" "\<lambda>_. True" for as
  by unfold_locales (auto simp: extends_def calm_updateD)

lemma extends_refl: "extends (trace x) x"
  by (simp add: extends_def)

end
