(* ===== verification/Worker_Protocol.thy ===== *)
theory Worker_Protocol
  imports Worker_Frame
begin

text \<open>
  What a worker promises the coordinator: the order of the reports of a task, what the end of an execution
  means, when the loops stop, and what a watched task must have shown before the watcher runs.
\<close>

section \<open>The order of the reports\<close>

text \<open>The stages of a task as its reports show them, and the report that leads from one to the next.\<close>

datatype Stage = Begun | Over | Handed | Done

fun report_next :: "Stage \<Rightarrow> ReportTaskOp \<Rightarrow> Stage option" where
  "report_next Begun Finish = Some Over"
| "report_next Begun Cancel = Some Over"
| "report_next Over (Upload _ _) = Some Over"
| "report_next Over (Submit _) = Some Handed"
| "report_next Over (Commit _) = Some Done"
| "report_next Handed (Commit _) = Some Done"
| "report_next _ _ = None"

fun report_target :: "ReportTaskOp \<Rightarrow> Stage" where
  "report_target (Submit _) = Handed"
| "report_target (Commit _) = Done"
| "report_target _ = Over"

text \<open>The automaton that reads the actions of a worker: the reports on the task \<open>i\<close> follow \<open>report_next\<close>, go
  to \<open>workers/tasks\<close>, and a report is repeated only while the connection fails. The second component is the
  report that has not reached the coordinator yet.\<close>

fun read_report :: "i64 \<Rightarrow> Stage \<times> ReportTaskOp option \<Rightarrow> Action \<Rightarrow> (Stage \<times> ReportTaskOp option) option" where
  "read_report i (s, r) (Exchange (PostReport p j op) a) =
     (if p \<noteq> WorkersTasks \<or> j \<noteq> i then None
      else
        map_option (\<lambda>s'. (s', if a = NoConnection then Some op else None))
          (if r = Some op then Some s else report_next s op))"
| "read_report i q _ = Some q"

fun read_reports ::
  "i64 \<Rightarrow> Stage \<times> ReportTaskOp option \<Rightarrow> Action list \<Rightarrow> (Stage \<times> ReportTaskOp option) option" where
  "read_reports i q [] = Some q"
| "read_reports i q (a # as) = Option.bind (read_report i q a) (\<lambda>q. read_reports i q as)"

lemma read_reports_append:
  "read_reports i q (as @ bs) = Option.bind (read_reports i q as) (\<lambda>q. read_reports i q bs)"
  by (induction as arbitrary: q) (auto simp: bind_assoc)

definition reported :: "i64 \<Rightarrow> nat \<Rightarrow> Executor \<Rightarrow> (Stage \<times> ReportTaskOp option) option" where
  "reported i k x = read_reports i (Begun, None) (drop k (trace x))"

text \<open>\<open>ordered\<close>: since the trace had length \<open>k\<close> the reports on \<open>i\<close> have come in order; \<open>reached\<close>: and the last
  attempt led to stage \<open>s\<close>; \<open>settled\<close>: and was answered, unless the worker has been told to stop.\<close>

definition ordered :: "i64 \<Rightarrow> nat \<Rightarrow> Executor \<Rightarrow> bool" where
  "ordered i k x \<longleftrightarrow> k \<le> length (trace x) \<and> reported i k x \<noteq> None"

definition reached :: "i64 \<Rightarrow> nat \<Rightarrow> Stage \<Rightarrow> Executor \<Rightarrow> bool" where
  "reached i k s x \<longleftrightarrow> k \<le> length (trace x) \<and>
     (\<exists>r. reported i k x = Some (s, r) \<and> (\<forall>op. r = Some op \<longrightarrow> report_target op = s))"

definition settled :: "i64 \<Rightarrow> nat \<Rightarrow> Stage \<Rightarrow> Executor \<Rightarrow> bool" where
  "settled i k s x \<longleftrightarrow> k \<le> length (trace x) \<and>
     (\<exists>r. reported i k x = Some (s, r) \<and> (\<forall>op. r = Some op \<longrightarrow> report_target op = s \<and> task_cancelled x))"

lemma settled_reached: "settled i k s x \<Longrightarrow> reached i k s x"
  unfolding settled_def reached_def by blast

lemma reached_ordered: "reached i k s x \<Longrightarrow> ordered i k x"
  unfolding reached_def ordered_def by auto

lemma settled_ordered: "settled i k s x \<Longrightarrow> ordered i k x"
  by (rule reached_ordered) (rule settled_reached)

lemma report_next_target: "report_next s op = Some s' \<Longrightarrow> report_target op = s'"
  by (cases "(s, op)" rule: report_next.cases) auto

text \<open>An action that is not a report changes none of the three.\<close>

fun silent :: "Action \<Rightarrow> bool" where
  "silent (Exchange (PostReport _ _ _) _) = False"
| "silent _ = True"

lemma reported_silent:
  "silent a \<Longrightarrow> k \<le> length (trace x) \<Longrightarrow> reported i k (x\<lparr>trace := trace x @ [a]\<rparr>) = reported i k x"
  by (cases a rule: silent.cases)
     (auto simp: reported_def read_reports_append split: option.splits bind_splits)

lemma reported_cong: "trace y = trace x \<Longrightarrow> reported i k y = reported i k x"
  by (simp add: reported_def)

lemma silent_exchange [simp]: "silent (Exchange c a) \<longleftrightarrow> \<not> reporting c"
  by (cases c) auto

lemma plain_silent: "plain a \<Longrightarrow> silent a"
  by (cases a) auto

lemma reported_calm: "calm_update f \<Longrightarrow> reported i k (f x) = reported i k x"
  by (rule reported_cong) (simp add: calm_updateD)

interpretation ordered: worker_frame "ordered i k" silent for i k
  by unfold_locales (auto simp: ordered_def reported_calm calm_updateD reported_silent plain_silent)

interpretation reached: worker_frame "reached i k s" silent for i k s
  by unfold_locales (auto simp: reached_def reported_calm calm_updateD reported_silent plain_silent)

interpretation settled: worker_frame "settled i k s" silent for i k s
  by unfold_locales (auto simp: settled_def reported_calm calm_updateD reported_silent plain_silent)

interpretation told_to_stop: worker_frame task_cancelled "\<lambda>_. True"
  by unfold_locales (auto simp: calm_updateD)

interpretation ordered_stop: worker_frame "\<lambda>x. ordered i k x \<and> task_cancelled x" silent for i k
  by unfold_locales (auto simp: calm_updateD intro: ordered.calm ordered.step plain_silent)

interpretation settled_stop: worker_frame "\<lambda>x. settled i k s x \<and> task_cancelled x" silent for i k s
  by unfold_locales (auto simp: calm_updateD intro: settled.calm settled.step plain_silent)

section \<open>One report\<close>

text \<open>The state in which an attempt finds the automaton: before its stage, or in it after a lost connection.\<close>

definition attempting :: "i64 \<Rightarrow> nat \<Rightarrow> Stage \<Rightarrow> ReportTaskOp \<Rightarrow> Executor \<Rightarrow> bool" where
  "attempting i k s op x \<longleftrightarrow> k \<le> length (trace x) \<and> task_url x = WorkersTasks \<and>
     (\<exists>s0 r. reported i k x = Some (s0, r) \<and> (if r = Some op then s0 = s else report_next s0 op = Some s))"

lemma reached_attempting:
  "reached i k s x \<Longrightarrow> report_next s op = Some s' \<Longrightarrow> attempting i k s' op (x\<lparr>task_url := WorkersTasks\<rparr>)"
  using report_next_target [of s op s'] unfolding reached_def attempting_def reported_def
  by (auto split: if_splits) metis

lemma attempting_ordered: "attempting i k s op x \<Longrightarrow> ordered i k x"
  unfolding attempting_def ordered_def by auto

lemma attempting_calm [simp]:
  "attempting i k s op (x\<lparr>world := w\<rparr>) = attempting i k s op x"
  "attempting i k s op (x\<lparr>task_cancelled := c\<rparr>) = attempting i k s op x"
  by (simp_all add: attempting_def reported_def)

lemma reported_interrupted [simp]: "reported i k (interrupted j x) = reported i k x"
  "trace (interrupted j x) = trace x" "task_url (interrupted j x) = task_url x"
  by (cases j; simp add: reported_def)+

text \<open>After the attempt the automaton is in its stage, and the report is pending if the connection failed.\<close>

lemma attempt_read:
  assumes "attempting i k s op x" and "report_target op = s"
  shows "reported i k (x\<lparr>world := w, trace := trace x @ [Exchange (PostReport WorkersTasks i op) a]\<rparr>)
           = Some (s, if a = NoConnection then Some op else None)"
  using assms by (auto simp: attempting_def reported_def read_reports_append split: if_splits)

lemma wp_send_report:
  assumes "attempting i k s op x" and "report_target op = s"
    and none: "E Waiting x"
    and some: "\<And>a j y. reported i k y = Some (s, if a = NoConnection then Some op else None) \<Longrightarrow>
       k \<le> length (trace y) \<Longrightarrow> task_url y = WorkersTasks \<Longrightarrow> Q (a, j) y"
  shows "wp (send (PostReport WorkersTasks i op)) Q E x"
proof -
  have "k \<le> length (trace x)" "task_url x = WorkersTasks" using assms(1) by (auto simp: attempting_def)
  then show ?thesis
    using none some attempt_read [OF assms(1,2)] by (auto simp: send_def wp_eqs split: list.splits)
qed

text \<open>The end of a report: settled in its stage, or an error, which keeps the stage unless it is the end of
  the environment's answers.\<close>

definition failed :: "i64 \<Rightarrow> nat \<Rightarrow> Stage \<Rightarrow> WorkerError \<Rightarrow> Executor \<Rightarrow> bool" where
  "failed i k s e x \<longleftrightarrow> ordered i k x \<and> (e \<noteq> Waiting \<longrightarrow> reached i k s x)"

lemma failed_ordered: "failed i k s e x \<Longrightarrow> ordered i k x"
  by (simp add: failed_def)

lemma settled_failed: "settled i k s x \<Longrightarrow> failed i k s e x"
  by (simp add: failed_def settled_ordered settled_reached)

lemma failed_reported:
  assumes "reported i k x = Some (s, r)" and "k \<le> length (trace x)" and "\<And>op. r = Some op \<Longrightarrow> report_target op = s"
  shows "failed i k s e x"
  using assms by (simp add: failed_def ordered_def reached_def)

lemma settled_answered:
  "reported i k x = Some (s, None) \<Longrightarrow> k \<le> length (trace x) \<Longrightarrow> settled i k s x"
  by (simp add: settled_def)

lemma settled_pending:
  "reported i k x = Some (s, Some op) \<Longrightarrow> report_target op = s \<Longrightarrow> task_cancelled x \<Longrightarrow>
   k \<le> length (trace x) \<Longrightarrow> settled i k s x"
  by (simp add: settled_def)

lemma reached_pending:
  "reported i k x = Some (s, Some op) \<Longrightarrow> report_target op = s \<Longrightarrow> k \<le> length (trace x) \<Longrightarrow> reached i k s x"
  by (simp add: reached_def)

lemma wp_pause_report:
  assumes "reported i k x = Some (s, Some op)" and "k \<le> length (trace x)" and "task_url x = WorkersTasks"
    and stop: "\<And>y. reported i k y = Some (s, Some op) \<Longrightarrow> k \<le> length (trace y) \<Longrightarrow> task_cancelled y \<Longrightarrow> Q WakeCancelled y"
    and go: "\<And>y w. attempting i k s op y \<Longrightarrow> reported i k y = Some (s, Some op) \<Longrightarrow>
       k \<le> length (trace y) \<Longrightarrow> w \<noteq> WakeCancelled \<Longrightarrow> Q w y"
    and none: "E Waiting x"
  shows "wp pause Q E x"
proof -
  have [simp]: "reported i k (y\<lparr>world := w, task_cancelled := c\<rparr>) = reported i k y"
    "reported i k (y\<lparr>world := w\<rparr>) = reported i k y" for y w c by (simp_all add: reported_def)
  show ?thesis using assms
    by (auto simp: pause_def step_defs wp_eqs attempting_def split: list.splits)
qed

lemma report_loop_wp:
  assumes "attempting i k (report_target op) op x"
  shows "wp (report_loop n i op) (\<lambda>_. settled i k (report_target op)) (failed i k (report_target op)) x"
  using assms
proof (induction n arbitrary: x)
  case 0
  then show ?case by (simp add: wp_eqs failed_def attempting_ordered)
next
  case (Suc n)
  let ?s = "report_target op"
  have url: "task_url x = WorkersTasks" using Suc.prems by (simp add: attempting_def)
  have fe: "settled i k ?s (y\<lparr>coordinator_force_exit := True, task_cancelled := True\<rparr>)"
    if "reported i k y = Some (?s, None)" "k \<le> length (trace y)" for y
    using that by (simp add: settled_def reported_def)
  have ok: "failed i k ?s e y" if "reported i k y = Some (?s, r)" "k \<le> length (trace y)" "r = None \<or> r = Some op" for e y r
    using that by (intro failed_reported [of i k y ?s r]) auto
  have wait: "failed i k ?s Waiting x" using Suc.prems by (simp add: failed_def attempting_ordered)
  show ?case
    unfolding report_loop.simps wp_bindR wp_gets_x send_plain_def url wp_case_prod
    by (rule wp_send_report [OF Suc.prems refl])
      (auto simp: wp_eqs force_exit_def fe wait ok settled_answered
         intro!: wp_pause_report [where s = ?s and op = op and k = k and i = i] Suc.IH
         intro: settled_pending split: HttpAnswer.split)
qed

lemma worker_report_wp:
  assumes "reached i k s x" and "report_next s op = Some s'"
  shows "wp (worker_report i op) (\<lambda>_. settled i k s') (failed i k s') x"
proof -
  have "attempting i k (report_target op) op (x\<lparr>task_url := WorkersTasks\<rparr>)"
    using reached_attempting [OF assms] report_next_target [OF assms(2)] by simp
  from report_loop_wp [OF this] show ?thesis
    unfolding worker_report_def report_next_target [OF assms(2), symmetric]
    by (simp only: set_path_def wp_thenR wp_update_x wp_looped)
qed

section \<open>Composition\<close>

lemma wp_reported:
  assumes "reached i k s x" and "report_next s op = Some s'"
    and "\<And>y. settled i k s' y \<Longrightarrow> Q () y" and "\<And>e y. failed i k s' e y \<Longrightarrow> E e y"
  shows "wp (worker_report i op) Q E x"
  using worker_report_wp [OF assms(1,2)] by (rule wp_mono) (simp_all add: assms(3,4))

text \<open>The end of an execution: committed, or the worker has been told to stop.\<close>

definition ends :: "i64 \<Rightarrow> nat \<Rightarrow> Executor \<Rightarrow> bool" where
  "ends i k x \<longleftrightarrow> settled i k Done x \<or> (ordered i k x \<and> task_cancelled x)"

lemma ends_done: "settled i k Done x \<Longrightarrow> ends i k x"
  by (simp add: ends_def)

lemma ends_stopped: "settled i k s x \<Longrightarrow> task_cancelled x \<Longrightarrow> ends i k x"
  by (simp add: ends_def settled_ordered)

lemma ends_ordered: "ends i k x \<Longrightarrow> ordered i k x"
  by (auto simp: ends_def settled_ordered)

lemma pause_wp:
  "settled i k s x \<Longrightarrow>
   wp pause (\<lambda>w y. settled i k s y \<and> (w = WakeCancelled \<longrightarrow> task_cancelled y)) (\<lambda>_. settled i k s) x"
  by (auto simp: pause_def step_defs wp_eqs settled_def reported_def split: list.splits)

lemma give_up_wp:
  assumes "settled (wt_id task) k Begun x" and "keeps (settled (wt_id task) k Done) announce"
    and "\<And>y. settled (wt_id task) k Done y \<Longrightarrow> Q () y" and "\<And>e y. ordered (wt_id task) k y \<Longrightarrow> E e y"
  shows "wp (give_up task m announce) Q E x"
  unfolding give_up_def commit_op_def wp_thenR
  by (intro wp_reported [OF settled_reached [OF assms(1)]] wp_reported [where s = Over] wp_kept [OF assms(2)]
        wp_kept [where I = "settled (wt_id task) k Done"] keeps_intros)
    (auto intro: assms(3,4) settled_reached settled_ordered failed_ordered)

section \<open>The stages before the command\<close>

lemma cancel_stops: "settled i k s x \<Longrightarrow> wp cancel (\<lambda>_ y. settled i k s y \<and> task_cancelled y) (\<lambda>_ _. False) x"
  by (auto simp: step_defs wp_eqs settled_def reported_def)

lemma wp_announce_raise:
  assumes "settled i k s x"
  shows "wp (thenR (announce_task_state_ex u st ex) (raise e)) Q (\<lambda>_. ordered i k) x"
  unfolding wp_thenR
  by (rule wp_kept [where I = "settled i k s", OF _ assms])
    (auto simp: wp_eqs intro: settled.keeps_announce settled_ordered)

lemma fetch_info_wp:
  assumes "settled (wt_id task) k Begun x"
  shows "wp (fetch_info_loop n task)
     (\<lambda>r y. case r of None \<Rightarrow> ends (wt_id task) k y | Some _ \<Rightarrow> settled (wt_id task) k Begun y)
     (\<lambda>_. ordered (wt_id task) k) x"
  using assms
proof (induction n arbitrary: x)
  case 0
  then show ?case by (simp add: wp_eqs settled_ordered)
next
  case (Suc n)
  let ?I = "settled (wt_id task) k Begun"
  show ?case
    unfolding fetch_info_loop.simps wp_bindR wp_gets_x
  proof (rule wp_kept [where I = ?I])
    fix a y assume I: "?I y"
    show "wp (case a of Answered s b \<Rightarrow> ret (Some (s, b))
         | NoConnection \<Rightarrow> bindR pause (\<lambda>k. case k of WakeCancelled \<Rightarrow> ret None | WakeTimer \<Rightarrow> fetch_info_loop n task
             | WakeDeadline \<Rightarrow> thenR (give_up task TaskResultMessage.FetchResourceTimeout
                 (announce_task_state_ex (wt_uuid task) TaskExecState.FetchResourceTimeout 60)) (ret None))
         | SendFailed \<Rightarrow> thenR (announce_task_state_ex (wt_uuid task) FetchResourceError 60) (raise RequestError))
       (\<lambda>r y. case r of None \<Rightarrow> ends (wt_id task) k y | Some _ \<Rightarrow> ?I y) (\<lambda>_. ordered (wt_id task) k) y"
    proof (cases a)
      case NoConnection
      have "wp (case w of WakeCancelled \<Rightarrow> ret None | WakeTimer \<Rightarrow> fetch_info_loop n task
             | WakeDeadline \<Rightarrow> thenR (give_up task TaskResultMessage.FetchResourceTimeout
                 (announce_task_state_ex (wt_uuid task) TaskExecState.FetchResourceTimeout 60)) (ret None))
       (\<lambda>r y. case r of None \<Rightarrow> ends (wt_id task) k y | Some _ \<Rightarrow> ?I y) (\<lambda>_. ordered (wt_id task) k) z"
        if "?I z" "w = WakeCancelled \<longrightarrow> task_cancelled z" for w z
        using that Suc.IH
        by (cases w) (auto simp: wp_eqs intro!: give_up_wp keeps_intros intro: ends_stopped ends_done)
      then show ?thesis unfolding NoConnection HttpAnswer.case wp_bindR
        by (rule wp_mono [OF pause_wp [OF I]]) (auto intro: settled_ordered)
    next
      case SendFailed
      then show ?thesis using wp_announce_raise [OF I] by simp
    qed (simp add: I wp_eqs)
  qed (auto intro: settled_ordered keeps_intros Suc.prems)
qed

text \<open>The two outcomes of a stage: it goes on before any report, or the execution has ended.\<close>

definition stage_end :: "i64 \<Rightarrow> nat \<Rightarrow> bool \<Rightarrow> Executor \<Rightarrow> bool" where
  "stage_end i k goes_on x \<longleftrightarrow> (if goes_on then settled i k Begun x else ends i k x)"

lemma stage_end_simps [simp]:
  "stage_end i k True x = settled i k Begun x" "stage_end i k False x = ends i k x"
  by (simp_all add: stage_end_def)

lemma download_wp:
  assumes "settled (wt_id task) k Begun x"
  shows "wp (download_resource task r) (\<lambda>f. stage_end (wt_id task) k (f = Proceed)) (\<lambda>_. ordered (wt_id task) k) x"
proof -
  let ?I = "settled (wt_id task) k Begun"
  have stored: "wp (store_resource r b) (\<lambda>_. ?I) (\<lambda>_. ordered (wt_id task) k) y" if "?I y" for b y
    by (rule wp_kept [OF settled.keeps_store_resource that]) (auto intro: settled_ordered)
  have nd: "keeps ?I next_download"
    unfolding next_download_def by (intro keeps_intros)
  show ?thesis
    unfolding download_resource_def wp_bindR
    by (rule wp_kept [where I = ?I, OF nd assms])
      (auto simp: wp_eqs split: DownloadEnd.split
        intro!: wp_mono [OF stored] wp_mono [OF cancel_stops] give_up_wp keeps_intros
        intro: ends_done ends_stopped settled_ordered)
qed

lemma fetch_resource_wp:
  assumes "settled (wt_id task) k Begun x"
  shows "wp (fetch_resource task r) (\<lambda>f. stage_end (wt_id task) k (f = Proceed)) (\<lambda>_. ordered (wt_id task) k) x"
proof -
  let ?I = "settled (wt_id task) k Begun" and ?Q = "\<lambda>f. stage_end (wt_id task) k (f = Proceed)"
  have path: "keeps ?I (resource_request task (remote_file r))"
    by (auto simp: resource_request_def intro!: keeps_intros split: RemoteResource.split)
  have gone: "wp (thenR (give_up task m (announce_task_state_ex u st 60)) (ret Leave)) ?Q (\<lambda>_. ordered (wt_id task) k) y"
    if "?I y" for m u st y
    unfolding wp_thenR by (rule give_up_wp [OF that]) (auto simp: wp_eqs intro: keeps_intros ends_done)
  show ?thesis
    unfolding fetch_resource_def wp_thenR wp_bindR
    by (rule wp_kept [where I = ?I, OF path assms])
      (auto simp: wp_eqs gone wp_announce_raise simp del: fetch_info_loop.simps wp_thenR
        intro!: wp_mono [OF fetch_info_wp] download_wp intro: settled_ordered split: option.splits)
qed

lemma fetch_resources_wp:
  assumes "settled (wt_id task) k Begun x"
  shows "wp (fetch_resources task rs) (\<lambda>f. stage_end (wt_id task) k (f = Proceed)) (\<lambda>_. ordered (wt_id task) k) x"
  using assms
proof (induction rs arbitrary: x)
  case (Cons r rs)
  show ?case unfolding fetch_resources.simps wp_bindR
    by (rule wp_mono [OF fetch_resource_wp [OF Cons.prems]]) (auto simp: wp_eqs Cons.IH split: Flow.split)
qed (simp add: wp_eqs)

lemma wp_watch_guard [wp_eqs]:
  "wp (watch_guard j) Q E x =
     (if task_cancelled x then E Cancelled_Wait x else if j = DeadlineHit then E DeadlinePassed x else Q () x)"
  by (simp add: watch_guard_def wp_eqs)

text \<open>The watch is broken off only with the token cancelled or at the deadline.\<close>

definition dropped :: "WorkerError \<Rightarrow> Executor \<Rightarrow> bool" where
  "dropped e x \<longleftrightarrow> e = Waiting \<or> e = DeadlinePassed \<or> (e = Cancelled_Wait \<and> task_cancelled x)"

lemma dropped_simps [simp]:
  "dropped Waiting x" "dropped DeadlinePassed x" "dropped Cancelled_Wait x = task_cancelled x"
  "\<not> dropped RequestError x" "\<not> dropped (CustomError m) x" "\<not> dropped IoError x"
  by (simp_all add: dropped_def)

lemma next_watch_event_dropped: "wp next_watch_event (\<lambda>_ _. True) dropped x"
  by (auto simp: next_watch_event_def wp_eqs split: list.splits)

lemma watch_sleep_dropped: "wp watch_sleep (\<lambda>_ _. True) dropped x"
  by (auto simp: watch_sleep_def step_defs wp_eqs split: list.splits Wake.splits)

lemma poll_task_dropped: "wp (poll_task u st) (\<lambda>_ _. True) dropped x"
  by (auto simp: poll_task_def get_task_state_def step_defs wp_eqs split: list.splits option.splits)

lemma wp_True_mono:
  assumes "wp m (\<lambda>_ _. True) E x" and "\<And>a y. Q a y"
  shows "wp m Q E x"
  using assms(1) by (rule wp_mono) (simp_all add: assms(2))

lemma watch_loop_dropped: "wp (watch_loop n u st) (\<lambda>_ _. True) dropped x"
  by (induction n arbitrary: x)
    (auto simp: wp_eqs split: WatchEvent.split option.split
      intro!: wp_True_mono [OF next_watch_event_dropped] wp_True_mono [OF poll_task_dropped])

lemma poll_loop_dropped: "wp (poll_loop n u st) (\<lambda>_ _. True) dropped x"
  by (induction n arbitrary: x)
    (auto simp: wp_eqs intro!: wp_True_mono [OF watch_sleep_dropped] wp_True_mono [OF poll_task_dropped])

lemma watch_task_dropped: "wp (watch_task u st) (\<lambda>_ _. True) dropped x"
  unfolding watch_task_def wp_bindR wp_gets_x wp_if wp_thenR wp_act wp_looped
  by (simp only: watch_loop_dropped poll_loop_dropped if_True if_False) (simp del: watch_loop.simps)

lemma watch_stage_wp:
  assumes "settled (wt_id task) k Begun x"
  shows "wp (watch_stage task) (\<lambda>f. stage_end (wt_id task) k (f = Proceed)) (\<lambda>_. ordered (wt_id task) k) x"
proof -
  let ?I = "settled (wt_id task) k Begun"
  let ?Q = "\<lambda>f. stage_end (wt_id task) k (f = Proceed)"
  have watched: "wp (thenR (watch_guard Quiet) (watch_task u st)) (\<lambda>_. ?I) (\<lambda>e y. ?I y \<and> dropped e y) y"
    if "?I y" for u st y
  proof -
    have "wp (thenR (watch_guard Quiet) (watch_task u st)) (\<lambda>_. ?I) (\<lambda>_. ?I) y"
      by (rule wp_kept [where I = ?I, OF _ that]) (auto intro: keeps_intros)
    moreover have "wp (thenR (watch_guard Quiet) (watch_task u st)) (\<lambda>_ _. True) dropped y"
      by (simp add: wp_eqs watch_task_dropped)
    ultimately show ?thesis by (auto dest: wp_conjI elim: wp_mono)
  qed
  have left: "wp (announce_task_state_ex u st 60) (\<lambda>_ y. ends (wt_id task) k y) (\<lambda>_. ordered (wt_id task) k) y"
    if "?I y" "task_cancelled y" for u st y
    by (rule wp_kept [where I = "\<lambda>x. ?I x \<and> task_cancelled x", OF settled_stop.keeps_announce(2)])
      (use that in \<open>auto intro: ends_stopped settled_ordered\<close>)
  have exited: "wp (thenR (unsubscribe_task_exec_state u)
       (thenR (announce_task_state_ex v WorkerExited 60) (ret Leave))) ?Q (\<lambda>_. ordered (wt_id task) k) y"
    if "?I y" "task_cancelled y" for u v y
    unfolding wp_thenR
    by (rule wp_kept [where I = "\<lambda>x. ?I x \<and> task_cancelled x", OF settled_stop.keeps_announce(4)])
      (use that in \<open>auto simp: wp_eqs intro: wp_mono [OF left] settled_ordered\<close>)
  have timed: "wp (thenR (unsubscribe_task_exec_state u)
       (thenR (give_up task m (announce_task_state_ex v st 60)) (ret Leave))) ?Q (\<lambda>_. ordered (wt_id task) k) y"
    if "?I y" for u v m st y
    unfolding wp_thenR
    by (rule wp_kept [where I = ?I, OF settled.keeps_announce(4) that])
      (auto simp: wp_eqs intro!: give_up_wp settled.keeps_announce intro: ends_done settled_ordered)
  have body: "wp (bindR (attempt (thenR (watch_guard Quiet) (watch_task u st))) (\<lambda>r.
                 case r of
                   Inr _ \<Rightarrow> ret Proceed
                 | Inl Cancelled_Wait \<Rightarrow>
                     thenR (unsubscribe_task_exec_state u)
                     (thenR (announce_task_state_ex (wt_uuid task) WorkerExited 60) (ret Leave))
                 | Inl DeadlinePassed \<Rightarrow>
                     thenR (unsubscribe_task_exec_state u)
                     (thenR (give_up task TaskResultMessage.WatchTimeout
                               (announce_task_state_ex (wt_uuid task) TaskExecState.WatchTimeout 60)) (ret Leave))
                 | Inl e \<Rightarrow> raise e)) ?Q (\<lambda>_. ordered (wt_id task) k) y" if "?I y" for u st y
    unfolding wp_bindR wp_attempt
    by (rule wp_mono [OF watched [OF that]])
      (auto simp: wp_ret wp_raise exited timed dropped_def split: WorkerError.split intro: settled_ordered)
  show ?thesis
    using assms unfolding watch_stage_def
    by (auto simp: wp_ret wp_bindR [of "gets_x f" for f] wp_gets_x wp_thenR [of "announce_task_state u st" for u st]
        intro!: wp_kept [where I = ?I, OF settled.keeps_announce(1)] body intro: settled_ordered split: option.split)
qed

section \<open>The command and its results\<close>

lemma run_child_wp:
  assumes "settled i k Begun x"
  shows "wp (run_child task)
     (\<lambda>out. case out of None \<Rightarrow> ends i k | Some _ \<Rightarrow> settled i k Begun) (\<lambda>_. ordered i k) x"
proof -
  let ?I = "settled i k Begun" and ?Q = "\<lambda>out. case out of None \<Rightarrow> ends i k | Some _ \<Rightarrow> settled i k Begun"
  have late: "wp (bindR (collect_late task) (\<lambda>r. ret (Some r))) ?Q (\<lambda>_. ordered i k) y" if "?I y" for y
    unfolding wp_bindR
    by (rule wp_kept [where I = ?I, OF settled.keeps_child_steps(5) that]) (auto simp: wp_eqs intro: settled_ordered)
  have killed: "wp (thenR cancel (thenR kill_child m)) ?Q (\<lambda>_. ordered i k) y"
    if "?I y" and "\<And>z. ?I z \<Longrightarrow> task_cancelled z \<Longrightarrow> wp m ?Q (\<lambda>_. ordered i k) z" for m y
    unfolding wp_thenR
    by (rule wp_mono [OF cancel_stops [OF that(1)]])
      (auto intro!: wp_kept [where I = "\<lambda>x. ?I x \<and> task_cancelled x", OF settled_stop.keeps_child_steps(2)] that(2)
        intro: settled_ordered)
  have none: "wp (ret None) ?Q (\<lambda>_. ordered i k) z" if "?I z" "task_cancelled z" for z
    using ends_stopped [OF that] by (simp add: wp_eqs)
  have exited: "wp (thenR (announce_task_state_ex u st ex) (ret None)) ?Q (\<lambda>_. ordered i k) z"
    if "?I z" "task_cancelled z" for u st ex z
    unfolding wp_thenR
    by (rule wp_kept [where I = "\<lambda>x. ?I x \<and> task_cancelled x", OF settled_stop.keeps_announce(2)])
      (use that in \<open>auto intro: none settled_ordered\<close>)
  have terminated: "wp (terminate_child task reaped) ?Q (\<lambda>_. ordered i k) y" if "?I y" for reaped y
  proof -
    have grace: "wp next_grace (\<lambda>_. ?I) (\<lambda>_. ordered i k) z" if "?I z" for z
      by (rule wp_kept [where I = ?I, OF settled.keeps_child_steps(4) that]) (auto intro: settled_ordered)
    have over: "wp (thenR kill_child (bindR (collect_late task) (\<lambda>r. ret (Some r)))) ?Q (\<lambda>_. ordered i k) z" if "?I z" for z
      unfolding wp_thenR
      by (rule wp_kept [where I = ?I, OF settled.keeps_child_steps(2) that]) (auto intro: late settled_ordered)
    show ?thesis
      unfolding terminate_child_def wp_thenR [of "announce_task_state_ex u st ex" for u st ex]
        wp_thenR [of "if b then m else n" for b m n]
      by (rule wp_kept [where I = ?I, OF settled.keeps_announce(2) that],
          rule wp_kept [where I = ?I, OF keeps_if [OF keeps_ret settled.keeps_act]])
        (auto simp: wp_bindR [of next_grace] intro!: wp_mono [OF grace] late killed none over
          intro: settled_ordered split: GraceEnd.split)
  qed
  have body: "wp (case e of
          ChildStopped \<Rightarrow> thenR cancel (thenR kill_child
              (thenR (announce_task_state_ex (wt_uuid task) WorkerExited 60) (ret None)))
        | ChildExited st out err c \<Rightarrow> thenR (set_cache c) (thenR (announce_task_state_ex (wt_uuid task) ExecFinished 660)
              (ret (Some (TaskFinish (if terminal_output (wt_spec task) then WithLog out err st else WithoutLog st)))))
        | ChildWaitFailed \<Rightarrow> thenR (announce_task_state_ex (wt_uuid task) ExecFinished 660) (raise IoError)
        | ChildDeadline reaped \<Rightarrow> terminate_child task reaped) ?Q (\<lambda>_. ordered i k) y" if "?I y" for e y
  proof (cases e)
    case (ChildExited st out err c)
    show ?thesis unfolding ChildExited ChildEnd.case wp_thenR
      by (rule wp_kept [where I = ?I, OF settled.keeps_steps(6) that],
          rule wp_kept [where I = ?I, OF settled.keeps_announce(2)])
        (auto simp: wp_ret intro: settled_ordered)
  qed (auto simp: that terminated wp_announce_raise [OF that] intro!: killed exited)
  show ?thesis
    unfolding run_child_def wp_thenR [of "spawn_child task"] wp_bindR [of next_child]
    by (rule wp_kept [where I = ?I, OF _ assms], rule settled.keeps_spawn_child, simp,
        rule wp_kept [where I = ?I, OF settled.keeps_child_steps(3)])
      (auto intro: body settled_ordered)
qed

lemma url_loop_wp:
  assumes "attempting i k Over (Upload ct len) x"
  shows "wp (url_loop n i ct len) (\<lambda>_. reached i k Over) (failed i k Over) x"
  using assms
proof (induction n arbitrary: x)
  case 0
  then show ?case by (simp add: wp_eqs failed_def attempting_ordered)
next
  case (Suc n)
  let ?op = "Upload ct len"
  have url: "task_url x = WorkersTasks" using Suc.prems by (simp add: attempting_def)
  have ok: "reached i k Over y" if "reported i k y = Some (Over, r)" "k \<le> length (trace y)" "r = None \<or> r = Some ?op" for y r
    using that by (auto simp: reached_def)
  have bad: "failed i k Over e y" if "reported i k y = Some (Over, r)" "k \<le> length (trace y)" "r = None \<or> r = Some ?op" for e y r
    using ok [OF that] by (simp add: failed_def reached_ordered)
  have upd: "reported i k (y\<lparr>coordinator_force_exit := True\<rparr>) = reported i k y"
    "reported i k (y\<lparr>task_cancelled := True\<rparr>) = reported i k y" for y
    by (simp_all add: reported_def)
  have stop: "reached i k Over (y\<lparr>coordinator_force_exit := True, task_cancelled := True\<rparr>)"
    "failed i k Over e (y\<lparr>task_cancelled := True\<rparr>)"
    if "reported i k y = Some (Over, None)" "k \<le> length (trace y)" for e y
    using that by (auto simp: reached_def failed_def ordered_def upd)
  have wait: "failed i k Over Waiting x" using Suc.prems by (simp add: failed_def attempting_ordered)
  show ?case
    unfolding url_loop.simps wp_bindR wp_gets_x send_within_def pause_within_def url wp_case_prod
    by (rule wp_send_report [OF Suc.prems])
      (auto simp: wp_eqs force_exit_def cancel_def wait bad ok stop
         intro!: wp_pause_report [where s = Over and op = ?op and k = k and i = i] Suc.IH
         split: HttpAnswer.split option.split)
qed

lemma failed_reached: "reached i k s x \<Longrightarrow> failed i k s e x"
  by (simp add: failed_def reached_ordered)

lemma upload_artifact_wp:
  assumes "reached i k Over x"
  shows "wp (upload_artifact i ct len) (\<lambda>_. reached i k Over) (failed i k Over) x"
proof -
  have at: "attempting i k Over (Upload ct len) (x\<lparr>task_url := WorkersTasks\<rparr>)"
    by (rule reached_attempting [OF assms]) simp
  show ?thesis
    unfolding upload_artifact_def set_path_def wp_thenR wp_update_x wp_bindR wp_looped
    by (rule wp_mono [OF url_loop_wp [OF at]])
      (auto simp: wp_ret wp_looped simp del: put_loop.simps split: option.split
        intro!: wp_kept [where I = "reached i k Over", OF reached.keeps_put_loop] intro: failed_reached)
qed

lemma upload_loop_wp:
  assumes "reached i k Over x"
  shows "wp (upload_loop n i) (\<lambda>_. reached i k Over) (failed i k Over) x"
  using assms
proof (induction n arbitrary: x)
  case (Suc n)
  show ?case
    unfolding upload_loop.simps wp_bindR
    by (rule wp_kept [where I = "reached i k Over", OF reached.keeps_recv Suc.prems])
      (auto simp: wp_eqs intro!: wp_mono [OF upload_artifact_wp] Suc.IH intro: failed_reached split: option.split Flow.split)
qed (simp add: wp_eqs failed_reached)

lemma submit_wp:
  assumes "reached i k Over x"
  shows "wp (submit_new_task_if_present from_json i)
     (\<lambda>_ y. reached i k Over y \<or> reached i k Handed y) (\<lambda>_. ordered i k) x"
proof -
  let ?Q = "\<lambda>_ y. reached i k Over y \<or> reached i k Handed y"
  have discard: "wp (thenR discard_new_task (ret b)) ?Q (\<lambda>_. ordered i k) y" if "reached i k s y" "s = Over \<or> s = Handed" for s b y
    unfolding wp_thenR
    by (rule wp_kept [where I = "reached i k s", OF reached.keeps_child_steps(1) that(1)])
      (use that(2) in \<open>auto simp: wp_eqs intro: reached_ordered\<close>)
  have report: "wp (worker_report i (Submit req)) (\<lambda>_. reached i k Handed) (failed i k Handed) x" for req
    by (rule wp_reported [OF assms]) (auto intro: settled_reached)
  have "wp (bindR (attempt (worker_report i (Submit req))) (\<lambda>r.
          case r of Inl Waiting \<Rightarrow> raise Waiting | Inl _ \<Rightarrow> ret False | Inr _ \<Rightarrow> thenR discard_new_task (ret True)))
          ?Q (\<lambda>_. ordered i k) x" for req
    unfolding wp_bindR wp_attempt
    by (rule wp_mono [OF report])
      (auto simp: wp_ret wp_raise failed_def discard split: WorkerError.split)
  then show ?thesis
    using assms discard [OF assms]
    by (auto simp: submit_new_task_if_present_def wp_bindR [of "gets_x f" for f] wp_gets_x wp_ret
        split: option.split NewTaskFile.split)
qed

lemma commit_wp:
  assumes "reached i k Over x \<or> reached i k Handed x"
    and "\<And>y. settled i k Done y \<Longrightarrow> Q () y" and "\<And>e y. ordered i k y \<Longrightarrow> E e y"
  shows "wp (worker_report i (commit_op st m)) Q E x"
  using assms(1) unfolding commit_op_def
  by (elim disjE; intro wp_reported [where s' = Done]) (auto intro: assms(2,3) failed_ordered)

lemma process_task_result_wp:
  assumes "settled i k Begun x"
  shows "wp (process_task_result from_json i uuid out) (\<lambda>_. ends i k) (\<lambda>_. ordered i k) x"
proof -
  let ?O = "\<lambda>_. ordered i k" and ?D = "settled i k Done"
  have closing: "wp m (\<lambda>_. ends i k) ?O y" if "keeps ?D m" "?D y" for m :: "unit exec" and y
    using that by (rule wp_kept) (auto intro: ends_done settled_ordered)
  have timeout: "wp (commit_after_timeout i uuid st) (\<lambda>_. ends i k) ?O y" if "reached i k Over y" for st y
    unfolding commit_after_timeout_def wp_thenR [of "worker_report i op" for op]
    using that by (auto intro!: commit_wp closing keeps_intros settled.keeps_announce settled.keeps_join_archive settled.keeps_clean_cache)
  have tail: "wp (thenR (worker_report i (commit_op st m)) (thenR (announce_task_state_ex uuid TaskCommitted 60) clean_cache))
      (\<lambda>_. ends i k) ?O y" if "reached i k Over y \<or> reached i k Handed y" for st m y
    unfolding wp_thenR [of "worker_report i op" for op]
    using that by (auto intro!: commit_wp closing keeps_intros settled.keeps_announce settled.keeps_clean_cache)
  have result: "wp (commit_result from_json i uuid fin st) (\<lambda>_. ends i k) ?O y" if "reached i k Over y" for fin st y
  proof -
    have stop: "wp (announce_task_state_ex uuid WorkerExited 60) (\<lambda>_. ends i k) ?O z"
      if "reached i k Over z" "task_cancelled z" for z
      by (rule wp_kept [where I = "\<lambda>x. ordered i k x \<and> task_cancelled x", OF ordered_stop.keeps_announce(2)])
        (use that in \<open>auto simp: ends_def intro: reached_ordered\<close>)
    have go: "wp (thenR (announce_task_state_ex uuid UploadResultFinished 60)
          (bindR (submit_new_task_if_present from_json i) (\<lambda>submitted.
           thenR (worker_report i (commit_op st (final_message fin submitted)))
           (thenR (announce_task_state_ex uuid TaskCommitted 60) clean_cache))))
         (\<lambda>_. ends i k) ?O z" if "reached i k Over z" for z
      unfolding wp_thenR [of "announce_task_state_ex u st 60" "bindR m f" for u st m f] wp_bindR
      by (rule wp_kept [where I = "reached i k Over", OF reached.keeps_announce(2) that])
        (auto intro!: wp_mono [OF submit_wp] tail intro: reached_ordered)
    show ?thesis
      unfolding commit_result_def wp_thenR [of "join_archive ph" for ph] wp_bindR [of "gets_x f" for f] wp_gets_x
      by (rule wp_kept [where I = "reached i k Over", OF reached.keeps_join_archive that])
        (auto intro: stop go reached_ordered)
  qed
  obtain fin st where out: "result_state out = (fin, st)" by (cases "result_state out")
  have uploads: "wp (thenR (spawn_archive out) (bindR (attempt (upload_loop 4 i)) (\<lambda>r.
             case r of Inl DeadlinePassed \<Rightarrow> commit_after_timeout i uuid st
             | Inl e \<Rightarrow> raise e | Inr _ \<Rightarrow> commit_result from_json i uuid fin st))) (\<lambda>_. ends i k) ?O y"
    if "settled i k Over y" for fin st y
    unfolding wp_thenR [of "spawn_archive t" for t] wp_bindR wp_attempt
    by (rule wp_kept [where I = "reached i k Over", OF reached.keeps_archive(1) settled_reached [OF that]])
      (auto simp: wp_raise failed_def intro!: wp_mono [OF upload_loop_wp] timeout result
        intro: reached_ordered split: WorkerError.split)
  have first: "wp (thenR (announce_task_state_ex uuid es 660) (worker_report i op)) (\<lambda>_. settled i k Over) ?O x"
    if "report_next Begun op = Some Over" for es op
    unfolding wp_thenR
    by (rule wp_kept [where I = "settled i k Begun", OF settled.keeps_announce(2) assms])
      (auto intro!: wp_reported [OF _ that] intro: settled_reached settled_ordered failed_ordered)
  show ?thesis
    unfolding process_task_result_def out prod.case wp_thenR [of "if b then m else n" for b m n] wp_if
    by (auto intro!: wp_mono [OF first] uploads)
qed

section \<open>An execution\<close>

lemma execute_task_wp:
  assumes "settled (wt_id task) k Begun x"
  shows "wp (execute_task from_json task) (\<lambda>_. ends (wt_id task) k) (\<lambda>_. ordered (wt_id task) k) x"
proof -
  let ?I = "settled (wt_id task) k Begun"
  have announced: "wp (announce_task_state_ex u st ex) (\<lambda>_. ?I) (\<lambda>_. ordered (wt_id task) k) y" if "?I y" for u st ex y
    by (rule wp_kept [where I = ?I, OF settled.keeps_announce(2) that]) (auto intro: settled_ordered)
  show ?thesis
    unfolding execute_task_def wp_thenR wp_bindR
    by (rule wp_mono [OF announced [OF assms]])
      (auto simp: wp_ret wp_bindR wp_thenR split: Flow.split option.split
        intro!: wp_mono [OF fetch_resources_wp] wp_mono [OF watch_stage_wp] wp_mono [OF run_child_wp]
          wp_mono [OF announced] process_task_result_wp)
qed



section \<open>The loops\<close>

lemma pause_loop_wp:
  assumes "\<And>y. task_cancelled y \<Longrightarrow> Q WakeCancelled y" and "\<And>w y. w \<noteq> WakeCancelled \<Longrightarrow> Q w y" and "\<And>y. E Waiting y"
  shows "wp pause Q E x"
  using assms by (auto simp: pause_def step_defs wp_eqs split: list.splits)

lemma send_plain_wp:
  assumes "\<And>a y. Q a y" and "\<And>y. E Waiting y"
  shows "wp (send_plain c) Q E x"
  using assms by (auto simp: send_plain_def send_def wp_eqs split: list.splits)

lemma attempt_wp_any: "wp (attempt m) (\<lambda>_ _. True) E x"
  by (auto simp: wp_def attempt_def split: prod.splits)

lemma task_loop_wp: "wp (task_loop n from_json) (\<lambda>_. task_cancelled) (\<lambda>e _. e = Waiting) x"
proof (induction n arbitrary: x)
  case (Suc n)
  let ?Q = "\<lambda>_. task_cancelled" and ?E = "\<lambda>e _. e = Waiting"
  have stop: "wp cancel ?Q ?E y" "wp force_exit ?Q ?E y" for y by (simp_all add: step_defs wp_eqs)
  have more: "wp (bindR pause (\<lambda>k. if k = WakeCancelled then ret () else task_loop n from_json)) ?Q ?E y" for y
    unfolding wp_bindR by (rule pause_loop_wp) (auto simp: wp_ret Suc.IH)
  have after: "wp (case r of Inr _ \<Rightarrow> task_loop n from_json | Inl Waiting \<Rightarrow> raise Waiting
      | Inl _ \<Rightarrow> thenR cancel (task_loop n from_json)) ?Q ?E y" for r :: "WorkerError + unit" and y
    by (auto simp: Suc.IH wp_raise wp_thenR cancel_def wp_update_x split: sum.split WorkerError.split)
  have exec: "wp (bindR (attempt (execute_task from_json task)) (\<lambda>r. case r of Inr _ \<Rightarrow> task_loop n from_json
      | Inl Waiting \<Rightarrow> raise Waiting | Inl _ \<Rightarrow> thenR cancel (task_loop n from_json))) ?Q ?E y" for task y
    unfolding wp_bindR by (rule wp_True_mono [OF attempt_wp_any]) (rule after)
  show ?case
    unfolding task_loop.simps wp_bindR [of "gets_x f" for f] wp_gets_x wp_if set_path_def
      wp_thenR [of "update_x f" for f] wp_update_x wp_bindR [of "send_plain c" for c]
    by (auto simp: wp_ret stop more exec intro!: send_plain_wp split: HttpAnswer.split option.split)
qed (simp add: wp_eqs)

lemma heartbeat_loop_wp: "wp (heartbeat_loop n) (\<lambda>_. task_cancelled) (\<lambda>e _. e = Waiting) x"
proof (induction n arbitrary: x)
  case (Suc n)
  let ?Q = "\<lambda>_. task_cancelled" and ?E = "\<lambda>e _. e = Waiting"
  have stop: "wp cancel ?Q ?E y" "wp force_exit ?Q ?E y" for y by (simp_all add: step_defs wp_eqs)
  show ?case
    unfolding heartbeat_loop.simps wp_bindR
    by (auto simp: wp_ret wp_bindR stop Suc.IH intro!: send_plain_wp pause_loop_wp split: HttpAnswer.split)
qed (simp add: wp_eqs)


section \<open>Watched tasks\<close>

text \<open>The actions by which a worker learns that the task \<open>u\<close> has reached the state \<open>st\<close>: a message of the
  subscription, the value stored in Redis, or the answer of the coordinator.\<close>

fun observes :: "uuid \<Rightarrow> TaskExecState \<Rightarrow> Action \<Rightarrow> bool" where
  "observes u st (Heard v n) \<longleftrightarrow> v = u \<and> exec_is_reach (exec_from_i32 n) st"
| "observes u st (GotState v n) \<longleftrightarrow> v = u \<and> exec_is_reach (exec_from_i32 n) st"
| "observes u st (Exchange (GetPath (TaskPath v)) a) \<longleftrightarrow> v = u \<and> answer_reaches st a"
| "observes u st _ \<longleftrightarrow> False"

definition seen :: "uuid \<Rightarrow> TaskExecState \<Rightarrow> nat \<Rightarrow> Executor \<Rightarrow> bool" where
  "seen u st k x \<longleftrightarrow> (\<exists>a \<in> set (new_actions k x). observes u st a)"

definition longer :: "nat \<Rightarrow> Executor \<Rightarrow> bool" where
  "longer k x \<longleftrightarrow> k \<le> length (trace x)"

interpretation longer: worker_frame "longer k" "\<lambda>_. True" for k
  by unfold_locales (auto simp: longer_def calm_updateD)

lemma seen_act:
  "longer k x \<Longrightarrow> seen u st k (x\<lparr>trace := trace x @ [a]\<rparr>) \<longleftrightarrow> seen u st k x \<or> observes u st a"
  by (auto simp: longer_def seen_def new_actions_def)

lemma poll_task_seen:
  assumes "longer k x"
  shows "wp (poll_task u st) (\<lambda>r y. longer k y \<and> (r \<longrightarrow> seen u st k y)) (\<lambda>_ _. True) x"
  using assms
  by (auto simp: poll_task_def get_task_state_def step_defs wp_eqs reaches_def longer_def seen_def new_actions_def
      split: list.splits option.splits)

lemma watch_loop_seen: "longer k x \<Longrightarrow> wp (watch_loop n u st) (\<lambda>_. seen u st k) (\<lambda>_ _. True) x"
proof (induction n arbitrary: x)
  case (Suc n)
  have ev: "wp next_watch_event (\<lambda>_. longer k) (\<lambda>_ _. True) x"
    using keeps_wp [OF longer.keeps_watch(2) Suc.prems] by (rule wp_mono) auto
  have heard: "seen u st k (y\<lparr>trace := trace y @ [Heard u v]\<rparr>)"
    if "longer k y" "exec_is_reach (exec_from_i32 v) st" for y v
    using that by (simp add: seen_act)
  show ?case unfolding watch_loop.simps wp_bindR
    by (rule wp_mono [OF ev])
      (auto simp: wp_eqs Suc.IH heard longer_def intro!: wp_mono [OF poll_task_seen] split: WatchEvent.split option.split)
qed (simp add: wp_eqs)

lemma poll_loop_seen: "longer k x \<Longrightarrow> wp (poll_loop n u st) (\<lambda>_. seen u st k) (\<lambda>_ _. True) x"
proof (induction n arbitrary: x)
  case (Suc n)
  have sl: "wp watch_sleep (\<lambda>_. longer k) (\<lambda>_ _. True) x"
    using keeps_wp [OF longer.keeps_watch(3) Suc.prems] by (rule wp_mono) auto
  show ?case unfolding poll_loop.simps wp_bindR wp_thenR
    by (rule wp_mono [OF sl]) (auto simp: wp_eqs Suc.IH intro!: wp_mono [OF poll_task_seen])
qed (simp add: wp_eqs)

lemma watch_task_seen:
  assumes "longer k x"
  shows "wp (watch_task u st) (\<lambda>_. seen u st k) (\<lambda>_ _. True) x"
proof -
  have "longer k (x\<lparr>trace := trace x @ [Subscribe u]\<rparr>)" using assms by (simp add: longer_def)
  then show ?thesis
    unfolding watch_task_def wp_bindR wp_gets_x wp_if wp_thenR wp_act wp_looped
    using watch_loop_seen poll_loop_seen assms by (simp del: watch_loop.simps poll_loop.simps)
qed

lemma watch_stage_seen:
  assumes w: "watch (wt_spec task) = Some (u, st)" and x: "task_redis_conn x \<and> task_redis_pubsub x" and k: "longer k x"
  shows "wp (watch_stage task) (\<lambda>f y. f = Proceed \<longrightarrow> seen u st k y) (\<lambda>_ _. True) x"
proof -
  let ?Q = "\<lambda>f y. f = Proceed \<longrightarrow> seen u st k y"
  have left: "wp (thenR m (thenR m' (ret Leave))) ?Q (\<lambda>_ _. True) y" for m m' :: "unit exec" and y
    unfolding wp_thenR by (rule wp_True_mono [OF wp_True], rule wp_True_mono [OF wp_True]) (simp add: wp_ret)
  have body: "wp (bindR (attempt (thenR (watch_guard Quiet) (watch_task u st))) (\<lambda>r.
                 case r of
                   Inr _ \<Rightarrow> ret Proceed
                 | Inl Cancelled_Wait \<Rightarrow>
                     thenR (unsubscribe_task_exec_state u)
                     (thenR (announce_task_state_ex (wt_uuid task) WorkerExited 60) (ret Leave))
                 | Inl DeadlinePassed \<Rightarrow>
                     thenR (unsubscribe_task_exec_state u)
                     (thenR (give_up task TaskResultMessage.WatchTimeout
                               (announce_task_state_ex (wt_uuid task) TaskExecState.WatchTimeout 60)) (ret Leave))
                 | Inl e \<Rightarrow> raise e)) ?Q (\<lambda>_ _. True) y" if "longer k y" for y
    unfolding wp_bindR wp_attempt wp_thenR [of "watch_guard j" for j] wp_watch_guard
    using that by (auto simp: wp_ret wp_raise left intro!: wp_mono [OF watch_task_seen] split: WorkerError.split)
  show ?thesis
    unfolding watch_stage_def w option.case prod.case wp_bindR [of "gets_x f" for f] wp_gets_x if_P [OF x]
      wp_thenR [of "announce_task_state v s" for v s]
    by (rule wp_kept [where I = "longer k", OF longer.keeps_announce(1) k]) (auto intro: body)
qed

text \<open>No command has been started since the trace had length \<open>k\<close>.\<close>

fun no_spawn :: "Action \<Rightarrow> bool" where
  "no_spawn (Spawn _ _) = False"
| "no_spawn _ = True"

lemma plain_no_spawn: "plain a \<Longrightarrow> no_spawn a"
  by (cases a) auto

interpretation unstarted: worker_frame "all_new no_spawn k" no_spawn for k
  by (rule all_new_frame) (rule plain_no_spawn)

definition seen_before_start :: "uuid \<Rightarrow> TaskExecState \<Rightarrow> nat \<Rightarrow> Executor \<Rightarrow> bool" where
  "seen_before_start u st k x \<longleftrightarrow>
     longer k x \<and> (\<exists>a \<in> set (takeWhile no_spawn (new_actions k x)). observes u st a)"

lemma takeWhile_grows: "set (takeWhile P as) \<subseteq> set (takeWhile P (as @ bs))"
  by (induction as) auto

interpretation seen_before_start: worker_frame "seen_before_start u st k" "\<lambda>_. True" for u st k
proof (unfold_locales, goal_cases)
  case (2 a x)
  then show ?case using takeWhile_grows [of no_spawn "new_actions k x" "[a]"]
    by (auto simp: seen_before_start_def longer_def new_actions_def)
qed (auto simp: seen_before_start_def longer_def new_actions_def calm_updateD)

lemma seen_unstarted:
  assumes "all_new no_spawn k x" and "seen u st k x"
  shows "seen_before_start u st k x"
proof -
  have "takeWhile no_spawn (new_actions k x) = new_actions k x"
    using assms(1) by (simp add: all_new_def list_all_iff takeWhile_eq_all_conv)
  then show ?thesis using assms unfolding seen_before_start_def seen_def longer_def all_new_def by metis
qed

text \<open>C18. A task that watches another one is not started too early: with a connection to Redis, the command runs
  only after the worker has seen, in a message, in the stored value or in an answer of the coordinator, that the
  watched task has reached the state that was asked for.\<close>

theorem watch_before_run:
  assumes "watch (wt_spec task) = Some (u, st)" and "task_redis_conn x \<and> task_redis_pubsub x"
    and "execute_task from_json task x = (r, x')" and "Spawn cmd env \<in> set (drop (length (trace x)) (trace x'))"
  shows "\<exists>a \<in> set (takeWhile no_spawn (drop (length (trace x)) (trace x'))). observes u st a"
proof -
  let ?k = "length (trace x)"
  let ?N = "all_new no_spawn ?k" and ?S = "seen_before_start u st ?k"
  let ?R = "\<lambda>y. ?N y \<or> ?S y"
  let ?F = "\<lambda>y. task_redis_conn y \<and> task_redis_pubsub y"
  let ?C = "\<lambda>y. ?N y \<and> ?F y"
  have before: "wp m (\<lambda>_. ?C) (\<lambda>_. ?R) y" if "keeps ?N m" "keeps ?F m" "?C y" for m :: "'a exec" and y
  proof -
    from wp_conjI [OF keeps_wp [OF that(1)] keeps_wp [OF that(2)]] that(3)
    have "wp m (\<lambda>_. ?C) (\<lambda>_. ?C) y" by blast
    then show ?thesis by (rule wp_mono) auto
  qed
  have rest: "keeps ?S (bindR (run_child task) (\<lambda>out. case out of None \<Rightarrow> ret () | Some output \<Rightarrow>
        thenR (announce_task_state_ex (wt_uuid task) UploadResult 660)
          (process_task_result from_json (wt_id task) (wt_uuid task) output)))"
  proof -
    have "keeps ?S (process_task_result from_json (wt_id task) (wt_uuid task) out)" for out
      by (cases "result_state out") (rule seen_before_start.keeps_process_task_result, auto)
    then show ?thesis by (intro keeps_intros seen_before_start.keeps_run_child seen_before_start.keeps_announce) auto
  qed
  have watching: "wp (watch_stage task) (\<lambda>f y. if f = Proceed then ?S y else ?R y) (\<lambda>_. ?R) y" if "?C y" for y
  proof -
    have "wp (watch_stage task) (\<lambda>f y. (f = Proceed \<longrightarrow> seen u st ?k y) \<and> ?N y) (\<lambda>_ y. True \<and> ?N y) y"
      using that by (intro wp_conjI watch_stage_seen [OF assms(1)] keeps_wp [OF unstarted.keeps_before_child(2)])
        (auto simp: longer_def all_new_def)
    then show ?thesis by (rule wp_mono) (auto intro: seen_unstarted)
  qed
  have start: "?C x" using assms(2) all_new_start [of no_spawn x] by simp
  have "wp (execute_task from_json task) (\<lambda>_. ?R) (\<lambda>_. ?R) x"
    unfolding execute_task_def wp_thenR [of "announce_task_state_ex v s e" "bindR m f" for v s e m f]
      wp_bindR [of "fetch_resources t rs" for t rs]
  proof (rule wp_mono [OF before [OF unstarted.keeps_announce(2) connected.keeps_announce(2) start]])
    fix y assume "?C y"
    show "wp (fetch_resources task (resources (wt_spec task))) (\<lambda>f. wp (case f of Proceed \<Rightarrow>
           bindR (watch_stage task) (\<lambda>f. case f of Proceed \<Rightarrow> bindR (run_child task) (\<lambda>out. case out of None \<Rightarrow> ret ()
             | Some output \<Rightarrow> thenR (announce_task_state_ex (wt_uuid task) UploadResult 660)
                (process_task_result from_json (wt_id task) (wt_uuid task) output)) | Leave \<Rightarrow> ret ()) | Leave \<Rightarrow> ret ())
           (\<lambda>_. ?R) (\<lambda>_. ?R)) (\<lambda>_. ?R) y"
    proof (rule wp_mono [OF before [OF unstarted.keeps_before_child(1) connected.keeps_before_child(1) \<open>?C y\<close>]], goal_cases)
      case (3 f z)
      then show ?case
        by (cases f) (auto simp: wp_ret wp_bindR [of "watch_stage task"] split: Flow.split
            intro!: wp_mono [OF watching] wp_kept [OF rest])
    qed auto
  qed auto
  with assms(3) have "?R x'" by (auto dest: wp_sndD)
  with assms(4) show ?thesis
    by (auto simp: all_new_def new_actions_def list_all_iff seen_before_start_def)
qed

section \<open>What a commit says\<close>

text \<open>The commits that a result allows: its exit status, and a message that says how it ended.\<close>

fun commit_of :: "TaskResult \<Rightarrow> Action \<Rightarrow> bool" where
  "commit_of out (Exchange (PostReport p i (Commit r)) a) \<longleftrightarrow>
     exit_status r = get_exit_status (get_output out) \<and>
     msg r \<in> set (case out of
       TaskFinish _ \<Rightarrow> [None, Some SubmitNewTaskFailed, Some TaskResultMessage.UploadResultTimeout]
     | TaskTimeout _ \<Rightarrow> [Some TaskResultMessage.ExecTimeout, Some TaskResultMessage.UploadResultTimeout])"
| "commit_of out _ \<longleftrightarrow> True"

lemma plain_commit_of: "plain a \<Longrightarrow> commit_of out a"
  by (cases "(out, a)" rule: commit_of.cases) auto


section \<open>A sample run\<close>

definition quiet :: "nat \<Rightarrow> Response \<Rightarrow> HttpAnswer \<times> Interrupt" where
  "quiet s r = (Answered s (Json r), Quiet)"

definition sample_cache :: Cache where
  "sample_cache = empty_cache\<lparr>c_result := True\<rparr>"

definition sample_world :: World where
  "sample_world =
     \<lparr>http = [quiet 200 (RReported None), quiet 200 (RReported (Some ''url'')), quiet 200 RUnit, quiet 200 (RReported None)],
      wakes = [], downloads = [], watch_events = [(WMessage 9 (Some 19), Quiet)], gets = [],
      children = [ChildExited 3 [] [] sample_cache], graces = [], late_exits = [],
      archives = [(Compressed 5, Quiet)], io_results = replicate 8 True\<rparr>"

definition sample_executor :: Executor where
  "sample_executor =
     \<lparr>task_url = Workers, task_cancelled = False, coordinator_force_exit = False, task_cache_path = ''/cache'',
      task_redis_conn = True, task_redis_pubsub = True, cache = empty_cache, archive = Ended True,
      archive_barred = False, world = sample_world, trace = []\<rparr>"

definition sample_fetched :: WorkerTaskResp where
  "sample_fetched =
     \<lparr>wt_id = 1, wt_uuid = 7, wt_timeout = 60, wt_upstream_task_uuid = None,
      wt_spec = \<lparr>args = [''run''], envs = [], resources = [], terminal_output = False,
        watch = Some (9, TaskCommitted)\<rparr>\<rparr>"

lemma sample_run:
  "execute_task (\<lambda>_. None) sample_fetched sample_executor =
     (Inr (), snd (execute_task (\<lambda>_. None) sample_fetched sample_executor))"
  "\<not> task_cancelled (snd (execute_task (\<lambda>_. None) sample_fetched sample_executor))"
proof -
  have "fst (execute_task (\<lambda>_. None) sample_fetched sample_executor) = Inr ()" by code_simp
  then show "execute_task (\<lambda>_. None) sample_fetched sample_executor =
     (Inr (), snd (execute_task (\<lambda>_. None) sample_fetched sample_executor))" by (metis prod.collapse)
  show "\<not> task_cancelled (snd (execute_task (\<lambda>_. None) sample_fetched sample_executor))" by code_simp
qed


theorem watch_before_run_witness:
  "\<exists>a \<in> set (takeWhile no_spawn (trace (snd (execute_task (\<lambda>_. None) sample_fetched sample_executor)))). observes 9 TaskCommitted a"
proof -
  let ?t = "trace (snd (execute_task (\<lambda>_. None) sample_fetched sample_executor))"
  have "list_ex (\<lambda>a. \<not> no_spawn a) (drop (length (trace sample_executor)) ?t)" by code_simp
  then obtain a where a: "a \<in> set (drop (length (trace sample_executor)) ?t)" "\<not> no_spawn a" by (auto simp: list_ex_iff)
  obtain cmd env where "a = Spawn cmd env" using a(2) by (cases a) auto
  with a watch_before_run [OF _ _ sample_run(1), of 9 TaskCommitted cmd env] show ?thesis
    by (simp add: sample_fetched_def sample_executor_def)
qed

section \<open>Gaps\<close>

text \<open>Without a connection to Redis the watch of a task is ignored.\<close>

lemma watch_without_redis:
  "\<not> (task_redis_conn x \<and> task_redis_pubsub x) \<Longrightarrow> watch_stage task x = (Inr Proceed, x)"
  by (auto simp: watch_stage_def bindR_def gets_x_def ret_def split: option.split)

text \<open>The output of a command that was stopped at its timeout is lost.\<close>

lemma timeout_loses_output:
  "wp (terminate_child task reaped)
     (\<lambda>r _. \<forall>o1 o2 st. r = Some (TaskTimeout (WithLog o1 o2 st)) \<longrightarrow> o1 = [] \<and> o2 = []) (\<lambda>_ _. True) x"
  by (auto simp: terminate_child_def collect_late_def next_grace_def kill_child_def announce_task_state_ex_def
      set_task_state_ex_def publish_state_def step_defs wp_eqs split: list.split GraceEnd.split)

text \<open>A task that was given up before its command ran counts as having reached \<open>ExecSpawned\<close> for a watcher that
  reads Redis, and as not having reached it for a watcher that asks the coordinator.\<close>

lemma watchers_disagree:
  "exec_is_reach TaskCommitted ExecSpawned"
  "\<not> task_is_reach TaskState.Cancelled ExecSpawned (Some \<lparr>exit_status = 0, msg = Some ResourceNotFound\<rparr>)"
  by (simp_all add: exec_is_reach_def)

text \<open>A resource that was downloaded before the next one is missing stays in the cache of the worker, which goes
  on with the next task.\<close>

definition two_resources :: WorkerTaskResp where
  "two_resources = sample_fetched\<lparr>wt_spec := (wt_spec sample_fetched)\<lparr>watch := None,
     resources := [\<lparr>remote_file = Attachment ''secret'', local_path = ''f''\<rparr>, \<lparr>remote_file = Attachment ''gone'', local_path = ''g''\<rparr>]\<rparr>\<rparr>"

definition leaking_executor :: Executor where
  "leaking_executor = sample_executor\<lparr>world := sample_world\<lparr>downloads := [DlDone],
     http := [quiet 200 (RLink (''url'', 1)), quiet 404 RUnit, quiet 200 (RReported None), quiet 200 (RReported None)]\<rparr>\<rparr>"

lemma given_up_task_leaves_resources:
  "case execute_task (\<lambda>_. None) two_resources leaking_executor of (r, x) \<Rightarrow>
     r = Inr () \<and> \<not> task_cancelled x \<and> c_resources (cache x) = [(''/cache/resource/f'', Attachment ''secret'')]"
  by code_simp

end
