(* ===== verification/Http_Routes.thy ===== *)
theory Http_Routes
  imports Worker_Process
begin

text \<open>
  The wire between the clients and the coordinator: HTTP requests, the route tables of \<open>api/\<close>, and the answer
  of the coordinator to a request.

  What the sources leave to libraries is the record \<open>HttpStack\<close>: how a URL path travels (\<open>url\<close>, \<open>reqwest\<close>
  and \<open>hyper\<close>), which of several matching routes axum takes, and the status of a request that axum refuses
  before a handler sees it. \<open>good_stack\<close> is what their documentation promises. A JSON document is the value of
  the structure whose derived instances write and read it, one constructor per structure of \<open>schema.rs\<close>; a
  \<open>HashSet\<close> or \<open>HashMap\<close> in it is the list that the receiver iterates over.
\<close>

section \<open>Requests\<close>

datatype Method = GET | POST | PUT | DELETE

datatype Body =
    NoBody
  | JUserLogin string string bool
  | JUserChangePassword string string
  | JCreateUser string string bool
  | JAdminChangePassword string
  | JChangeUserState UserState
  | JChangeGroupStorageQuota string
  | JChangeUserGroupQuota string
  | JCreateGroup string
  | JRegisterWorker "string list" "string list" "string list" "u64 option"
  | JReportTask i64 ReportTaskOp
  | JUploadAttachment string u64
  | JUploadArtifact ArtifactContentType u64
  | JSubmitTask SubmitTaskReq
  | JTasksSubmit "SubmitTaskReq list"
  | JChangeTask ChangeTaskReq
  | JUpdateTaskLabels "string list"
  | JTasksQuery TasksQueryReq
  | JTasksCancelByFilter TasksCancelByFilterReq
  | JTasksCancelByUuids "uuid list"
  | JArtifactsDownloadByFilter ArtifactsByFilterReq
  | JArtifactsDownloadByUuids "uuid list" ArtifactContentType
  | JArtifactsDeleteByFilter ArtifactsByFilterReq
  | JArtifactsDeleteByUuids "uuid list" ArtifactContentType
  | JAttachmentsQuery AttachmentsQueryReq
  | JAttachmentsDownloadByFilter "string option" "nat option" "nat option"
  | JAttachmentsDownloadByKeys "string list"
  | JAttachmentsDeleteByFilter "string option" "nat option" "nat option"
  | JAttachmentsDeleteByKeys "string list"
  | JUpdateUserGroupRole "(string \<times> UserGroupRole) list"
  | JRemoveUserGroupRole "string list"
  | JReplaceWorkerTags "string list"
  | JReplaceWorkerLabels "string list"
  | JUpdateGroupWorkerRole "(string \<times> GroupWorkerRole) list"
  | JRemoveGroupWorkerRole "string list"
  | JWorkersQuery WorkersQueryReq
  | JWorkersShutdownByFilter WorkersShutdownByFilterReq
  | JWorkersShutdownByUuids "uuid list" WorkerShutdownOp
  | JShutdown string

type_synonym query_params = "(string \<times> string) list"

record HttpRequest =
  rq_method :: Method
  rq_path :: string
  rq_query :: query_params
  rq_bearer :: "string option"
  rq_body :: Body

section \<open>Routes\<close>

text \<open>A segment of a route: a text, \<open>{name}\<close>, or \<open>{*name}\<close>.\<close>

datatype Seg = Static string | Param | Rest

text \<open>The parameters that a route captures from the segments of a path, if it matches them. A parameter is never
  empty.\<close>

fun captures :: "Seg list \<Rightarrow> string list \<Rightarrow> string list option" where
  "captures [] [] = Some []"
| "captures (Static s # ps) (x # xs) = (if s = x then captures ps xs else None)"
| "captures (Param # ps) (x # xs) = (if x = [] then None else map_option ((#) x) (captures ps xs))"
| "captures [Rest] (x # xs) = (if x = [] then None else Some [join_on (CHR ''/'') (x # xs)])"
| "captures _ _ = None"

definition route_matches :: "string list \<Rightarrow> Seg list \<Rightarrow> bool" where
  "route_matches path p \<longleftrightarrow> captures p path \<noteq> None"

text \<open>Of two routes that match, axum takes the one with a text where the other has a parameter, and a parameter
  before the rest of the path.\<close>

fun preferred :: "Seg list \<Rightarrow> Seg list \<Rightarrow> bool" where
  "preferred (Static s # ps) (Static t # qs) = preferred ps qs"
| "preferred (Static s # ps) (Param # qs) = True"
| "preferred (Static s # ps) (Rest # qs) = True"
| "preferred (Param # ps) (Param # qs) = preferred ps qs"
| "preferred (Param # ps) (Rest # qs) = True"
| "preferred _ _ = False"

record HttpStack =
  hs_target :: "string \<Rightarrow> string list"
  hs_pick :: "Seg list list \<Rightarrow> string list \<Rightarrow> Seg list option"
  hs_reject :: "HttpRequest \<Rightarrow> nat"

definition good_pick :: "(Seg list list \<Rightarrow> string list \<Rightarrow> Seg list option) \<Rightarrow> bool" where
  "good_pick pick \<longleftrightarrow>
     (\<forall>routes path. case pick routes path of
        None \<Rightarrow> (\<forall>q \<in> set routes. \<not> route_matches path q)
      | Some p \<Rightarrow> p \<in> set routes \<and> route_matches path p \<and>
          (\<forall>q \<in> set routes. route_matches path q \<longrightarrow> q = p \<or> preferred p q))"

text \<open>The characters that a path carries unchanged or that are encoded and decoded again: printable ASCII but for
  the percent sign, which \<open>set_path\<close> leaves as it is, and the backslash, which it takes for a slash.\<close>

definition path_char :: "char \<Rightarrow> bool" where
  "path_char c \<longleftrightarrow> (let n = of_char c :: nat in 32 \<le> n \<and> n \<le> 126 \<and> n \<noteq> 37 \<and> n \<noteq> 92)"

definition path_segment :: "string \<Rightarrow> bool" where
  "path_segment s \<longleftrightarrow> s \<noteq> [] \<and> s \<noteq> ''.'' \<and> s \<noteq> ''..'' \<and> list_all path_char s"

definition good_target :: "(string \<Rightarrow> string list) \<Rightarrow> bool" where
  "good_target target \<longleftrightarrow> (\<forall>p. list_all path_segment (split_on (CHR ''/'') p) \<longrightarrow> target p = split_on (CHR ''/'') p)"

definition good_stack :: "HttpStack \<Rightarrow> bool" where
  "good_stack H \<longleftrightarrow> good_target (hs_target H) \<and> good_pick (hs_pick H) \<and> (\<forall>r. \<not> is_success (hs_reject H r))"

section \<open>The text of parameters\<close>

text \<open>The derived \<open>Serialize\<close> and \<open>Deserialize\<close> of \<open>ArtifactContentType\<close> with their aliases.\<close>

fun content_type_text :: "ArtifactContentType \<Rightarrow> string" where
  "content_type_text Result = ''result''"
| "content_type_text ExecLog = ''exec-log''"
| "content_type_text StdLog = ''std-log''"

definition content_type_of_text :: "string \<Rightarrow> ArtifactContentType option" where
  "content_type_of_text s =
     (if s \<in> {''result'', ''Result'', ''RESULT''} then Some Result
      else if s \<in> {''exec-log'', ''exec'', ''EXEC'', ''Exec'', ''execlog'', ''EXECLOG'', ''Execlog'', ''ExecLog''}
        then Some ExecLog
      else if s \<in> {''std-log'', ''std'', ''STD'', ''Std'', ''stdlog'', ''Stdlog'', ''STDLOG'', ''terminal'',
                   ''Terminal'', ''TERMINAL''} then Some StdLog
      else None)"

lemma content_type_text_roundtrip [simp]: "content_type_of_text (content_type_text ct) = Some ct"
  by (cases ct) (simp_all add: content_type_of_text_def)

text \<open>\<open>Query<WorkerShutdown>\<close>: a field that occurs twice and an unknown operation are refused. \<open>HashSet\<close> parameters
  (\<open>axum_extra::extract::Query\<close>) take every value of their name.\<close>

definition shutdown_op_of_text :: "string \<Rightarrow> WorkerShutdownOp option" where
  "shutdown_op_of_text s =
     (if s \<in> {''Graceful'', ''graceful''} then Some Graceful
      else if s \<in> {''Force'', ''force''} then Some Force
      else None)"

definition params_of :: "string \<Rightarrow> query_params \<Rightarrow> string list" where
  "params_of name q = remdups (map snd (filter (\<lambda>(n, _). n = name) q))"

definition shutdown_params :: "query_params \<Rightarrow> WorkerShutdownOp option option" where
  "shutdown_params q =
     (case filter (\<lambda>(n, _). n = ''op'') q of
        [] \<Rightarrow> Some None
      | [(_, v)] \<Rightarrow> map_option Some (shutdown_op_of_text v)
      | _ \<Rightarrow> None)"

section \<open>Route tables\<close>

text \<open>A handler sees the captured parameters, the query and the body; it yields the request that it serves, or
  \<open>None\<close> when one of its extractors fails.\<close>

type_synonym 'r handler = "string list \<Rightarrow> query_params \<Rightarrow> Body \<Rightarrow> 'r option"

type_synonym 'r route = "Seg list \<times> (Method \<times> 'r handler) list"

definition no_params :: "(query_params \<Rightarrow> Body \<Rightarrow> 'r option) \<Rightarrow> 'r handler" where
  "no_params f caps q b = (case caps of [] \<Rightarrow> f q b | _ \<Rightarrow> None)"

definition by_name :: "(string \<Rightarrow> query_params \<Rightarrow> Body \<Rightarrow> 'r option) \<Rightarrow> 'r handler" where
  "by_name f caps q b = (case caps of [n] \<Rightarrow> f n q b | _ \<Rightarrow> None)"

definition by_key :: "(string \<Rightarrow> string \<Rightarrow> 'r) \<Rightarrow> 'r handler" where
  "by_key f caps q b = (case caps of [n, k] \<Rightarrow> Some (f n k) | _ \<Rightarrow> None)"

definition by_uuid :: "(string \<Rightarrow> uuid option) \<Rightarrow> (uuid \<Rightarrow> query_params \<Rightarrow> Body \<Rightarrow> 'r option) \<Rightarrow> 'r handler" where
  "by_uuid U f caps q b =
     (case caps of [x] \<Rightarrow> (case U x of Some u \<Rightarrow> f u q b | None \<Rightarrow> None) | _ \<Rightarrow> None)"

definition by_artifact :: "(string \<Rightarrow> uuid option) \<Rightarrow> (uuid \<Rightarrow> ArtifactContentType \<Rightarrow> 'r) \<Rightarrow> 'r handler" where
  "by_artifact U f caps q b =
     (case caps of [x, c] \<Rightarrow> (case (U x, content_type_of_text c) of (Some u, Some ct) \<Rightarrow> Some (f u ct) | _ \<Rightarrow> None)
      | _ \<Rightarrow> None)"

definition tasks_routes :: "(string \<Rightarrow> uuid option) \<Rightarrow> TaskRequest route list" where
  "tasks_routes U = [
     ([], [(POST, no_params (\<lambda>q b. case b of JSubmitTask r \<Rightarrow> Some (SubmitTask r) | _ \<Rightarrow> None))]),
     ([Param], [
       (GET, by_uuid U (\<lambda>u q b. Some (QueryTask u))),
       (PUT, by_uuid U (\<lambda>u q b. case b of JChangeTask r \<Rightarrow> Some (ChangeTask u r) | _ \<Rightarrow> None)),
       (DELETE, by_uuid U (\<lambda>u q b. Some (CancelTask u)))]),
     ([Param, Static ''labels''], [
       (PUT, by_uuid U (\<lambda>u q b. case b of JUpdateTaskLabels ls \<Rightarrow> Some (ChangeTaskLabels u ls) | _ \<Rightarrow> None))]),
     ([Param, Static ''download'', Static ''artifacts'', Param], [(GET, by_artifact U DownloadArtifact)]),
     ([Param, Static ''artifacts'', Param], [(DELETE, by_artifact U DeleteArtifact)]),
     ([Param, Static ''artifacts''], [
       (POST, by_uuid U (\<lambda>u q b. case b of JUploadArtifact ct n \<Rightarrow> Some (UploadArtifact u ct n) | _ \<Rightarrow> None))]),
     ([Static ''query''], [(POST, no_params (\<lambda>q b. case b of JTasksQuery r \<Rightarrow> Some (QueryTasks r) | _ \<Rightarrow> None))]),
     ([Static ''cancel''], [(POST, no_params (\<lambda>q b. case b of JTasksCancelByFilter r \<Rightarrow> Some (CancelTasks r) | _ \<Rightarrow> None))]),
     ([Static ''cancel'', Static ''list''], [
       (POST, no_params (\<lambda>q b. case b of JTasksCancelByUuids us \<Rightarrow> Some (CancelTasksByUuids us) | _ \<Rightarrow> None))]),
     ([Static ''download'', Static ''artifacts''], [
       (POST, no_params (\<lambda>q b. case b of JArtifactsDownloadByFilter r \<Rightarrow> Some (BatchDownloadArtifacts r) | _ \<Rightarrow> None))]),
     ([Static ''download'', Static ''artifacts'', Static ''list''], [
       (POST, no_params (\<lambda>q b. case b of JArtifactsDownloadByUuids us ct \<Rightarrow> Some (BatchDownloadArtifactsByUuids us ct)
                        | _ \<Rightarrow> None))]),
     ([Static ''delete'', Static ''artifacts''], [
       (POST, no_params (\<lambda>q b. case b of JArtifactsDeleteByFilter r \<Rightarrow> Some (BatchDeleteArtifacts r) | _ \<Rightarrow> None))]),
     ([Static ''delete'', Static ''artifacts'', Static ''list''], [
       (POST, no_params (\<lambda>q b. case b of JArtifactsDeleteByUuids us ct \<Rightarrow> Some (BatchDeleteArtifactsByUuids us ct)
                        | _ \<Rightarrow> None))]),
     ([Static ''submit''], [(POST, no_params (\<lambda>q b. case b of JTasksSubmit rs \<Rightarrow> Some (BatchSubmitTasks rs) | _ \<Rightarrow> None))])]"

definition groups_routes :: "GroupRequest route list" where
  "groups_routes = [
     ([], [(POST, no_params (\<lambda>q b. case b of JCreateGroup gn \<Rightarrow> Some (CreateGroup gn) | _ \<Rightarrow> None))]),
     ([Param], [(GET, by_name (\<lambda>gn q b. Some (GetGroup gn)))]),
     ([Param, Static ''users'', Static ''remove''], [
       (POST, by_name (\<lambda>gn q b. case b of JRemoveUserGroupRole us \<Rightarrow> Some (RemoveUserGroup gn us) | _ \<Rightarrow> None))]),
     ([Param, Static ''users''], [
       (PUT, by_name (\<lambda>gn q b. case b of JUpdateUserGroupRole rs \<Rightarrow> Some (UpdateUserGroup gn rs) | _ \<Rightarrow> None)),
       (DELETE, by_name (\<lambda>gn q b. Some (RemoveUserGroup gn (params_of ''users'' q))))]),
     ([Param, Static ''download'', Static ''attachments'', Rest], [(GET, by_key DownloadAttachment)]),
     ([Param, Static ''attachments'', Rest], [(GET, by_key QueryAttachment), (DELETE, by_key DeleteAttachment)]),
     ([Param, Static ''attachments''], [
       (POST, by_name (\<lambda>gn q b. case b of JUploadAttachment k n \<Rightarrow> Some (UploadAttachment gn k n) | _ \<Rightarrow> None))]),
     ([Param, Static ''attachments'', Static ''query''], [
       (POST, by_name (\<lambda>gn q b. case b of JAttachmentsQuery r \<Rightarrow> Some (QueryAttachments gn r) | _ \<Rightarrow> None))]),
     ([Param, Static ''download'', Static ''attachments''], [
       (POST, by_name (\<lambda>gn q b. case b of JAttachmentsDownloadByFilter k l f \<Rightarrow> Some (BatchDownloadAttachments gn k l f)
                          | _ \<Rightarrow> None))]),
     ([Param, Static ''download'', Static ''attachments'', Static ''list''], [
       (POST, by_name (\<lambda>gn q b. case b of JAttachmentsDownloadByKeys ks \<Rightarrow> Some (BatchDownloadAttachmentsByKeys gn ks)
                          | _ \<Rightarrow> None))]),
     ([Param, Static ''delete'', Static ''attachments''], [
       (POST, by_name (\<lambda>gn q b. case b of JAttachmentsDeleteByFilter k l f \<Rightarrow> Some (BatchDeleteAttachments gn k l f)
                          | _ \<Rightarrow> None))]),
     ([Param, Static ''delete'', Static ''attachments'', Static ''list''], [
       (POST, by_name (\<lambda>gn q b. case b of JAttachmentsDeleteByKeys ks \<Rightarrow> Some (BatchDeleteAttachmentsByKeys gn ks)
                          | _ \<Rightarrow> None))])]"

definition users_routes :: "UserRequest route list" where
  "users_routes = [
     ([Param, Static ''password''], [
       (POST, by_name (\<lambda>un q b. case b of JUserChangePassword old new \<Rightarrow> Some (ChangePassword un old new) | _ \<Rightarrow> None))]),
     ([Static ''groups''], [(GET, no_params (\<lambda>q b. Some QueryGroups))])]"

definition admin_routes :: "(string \<Rightarrow> uuid option) \<Rightarrow> AdminRequest route list" where
  "admin_routes U = [
     ([Static ''users''], [
       (POST, no_params (\<lambda>q b. case b of JCreateUser un pw a \<Rightarrow> Some (AdminCreateUser un pw a) | _ \<Rightarrow> None))]),
     ([Static ''users'', Param], [(DELETE, by_name (\<lambda>un q b. Some (AdminDeleteUser un)))]),
     ([Static ''users'', Param, Static ''password''], [
       (POST, by_name (\<lambda>un q b. case b of JAdminChangePassword pw \<Rightarrow> Some (AdminChangePassword un pw) | _ \<Rightarrow> None))]),
     ([Static ''users'', Param, Static ''group-quota''], [
       (POST, by_name (\<lambda>un q b. case b of JChangeUserGroupQuota x \<Rightarrow> Some (AdminChangeUserGroupQuota un x) | _ \<Rightarrow> None))]),
     ([Static ''users'', Param, Static ''state''], [
       (POST, by_name (\<lambda>un q b. case b of JChangeUserState st \<Rightarrow> Some (AdminChangeUserState un st) | _ \<Rightarrow> None))]),
     ([Static ''groups'', Param, Static ''storage-quota''], [
       (POST, by_name (\<lambda>gn q b. case b of JChangeGroupStorageQuota x \<Rightarrow> Some (AdminChangeGroupStorageQuota gn x)
                          | _ \<Rightarrow> None))]),
     ([Static ''workers'', Param], [
       (DELETE, by_uuid U (\<lambda>u q b. map_option (AdminShutdownWorker u) (shutdown_params q)))]),
     ([Static ''groups'', Param, Static ''attachments'', Rest], [(DELETE, by_key AdminDeleteAttachment)]),
     ([Static ''tasks'', Param, Static ''artifacts'', Param], [(DELETE, by_artifact U AdminDeleteArtifact)]),
     ([Static ''shutdown''], [(POST, no_params (\<lambda>q b. case b of JShutdown s \<Rightarrow> Some (AdminShutdown s) | _ \<Rightarrow> None))])]"

text \<open>The routes for users below \<open>/workers\<close>, and those for workers, among them the one that fetches a task.\<close>

definition workers_user_routes :: "(string \<Rightarrow> uuid option) \<Rightarrow> WorkerUserRequest route list" where
  "workers_user_routes U = [
     ([Param], [
       (GET, by_uuid U (\<lambda>u q b. Some (QueryWorker u))),
       (DELETE, by_uuid U (\<lambda>u q b. map_option (ShutdownWorker u) (shutdown_params q)))]),
     ([Param, Static ''tags''], [
       (PUT, by_uuid U (\<lambda>u q b. case b of JReplaceWorkerTags ts \<Rightarrow> Some (ReplaceWorkerTags u ts) | _ \<Rightarrow> None))]),
     ([Param, Static ''labels''], [
       (PUT, by_uuid U (\<lambda>u q b. case b of JReplaceWorkerLabels ls \<Rightarrow> Some (ReplaceWorkerLabels u ls) | _ \<Rightarrow> None))]),
     ([Param, Static ''groups'', Static ''remove''], [
       (DELETE, by_uuid U (\<lambda>u q b. case b of JRemoveGroupWorkerRole gs \<Rightarrow> Some (RemoveWorkerGroups u gs) | _ \<Rightarrow> None))]),
     ([Param, Static ''groups''], [
       (PUT, by_uuid U (\<lambda>u q b. case b of JUpdateGroupWorkerRole rs \<Rightarrow> Some (UpdateWorkerGroups u rs) | _ \<Rightarrow> None)),
       (DELETE, by_uuid U (\<lambda>u q b. Some (RemoveWorkerGroups u (params_of ''groups'' q))))]),
     ([], [(POST, no_params (\<lambda>q b. case b of JRegisterWorker ts ls gs lt \<Rightarrow> Some (RegisterWorkerReq ts ls gs lt) | _ \<Rightarrow> None))]),
     ([Static ''query''], [(POST, no_params (\<lambda>q b. case b of JWorkersQuery r \<Rightarrow> Some (QueryWorkers r) | _ \<Rightarrow> None))]),
     ([Static ''shutdown''], [
       (POST, no_params (\<lambda>q b. case b of JWorkersShutdownByFilter r \<Rightarrow> Some (ShutdownWorkers r) | _ \<Rightarrow> None))]),
     ([Static ''shutdown'', Static ''list''], [
       (POST, no_params (\<lambda>q b. case b of JWorkersShutdownByUuids us op \<Rightarrow> Some (ShutdownWorkersByUuids op us) | _ \<Rightarrow> None))])]"

datatype WorkerRoute = Do WorkerRequest | FetchNext

definition workers_routes :: "(string \<Rightarrow> uuid option) \<Rightarrow> WorkerRoute route list" where
  "workers_routes U = [
     ([], [(DELETE, no_params (\<lambda>q b. Some (Do Unregister)))]),
     ([Static ''heartbeat''], [(POST, no_params (\<lambda>q b. Some (Do SendHeartbeat)))]),
     ([Static ''tasks''], [
       (POST, no_params (\<lambda>q b. case b of JReportTask i op \<Rightarrow> Some (Do (ReportTask i op)) | _ \<Rightarrow> None)),
       (GET, no_params (\<lambda>q b. Some FetchNext))]),
     ([Static ''tasks'', Param], [(GET, by_uuid U (\<lambda>u q b. Some (Do (WorkerQueryTask u))))]),
     ([Static ''tasks'', Param, Static ''artifacts'', Param], [
       (GET, by_artifact U (\<lambda>u ct. Do (WorkerDownloadArtifact u ct)))]),
     ([Static ''tasks'', Param, Static ''attachments'', Rest], [
       (GET, \<lambda>caps q b. case caps of [x, k] \<Rightarrow> map_option (\<lambda>u. Do (WorkerDownloadAttachment u k)) (U x) | _ \<Rightarrow> None)])]"

section \<open>The coordinator's routes\<close>

datatype Routed = Run Request | Fetch string

type_synonym endpoint = "string option \<Rightarrow> Routed handler"

type_synonym routes = "(Seg list \<times> (Method \<times> endpoint) list) list"

definition nest :: "string \<Rightarrow> routes \<Rightarrow> routes" where
  "nest prefix rs = map (\<lambda>(p, ms). (Static prefix # p, ms)) rs"

text \<open>A route behind a middleware needs a bearer token.\<close>

definition with_token :: "(string \<Rightarrow> 'r \<Rightarrow> Routed) \<Rightarrow> 'r handler \<Rightarrow> endpoint" where
  "with_token wrap h bearer caps q b =
     (case bearer of None \<Rightarrow> None | Some t \<Rightarrow> map_option (wrap t) (h caps q b))"

definition layer :: "(string \<Rightarrow> 'r \<Rightarrow> Routed) \<Rightarrow> 'r route list \<Rightarrow> routes" where
  "layer wrap rs = map (\<lambda>(p, ms). (p, map (\<lambda>(m, h). (m, with_token wrap h)) ms)) rs"

fun worker_routed :: "string \<Rightarrow> WorkerRoute \<Rightarrow> Routed" where
  "worker_routed t (Do r) = Run (WorkerReq t r)"
| "worker_routed t FetchNext = Fetch t"

definition coordinator_routes :: "(string \<Rightarrow> uuid option) \<Rightarrow> routes" where
  "coordinator_routes U = [
     ([Static ''auth''], [(GET, with_token (\<lambda>t _. Run (UserReq t WhoAmI)) (no_params (\<lambda>q b. Some ())))]),
     ([Static ''health''], [(GET, \<lambda>_. no_params (\<lambda>q b. Some (Run Health)))]),
     ([Static ''login''], [
       (POST, \<lambda>_. no_params (\<lambda>q b. case b of JUserLogin un pw retain \<Rightarrow> Some (Run (Login un pw retain)) | _ \<Rightarrow> None))]),
     ([Static ''redis''], [(GET, with_token (\<lambda>t _. Run (UserReq t QueryRedis)) (no_params (\<lambda>q b. Some ())))])]
   @ nest ''users'' (layer (\<lambda>t r. Run (UserReq t r)) users_routes)
   @ nest ''admin'' (layer (\<lambda>t r. Run (AdminReq t r)) (admin_routes U))
   @ nest ''groups'' (layer (\<lambda>t r. Run (GroupReq t r)) groups_routes)
   @ nest ''workers'' (layer worker_routed (workers_routes U) @ layer (\<lambda>t r. Run (WorkerUserReq t r)) (workers_user_routes U))
   @ nest ''tasks'' (layer (\<lambda>t r. Run (TaskReq t r)) (tasks_routes U))"

text \<open>Routers that are merged may handle different methods of one path.\<close>

definition methods_at :: "routes \<Rightarrow> Seg list \<Rightarrow> (Method \<times> endpoint) list" where
  "methods_at rs p = concat (map snd (filter (\<lambda>(q, _). q = p) rs))"

definition route_request :: "HttpStack \<Rightarrow> routes \<Rightarrow> HttpRequest \<Rightarrow> Routed option" where
  "route_request H rs hr =
     (let path = hs_target H (rq_path hr) in
      case hs_pick H (map fst rs) path of
        None \<Rightarrow> None
      | Some p \<Rightarrow>
          (case (map_of (methods_at rs p) (rq_method hr), captures p path) of
             (Some h, Some caps) \<Rightarrow> h (rq_bearer hr) caps (rq_query hr) (rq_body hr)
           | _ \<Rightarrow> None))"

section \<open>Answers\<close>

fun status_number :: "StatusCode \<Rightarrow> nat" where
  "status_number OK_200 = 200"
| "status_number BAD_REQUEST = 400"
| "status_number UNAUTHORIZED = 401"
| "status_number FORBIDDEN = 403"
| "status_number NOT_FOUND = 404"
| "status_number CONFLICT = 409"
| "status_number INTERNAL_SERVER_ERROR = 500"

text \<open>The \<open>Display\<close> texts of the errors.\<close>

fun auth_error_text :: "AuthError \<Rightarrow> string" where
  "auth_error_text InvalidToken = ''Invalid token''"
| "auth_error_text WrongCredentials = ''Wrong credentials''"
| "auth_error_text PermissionDenied = ''Permission denied''"

fun s3_error_text :: "S3Error \<Rightarrow> string" where
  "s3_error_text (InvalidContentLength n) = ''Invalid content length '' @ int_to_string n"
| "s3_error_text (S3Failure m) = m"

fun api_error_text :: "ApiError \<Rightarrow> string" where
  "api_error_text InternalServerError = ''Internal server error''"
| "api_error_text (ApiAuthError e) = ''Authentication error: '' @ auth_error_text e"
| "api_error_text (InvalidRequest m) = ''Process request error: '' @ m"
| "api_error_text (AlreadyExists n) = ''User or group with same name '' @ n @ '' already exists''"
| "api_error_text (NotFound m) = m @ '' not found''"
| "api_error_text QuotaExceeded = ''Resource quota exceeded''"
| "api_error_text (PresignS3Error e) = s3_error_text e"

definition answer_of :: "ApiError + Response \<Rightarrow> HttpAnswer" where
  "answer_of r =
     (case r of
        Inr resp \<Rightarrow> Answered (status_number OK_200) (Json resp)
      | Inl err \<Rightarrow> Answered (status_number (get_status_code err)) (Other (api_error_text err)))"

text \<open>The coordinator as its clients see it: a request that no handler takes is refused by axum. A fetch that
  does not end leaves its client without an answer; by \<open>fetch_task_returns\<close> there is none.\<close>

definition coordinator_http ::
  "'q pq_ops \<Rightarrow> Deployment \<Rightarrow> ReqEnv \<Rightarrow> HttpStack \<Rightarrow> HttpRequest \<Rightarrow> Pool \<times> 'q TaskDispatcher \<Rightarrow>
   HttpAnswer \<times> Pool \<times> 'q TaskDispatcher" where
  "coordinator_http Q D e H hr = (\<lambda>(s, d).
     case route_request H (coordinator_routes (uuid_parse_str (dp_auth D))) hr of
       None \<Rightarrow> (Answered (hs_reject H hr) (Other ''''), s, d)
     | Some (Run r) \<Rightarrow> (case router D e r s of (x, s') \<Rightarrow> (answer_of x, s', d))
     | Some (Fetch t) \<Rightarrow>
         (case worker_fetch_task Q D e t s d of
            None \<Rightarrow> (SendFailed, s, d)
          | Some (x, s', d') \<Rightarrow> (answer_of x, s', d')))"

end
