(* ===== verification/Credentials.thy ===== *)
theory Credentials
  imports Http_Routes
begin

text \<open>
  The credential file of a client and the login that fills it (\<open>service/auth/cred.rs\<close>), and the state that the
  methods of the HTTP client share.

  The file holds one line \<open>user:token\<close> per user. The state of a client is its URL (a path, and a query that
  stays set once it is set), its credential, the files of its machine, and the world on the other side of the
  network, which a function of type \<open>net\<close> runs. \<open>cl_io\<close> says which of the coming file operations fail.
\<close>

section \<open>Lines\<close>

abbreviation newline :: char where
  "newline \<equiv> CHR 0x0A"

abbreviation carriage_return :: char where
  "carriage_return \<equiv> CHR 0x0D"

definition chomp :: "string \<Rightarrow> string" where
  "chomp l = (if l \<noteq> [] \<and> last l = carriage_return then butlast l else l)"

text \<open>\<open>AsyncBufReadExt::lines\<close>: a line ends with a newline, before which a carriage return is dropped; a last line
  without one counts if it is not empty.\<close>

definition file_lines :: "string \<Rightarrow> string list" where
  "file_lines s =
     (let ls = split_on newline s in map chomp (butlast ls) @ (if last ls = [] then [] else [last ls]))"

text \<open>\<open>expect_two!(line.splitn(2, ':'))\<close>\<close>

fun split_colon :: "string \<Rightarrow> (string \<times> string) option" where
  "split_colon [] = None"
| "split_colon (c # s) =
     (if c = CHR '':'' then Some ([], s) else map_option (\<lambda>(a, b). (c # a, b)) (split_colon s))"

section \<open>The credential file\<close>

definition credential_line :: "string \<Rightarrow> string \<Rightarrow> string" where
  "credential_line user token = user @ '':'' @ token"

fun find_credential :: "string \<Rightarrow> string list \<Rightarrow> (string \<times> string) option" where
  "find_credential user [] = None"
| "find_credential user (l # ls) =
     (if starts_with (user @ '':'') l
      then (case split_colon l of Some p \<Rightarrow> Some p | None \<Rightarrow> find_credential user ls)
      else find_credential user ls)"

definition extract_credential :: "string option \<Rightarrow> string list \<Rightarrow> (string \<times> string) option" where
  "extract_credential user ls =
     (case user of
        Some u \<Rightarrow> find_credential u ls
      | None \<Rightarrow> (case ls of [] \<Rightarrow> None | l # _ \<Rightarrow> split_colon l))"

definition replace_line :: "string \<Rightarrow> string \<Rightarrow> string \<Rightarrow> string" where
  "replace_line user token l = (if starts_with (user @ '':'') l then credential_line user token else l)"

text \<open>The new contents of the file, from the old ones if the file exists.\<close>

definition stored_credential :: "string \<Rightarrow> string \<Rightarrow> string option \<Rightarrow> string" where
  "stored_credential user token file =
     (case file of
        None \<Rightarrow> credential_line user token
      | Some s \<Rightarrow>
          (let ls = file_lines s;
               new = map (replace_line user token) ls;
               found = list_ex (starts_with (user @ '':'')) ls
           in join_on newline (if found then new else new @ [credential_line user token])))"

section \<open>The client\<close>

record 'w Client =
  cl_path :: string
  cl_query :: query_params
  cl_credential :: string
  cl_credential_path :: string
  cl_files :: "string \<rightharpoonup> string"
  cl_io :: "bool list"
  cl_world :: 'w

type_synonym 'w net = "HttpRequest \<Rightarrow> 'w \<Rightarrow> HttpAnswer \<times> 'w"

text \<open>\<open>Inner\<close> is an answer with an error status, \<open>StoreError\<close> one of the object store. A transport error is an
  answer that could not be sent, received or decoded; a bad document is a text that is not XML or not JSON.\<close>

datatype ClientError =
    ConnectionError
  | TransportError
  | Inner nat string
  | ServerError
  | Message string
  | FileError
  | NoCredentialPath
  | PromptError
  | StoreError string
  | BadDocument

type_synonym ('w, 'a) client = "('w Client, ClientError, 'a) rm"

text \<open>Sending a request, with the translation of the errors by \<open>map_reqwest_err\<close>.\<close>

definition exchange :: "'w net \<Rightarrow> HttpRequest \<Rightarrow> ('w, nat \<times> HttpBody) client" where
  "exchange N hr c =
     (case N hr (cl_world c) of
        (Answered st b, w) \<Rightarrow> (Inr (st, b), c\<lparr>cl_world := w\<rparr>)
      | (NoConnection, w) \<Rightarrow> (Inl ConnectionError, c\<lparr>cl_world := w\<rparr>)
      | (SendFailed, w) \<Rightarrow> (Inl TransportError, c\<lparr>cl_world := w\<rparr>))"

definition file_op :: "('w, unit) client" where
  "file_op c =
     (case cl_io c of
        [] \<Rightarrow> (Inr (), c)
      | ok # rest \<Rightarrow> (if ok then Inr () else Inl FileError, c\<lparr>cl_io := rest\<rparr>))"

definition modify_or_append_credential :: "string \<Rightarrow> string \<Rightarrow> string \<Rightarrow> ('w, unit) client" where
  "modify_or_append_credential path user token c =
     (if cl_files c path = None then thenR file_op (\<lambda>c. (Inr (), c\<lparr>cl_files := (cl_files c)(path \<mapsto> stored_credential user token None)\<rparr>)) c
      else thenR file_op (thenR file_op (\<lambda>c. (Inr (), c\<lparr>cl_files := (cl_files c)(path \<mapsto> stored_credential user token (cl_files c path))\<rparr>))) c)"

section \<open>Logging in\<close>

text \<open>The documents that a login reads. The text of \<open>/auth\<close> is plain; that of any other document counts as one
  that cannot be decoded.\<close>

definition token_doc :: "HttpBody \<Rightarrow> string option" where
  "token_doc b = (case b of Json (RToken t) \<Rightarrow> Some t | _ \<Rightarrow> None)"

definition text_doc :: "HttpBody \<Rightarrow> string option" where
  "text_doc b = (case b of Other t \<Rightarrow> Some t | Json (RText t) \<Rightarrow> Some t | _ \<Rightarrow> None)"

text \<open>What the console answers when it is asked: the line with the user name, with its newline, and the password;
  and the MD5 digest.\<close>

record Prompts =
  pr_username_line :: "string option"
  pr_password :: "string option"
  pr_md5 :: "string \<Rightarrow> string"

definition get_and_prompt_username :: "Prompts \<Rightarrow> string option \<Rightarrow> string option" where
  "get_and_prompt_username P user =
     (case user of Some u \<Rightarrow> Some u | None \<Rightarrow> map_option butlast (pr_username_line P))"

definition get_and_prompt_password :: "Prompts \<Rightarrow> string option \<Rightarrow> string option" where
  "get_and_prompt_password P password =
     (case password of Some p \<Rightarrow> Some (pr_md5 P p) | None \<Rightarrow> map_option (pr_md5 P) (pr_password P))"

definition fill_user_login :: "Prompts \<Rightarrow> string option \<Rightarrow> string option \<Rightarrow> (string \<times> string) option" where
  "fill_user_login P user password =
     (case get_and_prompt_username P user of
        None \<Rightarrow> None
      | Some u \<Rightarrow> map_option (Pair u) (get_and_prompt_password P password))"

text \<open>The credential of the file, if the coordinator says that it belongs to the user of its line. The URL is a
  copy of the client's, with its query.\<close>

definition auth_request :: "string \<Rightarrow> 'w Client \<Rightarrow> HttpRequest" where
  "auth_request cred c =
     \<lparr>rq_method = GET, rq_path = ''auth'', rq_query = cl_query c, rq_bearer = Some cred, rq_body = NoBody\<rparr>"

definition login_request :: "string \<Rightarrow> string \<Rightarrow> bool \<Rightarrow> 'w Client \<Rightarrow> HttpRequest" where
  "login_request user digest retain c =
     \<lparr>rq_method = POST, rq_path = ''login'', rq_query = cl_query c, rq_bearer = None, rq_body = JUserLogin user digest retain\<rparr>"

definition cached_credential :: "'w net \<Rightarrow> string \<Rightarrow> string option \<Rightarrow> ('w, (string \<times> string) option) client" where
  "cached_credential N path user c =
     (case cl_files c path of
        None \<Rightarrow> ret None
      | Some text \<Rightarrow>
          bindR (attempt file_op) (\<lambda>opened. case opened of
            Inl _ \<Rightarrow> ret None
          | Inr _ \<Rightarrow>
              thenR file_op
                (case extract_credential user (file_lines text) of
                   None \<Rightarrow> ret None
                 | Some (username, cred) \<Rightarrow>
                     bindR (\<lambda>c. exchange N (auth_request cred c) c) (\<lambda>(st, b).
                       if is_success st then ret (if text_doc b = Some username then Some (username, cred) else None)
                       else if 500 \<le> st \<and> st < 600 then raise ServerError
                       else ret None)))) c"

text \<open>A login that is answered with a token.\<close>

definition login :: "'w net \<Rightarrow> string \<Rightarrow> string \<Rightarrow> bool \<Rightarrow> ('w, string) client" where
  "login N user digest retain =
     bindR (\<lambda>c. exchange N (login_request user digest retain c) c) (\<lambda>(st, b).
       if is_success st then ok_or TransportError (token_doc b)
       else (case b of Other m \<Rightarrow> raise (Message m) | Json _ \<Rightarrow> raise TransportError))"

definition get_user_credential ::
  "'w net \<Rightarrow> Prompts \<Rightarrow> string \<Rightarrow> string option \<Rightarrow> string option \<Rightarrow> bool \<Rightarrow> ('w, string \<times> string) client" where
  "get_user_credential N P path user password retain =
     bindR (cached_credential N path user) (\<lambda>cached. case cached of
       Some p \<Rightarrow> ret p
     | None \<Rightarrow>
         bindR (ok_or PromptError (fill_user_login P user password)) (\<lambda>(username, digest).
         bindR (login N username digest retain) (\<lambda>token.
           thenR file_op (thenR (modify_or_append_credential path username token) (ret (username, token))))))"

definition refresh_user_credential ::
  "'w net \<Rightarrow> string option \<Rightarrow> string \<Rightarrow> string \<Rightarrow> bool \<Rightarrow> ('w, string) client" where
  "refresh_user_credential N path username digest retain =
     bindR (login N username digest retain) (\<lambda>token c.
       (case path of
          Some p \<Rightarrow>
            if cl_files c p = None then ret token
            else thenR file_op (thenR (modify_or_append_credential p username token) (ret token))
        | None \<Rightarrow> ret token) c)"

section \<open>The file keeps what it is given\<close>

lemma split_on_join: "ls \<noteq> [] \<Longrightarrow> \<forall>l \<in> set ls. c \<notin> set l \<Longrightarrow> split_on c (join_on c ls) = ls"
proof (induction ls)
  case (Cons l ls)
  then show ?case by (cases "ls = []") (auto simp: join_on_Cons split_on_no_sep split_on_append)
qed simp

lemma chomp_id: "carriage_return \<notin> set l \<Longrightarrow> chomp l = l"
  by (cases l rule: rev_cases) (auto simp: chomp_def)

lemma file_lines_chars:
  assumes "l \<in> set (file_lines s)" and "carriage_return \<notin> set s"
  shows "newline \<notin> set l" and "carriage_return \<notin> set l"
proof -
  have part: "\<forall>p \<in> set (split_on newline s). newline \<notin> set p \<and> carriage_return \<notin> set p"
    using assms(2) split_on_chars [of _ newline s] by blast
  then have "l \<in> set (split_on newline s)"
    using assms(1) by (fastforce simp: file_lines_def Let_def chomp_id dest: in_set_butlastD split: if_splits)
  then show "newline \<notin> set l" and "carriage_return \<notin> set l" using part by auto
qed

lemma file_lines_join:
  assumes "ls \<noteq> []" and "\<forall>l \<in> set ls. newline \<notin> set l \<and> carriage_return \<notin> set l"
  shows "file_lines (join_on newline ls) = butlast ls @ (if last ls = [] then [] else [last ls])"
proof -
  have "split_on newline (join_on newline ls) = ls" using assms by (simp add: split_on_join)
  moreover have "map chomp (butlast ls) = butlast ls"
    by (rule map_idI) (use assms(2) in \<open>auto dest: in_set_butlastD intro: chomp_id\<close>)
  ultimately show ?thesis by (simp add: file_lines_def Let_def)
qed

lemma find_credential_append:
  "find_credential u (ls @ ls') = (case find_credential u ls of None \<Rightarrow> find_credential u ls' | Some p \<Rightarrow> Some p)"
  by (induction ls) (auto split: option.splits)

text \<open>An empty last line, which is lost when the file is read again, holds no credential.\<close>

lemma find_credential_join:
  assumes "ls \<noteq> []" and "\<forall>l \<in> set ls. newline \<notin> set l \<and> carriage_return \<notin> set l"
  shows "find_credential u (file_lines (join_on newline ls)) = find_credential u ls"
proof -
  have "find_credential u ls = find_credential u (butlast ls @ [last ls])" using assms(1) by simp
  then show ?thesis
    unfolding file_lines_join [OF assms] find_credential_append
    by (auto simp: starts_with_def split: option.splits)
qed

lemma split_colon_user: "CHR '':'' \<notin> set u \<Longrightarrow> split_colon (u @ CHR '':'' # t) = Some (u, t)"
  by (induction u) auto

lemma starts_with_colon: "starts_with (u @ '':'') l \<longleftrightarrow> (\<exists>t. l = u @ CHR '':'' # t)"
proof
  assume *: "starts_with (u @ '':'') l"
  have "l = take (length (u @ '':'')) l @ drop (length (u @ '':'')) l" by simp
  then show "\<exists>t. l = u @ CHR '':'' # t" using * unfolding starts_with_def by (metis append.assoc append_Cons append_Nil)
qed (auto simp: starts_with_def)

lemma other_user_line:
  assumes "CHR '':'' \<notin> set u" "CHR '':'' \<notin> set v" "u \<noteq> v" "starts_with (u @ '':'') l"
  shows "\<not> starts_with (v @ '':'') l"
  using assms by (auto simp: starts_with_colon dest: split_colon_user, metis split_colon_user option.inject prod.inject)

lemma find_credential_replaced:
  assumes "CHR '':'' \<notin> set u"
  shows "find_credential u (map (replace_line u t) ls) =
           (if list_ex (starts_with (u @ '':'')) ls then Some (u, t) else None)"
  using assms
  by (induction ls) (auto simp: replace_line_def credential_line_def split_colon_user starts_with_colon)

lemma find_credential_other:
  assumes "CHR '':'' \<notin> set u" "CHR '':'' \<notin> set v" "u \<noteq> v"
  shows "find_credential v (map (replace_line u t) ls) = find_credential v ls"
proof (induction ls)
  case (Cons l ls)
  have "\<not> starts_with (v @ '':'') (credential_line u t)"
    by (rule other_user_line [OF assms]) (auto simp: credential_line_def starts_with_colon)
  then show ?case using Cons other_user_line [OF assms, of l] by (auto simp: replace_line_def split: option.splits)
qed simp

definition clean :: "string \<Rightarrow> bool" where
  "clean s \<longleftrightarrow> newline \<notin> set s \<and> carriage_return \<notin> set s"

definition credentials_of :: "string option \<Rightarrow> string list" where
  "credentials_of file = (case file of None \<Rightarrow> [] | Some s \<Rightarrow> file_lines s)"

text \<open>What a file looks like, line by line, after a credential has been stored.\<close>

lemma find_stored:
  assumes "clean u" "clean t" "\<forall>s. old = Some s \<longrightarrow> carriage_return \<notin> set s"
  shows "find_credential v (file_lines (stored_credential u t old)) =
           find_credential v (let ls = credentials_of old; new = map (replace_line u t) ls in
             if list_ex (starts_with (u @ '':'')) ls then new else new @ [credential_line u t])"
proof (cases old)
  case None
  have "credential_line u t = join_on newline [credential_line u t]" by simp
  moreover have "\<forall>l \<in> set [credential_line u t]. newline \<notin> set l \<and> carriage_return \<notin> set l"
    using assms(1,2) by (auto simp: clean_def credential_line_def)
  ultimately show ?thesis
    using None find_credential_join [of "[credential_line u t]" v]
    by (simp add: stored_credential_def credentials_of_def)
next
  case (Some s)
  have lines: "newline \<notin> set l \<and> carriage_return \<notin> set l" if "l \<in> set (file_lines s)" for l
    using file_lines_chars [OF that] assms(3) Some by simp
  have "\<forall>l \<in> set (map (replace_line u t) (file_lines s) @ [credential_line u t]). newline \<notin> set l \<and> carriage_return \<notin> set l"
    using assms(1,2) lines by (auto simp: replace_line_def clean_def credential_line_def split: if_splits)
  then show ?thesis
    using find_credential_join [of "map (replace_line u t) (file_lines s) @ [credential_line u t]" v]
      find_credential_join [of "map (replace_line u t) (file_lines s)" v] Some
    by (cases "file_lines s") (auto simp: stored_credential_def credentials_of_def Let_def)
qed

text \<open>C26. The credential file keeps what it is given: after the credential of a user has been stored, the next
  start of a client finds exactly that credential for the user, and for every other user what it would have
  found before, whether or not the file existed or named the user already.\<close>

theorem credential_file_keeps:
  assumes "clean user" "CHR '':'' \<notin> set user" "clean token" "\<forall>s. old = Some s \<longrightarrow> carriage_return \<notin> set s"
  shows "extract_credential (Some user) (file_lines (stored_credential user token old)) = Some (user, token) \<and>
    (\<forall>v. CHR '':'' \<notin> set v \<and> v \<noteq> user \<longrightarrow>
       extract_credential (Some v) (file_lines (stored_credential user token old)) =
       extract_credential (Some v) (credentials_of old))"
proof -
  have found: "find_credential v (file_lines (stored_credential user token old)) =
      find_credential v (let ls = credentials_of old; new = map (replace_line user token) ls in
        if list_ex (starts_with (user @ '':'')) ls then new else new @ [credential_line user token])" for v
    by (rule find_stored) (use assms in auto)
  have line: "find_credential v [credential_line user token] = (if v = user then Some (user, token) else None)"
    if "CHR '':'' \<notin> set v" for v
    using other_user_line [of user v "credential_line user token"] that assms(2)
    by (auto simp: credential_line_def split_colon_user starts_with_colon)
  show ?thesis
    using assms(2) line
    by (auto simp: extract_credential_def found Let_def find_credential_append find_credential_replaced
        find_credential_other split: option.splits)
qed

theorem credential_file_keeps_witness:
  "extract_credential (Some ''bob'') (file_lines (stored_credential ''bob'' ''new'' (Some ''ada:x''))) = Some (''bob'', ''new'') \<and>
    extract_credential (Some ''ada'') (file_lines (stored_credential ''bob'' ''new'' (Some ''ada:x''))) =
      extract_credential (Some ''ada'') (credentials_of (Some ''ada:x''))"
  using credential_file_keeps [of "''bob''" "''new''" "Some ''ada:x''"] by (simp add: clean_def)

end
