(* ===== verification/Client_Http.thy ===== *)
theory Client_Http
  imports Credentials
begin

text \<open>
  The HTTP client of users and administrators (\<open>client/http.rs\<close>), one definition per method. A method sets the
  path of the client's URL, sends its request with the credential of the client, and decodes the answer. \<open>N\<close> is
  the network with what is behind it, \<open>T\<close> prints a UUID. Moving the contents of files (\<open>download_file\<close>,
  \<open>concurrent_download_files\<close>, \<open>upload_file\<close>) is not modelled.
\<close>

section \<open>Sending and decoding\<close>

definition set_url_path :: "string \<Rightarrow> ('w, unit) client" where
  "set_url_path p c = (Inr (), c\<lparr>cl_path := p\<rparr>)"

definition set_url_query :: "query_params \<Rightarrow> ('w, unit) client" where
  "set_url_query q c = (Inr (), c\<lparr>cl_query := q\<rparr>)"

text \<open>A request to the current URL with the bearer token, the added query parameters and the body.\<close>

definition bearer_request :: "Method \<Rightarrow> query_params \<Rightarrow> Body \<Rightarrow> 'w Client \<Rightarrow> HttpRequest" where
  "bearer_request m params b c =
     \<lparr>rq_method = m, rq_path = cl_path c, rq_query = cl_query c @ params, rq_bearer = Some (cl_credential c), rq_body = b\<rparr>"

text \<open>The two shapes of a call: one that decodes the document of the answer, one that ignores it. An error status
  becomes \<open>Inner\<close> with the message of the answer (\<open>get_error_from_resp\<close>).\<close>

definition call_for :: "'w net \<Rightarrow> Method \<Rightarrow> Body \<Rightarrow> (HttpBody \<Rightarrow> 'a option) \<Rightarrow> ('w, 'a) client" where
  "call_for N m b doc =
     bindR (\<lambda>c. exchange N (bearer_request m [] b c) c) (\<lambda>(st, body).
       if is_success st then ok_or TransportError (doc body) else raise (Inner st (error_msg body)))"

definition call_with :: "'w net \<Rightarrow> Method \<Rightarrow> query_params \<Rightarrow> Body \<Rightarrow> ('w, unit) client" where
  "call_with N m params b =
     bindR (\<lambda>c. exchange N (bearer_request m params b c) c) (\<lambda>(st, body).
       if is_success st then ret () else raise (Inner st (error_msg body)))"

section \<open>The documents of the answers\<close>

definition redis_doc :: "HttpBody \<Rightarrow> (string option) option" where
  "redis_doc b = (case b of Json (RRedis x) \<Rightarrow> Some x | _ \<Rightarrow> None)"

definition groups_doc :: "HttpBody \<Rightarrow> ((string \<times> UserGroupRole) list) option" where
  "groups_doc b = (case b of Json (RGroups x) \<Rightarrow> Some x | _ \<Rightarrow> None)"

definition submitted_doc :: "HttpBody \<Rightarrow> (SubmitTaskResp) option" where
  "submitted_doc b = (case b of Json (RSubmitted x) \<Rightarrow> Some x | _ \<Rightarrow> None)"

definition batch_doc :: "HttpBody \<Rightarrow> ((ApiError + SubmitTaskResp) list) option" where
  "batch_doc b = (case b of Json (RBatch x) \<Rightarrow> Some x | _ \<Rightarrow> None)"

definition task_doc :: "HttpBody \<Rightarrow> (TaskQueryInfo \<times> ArtifactRow list) option" where
  "task_doc b = (case b of Json (RTask x) \<Rightarrow> Some x | _ \<Rightarrow> None)"

definition tasks_doc :: "HttpBody \<Rightarrow> (TasksQueryResp) option" where
  "tasks_doc b = (case b of Json (RTasks x) \<Rightarrow> Some x | _ \<Rightarrow> None)"

definition cancelled_doc :: "HttpBody \<Rightarrow> (nat \<times> string) option" where
  "cancelled_doc b = (case b of Json (RCancelled x) \<Rightarrow> Some x | _ \<Rightarrow> None)"

definition cancelled_list_doc :: "HttpBody \<Rightarrow> (nat \<times> uuid list) option" where
  "cancelled_list_doc b = (case b of Json (RCancelledList x) \<Rightarrow> Some x | _ \<Rightarrow> None)"

definition upload_doc :: "HttpBody \<Rightarrow> (bool \<times> string) option" where
  "upload_doc b = (case b of Json (RUpload x) \<Rightarrow> Some x | _ \<Rightarrow> None)"

definition link_doc :: "HttpBody \<Rightarrow> (string \<times> i64) option" where
  "link_doc b = (case b of Json (RLink x) \<Rightarrow> Some x | _ \<Rightarrow> None)"

definition artifact_links_doc :: "HttpBody \<Rightarrow> (ArtifactDownloadItem list) option" where
  "artifact_links_doc b = (case b of Json (RArtifactLinks x) \<Rightarrow> Some x | _ \<Rightarrow> None)"

definition deleted_doc :: "HttpBody \<Rightarrow> (nat) option" where
  "deleted_doc b = (case b of Json (RDeleted x) \<Rightarrow> Some x | _ \<Rightarrow> None)"

definition deleted_uuids_doc :: "HttpBody \<Rightarrow> (nat \<times> uuid list) option" where
  "deleted_uuids_doc b = (case b of Json (RDeletedUuids x) \<Rightarrow> Some x | _ \<Rightarrow> None)"

definition group_doc :: "HttpBody \<Rightarrow> (GroupQueryInfo) option" where
  "group_doc b = (case b of Json (RGroup x) \<Rightarrow> Some x | _ \<Rightarrow> None)"

definition attachment_doc :: "HttpBody \<Rightarrow> (AttachmentContentType \<times> i64 \<times> nanos \<times> nanos) option" where
  "attachment_doc b = (case b of Json (RAttachment x) \<Rightarrow> Some x | _ \<Rightarrow> None)"

definition attachments_doc :: "HttpBody \<Rightarrow> (u64 \<times> AttachmentQueryInfo list \<times> string) option" where
  "attachments_doc b = (case b of Json (RAttachments x) \<Rightarrow> Some x | _ \<Rightarrow> None)"

definition attachment_links_doc :: "HttpBody \<Rightarrow> (AttachmentDownloadItem list \<times> string) option" where
  "attachment_links_doc b = (case b of Json (RAttachmentLinks x) \<Rightarrow> Some x | _ \<Rightarrow> None)"

definition deleted_attachments_doc :: "HttpBody \<Rightarrow> (nat \<times> string) option" where
  "deleted_attachments_doc b = (case b of Json (RDeletedAttachments x) \<Rightarrow> Some x | _ \<Rightarrow> None)"

definition deleted_keys_doc :: "HttpBody \<Rightarrow> (nat \<times> string list \<times> string) option" where
  "deleted_keys_doc b = (case b of Json (RDeletedKeys x) \<Rightarrow> Some x | _ \<Rightarrow> None)"

definition worker_doc :: "HttpBody \<Rightarrow> (WorkerQueryInfo \<times> (string \<rightharpoonup> GroupWorkerRole)) option" where
  "worker_doc b = (case b of Json (RWorker x) \<Rightarrow> Some x | _ \<Rightarrow> None)"

definition workers_doc :: "HttpBody \<Rightarrow> (nat \<times> WorkerQueryInfo list \<times> string) option" where
  "workers_doc b = (case b of Json (RWorkers x) \<Rightarrow> Some x | _ \<Rightarrow> None)"

definition shutdown_count_doc :: "HttpBody \<Rightarrow> (nat \<times> string) option" where
  "shutdown_count_doc b = (case b of Json (RShutdownCount x) \<Rightarrow> Some x | _ \<Rightarrow> None)"

definition shutdown_uuids_doc :: "HttpBody \<Rightarrow> (nat \<times> uuid list) option" where
  "shutdown_uuids_doc b = (case b of Json (RShutdownUuids x) \<Rightarrow> Some x | _ \<Rightarrow> None)"

definition group_quota_doc :: "HttpBody \<Rightarrow> (i32) option" where
  "group_quota_doc b = (case b of Json (RGroupQuota x) \<Rightarrow> Some x | _ \<Rightarrow> None)"

definition storage_quota_doc :: "HttpBody \<Rightarrow> (i64) option" where
  "storage_quota_doc b = (case b of Json (RStorageQuota x) \<Rightarrow> Some x | _ \<Rightarrow> None)"

lemmas doc_defs =
  redis_doc_def groups_doc_def submitted_doc_def batch_doc_def task_doc_def tasks_doc_def cancelled_doc_def cancelled_list_doc_def upload_doc_def link_doc_def artifact_links_doc_def deleted_doc_def deleted_uuids_doc_def group_doc_def attachment_doc_def attachments_doc_def attachment_links_doc_def deleted_attachments_doc_def deleted_keys_doc_def worker_doc_def workers_doc_def shutdown_count_doc_def shutdown_uuids_doc_def group_quota_doc_def storage_quota_doc_def text_doc_def token_doc_def

section \<open>Sessions\<close>

definition new_client :: "(string \<rightharpoonup> string) \<Rightarrow> bool list \<Rightarrow> 'w \<Rightarrow> 'w Client" where
  "new_client files fs_ok w =
     \<lparr>cl_path = ''/'', cl_query = [], cl_credential = [], cl_credential_path = [], cl_files = files, cl_io = fs_ok, cl_world = w\<rparr>"

text \<open>\<open>default_path\<close> is the credential path below the configuration directory, if there is one.\<close>

definition connect ::
  "'w net \<Rightarrow> Prompts \<Rightarrow> string option \<Rightarrow> string option \<Rightarrow> string option \<Rightarrow> string option \<Rightarrow> bool \<Rightarrow> ('w, string) client" where
  "connect N P default_path credential_path user password retain =
     bindR (ok_or NoCredentialPath (case credential_path of Some p \<Rightarrow> Some p | None \<Rightarrow> default_path)) (\<lambda>path.
     bindR (get_user_credential N P path user password retain) (\<lambda>(username, credential) c.
       (Inr username, c\<lparr>cl_credential_path := path, cl_credential := credential\<rparr>)))"

definition client_user_auth :: "'w net \<Rightarrow> ('w, string) client" where
  "client_user_auth N = thenR (set_url_path ''auth'') (call_for N GET NoBody text_doc)"

text \<open>A new token becomes the credential, and is written to the credential file if there is one.\<close>

definition keep_token :: "string \<Rightarrow> string \<Rightarrow> ('w, unit) client" where
  "keep_token username token =
     thenR (\<lambda>c. (Inr (), c\<lparr>cl_credential := token\<rparr>)) (\<lambda>c.
       (if cl_files c (cl_credential_path c) = None then ret ()
        else thenR file_op (modify_or_append_credential (cl_credential_path c) username token)) c)"

definition client_user_login :: "'w net \<Rightarrow> string \<Rightarrow> string \<Rightarrow> bool \<Rightarrow> ('w, unit) client" where
  "client_user_login N username password retain =
     thenR (set_url_path ''login'')
       (bindR (\<lambda>c. exchange N (login_request username password retain c) c) (\<lambda>(st, body).
          if is_success st then bindR (ok_or TransportError (token_doc body)) (keep_token username)
          else raise (Inner st (error_msg body))))"

definition client_user_change_password :: "'w net \<Rightarrow> string \<Rightarrow> string \<Rightarrow> string \<Rightarrow> ('w, unit) client" where
  "client_user_change_password N username old_password new_password =
     thenR (set_url_path (''users/'' @ username @ ''/password''))
       (bindR (call_for N POST (JUserChangePassword old_password new_password) token_doc) (keep_token username))"

section \<open>Shutting down workers\<close>

text \<open>The query \<open>op=force\<close> stays in the URL of the client.\<close>

definition client_admin_cancel_worker_by_uuid :: "'w net \<Rightarrow> (uuid \<Rightarrow> string) \<Rightarrow> uuid \<Rightarrow> bool \<Rightarrow> ('w, unit) client" where
  "client_admin_cancel_worker_by_uuid N T uuid force =
     thenR (set_url_path (''admin/workers/'' @ T uuid))
       (thenR (if force then set_url_query [(''op'', ''force'')] else ret ()) (call_with N DELETE [] NoBody))"

definition client_cancel_worker_by_uuid :: "'w net \<Rightarrow> (uuid \<Rightarrow> string) \<Rightarrow> uuid \<Rightarrow> bool \<Rightarrow> ('w, unit) client" where
  "client_cancel_worker_by_uuid N T uuid force =
     thenR (set_url_path (''workers/'' @ T uuid))
       (thenR (if force then set_url_query [(''op'', ''force'')] else ret ()) (call_with N DELETE [] NoBody))"

section \<open>Removals with query parameters\<close>

definition client_remove_group_worker_roles :: "'w net \<Rightarrow> (uuid \<Rightarrow> string) \<Rightarrow> uuid \<Rightarrow> string list \<Rightarrow> ('w, unit) client" where
  "client_remove_group_worker_roles N T uuid gs =
     thenR (set_url_path (''workers/'' @ T uuid @ ''/groups''))
       (call_with N DELETE (map (Pair ''groups'') gs) NoBody)"

definition client_remove_user_group_roles :: "'w net \<Rightarrow> string \<Rightarrow> string list \<Rightarrow> ('w, unit) client" where
  "client_remove_user_group_roles N group_name us =
     thenR (set_url_path (''groups/'' @ group_name @ ''/users''))
       (call_with N DELETE (map (Pair ''users'') us) NoBody)"

section \<open>All other methods\<close>

definition client_get_redis_connection_info :: "'w net \<Rightarrow> ('w, string option) client" where
  "client_get_redis_connection_info N =
     thenR (set_url_path ''redis'')
       (call_for N GET NoBody redis_doc)"

definition client_admin_change_password :: "'w net \<Rightarrow> string \<Rightarrow> string \<Rightarrow> ('w, unit) client" where
  "client_admin_change_password N username new_password =
     thenR (set_url_path (''admin/users/'' @ username @ ''/password''))
       (call_with N POST [] (JAdminChangePassword new_password))"

definition client_admin_create_user :: "'w net \<Rightarrow> string \<Rightarrow> string \<Rightarrow> bool \<Rightarrow> ('w, unit) client" where
  "client_admin_create_user N username password admin =
     thenR (set_url_path ''admin/users'')
       (call_with N POST [] (JCreateUser username password admin))"

definition client_admin_delete_user :: "'w net \<Rightarrow> string \<Rightarrow> ('w, unit) client" where
  "client_admin_delete_user N username =
     thenR (set_url_path (''admin/users/'' @ username))
       (call_with N DELETE [] NoBody)"

definition client_user_create_group :: "'w net \<Rightarrow> string \<Rightarrow> ('w, unit) client" where
  "client_user_create_group N group_name =
     thenR (set_url_path ''groups'')
       (call_with N POST [] (JCreateGroup group_name))"

definition client_get_task_by_uuid :: "'w net \<Rightarrow> (uuid \<Rightarrow> string) \<Rightarrow> uuid \<Rightarrow> ('w, TaskQueryInfo \<times> ArtifactRow list) client" where
  "client_get_task_by_uuid N T uuid =
     thenR (set_url_path (''tasks/'' @ T uuid))
       (call_for N GET NoBody task_doc)"

definition client_get_artifact_download_resp :: "'w net \<Rightarrow> (uuid \<Rightarrow> string) \<Rightarrow> uuid \<Rightarrow> ArtifactContentType \<Rightarrow> ('w, string \<times> i64) client" where
  "client_get_artifact_download_resp N T uuid content_type =
     thenR (set_url_path (''tasks/'' @ T uuid @ ''/download/artifacts/'' @ content_type_text content_type))
       (call_for N GET NoBody link_doc)"

definition client_get_attachment_download_resp :: "'w net \<Rightarrow> string \<Rightarrow> string \<Rightarrow> ('w, string \<times> i64) client" where
  "client_get_attachment_download_resp N group_name key =
     thenR (set_url_path (''groups/'' @ group_name @ ''/download/attachments/'' @ key))
       (call_for N GET NoBody link_doc)"

definition client_batch_download_artifacts_by_filter :: "'w net \<Rightarrow> ArtifactsByFilterReq \<Rightarrow> ('w, ArtifactDownloadItem list) client" where
  "client_batch_download_artifacts_by_filter N req =
     thenR (set_url_path ''tasks/download/artifacts'')
       (call_for N POST (JArtifactsDownloadByFilter req) artifact_links_doc)"

definition client_batch_download_artifacts_by_list :: "'w net \<Rightarrow> uuid list \<Rightarrow> ArtifactContentType \<Rightarrow> ('w, ArtifactDownloadItem list) client" where
  "client_batch_download_artifacts_by_list N uuids content_type =
     thenR (set_url_path ''tasks/download/artifacts/list'')
       (call_for N POST (JArtifactsDownloadByUuids uuids content_type) artifact_links_doc)"

definition client_batch_download_attachments_by_filter :: "'w net \<Rightarrow> string \<Rightarrow> string option \<Rightarrow> nat option \<Rightarrow> nat option \<Rightarrow> ('w, AttachmentDownloadItem list \<times> string) client" where
  "client_batch_download_attachments_by_filter N group_name key lim off =
     thenR (set_url_path (''groups/'' @ group_name @ ''/download/attachments''))
       (call_for N POST (JAttachmentsDownloadByFilter key lim off) attachment_links_doc)"

definition client_batch_download_attachments_by_list :: "'w net \<Rightarrow> string \<Rightarrow> string list \<Rightarrow> ('w, AttachmentDownloadItem list \<times> string) client" where
  "client_batch_download_attachments_by_list N group_name keys =
     thenR (set_url_path (''groups/'' @ group_name @ ''/download/attachments/list''))
       (call_for N POST (JAttachmentsDownloadByKeys keys) attachment_links_doc)"

definition client_delete_artifact :: "'w net \<Rightarrow> (uuid \<Rightarrow> string) \<Rightarrow> uuid \<Rightarrow> ArtifactContentType \<Rightarrow> bool \<Rightarrow> ('w, unit) client" where
  "client_delete_artifact N T uuid content_type admin =
     thenR (set_url_path (if admin then ''admin/tasks/'' @ T uuid @ ''/artifacts/'' @ content_type_text content_type
        else ''tasks/'' @ T uuid @ ''/artifacts/'' @ content_type_text content_type))
       (call_with N DELETE [] NoBody)"

definition client_delete_attachment :: "'w net \<Rightarrow> string \<Rightarrow> string \<Rightarrow> bool \<Rightarrow> ('w, unit) client" where
  "client_delete_attachment N group_name key admin =
     thenR (set_url_path (if admin then ''admin/groups/'' @ group_name @ ''/attachments/'' @ key
        else ''groups/'' @ group_name @ ''/attachments/'' @ key))
       (call_with N DELETE [] NoBody)"

definition client_get_attachment :: "'w net \<Rightarrow> string \<Rightarrow> string \<Rightarrow> ('w, AttachmentContentType \<times> i64 \<times> nanos \<times> nanos) client" where
  "client_get_attachment N group_name key =
     thenR (set_url_path (''groups/'' @ group_name @ ''/attachments/'' @ key))
       (call_for N GET NoBody attachment_doc)"

definition client_admin_update_user_group_quota :: "'w net \<Rightarrow> string \<Rightarrow> string \<Rightarrow> ('w, i32) client" where
  "client_admin_update_user_group_quota N username quota =
     thenR (set_url_path (''admin/users/'' @ username @ ''/group-quota''))
       (call_for N POST (JChangeUserGroupQuota quota) group_quota_doc)"

definition client_admin_update_group_storage_quota :: "'w net \<Rightarrow> string \<Rightarrow> string \<Rightarrow> ('w, i64) client" where
  "client_admin_update_group_storage_quota N group_name quota =
     thenR (set_url_path (''admin/groups/'' @ group_name @ ''/storage-quota''))
       (call_for N POST (JChangeGroupStorageQuota quota) storage_quota_doc)"

definition client_query_tasks_by_filter :: "'w net \<Rightarrow> TasksQueryReq \<Rightarrow> ('w, TasksQueryResp) client" where
  "client_query_tasks_by_filter N req =
     thenR (set_url_path ''tasks/query'')
       (call_for N POST (JTasksQuery req) tasks_doc)"

definition client_query_attachments_by_filter :: "'w net \<Rightarrow> string \<Rightarrow> AttachmentsQueryReq \<Rightarrow> ('w, u64 \<times> AttachmentQueryInfo list \<times> string) client" where
  "client_query_attachments_by_filter N group_name req =
     thenR (set_url_path (''groups/'' @ group_name @ ''/attachments/query''))
       (call_for N POST (JAttachmentsQuery req) attachments_doc)"

definition client_get_worker_by_uuid :: "'w net \<Rightarrow> (uuid \<Rightarrow> string) \<Rightarrow> uuid \<Rightarrow> ('w, WorkerQueryInfo \<times> (string \<rightharpoonup> GroupWorkerRole)) client" where
  "client_get_worker_by_uuid N T uuid =
     thenR (set_url_path (''workers/'' @ T uuid))
       (call_for N GET NoBody worker_doc)"

definition client_query_workers_by_filter :: "'w net \<Rightarrow> WorkersQueryReq \<Rightarrow> ('w, nat \<times> WorkerQueryInfo list \<times> string) client" where
  "client_query_workers_by_filter N req =
     thenR (set_url_path ''workers/query'')
       (call_for N POST (JWorkersQuery req) workers_doc)"

definition client_get_group_by_name :: "'w net \<Rightarrow> string \<Rightarrow> ('w, GroupQueryInfo) client" where
  "client_get_group_by_name N group_name =
     thenR (set_url_path (''groups/'' @ group_name))
       (call_for N GET NoBody group_doc)"

definition client_get_user_groups_roles :: "'w net \<Rightarrow> ('w, (string \<times> UserGroupRole) list) client" where
  "client_get_user_groups_roles N =
     thenR (set_url_path ''users/groups'')
       (call_for N GET NoBody groups_doc)"

definition client_user_submit_task :: "'w net \<Rightarrow> SubmitTaskReq \<Rightarrow> ('w, SubmitTaskResp) client" where
  "client_user_submit_task N req =
     thenR (set_url_path ''tasks'')
       (call_for N POST (JSubmitTask req) submitted_doc)"

definition client_get_upload_artifact_resp :: "'w net \<Rightarrow> (uuid \<Rightarrow> string) \<Rightarrow> uuid \<Rightarrow> ArtifactContentType \<Rightarrow> u64 \<Rightarrow> ('w, bool \<times> string) client" where
  "client_get_upload_artifact_resp N T uuid content_type content_length =
     thenR (set_url_path (''tasks/'' @ T uuid @ ''/artifacts''))
       (call_for N POST (JUploadArtifact content_type content_length) upload_doc)"

definition client_get_upload_attachment_resp :: "'w net \<Rightarrow> string \<Rightarrow> string \<Rightarrow> u64 \<Rightarrow> ('w, bool \<times> string) client" where
  "client_get_upload_attachment_resp N group_name key content_length =
     thenR (set_url_path (''groups/'' @ group_name @ ''/attachments''))
       (call_for N POST (JUploadAttachment key content_length) upload_doc)"

definition client_shutdown_workers_by_filter :: "'w net \<Rightarrow> WorkersShutdownByFilterReq \<Rightarrow> ('w, nat \<times> string) client" where
  "client_shutdown_workers_by_filter N req =
     thenR (set_url_path ''workers/shutdown'')
       (call_for N POST (JWorkersShutdownByFilter req) shutdown_count_doc)"

definition client_shutdown_workers_by_uuids :: "'w net \<Rightarrow> uuid list \<Rightarrow> WorkerShutdownOp \<Rightarrow> ('w, nat \<times> uuid list) client" where
  "client_shutdown_workers_by_uuids N uuids op =
     thenR (set_url_path ''workers/shutdown/list'')
       (call_for N POST (JWorkersShutdownByUuids uuids op) shutdown_uuids_doc)"

definition client_replace_worker_tags :: "'w net \<Rightarrow> (uuid \<Rightarrow> string) \<Rightarrow> uuid \<Rightarrow> string list \<Rightarrow> ('w, unit) client" where
  "client_replace_worker_tags N T uuid tags =
     thenR (set_url_path (''workers/'' @ T uuid @ ''/tags''))
       (call_with N PUT [] (JReplaceWorkerTags tags))"

definition client_replace_worker_labels :: "'w net \<Rightarrow> (uuid \<Rightarrow> string) \<Rightarrow> uuid \<Rightarrow> string list \<Rightarrow> ('w, unit) client" where
  "client_replace_worker_labels N T uuid labels =
     thenR (set_url_path (''workers/'' @ T uuid @ ''/labels''))
       (call_with N PUT [] (JReplaceWorkerLabels labels))"

definition client_update_group_worker_roles :: "'w net \<Rightarrow> (uuid \<Rightarrow> string) \<Rightarrow> uuid \<Rightarrow> ((string \<times> GroupWorkerRole) list) \<Rightarrow> ('w, unit) client" where
  "client_update_group_worker_roles N T uuid relations =
     thenR (set_url_path (''workers/'' @ T uuid @ ''/groups''))
       (call_with N PUT [] (JUpdateGroupWorkerRole relations))"

definition client_cancel_task_by_uuid :: "'w net \<Rightarrow> (uuid \<Rightarrow> string) \<Rightarrow> uuid \<Rightarrow> ('w, unit) client" where
  "client_cancel_task_by_uuid N T uuid =
     thenR (set_url_path (''tasks/'' @ T uuid))
       (call_with N DELETE [] NoBody)"

definition client_cancel_tasks_by_filter :: "'w net \<Rightarrow> TasksCancelByFilterReq \<Rightarrow> ('w, nat \<times> string) client" where
  "client_cancel_tasks_by_filter N req =
     thenR (set_url_path ''tasks/cancel'')
       (call_for N POST (JTasksCancelByFilter req) cancelled_doc)"

definition client_cancel_tasks_by_uuids :: "'w net \<Rightarrow> uuid list \<Rightarrow> ('w, nat \<times> uuid list) client" where
  "client_cancel_tasks_by_uuids N uuids =
     thenR (set_url_path ''tasks/cancel/list'')
       (call_for N POST (JTasksCancelByUuids uuids) cancelled_list_doc)"

definition client_update_task_labels :: "'w net \<Rightarrow> (uuid \<Rightarrow> string) \<Rightarrow> uuid \<Rightarrow> string list \<Rightarrow> ('w, unit) client" where
  "client_update_task_labels N T uuid labels =
     thenR (set_url_path (''tasks/'' @ T uuid @ ''/labels''))
       (call_with N PUT [] (JUpdateTaskLabels labels))"

definition client_change_task :: "'w net \<Rightarrow> (uuid \<Rightarrow> string) \<Rightarrow> uuid \<Rightarrow> ChangeTaskReq \<Rightarrow> ('w, unit) client" where
  "client_change_task N T uuid req =
     thenR (set_url_path (''tasks/'' @ T uuid))
       (call_with N PUT [] (JChangeTask req))"

definition client_update_user_group_roles :: "'w net \<Rightarrow> string \<Rightarrow> ((string \<times> UserGroupRole) list) \<Rightarrow> ('w, unit) client" where
  "client_update_user_group_roles N group_name relations =
     thenR (set_url_path (''groups/'' @ group_name @ ''/users''))
       (call_with N PUT [] (JUpdateUserGroupRole relations))"

definition client_batch_delete_artifacts_by_filter :: "'w net \<Rightarrow> ArtifactsByFilterReq \<Rightarrow> ('w, nat) client" where
  "client_batch_delete_artifacts_by_filter N req =
     thenR (set_url_path ''tasks/delete/artifacts'')
       (call_for N POST (JArtifactsDeleteByFilter req) deleted_doc)"

definition client_batch_delete_artifacts_by_list :: "'w net \<Rightarrow> uuid list \<Rightarrow> ArtifactContentType \<Rightarrow> ('w, nat \<times> uuid list) client" where
  "client_batch_delete_artifacts_by_list N uuids content_type =
     thenR (set_url_path ''tasks/delete/artifacts/list'')
       (call_for N POST (JArtifactsDeleteByUuids uuids content_type) deleted_uuids_doc)"

definition client_batch_delete_attachments_by_filter :: "'w net \<Rightarrow> string \<Rightarrow> string option \<Rightarrow> nat option \<Rightarrow> nat option \<Rightarrow> ('w, nat \<times> string) client" where
  "client_batch_delete_attachments_by_filter N group_name key lim off =
     thenR (set_url_path (''groups/'' @ group_name @ ''/delete/attachments''))
       (call_for N POST (JAttachmentsDeleteByFilter key lim off) deleted_attachments_doc)"

definition client_batch_delete_attachments_by_list :: "'w net \<Rightarrow> string \<Rightarrow> string list \<Rightarrow> ('w, nat \<times> string list \<times> string) client" where
  "client_batch_delete_attachments_by_list N group_name keys =
     thenR (set_url_path (''groups/'' @ group_name @ ''/delete/attachments/list''))
       (call_for N POST (JAttachmentsDeleteByKeys keys) deleted_keys_doc)"

definition client_batch_submit_tasks :: "'w net \<Rightarrow> SubmitTaskReq list \<Rightarrow> ('w, (ApiError + SubmitTaskResp) list) client" where
  "client_batch_submit_tasks N reqs =
     thenR (set_url_path ''tasks/submit'')
       (call_for N POST (JTasksSubmit reqs) batch_doc)"

definition client_admin_shutdown_coordinator :: "'w net \<Rightarrow> string \<Rightarrow> ('w, unit) client" where
  "client_admin_shutdown_coordinator N secret =
     thenR (set_url_path ''admin/shutdown'')
       (call_with N POST [] (JShutdown secret))"

lemmas client_defs =
  client_get_redis_connection_info_def client_admin_change_password_def client_admin_create_user_def
  client_admin_delete_user_def client_user_create_group_def client_get_task_by_uuid_def
  client_get_artifact_download_resp_def client_get_attachment_download_resp_def
  client_batch_download_artifacts_by_filter_def client_batch_download_artifacts_by_list_def
  client_batch_download_attachments_by_filter_def client_batch_download_attachments_by_list_def
  client_delete_artifact_def client_delete_attachment_def client_get_attachment_def
  client_admin_update_user_group_quota_def client_admin_update_group_storage_quota_def
  client_query_tasks_by_filter_def client_query_attachments_by_filter_def client_get_worker_by_uuid_def
  client_query_workers_by_filter_def client_get_group_by_name_def client_get_user_groups_roles_def
  client_user_submit_task_def client_get_upload_artifact_resp_def client_get_upload_attachment_resp_def
  client_shutdown_workers_by_filter_def client_shutdown_workers_by_uuids_def client_replace_worker_tags_def
  client_replace_worker_labels_def client_update_group_worker_roles_def client_cancel_task_by_uuid_def
  client_cancel_tasks_by_filter_def client_cancel_tasks_by_uuids_def client_update_task_labels_def
  client_change_task_def client_update_user_group_roles_def client_batch_delete_artifacts_by_filter_def
  client_batch_delete_artifacts_by_list_def client_batch_delete_attachments_by_filter_def
  client_batch_delete_attachments_by_list_def client_batch_submit_tasks_def client_admin_shutdown_coordinator_def
  client_user_auth_def client_admin_cancel_worker_by_uuid_def client_cancel_worker_by_uuid_def
  client_remove_group_worker_roles_def client_remove_user_group_roles_def

end
