(* ===== verification/Client_Routes.thy ===== *)
theory Client_Routes
  imports Client_Http
begin

text \<open>
  The routes that the requests of the clients take. \<open>route_request_eq\<close> reduces the choice of a route to a
  comparison of the route that is expected with every other route that matches; a lemma per request of the
  client and of the worker shows that its path leads to the handler it is meant for.
\<close>

section \<open>Choosing a route\<close>

text \<open>The documented rule has an implementation.\<close>

fun best_route :: "string list \<Rightarrow> Seg list list \<Rightarrow> Seg list option" where
  "best_route path [] = None"
| "best_route path (p # ps) =
     (case best_route path ps of
        None \<Rightarrow> if route_matches path p then Some p else None
      | Some q \<Rightarrow> if route_matches path p \<and> preferred p q then Some p else Some q)"

lemma captures_Rest [simp]: "captures (Rest # q # qs) xs = None"
  by (cases xs) simp_all

lemma preferred_total:
  assumes "captures p path = Some a" and "captures q path = Some b"
  shows "p = q \<or> preferred p q \<or> preferred q p"
  using assms
proof (induction p path arbitrary: q a b rule: captures.induct)
  case (2 s ps x xs)
  then show ?case by (cases q; cases "hd q") (auto split: if_splits)
next
  case (3 ps x xs)
  then show ?case by (cases q; cases "hd q") (auto split: if_splits)
next
  case (4 x xs)
  then show ?case by (cases q; cases "hd q"; cases "tl q") (auto split: if_splits)
next
  case 1
  then show ?case by (cases q; cases "hd q"; cases "tl q") auto
qed simp_all

lemma preferred_trans: "preferred p q \<Longrightarrow> preferred q r \<Longrightarrow> preferred p r"
proof (induction p q arbitrary: r rule: preferred.induct)
  case (1 s ps t qs)
  then show ?case by (cases r; cases "hd r") auto
next
  case (2 s ps qs)
  then show ?case by (cases r; cases "hd r") auto
next
  case (3 s ps qs)
  then show ?case by (cases r; cases "hd r") auto
next
  case (4 ps qs)
  then show ?case by (cases r; cases "hd r") auto
qed auto

lemma good_pick_best: "good_pick (\<lambda>ps path. best_route path ps)"
proof -
  have "case best_route path ps of
      None \<Rightarrow> \<forall>q \<in> set ps. \<not> route_matches path q
    | Some p \<Rightarrow> p \<in> set ps \<and> route_matches path p \<and> (\<forall>q \<in> set ps. route_matches path q \<longrightarrow> q = p \<or> preferred p q)"
    for ps path
  proof (induction ps)
    case (Cons a ps)
    then show ?case
      by (auto split: option.splits simp: route_matches_def dest: preferred_trans preferred_total)
  qed simp
  then show ?thesis by (simp add: good_pick_def)
qed

lemma picked:
  assumes "good_pick pick" and "p \<in> set ps" and "route_matches path p"
    and "\<forall>q \<in> set ps. route_matches path q \<longrightarrow> q = p \<or> \<not> preferred q p"
  shows "pick ps path = Some p"
proof -
  have "case pick ps path of
      None \<Rightarrow> \<forall>q \<in> set ps. \<not> route_matches path q
    | Some p \<Rightarrow> p \<in> set ps \<and> route_matches path p \<and> (\<forall>q \<in> set ps. route_matches path q \<longrightarrow> q = p \<or> preferred p q)"
    using assms(1) by (simp add: good_pick_def)
  then show ?thesis using assms(2-4) by (cases "pick ps path") auto
qed

section \<open>Paths\<close>

definition piece :: "string \<Rightarrow> bool" where
  "piece s \<longleftrightarrow> path_segment s \<and> CHR ''/'' \<notin> set s"

lemma route_request_eq:
  assumes stack: "good_stack H"
    and path: "rq_path hr = join_on (CHR ''/'') segs" and pieces: "segs \<noteq> []" "list_all piece segs"
    and p: "captures p segs = Some caps"
    and best: "p \<in> set (map fst rs)" "\<forall>q \<in> set (map fst rs). route_matches segs q \<longrightarrow> q = p \<or> \<not> preferred q p"
  shows "route_request H rs hr =
    (case map_of (methods_at rs p) (rq_method hr) of
       None \<Rightarrow> None | Some h \<Rightarrow> h (rq_bearer hr) caps (rq_query hr) (rq_body hr))"
proof -
  have split: "split_on (CHR ''/'') (rq_path hr) = segs"
    unfolding path by (rule split_on_join) (use pieces in \<open>auto simp: piece_def list_all_iff\<close>)
  then have "hs_target H (rq_path hr) = segs"
    using stack pieces by (auto simp: good_stack_def good_target_def piece_def list_all_iff)
  moreover have "hs_pick H (map fst rs) segs = Some p"
    by (rule picked) (use stack p best in \<open>auto simp: good_stack_def route_matches_def\<close>)
  ultimately show ?thesis using p by (simp add: route_request_def split: option.split)
qed

text \<open>The routes below one prefix are the only rivals of a route below it.\<close>

definition under :: "string \<Rightarrow> routes \<Rightarrow> routes" where
  "under prefix rs = filter (\<lambda>(p, _). p \<noteq> [] \<and> hd p = Static prefix) rs"

lemma methods_under: "methods_at rs (Static prefix # p) = methods_at (under prefix rs) (Static prefix # p)"
  by (induction rs) (auto simp: methods_at_def under_def)

lemma captures_first: "captures q (x # xs) = Some caps \<Longrightarrow> \<exists>q'. q = Static x # q' \<or> hd q = Param \<or> hd q = Rest"
  by (cases q; cases "hd q") (auto split: if_splits)

definition rooted :: "routes \<Rightarrow> bool" where
  "rooted rs \<longleftrightarrow> (\<forall>q \<in> set (map fst rs). q \<noteq> [] \<and> hd q \<noteq> Param \<and> hd q \<noteq> Rest)"

lemma route_request_at:
  assumes "good_stack H" "rooted rs" "under prefix rs = us"
    and "rq_path hr = join_on (CHR ''/'') (prefix # segs)" "list_all piece (prefix # segs)"
    and "captures p segs = Some caps"
    and best: "Static prefix # p \<in> set (map fst us)"
      "\<forall>q \<in> set (map fst us). route_matches (prefix # segs) q \<longrightarrow> q = Static prefix # p \<or> \<not> preferred q (Static prefix # p)"
  shows "route_request H rs hr =
    (case map_of (methods_at us (Static prefix # p)) (rq_method hr) of
       None \<Rightarrow> None | Some h \<Rightarrow> h (rq_bearer hr) caps (rq_query hr) (rq_body hr))"
  unfolding assms(3) [symmetric] methods_under [symmetric]
proof (rule route_request_eq [where segs = "prefix # segs" and p = "Static prefix # p"])
  show "\<forall>q \<in> set (map fst rs). route_matches (prefix # segs) q \<longrightarrow> q = Static prefix # p \<or> \<not> preferred q (Static prefix # p)"
  proof (intro ballI impI)
    fix q
    assume q: "q \<in> set (map fst rs)" "route_matches (prefix # segs) q"
    obtain q' where q': "q = Static prefix # q'"
      using q assms(2) captures_first [of q prefix segs] by (fastforce simp: rooted_def route_matches_def)
    then have "q \<in> set (map fst us)" using q(1) unfolding assms(3) [symmetric] under_def by force
    then show "q = Static prefix # p \<or> \<not> preferred q (Static prefix # p)" using q(2) best(2) by blast
  qed
  show "Static prefix # p \<in> set (map fst rs)"
    using best(1) unfolding assms(3) [symmetric] under_def by auto
qed (use assms in simp_all)

lemma route_request_in:
  assumes "good_stack H" "rooted rs" "under prefix rs = us"
    and "rq_path hr = join_on (CHR ''/'') (prefix # segs)" "list_all piece (prefix # segs)"
    and "captures p segs = Some caps"
    and "Static prefix # p \<in> set (map fst us)"
      "\<forall>q \<in> set (map fst us). route_matches (prefix # segs) q \<longrightarrow> q = Static prefix # p \<or> \<not> preferred q (Static prefix # p)"
    and "map_of (methods_at us (Static prefix # p)) (rq_method hr) = Some h"
  shows "route_request H rs hr = h (rq_bearer hr) caps (rq_query hr) (rq_body hr)"
  unfolding route_request_at [OF assms(1-8)] by (simp add: assms(9))

definition hex_char :: "char \<Rightarrow> bool" where
  "hex_char c \<longleftrightarrow> (let n = of_char c :: nat in (48 \<le> n \<and> n \<le> 57) \<or> (97 \<le> n \<and> n \<le> 102) \<or> n = 45)"

definition hex_text :: "(uuid \<Rightarrow> string) \<Rightarrow> bool" where
  "hex_text T \<longleftrightarrow> (\<forall>u. T u \<noteq> [] \<and> list_all hex_char (T u))"

lemma hex_char_path: "hex_char c \<Longrightarrow> path_char c \<and> c \<noteq> CHR ''/'' \<and> c \<noteq> CHR ''.''"
  by (auto simp: path_char_def hex_char_def Let_def)

lemma hex_text_piece:
  assumes "hex_text T"
  shows "piece (T u)"
proof -
  have ne: "T u \<noteq> []" and all: "list_all hex_char (T u)" using assms by (simp_all add: hex_text_def)
  have chars: "path_char c \<and> c \<noteq> CHR ''/'' \<and> c \<noteq> CHR ''.''" if "c \<in> set (T u)" for c
    using all that by (intro hex_char_path) (simp add: list_all_iff)
  then have "CHR ''.'' \<notin> set (T u)" and "CHR ''/'' \<notin> set (T u)" and "list_all path_char (T u)"
    by (auto simp: list_all_iff)
  then show ?thesis using ne by (auto simp: piece_def path_segment_def)
qed

lemma hex_text_neq: "hex_text T \<Longrightarrow> \<not> list_all hex_char s \<Longrightarrow> T u \<noteq> s \<and> s \<noteq> T u"
  by (auto simp: hex_text_def)

lemma name_piece: "name_validator n \<Longrightarrow> piece n"
  by (auto simp: name_validator_def piece_def path_segment_def path_char_def is_ascii_alphanumeric_def list_all_iff Let_def)

lemma content_type_piece [simp]: "piece (content_type_text ct)"
  by (cases ct) (simp_all add: piece_def path_segment_def path_char_def)


section \<open>Routing\<close>

lemmas table_defs = nest_def layer_def users_routes_def admin_routes_def groups_routes_def workers_routes_def
  workers_user_routes_def tasks_routes_def

lemma under_append: "under prefix (rs @ rs') = under prefix rs @ under prefix rs'"
  by (simp add: under_def)

lemma under_nest: "under prefix (nest prefix' rs) = (if prefix' = prefix then nest prefix' rs else [])"
  by (induction rs) (auto simp: under_def nest_def)

lemma under_Cons:
  "under prefix ((Static x # p, ms) # rs) = (if x = prefix then (Static x # p, ms) # under prefix rs else under prefix rs)"
  "under prefix [] = []"
  by (simp_all add: under_def)

lemma rooted_coordinator [simp]: "rooted (coordinator_routes U)"
  unfolding rooted_def coordinator_routes_def nest_def by (auto simp: case_prod_unfold)

lemmas under_rules = coordinator_routes_def under_append under_nest under_Cons

lemma routes_under:
  "under ''users'' (coordinator_routes U) = nest ''users'' (layer (\<lambda>t r. Run (UserReq t r)) users_routes)"
  "under ''admin'' (coordinator_routes U) = nest ''admin'' (layer (\<lambda>t r. Run (AdminReq t r)) (admin_routes U))"
  "under ''groups'' (coordinator_routes U) = nest ''groups'' (layer (\<lambda>t r. Run (GroupReq t r)) groups_routes)"
  "under ''workers'' (coordinator_routes U) =
     nest ''workers'' (layer worker_routed (workers_routes U) @ layer (\<lambda>t r. Run (WorkerUserReq t r)) (workers_user_routes U))"
  "under ''tasks'' (coordinator_routes U) = nest ''tasks'' (layer (\<lambda>t r. Run (TaskReq t r)) (tasks_routes U))"
  "under ''auth'' (coordinator_routes U) =
     [([Static ''auth''], [(GET, with_token (\<lambda>t _. Run (UserReq t WhoAmI)) (no_params (\<lambda>q b. Some ())))])]"
  "under ''login'' (coordinator_routes U) =
     [([Static ''login''], [
        (POST, \<lambda>_. no_params (\<lambda>q b. case b of JUserLogin un pw retain \<Rightarrow> Some (Run (Login un pw retain)) | _ \<Rightarrow> None))])]"
  "under ''redis'' (coordinator_routes U) =
     [([Static ''redis''], [(GET, with_token (\<lambda>t _. Run (UserReq t QueryRedis)) (no_params (\<lambda>q b. Some ())))])]"
  by (simp_all add: under_rules)

definition leads_to :: "HttpStack \<Rightarrow> (string \<Rightarrow> uuid option) \<Rightarrow> HttpRequest \<Rightarrow> Request \<Rightarrow> bool" where
  "leads_to H U hr r \<longleftrightarrow> route_request H (coordinator_routes U) hr = Some (Run r)"

lemma captures_Nil: "captures [] xs = (if xs = [] then Some [] else None)"
  by (cases xs) auto

lemma hex_text_nonempty: "hex_text T \<Longrightarrow> T u \<noteq> []"
  by (simp add: hex_text_def)

lemma piece_nonempty: "piece s \<Longrightarrow> s \<noteq> []"
  by (simp add: piece_def path_segment_def)

lemma content_type_text_nonempty [simp]: "content_type_text ct \<noteq> []"
  by (cases ct) simp_all

lemmas routing = routes_under route_matches_def captures_Nil hex_text_piece hex_text_neq hex_text_nonempty piece_nonempty
  hex_char_def methods_at_def table_defs with_token_def no_params_def by_name_def by_key_def by_uuid_def by_artifact_def
  shutdown_params_def shutdown_op_of_text_def

lemma piece_literals [simp]:
  "piece ''admin''" "piece ''artifacts''" "piece ''attachments''" "piece ''auth''" "piece ''cancel''" "piece ''delete''"
  "piece ''download''" "piece ''group-quota''" "piece ''groups''" "piece ''heartbeat''" "piece ''labels''" "piece ''list''"
  "piece ''login''" "piece ''password''" "piece ''query''" "piece ''redis''" "piece ''shutdown''" "piece ''storage-quota''"
  "piece ''submit''" "piece ''tags''" "piece ''tasks''" "piece ''users''" "piece ''workers''"
  by (simp_all add: piece_def path_segment_def path_char_def)

lemma route_change_password:
  assumes "good_stack H" "piece un"
  shows "leads_to H U \<lparr>rq_method = POST, rq_path = ''users/'' @ un @ ''/password'',
             rq_query = [], rq_bearer = Some t, rq_body = JUserChangePassword old new\<rparr>
           (UserReq t (ChangePassword un old new))"
  unfolding leads_to_def
  by (rule trans, rule route_request_in [where prefix = "''users''" and segs = "[un, ''password'']" and
        p = "[Param, Static ''password'']"], insert assms, (simp add: routing; fail)+)

lemma route_query_groups:
  assumes "good_stack H"
  shows "leads_to H U \<lparr>rq_method = GET, rq_path = ''users/groups'',
             rq_query = [], rq_bearer = Some t, rq_body = NoBody\<rparr>
           (UserReq t QueryGroups)"
  unfolding leads_to_def
  by (rule trans, rule route_request_in [where prefix = "''users''" and segs = "[''groups'']" and
        p = "[Static ''groups'']"], insert assms, (simp add: routing; fail)+)

lemma route_query_redis:
  assumes "good_stack H"
  shows "leads_to H U \<lparr>rq_method = GET, rq_path = ''redis'',
             rq_query = [], rq_bearer = Some t, rq_body = NoBody\<rparr>
           (UserReq t QueryRedis)"
  unfolding leads_to_def
  by (rule trans, rule route_request_in [where prefix = "''redis''" and segs = "[]" and
        p = "[]"], insert assms, (simp add: routing; fail)+)

lemma route_who_am_i:
  assumes "good_stack H"
  shows "leads_to H U \<lparr>rq_method = GET, rq_path = ''auth'',
             rq_query = [], rq_bearer = Some t, rq_body = NoBody\<rparr>
           (UserReq t WhoAmI)"
  unfolding leads_to_def
  by (rule trans, rule route_request_in [where prefix = "''auth''" and segs = "[]" and
        p = "[]"], insert assms, (simp add: routing; fail)+)

lemma route_submit_task:
  assumes "good_stack H"
  shows "leads_to H U \<lparr>rq_method = POST, rq_path = ''tasks'',
             rq_query = [], rq_bearer = Some t, rq_body = JSubmitTask req\<rparr>
           (TaskReq t (SubmitTask req))"
  unfolding leads_to_def
  by (rule trans, rule route_request_in [where prefix = "''tasks''" and segs = "[]" and
        p = "[]"], insert assms, (simp add: routing; fail)+)

lemma route_change_task:
  assumes "good_stack H" "hex_text T" "U (T u) = Some u"
  shows "leads_to H U \<lparr>rq_method = PUT, rq_path = ''tasks/'' @ T u,
             rq_query = [], rq_bearer = Some t, rq_body = JChangeTask ch\<rparr>
           (TaskReq t (ChangeTask u ch))"
  unfolding leads_to_def
  by (rule trans, rule route_request_in [where prefix = "''tasks''" and segs = "[T u]" and
        p = "[Param]"], insert assms, (simp add: routing; fail)+)

lemma route_change_task_labels:
  assumes "good_stack H" "hex_text T" "U (T u) = Some u"
  shows "leads_to H U \<lparr>rq_method = PUT, rq_path = ''tasks/'' @ T u @ ''/labels'',
             rq_query = [], rq_bearer = Some t, rq_body = JUpdateTaskLabels ls\<rparr>
           (TaskReq t (ChangeTaskLabels u ls))"
  unfolding leads_to_def
  by (rule trans, rule route_request_in [where prefix = "''tasks''" and segs = "[T u, ''labels'']" and
        p = "[Param, Static ''labels'']"], insert assms, (simp add: routing; fail)+)

lemma route_cancel_task:
  assumes "good_stack H" "hex_text T" "U (T u) = Some u"
  shows "leads_to H U \<lparr>rq_method = DELETE, rq_path = ''tasks/'' @ T u,
             rq_query = [], rq_bearer = Some t, rq_body = NoBody\<rparr>
           (TaskReq t (CancelTask u))"
  unfolding leads_to_def
  by (rule trans, rule route_request_in [where prefix = "''tasks''" and segs = "[T u]" and
        p = "[Param]"], insert assms, (simp add: routing; fail)+)

lemma route_query_task:
  assumes "good_stack H" "hex_text T" "U (T u) = Some u"
  shows "leads_to H U \<lparr>rq_method = GET, rq_path = ''tasks/'' @ T u,
             rq_query = [], rq_bearer = Some t, rq_body = NoBody\<rparr>
           (TaskReq t (QueryTask u))"
  unfolding leads_to_def
  by (rule trans, rule route_request_in [where prefix = "''tasks''" and segs = "[T u]" and
        p = "[Param]"], insert assms, (simp add: routing; fail)+)

lemma route_query_tasks:
  assumes "good_stack H"
  shows "leads_to H U \<lparr>rq_method = POST, rq_path = ''tasks/query'',
             rq_query = [], rq_bearer = Some t, rq_body = JTasksQuery q\<rparr>
           (TaskReq t (QueryTasks q))"
  unfolding leads_to_def
  by (rule trans, rule route_request_in [where prefix = "''tasks''" and segs = "[''query'']" and
        p = "[Static ''query'']"], insert assms, (simp add: routing; fail)+)

lemma route_cancel_tasks:
  assumes "good_stack H"
  shows "leads_to H U \<lparr>rq_method = POST, rq_path = ''tasks/cancel'',
             rq_query = [], rq_bearer = Some t, rq_body = JTasksCancelByFilter f\<rparr>
           (TaskReq t (CancelTasks f))"
  unfolding leads_to_def
  by (rule trans, rule route_request_in [where prefix = "''tasks''" and segs = "[''cancel'']" and
        p = "[Static ''cancel'']"], insert assms, (simp add: routing; fail)+)

lemma route_cancel_tasks_by_uuids:
  assumes "good_stack H"
  shows "leads_to H U \<lparr>rq_method = POST, rq_path = ''tasks/cancel/list'',
             rq_query = [], rq_bearer = Some t, rq_body = JTasksCancelByUuids us\<rparr>
           (TaskReq t (CancelTasksByUuids us))"
  unfolding leads_to_def
  by (rule trans, rule route_request_in [where prefix = "''tasks''" and segs = "[''cancel'', ''list'']" and
        p = "[Static ''cancel'', Static ''list'']"], insert assms, (simp add: routing; fail)+)

lemma route_upload_artifact:
  assumes "good_stack H" "hex_text T" "U (T u) = Some u"
  shows "leads_to H U \<lparr>rq_method = POST, rq_path = ''tasks/'' @ T u @ ''/artifacts'',
             rq_query = [], rq_bearer = Some t, rq_body = JUploadArtifact ct n\<rparr>
           (TaskReq t (UploadArtifact u ct n))"
  unfolding leads_to_def
  by (rule trans, rule route_request_in [where prefix = "''tasks''" and segs = "[T u, ''artifacts'']" and
        p = "[Param, Static ''artifacts'']"], insert assms, (simp add: routing; fail)+)

lemma route_download_artifact:
  assumes "good_stack H" "hex_text T" "U (T u) = Some u"
  shows "leads_to H U \<lparr>rq_method = GET, rq_path = ''tasks/'' @ T u @ ''/download/artifacts/'' @ content_type_text ct,
             rq_query = [], rq_bearer = Some t, rq_body = NoBody\<rparr>
           (TaskReq t (DownloadArtifact u ct))"
  unfolding leads_to_def
  by (rule trans, rule route_request_in [where prefix = "''tasks''" and segs = "[T u, ''download'', ''artifacts'', content_type_text ct]" and
        p = "[Param, Static ''download'', Static ''artifacts'', Param]"], insert assms, (simp add: routing; fail)+)

lemma route_delete_artifact:
  assumes "good_stack H" "hex_text T" "U (T u) = Some u"
  shows "leads_to H U \<lparr>rq_method = DELETE, rq_path = ''tasks/'' @ T u @ ''/artifacts/'' @ content_type_text ct,
             rq_query = [], rq_bearer = Some t, rq_body = NoBody\<rparr>
           (TaskReq t (DeleteArtifact u ct))"
  unfolding leads_to_def
  by (rule trans, rule route_request_in [where prefix = "''tasks''" and segs = "[T u, ''artifacts'', content_type_text ct]" and
        p = "[Param, Static ''artifacts'', Param]"], insert assms, (simp add: routing; fail)+)

lemma route_batch_download_artifacts:
  assumes "good_stack H"
  shows "leads_to H U \<lparr>rq_method = POST, rq_path = ''tasks/download/artifacts'',
             rq_query = [], rq_bearer = Some t, rq_body = JArtifactsDownloadByFilter af\<rparr>
           (TaskReq t (BatchDownloadArtifacts af))"
  unfolding leads_to_def
  by (rule trans, rule route_request_in [where prefix = "''tasks''" and segs = "[''download'', ''artifacts'']" and
        p = "[Static ''download'', Static ''artifacts'']"], insert assms, (simp add: routing; fail)+)

lemma route_batch_download_artifacts_by_uuids:
  assumes "good_stack H"
  shows "leads_to H U \<lparr>rq_method = POST, rq_path = ''tasks/download/artifacts/list'',
             rq_query = [], rq_bearer = Some t, rq_body = JArtifactsDownloadByUuids us ct\<rparr>
           (TaskReq t (BatchDownloadArtifactsByUuids us ct))"
  unfolding leads_to_def
  by (rule trans, rule route_request_in [where prefix = "''tasks''" and segs = "[''download'', ''artifacts'', ''list'']" and
        p = "[Static ''download'', Static ''artifacts'', Static ''list'']"], insert assms, (simp add: routing; fail)+)

lemma route_batch_delete_artifacts:
  assumes "good_stack H"
  shows "leads_to H U \<lparr>rq_method = POST, rq_path = ''tasks/delete/artifacts'',
             rq_query = [], rq_bearer = Some t, rq_body = JArtifactsDeleteByFilter af\<rparr>
           (TaskReq t (BatchDeleteArtifacts af))"
  unfolding leads_to_def
  by (rule trans, rule route_request_in [where prefix = "''tasks''" and segs = "[''delete'', ''artifacts'']" and
        p = "[Static ''delete'', Static ''artifacts'']"], insert assms, (simp add: routing; fail)+)

lemma route_batch_delete_artifacts_by_uuids:
  assumes "good_stack H"
  shows "leads_to H U \<lparr>rq_method = POST, rq_path = ''tasks/delete/artifacts/list'',
             rq_query = [], rq_bearer = Some t, rq_body = JArtifactsDeleteByUuids us ct\<rparr>
           (TaskReq t (BatchDeleteArtifactsByUuids us ct))"
  unfolding leads_to_def
  by (rule trans, rule route_request_in [where prefix = "''tasks''" and segs = "[''delete'', ''artifacts'', ''list'']" and
        p = "[Static ''delete'', Static ''artifacts'', Static ''list'']"], insert assms, (simp add: routing; fail)+)

lemma route_batch_submit_tasks:
  assumes "good_stack H"
  shows "leads_to H U \<lparr>rq_method = POST, rq_path = ''tasks/submit'',
             rq_query = [], rq_bearer = Some t, rq_body = JTasksSubmit reqs\<rparr>
           (TaskReq t (BatchSubmitTasks reqs))"
  unfolding leads_to_def
  by (rule trans, rule route_request_in [where prefix = "''tasks''" and segs = "[''submit'']" and
        p = "[Static ''submit'']"], insert assms, (simp add: routing; fail)+)

lemma route_create_group:
  assumes "good_stack H"
  shows "leads_to H U \<lparr>rq_method = POST, rq_path = ''groups'',
             rq_query = [], rq_bearer = Some t, rq_body = JCreateGroup gn\<rparr>
           (GroupReq t (CreateGroup gn))"
  unfolding leads_to_def
  by (rule trans, rule route_request_in [where prefix = "''groups''" and segs = "[]" and
        p = "[]"], insert assms, (simp add: routing; fail)+)

lemma route_get_group:
  assumes "good_stack H" "piece gn"
  shows "leads_to H U \<lparr>rq_method = GET, rq_path = ''groups/'' @ gn,
             rq_query = [], rq_bearer = Some t, rq_body = NoBody\<rparr>
           (GroupReq t (GetGroup gn))"
  unfolding leads_to_def
  by (rule trans, rule route_request_in [where prefix = "''groups''" and segs = "[gn]" and
        p = "[Param]"], insert assms, (simp add: routing; fail)+)

lemma route_update_user_group:
  assumes "good_stack H" "piece gn"
  shows "leads_to H U \<lparr>rq_method = PUT, rq_path = ''groups/'' @ gn @ ''/users'',
             rq_query = [], rq_bearer = Some t, rq_body = JUpdateUserGroupRole rs\<rparr>
           (GroupReq t (UpdateUserGroup gn rs))"
  unfolding leads_to_def
  by (rule trans, rule route_request_in [where prefix = "''groups''" and segs = "[gn, ''users'']" and
        p = "[Param, Static ''users'']"], insert assms, (simp add: routing; fail)+)

lemma route_remove_user_group:
  assumes "good_stack H" "piece gn" "distinct us"
  shows "leads_to H U \<lparr>rq_method = DELETE, rq_path = ''groups/'' @ gn @ ''/users'',
             rq_query = map (Pair ''users'') us, rq_bearer = Some t, rq_body = NoBody\<rparr>
           (GroupReq t (RemoveUserGroup gn us))"
  unfolding leads_to_def
  by (rule trans, rule route_request_in [where prefix = "''groups''" and segs = "[gn, ''users'']" and
        p = "[Param, Static ''users'']"], insert assms, (simp add: routing params_of_def filter_map comp_def; fail)+)

lemma route_upload_attachment:
  assumes "good_stack H" "piece gn"
  shows "leads_to H U \<lparr>rq_method = POST, rq_path = ''groups/'' @ gn @ ''/attachments'',
             rq_query = [], rq_bearer = Some t, rq_body = JUploadAttachment k n\<rparr>
           (GroupReq t (UploadAttachment gn k n))"
  unfolding leads_to_def
  by (rule trans, rule route_request_in [where prefix = "''groups''" and segs = "[gn, ''attachments'']" and
        p = "[Param, Static ''attachments'']"], insert assms, (simp add: routing; fail)+)

lemma route_download_attachment:
  assumes "good_stack H" "piece gn" "list_all piece (split_on (CHR ''/'') k)" "k \<noteq> ''list''"
  shows "leads_to H U \<lparr>rq_method = GET, rq_path = ''groups/'' @ gn @ ''/download/attachments/'' @ k,
             rq_query = [], rq_bearer = Some t, rq_body = NoBody\<rparr>
           (GroupReq t (DownloadAttachment gn k))"
proof -
  obtain x xs where k: "split_on (CHR ''/'') k = x # xs" using split_on_nonempty by (metis list.exhaust)
  have key: "join_on (CHR ''/'') (x # xs) = k" using join_split_on [of "CHR ''/''" k] k by simp
  then have other: "''list'' = x \<longrightarrow> xs \<noteq> []" using assms(4) by auto
  show ?thesis
    unfolding leads_to_def
    by (rule trans, rule route_request_in [where prefix = "''groups''" and segs = "[gn, ''download'', ''attachments''] @ x # xs" and
          p = "[Param, Static ''download'', Static ''attachments'', Rest]"], insert assms key k other, (simp add: routing; fail)+)
qed

lemma route_delete_attachment:
  assumes "good_stack H" "piece gn" "list_all piece (split_on (CHR ''/'') k)" "k \<noteq> ''query''"
  shows "leads_to H U \<lparr>rq_method = DELETE, rq_path = ''groups/'' @ gn @ ''/attachments/'' @ k,
             rq_query = [], rq_bearer = Some t, rq_body = NoBody\<rparr>
           (GroupReq t (DeleteAttachment gn k))"
proof -
  obtain x xs where k: "split_on (CHR ''/'') k = x # xs" using split_on_nonempty by (metis list.exhaust)
  have key: "join_on (CHR ''/'') (x # xs) = k" using join_split_on [of "CHR ''/''" k] k by simp
  then have other: "''query'' = x \<longrightarrow> xs \<noteq> []" using assms(4) by auto
  show ?thesis
    unfolding leads_to_def
    by (rule trans, rule route_request_in [where prefix = "''groups''" and segs = "[gn, ''attachments''] @ x # xs" and
          p = "[Param, Static ''attachments'', Rest]"], insert assms key k other, (simp add: routing; fail)+)
qed

lemma route_query_attachment:
  assumes "good_stack H" "piece gn" "list_all piece (split_on (CHR ''/'') k)" "k \<noteq> ''query''"
  shows "leads_to H U \<lparr>rq_method = GET, rq_path = ''groups/'' @ gn @ ''/attachments/'' @ k,
             rq_query = [], rq_bearer = Some t, rq_body = NoBody\<rparr>
           (GroupReq t (QueryAttachment gn k))"
proof -
  obtain x xs where k: "split_on (CHR ''/'') k = x # xs" using split_on_nonempty by (metis list.exhaust)
  have key: "join_on (CHR ''/'') (x # xs) = k" using join_split_on [of "CHR ''/''" k] k by simp
  then have other: "''query'' = x \<longrightarrow> xs \<noteq> []" using assms(4) by auto
  show ?thesis
    unfolding leads_to_def
    by (rule trans, rule route_request_in [where prefix = "''groups''" and segs = "[gn, ''attachments''] @ x # xs" and
          p = "[Param, Static ''attachments'', Rest]"], insert assms key k other, (simp add: routing; fail)+)
qed

lemma route_query_attachments:
  assumes "good_stack H" "piece gn"
  shows "leads_to H U \<lparr>rq_method = POST, rq_path = ''groups/'' @ gn @ ''/attachments/query'',
             rq_query = [], rq_bearer = Some t, rq_body = JAttachmentsQuery aq\<rparr>
           (GroupReq t (QueryAttachments gn aq))"
  unfolding leads_to_def
  by (rule trans, rule route_request_in [where prefix = "''groups''" and segs = "[gn, ''attachments'', ''query'']" and
        p = "[Param, Static ''attachments'', Static ''query'']"], insert assms, (simp add: routing; fail)+)

lemma route_batch_download_attachments:
  assumes "good_stack H" "piece gn"
  shows "leads_to H U \<lparr>rq_method = POST, rq_path = ''groups/'' @ gn @ ''/download/attachments'',
             rq_query = [], rq_bearer = Some t, rq_body = JAttachmentsDownloadByFilter key lim off\<rparr>
           (GroupReq t (BatchDownloadAttachments gn key lim off))"
  unfolding leads_to_def
  by (rule trans, rule route_request_in [where prefix = "''groups''" and segs = "[gn, ''download'', ''attachments'']" and
        p = "[Param, Static ''download'', Static ''attachments'']"], insert assms, (simp add: routing; fail)+)

lemma route_batch_download_attachments_by_keys:
  assumes "good_stack H" "piece gn"
  shows "leads_to H U \<lparr>rq_method = POST, rq_path = ''groups/'' @ gn @ ''/download/attachments/list'',
             rq_query = [], rq_bearer = Some t, rq_body = JAttachmentsDownloadByKeys ks\<rparr>
           (GroupReq t (BatchDownloadAttachmentsByKeys gn ks))"
  unfolding leads_to_def
  by (rule trans, rule route_request_in [where prefix = "''groups''" and segs = "[gn, ''download'', ''attachments'', ''list'']" and
        p = "[Param, Static ''download'', Static ''attachments'', Static ''list'']"], insert assms, (simp add: routing; fail)+)

lemma route_batch_delete_attachments:
  assumes "good_stack H" "piece gn"
  shows "leads_to H U \<lparr>rq_method = POST, rq_path = ''groups/'' @ gn @ ''/delete/attachments'',
             rq_query = [], rq_bearer = Some t, rq_body = JAttachmentsDeleteByFilter key lim off\<rparr>
           (GroupReq t (BatchDeleteAttachments gn key lim off))"
  unfolding leads_to_def
  by (rule trans, rule route_request_in [where prefix = "''groups''" and segs = "[gn, ''delete'', ''attachments'']" and
        p = "[Param, Static ''delete'', Static ''attachments'']"], insert assms, (simp add: routing; fail)+)

lemma route_batch_delete_attachments_by_keys:
  assumes "good_stack H" "piece gn"
  shows "leads_to H U \<lparr>rq_method = POST, rq_path = ''groups/'' @ gn @ ''/delete/attachments/list'',
             rq_query = [], rq_bearer = Some t, rq_body = JAttachmentsDeleteByKeys ks\<rparr>
           (GroupReq t (BatchDeleteAttachmentsByKeys gn ks))"
  unfolding leads_to_def
  by (rule trans, rule route_request_in [where prefix = "''groups''" and segs = "[gn, ''delete'', ''attachments'', ''list'']" and
        p = "[Param, Static ''delete'', Static ''attachments'', Static ''list'']"], insert assms, (simp add: routing; fail)+)

lemma route_query_worker:
  assumes "good_stack H" "hex_text T" "U (T u) = Some u"
  shows "leads_to H U \<lparr>rq_method = GET, rq_path = ''workers/'' @ T u,
             rq_query = [], rq_bearer = Some t, rq_body = NoBody\<rparr>
           (WorkerUserReq t (QueryWorker u))"
  unfolding leads_to_def
  by (rule trans, rule route_request_in [where prefix = "''workers''" and segs = "[T u]" and
        p = "[Param]"], insert assms, (simp add: routing; fail)+)

lemma route_shutdown_worker:
  assumes "good_stack H" "hex_text T" "U (T u) = Some u"
  shows "leads_to H U \<lparr>rq_method = DELETE, rq_path = ''workers/'' @ T u,
             rq_query = if force then [(''op'', ''force'')] else [], rq_bearer = Some t, rq_body = NoBody\<rparr>
           (WorkerUserReq t (ShutdownWorker u (if force then Some Force else None)))"
  unfolding leads_to_def
  by (rule trans, rule route_request_in [where prefix = "''workers''" and segs = "[T u]" and
        p = "[Param]"], insert assms, (simp add: routing; fail)+)

lemma route_replace_worker_tags:
  assumes "good_stack H" "hex_text T" "U (T u) = Some u"
  shows "leads_to H U \<lparr>rq_method = PUT, rq_path = ''workers/'' @ T u @ ''/tags'',
             rq_query = [], rq_bearer = Some t, rq_body = JReplaceWorkerTags ts\<rparr>
           (WorkerUserReq t (ReplaceWorkerTags u ts))"
  unfolding leads_to_def
  by (rule trans, rule route_request_in [where prefix = "''workers''" and segs = "[T u, ''tags'']" and
        p = "[Param, Static ''tags'']"], insert assms, (simp add: routing; fail)+)

lemma route_replace_worker_labels:
  assumes "good_stack H" "hex_text T" "U (T u) = Some u"
  shows "leads_to H U \<lparr>rq_method = PUT, rq_path = ''workers/'' @ T u @ ''/labels'',
             rq_query = [], rq_bearer = Some t, rq_body = JReplaceWorkerLabels ls\<rparr>
           (WorkerUserReq t (ReplaceWorkerLabels u ls))"
  unfolding leads_to_def
  by (rule trans, rule route_request_in [where prefix = "''workers''" and segs = "[T u, ''labels'']" and
        p = "[Param, Static ''labels'']"], insert assms, (simp add: routing; fail)+)

lemma route_update_worker_groups:
  assumes "good_stack H" "hex_text T" "U (T u) = Some u"
  shows "leads_to H U \<lparr>rq_method = PUT, rq_path = ''workers/'' @ T u @ ''/groups'',
             rq_query = [], rq_bearer = Some t, rq_body = JUpdateGroupWorkerRole gr\<rparr>
           (WorkerUserReq t (UpdateWorkerGroups u gr))"
  unfolding leads_to_def
  by (rule trans, rule route_request_in [where prefix = "''workers''" and segs = "[T u, ''groups'']" and
        p = "[Param, Static ''groups'']"], insert assms, (simp add: routing; fail)+)

lemma route_remove_worker_groups:
  assumes "good_stack H" "hex_text T" "U (T u) = Some u" "distinct gs"
  shows "leads_to H U \<lparr>rq_method = DELETE, rq_path = ''workers/'' @ T u @ ''/groups'',
             rq_query = map (Pair ''groups'') gs, rq_bearer = Some t, rq_body = NoBody\<rparr>
           (WorkerUserReq t (RemoveWorkerGroups u gs))"
  unfolding leads_to_def
  by (rule trans, rule route_request_in [where prefix = "''workers''" and segs = "[T u, ''groups'']" and
        p = "[Param, Static ''groups'']"], insert assms, (simp add: routing params_of_def filter_map comp_def; fail)+)

lemma route_query_workers:
  assumes "good_stack H"
  shows "leads_to H U \<lparr>rq_method = POST, rq_path = ''workers/query'',
             rq_query = [], rq_bearer = Some t, rq_body = JWorkersQuery wq\<rparr>
           (WorkerUserReq t (QueryWorkers wq))"
  unfolding leads_to_def
  by (rule trans, rule route_request_in [where prefix = "''workers''" and segs = "[''query'']" and
        p = "[Static ''query'']"], insert assms, (simp add: routing; fail)+)

lemma route_shutdown_workers:
  assumes "good_stack H"
  shows "leads_to H U \<lparr>rq_method = POST, rq_path = ''workers/shutdown'',
             rq_query = [], rq_bearer = Some t, rq_body = JWorkersShutdownByFilter sf\<rparr>
           (WorkerUserReq t (ShutdownWorkers sf))"
  unfolding leads_to_def
  by (rule trans, rule route_request_in [where prefix = "''workers''" and segs = "[''shutdown'']" and
        p = "[Static ''shutdown'']"], insert assms, (simp add: routing; fail)+)

lemma route_shutdown_workers_by_uuids:
  assumes "good_stack H"
  shows "leads_to H U \<lparr>rq_method = POST, rq_path = ''workers/shutdown/list'',
             rq_query = [], rq_bearer = Some t, rq_body = JWorkersShutdownByUuids us sop\<rparr>
           (WorkerUserReq t (ShutdownWorkersByUuids sop us))"
  unfolding leads_to_def
  by (rule trans, rule route_request_in [where prefix = "''workers''" and segs = "[''shutdown'', ''list'']" and
        p = "[Static ''shutdown'', Static ''list'']"], insert assms, (simp add: routing; fail)+)

lemma route_admin_create_user:
  assumes "good_stack H"
  shows "leads_to H U \<lparr>rq_method = POST, rq_path = ''admin/users'',
             rq_query = [], rq_bearer = Some t, rq_body = JCreateUser un pw adm\<rparr>
           (AdminReq t (AdminCreateUser un pw adm))"
  unfolding leads_to_def
  by (rule trans, rule route_request_in [where prefix = "''admin''" and segs = "[''users'']" and
        p = "[Static ''users'']"], insert assms, (simp add: routing; fail)+)

lemma route_admin_delete_user:
  assumes "good_stack H" "piece un"
  shows "leads_to H U \<lparr>rq_method = DELETE, rq_path = ''admin/users/'' @ un,
             rq_query = [], rq_bearer = Some t, rq_body = NoBody\<rparr>
           (AdminReq t (AdminDeleteUser un))"
  unfolding leads_to_def
  by (rule trans, rule route_request_in [where prefix = "''admin''" and segs = "[''users'', un]" and
        p = "[Static ''users'', Param]"], insert assms, (simp add: routing; fail)+)

lemma route_admin_change_password:
  assumes "good_stack H" "piece un"
  shows "leads_to H U \<lparr>rq_method = POST, rq_path = ''admin/users/'' @ un @ ''/password'',
             rq_query = [], rq_bearer = Some t, rq_body = JAdminChangePassword pw\<rparr>
           (AdminReq t (AdminChangePassword un pw))"
  unfolding leads_to_def
  by (rule trans, rule route_request_in [where prefix = "''admin''" and segs = "[''users'', un, ''password'']" and
        p = "[Static ''users'', Param, Static ''password'']"], insert assms, (simp add: routing; fail)+)

lemma route_admin_change_user_group_quota:
  assumes "good_stack H" "piece un"
  shows "leads_to H U \<lparr>rq_method = POST, rq_path = ''admin/users/'' @ un @ ''/group-quota'',
             rq_query = [], rq_bearer = Some t, rq_body = JChangeUserGroupQuota q\<rparr>
           (AdminReq t (AdminChangeUserGroupQuota un q))"
  unfolding leads_to_def
  by (rule trans, rule route_request_in [where prefix = "''admin''" and segs = "[''users'', un, ''group-quota'']" and
        p = "[Static ''users'', Param, Static ''group-quota'']"], insert assms, (simp add: routing; fail)+)

lemma route_admin_change_group_storage_quota:
  assumes "good_stack H" "piece gn"
  shows "leads_to H U \<lparr>rq_method = POST, rq_path = ''admin/groups/'' @ gn @ ''/storage-quota'',
             rq_query = [], rq_bearer = Some t, rq_body = JChangeGroupStorageQuota q\<rparr>
           (AdminReq t (AdminChangeGroupStorageQuota gn q))"
  unfolding leads_to_def
  by (rule trans, rule route_request_in [where prefix = "''admin''" and segs = "[''groups'', gn, ''storage-quota'']" and
        p = "[Static ''groups'', Param, Static ''storage-quota'']"], insert assms, (simp add: routing; fail)+)

lemma route_admin_shutdown_worker:
  assumes "good_stack H" "hex_text T" "U (T u) = Some u"
  shows "leads_to H U \<lparr>rq_method = DELETE, rq_path = ''admin/workers/'' @ T u,
             rq_query = if force then [(''op'', ''force'')] else [], rq_bearer = Some t, rq_body = NoBody\<rparr>
           (AdminReq t (AdminShutdownWorker u (if force then Some Force else None)))"
  unfolding leads_to_def
  by (rule trans, rule route_request_in [where prefix = "''admin''" and segs = "[''workers'', T u]" and
        p = "[Static ''workers'', Param]"], insert assms, (simp add: routing; fail)+)

lemma route_admin_delete_attachment:
  assumes "good_stack H" "piece gn" "list_all piece (split_on (CHR ''/'') k)"
  shows "leads_to H U \<lparr>rq_method = DELETE, rq_path = ''admin/groups/'' @ gn @ ''/attachments/'' @ k,
             rq_query = [], rq_bearer = Some t, rq_body = NoBody\<rparr>
           (AdminReq t (AdminDeleteAttachment gn k))"
proof -
  obtain x xs where k: "split_on (CHR ''/'') k = x # xs" using split_on_nonempty by (metis list.exhaust)
  have key: "join_on (CHR ''/'') (x # xs) = k" using join_split_on [of "CHR ''/''" k] k by simp
  show ?thesis
    unfolding leads_to_def
    by (rule trans, rule route_request_in [where prefix = "''admin''" and segs = "[''groups'', gn, ''attachments''] @ x # xs" and
          p = "[Static ''groups'', Param, Static ''attachments'', Rest]"], insert assms key k, (simp add: routing; fail)+)
qed

lemma route_admin_delete_artifact:
  assumes "good_stack H" "hex_text T" "U (T u) = Some u"
  shows "leads_to H U \<lparr>rq_method = DELETE, rq_path = ''admin/tasks/'' @ T u @ ''/artifacts/'' @ content_type_text ct,
             rq_query = [], rq_bearer = Some t, rq_body = NoBody\<rparr>
           (AdminReq t (AdminDeleteArtifact u ct))"
  unfolding leads_to_def
  by (rule trans, rule route_request_in [where prefix = "''admin''" and segs = "[''tasks'', T u, ''artifacts'', content_type_text ct]" and
        p = "[Static ''tasks'', Param, Static ''artifacts'', Param]"], insert assms, (simp add: routing; fail)+)

lemma route_admin_shutdown:
  assumes "good_stack H"
  shows "leads_to H U \<lparr>rq_method = POST, rq_path = ''admin/shutdown'',
             rq_query = [], rq_bearer = Some t, rq_body = JShutdown secret\<rparr>
           (AdminReq t (AdminShutdown secret))"
  unfolding leads_to_def
  by (rule trans, rule route_request_in [where prefix = "''admin''" and segs = "[''shutdown'']" and
        p = "[Static ''shutdown'']"], insert assms, (simp add: routing; fail)+)

lemma route_unregister:
  assumes "good_stack H"
  shows "leads_to H U \<lparr>rq_method = DELETE, rq_path = ''workers'',
             rq_query = [], rq_bearer = Some t, rq_body = NoBody\<rparr>
           (WorkerReq t Unregister)"
  unfolding leads_to_def
  by (rule trans, rule route_request_in [where prefix = "''workers''" and segs = "[]" and
        p = "[]"], insert assms, (simp add: routing; fail)+)

lemma route_send_heartbeat:
  assumes "good_stack H"
  shows "leads_to H U \<lparr>rq_method = POST, rq_path = ''workers/heartbeat'',
             rq_query = [], rq_bearer = Some t, rq_body = NoBody\<rparr>
           (WorkerReq t SendHeartbeat)"
  unfolding leads_to_def
  by (rule trans, rule route_request_in [where prefix = "''workers''" and segs = "[''heartbeat'']" and
        p = "[Static ''heartbeat'']"], insert assms, (simp add: routing; fail)+)

lemma route_report_task:
  assumes "good_stack H"
  shows "leads_to H U \<lparr>rq_method = POST, rq_path = ''workers/tasks'',
             rq_query = [], rq_bearer = Some t, rq_body = JReportTask i op\<rparr>
           (WorkerReq t (ReportTask i op))"
  unfolding leads_to_def
  by (rule trans, rule route_request_in [where prefix = "''workers''" and segs = "[''tasks'']" and
        p = "[Static ''tasks'']"], insert assms, (simp add: routing; fail)+)

lemma route_worker_query_task:
  assumes "good_stack H" "hex_text T" "U (T u) = Some u"
  shows "leads_to H U \<lparr>rq_method = GET, rq_path = ''workers/tasks/'' @ T u,
             rq_query = [], rq_bearer = Some t, rq_body = NoBody\<rparr>
           (WorkerReq t (WorkerQueryTask u))"
  unfolding leads_to_def
  by (rule trans, rule route_request_in [where prefix = "''workers''" and segs = "[''tasks'', T u]" and
        p = "[Static ''tasks'', Param]"], insert assms, (simp add: routing; fail)+)

lemma route_worker_download_artifact:
  assumes "good_stack H" "hex_text T" "U (T u) = Some u"
  shows "leads_to H U \<lparr>rq_method = GET, rq_path = ''workers/tasks/'' @ T u @ ''/artifacts/'' @ content_type_text ct,
             rq_query = [], rq_bearer = Some t, rq_body = NoBody\<rparr>
           (WorkerReq t (WorkerDownloadArtifact u ct))"
  unfolding leads_to_def
  by (rule trans, rule route_request_in [where prefix = "''workers''" and segs = "[''tasks'', T u, ''artifacts'', content_type_text ct]" and
        p = "[Static ''tasks'', Param, Static ''artifacts'', Param]"], insert assms, (simp add: routing; fail)+)

lemma route_worker_download_attachment:
  assumes "good_stack H" "hex_text T" "U (T u) = Some u" "list_all piece (split_on (CHR ''/'') k)"
  shows "leads_to H U \<lparr>rq_method = GET, rq_path = ''workers/tasks/'' @ T u @ ''/attachments/'' @ k,
             rq_query = [], rq_bearer = Some t, rq_body = NoBody\<rparr>
           (WorkerReq t (WorkerDownloadAttachment u k))"
proof -
  obtain x xs where k: "split_on (CHR ''/'') k = x # xs" using split_on_nonempty by (metis list.exhaust)
  have key: "join_on (CHR ''/'') (x # xs) = k" using join_split_on [of "CHR ''/''" k] k by simp
  show ?thesis
    unfolding leads_to_def
    by (rule trans, rule route_request_in [where prefix = "''workers''" and segs = "[''tasks'', T u, ''attachments''] @ x # xs" and
          p = "[Static ''tasks'', Param, Static ''attachments'', Rest]"], insert assms key k, (simp add: routing; fail)+)
qed

lemma route_login:
  assumes "good_stack H"
  shows "leads_to H U \<lparr>rq_method = POST, rq_path = ''login'', rq_query = q, rq_bearer = b, rq_body = JUserLogin un pw retain\<rparr>
           (Login un pw retain)"
  unfolding leads_to_def
  by (rule trans, rule route_request_in [where prefix = "''login''" and segs = "[]" and p = "[]"], insert assms,
      (simp add: routing; fail)+)

lemma route_fetch:
  assumes "good_stack H"
  shows "route_request H (coordinator_routes U)
           \<lparr>rq_method = GET, rq_path = ''workers/tasks'', rq_query = [], rq_bearer = Some t, rq_body = NoBody\<rparr> = Some (Fetch t)"
  by (rule trans, rule route_request_in [where prefix = "''workers''" and segs = "[''tasks'']" and p = "[Static ''tasks'']"],
      insert assms, (simp add: routing; fail)+)

end
