(* ===== verification/Worker_Wire.thy ===== *)
theory Worker_Wire
  imports Client_Routes Worker_Protocol
begin

text \<open>
  The requests of the worker on the wire: the texts of its paths, and the handlers that its calls reach.
\<close>

section \<open>Requests of the worker\<close>

text \<open>The paths that the worker sets (\<open>set_path\<close> in \<open>worker.rs\<close>); \<open>T\<close> prints a UUID.\<close>

fun path_text :: "(uuid \<Rightarrow> string) \<Rightarrow> Path \<Rightarrow> string" where
  "path_text T Workers = ''workers''"
| "path_text T WorkersHeartbeat = ''workers/heartbeat''"
| "path_text T WorkersTasks = ''workers/tasks''"
| "path_text T (TaskPath u) = ''workers/tasks/'' @ T u"
| "path_text T (ArtifactPath u ct) = ''workers/tasks/'' @ T u @ ''/artifacts/'' @ content_type_text ct"
| "path_text T (AttachmentPath u k) = ''workers/tasks/'' @ T u @ ''/attachments/'' @ k"

definition worker_http :: "string \<Rightarrow> Method \<Rightarrow> string \<Rightarrow> Body \<Rightarrow> HttpRequest" where
  "worker_http t m p b = \<lparr>rq_method = m, rq_path = p, rq_query = [], rq_bearer = Some t, rq_body = b\<rparr>"

text \<open>A call as a request to the coordinator; an upload goes to the object store instead.\<close>

fun call_request :: "(uuid \<Rightarrow> string) \<Rightarrow> string \<Rightarrow> Call \<Rightarrow> HttpRequest option" where
  "call_request T t (GetPath p) = Some (worker_http t GET (path_text T p) NoBody)"
| "call_request T t (PostPath p) = Some (worker_http t POST (path_text T p) NoBody)"
| "call_request T t (PostReport p i op) = Some (worker_http t POST (path_text T p) (JReportTask i op))"
| "call_request T t (DeletePath p) = Some (worker_http t DELETE (path_text T p) NoBody)"
| "call_request T t (PutFile url ct len) = None"

text \<open>What the calls of the worker mean.\<close>

fun call_meaning :: "string \<Rightarrow> Call \<Rightarrow> Routed option" where
  "call_meaning t (GetPath WorkersTasks) = Some (Fetch t)"
| "call_meaning t (GetPath (TaskPath u)) = Some (Run (WorkerReq t (WorkerQueryTask u)))"
| "call_meaning t (GetPath (ArtifactPath u ct)) = Some (Run (WorkerReq t (WorkerDownloadArtifact u ct)))"
| "call_meaning t (GetPath (AttachmentPath u k)) = Some (Run (WorkerReq t (WorkerDownloadAttachment u k)))"
| "call_meaning t (PostPath WorkersHeartbeat) = Some (Run (WorkerReq t SendHeartbeat))"
| "call_meaning t (PostReport WorkersTasks i op) = Some (Run (WorkerReq t (ReportTask i op)))"
| "call_meaning t (DeletePath Workers) = Some (Run (WorkerReq t Unregister))"
| "call_meaning t _ = None"

fun keys_fit :: "Call \<Rightarrow> bool" where
  "keys_fit (GetPath (AttachmentPath u k)) = list_all piece (split_on (CHR ''/'') k)"
| "keys_fit _ = True"

lemma call_routed:
  assumes "good_stack H" "hex_text T" "\<And>u. U (T u) = Some u" "keys_fit c"
    and "call_meaning t c = Some r" "call_request T t c = Some hr"
  shows "route_request H (coordinator_routes U) hr = Some r"
  using assms(4-6)
  by (cases "(t, c)" rule: call_meaning.cases)
    (auto simp: worker_http_def assms(1-3) route_fetch simp del: append.simps
      intro!: route_worker_query_task [unfolded leads_to_def] route_worker_download_artifact [unfolded leads_to_def]
        route_worker_download_attachment [unfolded leads_to_def] route_send_heartbeat [unfolded leads_to_def]
        route_report_task [unfolded leads_to_def] route_unregister [unfolded leads_to_def])

end
