(* ===== verification/Client_Service.thy ===== *)
theory Client_Service
  imports Client_Routes
begin

text \<open>
  The client and the coordinator together. The answers of the routers are of the types that the methods of the
  client decode, its requests lead to the handlers they are meant for, and so a call of the client is a call of the
  service (\<open>client_call_is_service_call\<close>).
\<close>

section \<open>The types of the answers\<close>

text \<open>Which documents answer a request.\<close>

fun user_response :: "UserRequest \<Rightarrow> Response \<Rightarrow> bool" where
  "user_response (ChangePassword _ _ _) x = (x \<in> range RToken)"
| "user_response QueryGroups x = (x \<in> range RGroups)"
| "user_response QueryRedis x = (x \<in> range RRedis)"
| "user_response WhoAmI x = (x \<in> range RText)"

fun task_response :: "TaskRequest \<Rightarrow> Response \<Rightarrow> bool" where
  "task_response (SubmitTask _) x = (x \<in> range RSubmitted)"
| "task_response (ChangeTask _ _) x = (x = RUnit)"
| "task_response (ChangeTaskLabels _ _) x = (x = RUnit)"
| "task_response (CancelTask _) x = (x = RUnit)"
| "task_response (QueryTask _) x = (x \<in> range RTask)"
| "task_response (QueryTasks _) x = (x \<in> range RTasks)"
| "task_response (CancelTasks _) x = (x \<in> range RCancelled)"
| "task_response (CancelTasksByUuids _) x = (x \<in> range RCancelledList)"
| "task_response (UploadArtifact _ _ _) x = (x \<in> range RUpload)"
| "task_response (DownloadArtifact _ _) x = (x \<in> range RLink)"
| "task_response (DeleteArtifact _ _) x = (x = RUnit)"
| "task_response (BatchDownloadArtifacts _) x = (x \<in> range RArtifactLinks)"
| "task_response (BatchDownloadArtifactsByUuids _ _) x = (x \<in> range RArtifactLinks)"
| "task_response (BatchDeleteArtifacts _) x = (x \<in> range RDeleted)"
| "task_response (BatchDeleteArtifactsByUuids _ _) x = (x \<in> range RDeletedUuids)"
| "task_response (BatchSubmitTasks _) x = (x \<in> range RBatch)"

fun group_response :: "GroupRequest \<Rightarrow> Response \<Rightarrow> bool" where
  "group_response (CreateGroup _) x = (x = RUnit)"
| "group_response (GetGroup _) x = (x \<in> range RGroup)"
| "group_response (UpdateUserGroup _ _) x = (x = RUnit)"
| "group_response (RemoveUserGroup _ _) x = (x = RUnit)"
| "group_response (UploadAttachment _ _ _) x = (x \<in> range RUpload)"
| "group_response (DownloadAttachment _ _) x = (x \<in> range RLink)"
| "group_response (DeleteAttachment _ _) x = (x = RUnit)"
| "group_response (QueryAttachment _ _) x = (x \<in> range RAttachment)"
| "group_response (QueryAttachments _ _) x = (x \<in> range RAttachments)"
| "group_response (BatchDownloadAttachments _ _ _ _) x = (x \<in> range RAttachmentLinks)"
| "group_response (BatchDownloadAttachmentsByKeys _ _) x = (x \<in> range RAttachmentLinks)"
| "group_response (BatchDeleteAttachments _ _ _ _) x = (x \<in> range RDeletedAttachments)"
| "group_response (BatchDeleteAttachmentsByKeys _ _) x = (x \<in> range RDeletedKeys)"

fun worker_user_response :: "WorkerUserRequest \<Rightarrow> Response \<Rightarrow> bool" where
  "worker_user_response (QueryWorker _) x = (x \<in> range RWorker)"
| "worker_user_response (ShutdownWorker _ _) x = (x = RUnit)"
| "worker_user_response (ReplaceWorkerTags _ _) x = (x = RUnit)"
| "worker_user_response (ReplaceWorkerLabels _ _) x = (x = RUnit)"
| "worker_user_response (UpdateWorkerGroups _ _) x = (x = RUnit)"
| "worker_user_response (RemoveWorkerGroups _ _) x = (x = RUnit)"
| "worker_user_response (QueryWorkers _) x = (x \<in> range RWorkers)"
| "worker_user_response (ShutdownWorkers _) x = (x \<in> range RShutdownCount)"
| "worker_user_response (ShutdownWorkersByUuids _ _) x = (x \<in> range RShutdownUuids)"
| "worker_user_response (RegisterWorkerReq _ _ _ _) x = (\<exists>u t w. x = RRegistered u t w)"

fun admin_response :: "AdminRequest \<Rightarrow> Response \<Rightarrow> bool" where
  "admin_response (AdminCreateUser _ _ _) x = (x = RUnit)"
| "admin_response (AdminDeleteUser _) x = (x \<in> range RUserState)"
| "admin_response (AdminChangePassword _ _) x = (x = RUnit)"
| "admin_response (AdminChangeUserGroupQuota _ _) x = (x \<in> range RGroupQuota)"
| "admin_response (AdminChangeGroupStorageQuota _ _) x = (x \<in> range RStorageQuota)"
| "admin_response (AdminShutdownWorker _ _) x = (x = RUnit)"
| "admin_response (AdminDeleteAttachment _ _) x = (x = RUnit)"
| "admin_response (AdminDeleteArtifact _ _) x = (x = RUnit)"
| "admin_response (AdminShutdown _) x = (x = RShutdown)"
| "admin_response (AdminChangeUserState _ _) x = (x \<in> range RUserState)"

fun worker_response :: "WorkerRequest \<Rightarrow> Response \<Rightarrow> bool" where
  "worker_response Unregister x = (x = RUnit)"
| "worker_response SendHeartbeat x = (x = RUnit)"
| "worker_response (ReportTask _ _) x = (x \<in> range RReported)"
| "worker_response (WorkerQueryTask _) x = (x \<in> range RTask)"
| "worker_response (WorkerDownloadArtifact _ _) x = (x \<in> range RLink)"
| "worker_response (WorkerDownloadAttachment _ _) x = (x \<in> range RLink)"

fun response_type :: "Request \<Rightarrow> Response \<Rightarrow> bool" where
  "response_type Health x = (x = RHealthy)"
| "response_type (Login _ _ _) x = (x \<in> range RToken)"
| "response_type (UserReq _ r) x = user_response r x"
| "response_type (TaskReq _ r) x = task_response r x"
| "response_type (GroupReq _ r) x = group_response r x"
| "response_type (WorkerUserReq _ r) x = worker_user_response r x"
| "response_type (WorkerReq _ r) x = worker_response r x"
| "response_type (AdminReq _ r) x = admin_response r x"

lemma wp_reply_any [simp]: "wp (reply R m) (\<lambda>x _. x \<in> range R) (\<lambda>_ _. True) s"
  by (auto simp: wp_def reply_def bindR_def ret_def split: prod.splits sum.splits)

lemma wp_reply_const [simp]: "wp (reply (\<lambda>_. y) m) (\<lambda>x _. x = y) (\<lambda>_ _. True) s"
  by (auto simp: wp_def reply_def bindR_def ret_def split: prod.splits sum.splits)

lemma wp_bindR_any: "(\<And>a t. wp (f a) Q (\<lambda>_ _. True) t) \<Longrightarrow> wp (bindR m f) Q (\<lambda>_ _. True) s"
  unfolding wp_bindR by (rule wp_mono [OF wp_True]) simp_all

lemma tasks_router_typed: "wp (tasks_router D e u r) (\<lambda>x _. task_response r x) (\<lambda>_ _. True) s"
  by (cases r) simp_all

lemma groups_router_typed: "wp (groups_router D e u r) (\<lambda>x _. group_response r x) (\<lambda>_ _. True) s"
  by (cases r) simp_all

lemma users_router_typed: "wp (users_router D e u r) (\<lambda>x _. user_response r x) (\<lambda>_ _. True) s"
  by (cases r) (simp_all add: wp_ret)

lemma workers_user_router_typed: "wp (workers_user_router D e u r) (\<lambda>x _. worker_user_response r x) (\<lambda>_ _. True) s"
  by (cases r) (auto simp: wp_map_err user_register_worker_def wp_ret intro!: wp_bindR_any)

lemma workers_router_typed: "wp (workers_router D e w r) (\<lambda>x _. worker_response r x) (\<lambda>_ _. True) s"
  by (cases w; cases r) (simp_all add: wp_map_err)

lemma admin_router_typed: "wp (admin_router D e r) (\<lambda>x _. admin_response r x) (\<lambda>_ _. True) s"
  by (cases r)
    (auto simp: wp_map_err admin_create_user_def admin_delete_user_def admin_shutdown_coordinator_def thenR_def wp_ret
      wp_raise split: option.split intro!: wp_bindR_any)

lemma router_typed: "wp (router D e r) (\<lambda>x _. response_type r x) (\<lambda>_ _. True) s"
  by (cases r)
    (auto simp: wp_ret wp_map_err user_auth_middleware_def admin_auth_middleware_def worker_auth_middleware_def thenR_def
      tasks_router_typed groups_router_typed users_router_typed workers_user_router_typed workers_router_typed
      admin_router_typed intro!: wp_bindR_any)

section \<open>A call of the client\<close>

text \<open>The requests that have a method in the client. A call of \<open>ApiCall\<close> runs the method and wraps its value in
  the response that it was decoded from.\<close>

datatype ApiCall =
    LoginCall string string bool
  | UserCall UserRequest
  | TaskCall TaskRequest
  | GroupCall GroupRequest
  | WorkersCall WorkerUserRequest
  | AdminCall AdminRequest

fun user_call :: "'w net \<Rightarrow> UserRequest \<Rightarrow> ('w, Response) client" where
  "user_call N (ChangePassword un old new) = reply (\<lambda>_. RUnit) (client_user_change_password N un old new)"
| "user_call N QueryGroups = reply RGroups (client_get_user_groups_roles N)"
| "user_call N QueryRedis = reply RRedis (client_get_redis_connection_info N)"
| "user_call N WhoAmI = reply RText (client_user_auth N)"

fun task_call :: "'w net \<Rightarrow> (uuid \<Rightarrow> string) \<Rightarrow> TaskRequest \<Rightarrow> ('w, Response) client" where
  "task_call N T (SubmitTask req) = reply RSubmitted (client_user_submit_task N req)"
| "task_call N T (ChangeTask u ch) = reply (\<lambda>_. RUnit) (client_change_task N T u ch)"
| "task_call N T (ChangeTaskLabels u ls) = reply (\<lambda>_. RUnit) (client_update_task_labels N T u ls)"
| "task_call N T (CancelTask u) = reply (\<lambda>_. RUnit) (client_cancel_task_by_uuid N T u)"
| "task_call N T (QueryTask u) = reply RTask (client_get_task_by_uuid N T u)"
| "task_call N T (QueryTasks q) = reply RTasks (client_query_tasks_by_filter N q)"
| "task_call N T (CancelTasks f) = reply RCancelled (client_cancel_tasks_by_filter N f)"
| "task_call N T (CancelTasksByUuids us) = reply RCancelledList (client_cancel_tasks_by_uuids N us)"
| "task_call N T (UploadArtifact u ct n) = reply RUpload (client_get_upload_artifact_resp N T u ct n)"
| "task_call N T (DownloadArtifact u ct) = reply RLink (client_get_artifact_download_resp N T u ct)"
| "task_call N T (DeleteArtifact u ct) = reply (\<lambda>_. RUnit) (client_delete_artifact N T u ct False)"
| "task_call N T (BatchDownloadArtifacts af) = reply RArtifactLinks (client_batch_download_artifacts_by_filter N af)"
| "task_call N T (BatchDownloadArtifactsByUuids us ct) = reply RArtifactLinks (client_batch_download_artifacts_by_list N us ct)"
| "task_call N T (BatchDeleteArtifacts af) = reply RDeleted (client_batch_delete_artifacts_by_filter N af)"
| "task_call N T (BatchDeleteArtifactsByUuids us ct) = reply RDeletedUuids (client_batch_delete_artifacts_by_list N us ct)"
| "task_call N T (BatchSubmitTasks reqs) = reply RBatch (client_batch_submit_tasks N reqs)"

fun group_call :: "'w net \<Rightarrow> GroupRequest \<Rightarrow> ('w, Response) client" where
  "group_call N (CreateGroup gn) = reply (\<lambda>_. RUnit) (client_user_create_group N gn)"
| "group_call N (GetGroup gn) = reply RGroup (client_get_group_by_name N gn)"
| "group_call N (UpdateUserGroup gn rs) = reply (\<lambda>_. RUnit) (client_update_user_group_roles N gn rs)"
| "group_call N (RemoveUserGroup gn us) = reply (\<lambda>_. RUnit) (client_remove_user_group_roles N gn us)"
| "group_call N (UploadAttachment gn k n) = reply RUpload (client_get_upload_attachment_resp N gn k n)"
| "group_call N (DownloadAttachment gn k) = reply RLink (client_get_attachment_download_resp N gn k)"
| "group_call N (DeleteAttachment gn k) = reply (\<lambda>_. RUnit) (client_delete_attachment N gn k False)"
| "group_call N (QueryAttachment gn k) = reply RAttachment (client_get_attachment N gn k)"
| "group_call N (QueryAttachments gn aq) = reply RAttachments (client_query_attachments_by_filter N gn aq)"
| "group_call N (BatchDownloadAttachments gn key lim off) = reply RAttachmentLinks (client_batch_download_attachments_by_filter N gn key lim off)"
| "group_call N (BatchDownloadAttachmentsByKeys gn ks) = reply RAttachmentLinks (client_batch_download_attachments_by_list N gn ks)"
| "group_call N (BatchDeleteAttachments gn key lim off) = reply RDeletedAttachments (client_batch_delete_attachments_by_filter N gn key lim off)"
| "group_call N (BatchDeleteAttachmentsByKeys gn ks) = reply RDeletedKeys (client_batch_delete_attachments_by_list N gn ks)"

fun workers_call :: "'w net \<Rightarrow> (uuid \<Rightarrow> string) \<Rightarrow> WorkerUserRequest \<Rightarrow> ('w, Response) client" where
  "workers_call N T (QueryWorker u) = reply RWorker (client_get_worker_by_uuid N T u)"
| "workers_call N T (ShutdownWorker u op) = reply (\<lambda>_. RUnit) (client_cancel_worker_by_uuid N T u (op = Some Force))"
| "workers_call N T (ReplaceWorkerTags u ts) = reply (\<lambda>_. RUnit) (client_replace_worker_tags N T u ts)"
| "workers_call N T (ReplaceWorkerLabels u ls) = reply (\<lambda>_. RUnit) (client_replace_worker_labels N T u ls)"
| "workers_call N T (UpdateWorkerGroups u gr) = reply (\<lambda>_. RUnit) (client_update_group_worker_roles N T u gr)"
| "workers_call N T (RemoveWorkerGroups u gs) = reply (\<lambda>_. RUnit) (client_remove_group_worker_roles N T u gs)"
| "workers_call N T (QueryWorkers wq) = reply RWorkers (client_query_workers_by_filter N wq)"
| "workers_call N T (ShutdownWorkers sf) = reply RShutdownCount (client_shutdown_workers_by_filter N sf)"
| "workers_call N T (ShutdownWorkersByUuids sop us) = reply RShutdownUuids (client_shutdown_workers_by_uuids N us sop)"
| "workers_call N T (RegisterWorkerReq _ _ _ _) = raise TransportError"

fun admin_call :: "'w net \<Rightarrow> (uuid \<Rightarrow> string) \<Rightarrow> AdminRequest \<Rightarrow> ('w, Response) client" where
  "admin_call N T (AdminCreateUser un pw adm) = reply (\<lambda>_. RUnit) (client_admin_create_user N un pw adm)"
| "admin_call N T (AdminDeleteUser un) = reply (\<lambda>_. RUnit) (client_admin_delete_user N un)"
| "admin_call N T (AdminChangePassword un pw) = reply (\<lambda>_. RUnit) (client_admin_change_password N un pw)"
| "admin_call N T (AdminChangeUserGroupQuota un q) = reply RGroupQuota (client_admin_update_user_group_quota N un q)"
| "admin_call N T (AdminChangeGroupStorageQuota gn q) = reply RStorageQuota (client_admin_update_group_storage_quota N gn q)"
| "admin_call N T (AdminShutdownWorker u op) = reply (\<lambda>_. RUnit) (client_admin_cancel_worker_by_uuid N T u (op = Some Force))"
| "admin_call N T (AdminDeleteAttachment gn k) = reply (\<lambda>_. RUnit) (client_delete_attachment N gn k True)"
| "admin_call N T (AdminDeleteArtifact u ct) = reply (\<lambda>_. RUnit) (client_delete_artifact N T u ct True)"
| "admin_call N T (AdminShutdown secret) = reply (\<lambda>_. RUnit) (client_admin_shutdown_coordinator N secret)"
| "admin_call N T (AdminChangeUserState _ _) = raise TransportError"

fun api_call :: "'w net \<Rightarrow> (uuid \<Rightarrow> string) \<Rightarrow> ApiCall \<Rightarrow> ('w, Response) client" where
  "api_call N T (LoginCall un pw retain) = reply (\<lambda>_. RUnit) (client_user_login N un pw retain)"
| "api_call N T (UserCall r) = user_call N r"
| "api_call N T (TaskCall r) = task_call N T r"
| "api_call N T (GroupCall r) = group_call N r"
| "api_call N T (WorkersCall r) = workers_call N T r"
| "api_call N T (AdminCall r) = admin_call N T r"

fun request_of :: "string \<Rightarrow> ApiCall \<Rightarrow> Request" where
  "request_of t (LoginCall un pw retain) = Login un pw retain"
| "request_of t (UserCall r) = UserReq t r"
| "request_of t (TaskCall r) = TaskReq t r"
| "request_of t (GroupCall r) = GroupReq t r"
| "request_of t (WorkersCall r) = WorkerUserReq t r"
| "request_of t (AdminCall r) = AdminReq t r"

text \<open>The calls that are what they say: names and keys that can be parts of a path, keys that are not hidden by
  another route, sets without repetition, and a shutdown that is forced or says nothing. Registering a worker
  and changing the state of a user have no method.\<close>

definition key_pieces :: "string \<Rightarrow> bool" where
  "key_pieces k \<longleftrightarrow> list_all piece (split_on (CHR ''/'') k)"

fun proper_group :: "GroupRequest \<Rightarrow> bool" where
  "proper_group (CreateGroup gn) = True"
| "proper_group (GetGroup gn) = piece gn"
| "proper_group (UpdateUserGroup gn _) = piece gn"
| "proper_group (RemoveUserGroup gn us) = (piece gn \<and> distinct us)"
| "proper_group (UploadAttachment gn _ _) = piece gn"
| "proper_group (DownloadAttachment gn k) = (piece gn \<and> key_pieces k \<and> k \<noteq> ''list'')"
| "proper_group (DeleteAttachment gn k) = (piece gn \<and> key_pieces k \<and> k \<noteq> ''query'')"
| "proper_group (QueryAttachment gn k) = (piece gn \<and> key_pieces k \<and> k \<noteq> ''query'')"
| "proper_group (QueryAttachments gn _) = piece gn"
| "proper_group (BatchDownloadAttachments gn _ _ _) = piece gn"
| "proper_group (BatchDownloadAttachmentsByKeys gn _) = piece gn"
| "proper_group (BatchDeleteAttachments gn _ _ _) = piece gn"
| "proper_group (BatchDeleteAttachmentsByKeys gn _) = piece gn"

fun proper_workers :: "WorkerUserRequest \<Rightarrow> bool" where
  "proper_workers (RegisterWorkerReq _ _ _ _) = False"
| "proper_workers (ShutdownWorker _ op) = (op = None \<or> op = Some Force)"
| "proper_workers (RemoveWorkerGroups _ gs) = distinct gs"
| "proper_workers _ = True"

fun proper_admin :: "AdminRequest \<Rightarrow> bool" where
  "proper_admin (AdminCreateUser _ _ _) = True"
| "proper_admin (AdminDeleteUser un) = piece un"
| "proper_admin (AdminChangePassword un _) = piece un"
| "proper_admin (AdminChangeUserGroupQuota un _) = piece un"
| "proper_admin (AdminChangeUserState _ _) = False"
| "proper_admin (AdminChangeGroupStorageQuota gn _) = piece gn"
| "proper_admin (AdminShutdownWorker _ op) = (op = None \<or> op = Some Force)"
| "proper_admin (AdminDeleteAttachment gn k) = (piece gn \<and> key_pieces k)"
| "proper_admin (AdminDeleteArtifact _ _) = True"
| "proper_admin (AdminShutdown _) = True"

fun proper :: "ApiCall \<Rightarrow> bool" where
  "proper (UserCall (ChangePassword un _ _)) = piece un"
| "proper (GroupCall r) = proper_group r"
| "proper (WorkersCall r) = proper_workers r"
| "proper (AdminCall r) = proper_admin r"
| "proper _ = True"

text \<open>What the methods drop of an answer, and what an error of the service is for them.\<close>

definition seen :: "Response \<Rightarrow> Response" where
  "seen x = (case x of RToken _ \<Rightarrow> RUnit | RUserState _ \<Rightarrow> RUnit | RShutdown \<Rightarrow> RUnit | _ \<Rightarrow> x)"

definition refusal :: "ApiError \<Rightarrow> ClientError" where
  "refusal err = Inner (status_number (get_status_code err)) (api_error_text err)"

definition served ::
  "Deployment \<Rightarrow> ReqEnv \<Rightarrow> Request \<Rightarrow> Pool \<times> 'q TaskDispatcher \<Rightarrow> (ClientError + Response) \<times> Pool \<times> 'q TaskDispatcher" where
  "served D e q = (\<lambda>(s, d). case router D e q s of (x, s') \<Rightarrow> (map_sum refusal seen x, s', d))"

definition outcome :: "('e + 'a) \<times> 'w Client \<Rightarrow> ('e + 'a) \<times> 'w" where
  "outcome = (\<lambda>(x, c). (x, cl_world c))"

lemma reply_set_path [simp]: "reply R (thenR (set_url_path p) m) c = reply R m (c\<lparr>cl_path := p\<rparr>)"
  by (simp add: reply_def thenR_def bindR_def set_url_path_def)

lemma status_number_cases: "is_success (status_number st) \<longleftrightarrow> st = OK_200"
  by (cases st) (simp_all add: is_success_def)

lemma success_200 [simp]: "is_success 200"
  by (simp add: is_success_def)

lemma error_status [simp]: "get_status_code err \<noteq> OK_200"
proof -
  have "auth_status_code a \<noteq> OK_200" for a by (cases a) simp_all
  then show ?thesis by (cases err) simp_all
qed

lemma router_value_typed: "router D e q s = (Inr x, s') \<Longrightarrow> response_type q x"
  using wp_okD [OF router_typed] .

lemma call_for_served:
  assumes "cl_world c = (s, d)" and "leads_to H (uuid_parse_str (dp_auth D)) (bearer_request m [] b c) q"
    and typed: "\<And>x. response_type q x \<Longrightarrow> \<exists>v. doc (Json x) = Some v \<and> R v = seen x"
  shows "outcome (reply R (call_for (coordinator_http Q D e H) m b doc) c) = served D e q (s, d)"
proof -
  obtain x s' where r: "router D e q s = (x, s')" by fastforce
  show ?thesis
  proof (cases x)
    case (Inl err)
    then show ?thesis using assms(1,2) r
      by (simp add: outcome_def served_def reply_def call_for_def bindR_def exchange_def coordinator_http_def leads_to_def
          answer_of_def status_number_cases raise_def error_msg_def refusal_def)
  next
    case (Inr resp)
    then obtain v where "doc (Json resp) = Some v" "R v = seen resp"
      using typed router_value_typed [of D e q s resp s'] r by blast
    then show ?thesis using assms(1,2) r Inr
      by (simp add: outcome_def served_def reply_def call_for_def bindR_def exchange_def coordinator_http_def leads_to_def
          answer_of_def status_number_cases ret_def ok_or_def)
  qed
qed

lemma call_with_served:
  assumes "cl_world c = (s, d)" and "leads_to H (uuid_parse_str (dp_auth D)) (bearer_request m ps b c) q"
    and typed: "\<And>x. response_type q x \<Longrightarrow> seen x = RUnit"
  shows "outcome (reply (\<lambda>_. RUnit) (call_with (coordinator_http Q D e H) m ps b) c) = served D e q (s, d)"
proof -
  obtain x s' where r: "router D e q s = (x, s')" by fastforce
  show ?thesis
    using assms(1,2) r typed router_value_typed [of D e q s _ s']
    by (cases x) (auto simp: outcome_def served_def reply_def call_with_def bindR_def exchange_def coordinator_http_def
        leads_to_def answer_of_def status_number_cases raise_def ret_def error_msg_def refusal_def)
qed


lemma leads_to_fields:
  "rq_method r = m \<Longrightarrow> rq_path r = p \<Longrightarrow> rq_query r = q \<Longrightarrow> rq_bearer r = t \<Longrightarrow> rq_body r = b \<Longrightarrow>
   leads_to H U \<lparr>rq_method = m, rq_path = p, rq_query = q, rq_bearer = t, rq_body = b\<rparr> x \<Longrightarrow> leads_to H U r x"
  by (cases r) simp

lemma stored_token_outcome:
  assumes "cl_io c = []"
  shows "\<exists>c'. keep_token un t c = (Inr (), c') \<and> cl_world c' = cl_world c"
  using assms by (auto simp: keep_token_def thenR_def bindR_def ret_def file_op_def modify_or_append_credential_def)

lemma token_call_served:
  assumes "cl_world c = (s, d)" "cl_io c = []" and "leads_to H (uuid_parse_str (dp_auth D)) (bearer_request m [] b c) q"
    and typed: "\<And>x. response_type q x \<Longrightarrow> x \<in> range RToken"
  shows "outcome (reply (\<lambda>_. RUnit) (bindR (call_for (coordinator_http Q D e H) m b token_doc) (keep_token un)) c) =
           served D e q (s, d)"
proof -
  obtain x s' where r: "router D e q s = (x, s')" by fastforce
  show ?thesis
  proof (cases x)
    case (Inl err)
    then show ?thesis using assms(1,3) r
      by (simp add: outcome_def served_def reply_def call_for_def bindR_def exchange_def coordinator_http_def leads_to_def
          answer_of_def status_number_cases raise_def error_msg_def refusal_def)
  next
    case (Inr resp)
    then obtain t where t: "resp = RToken t" using typed router_value_typed [of D e q s resp s'] r by blast
    obtain c' where "keep_token un t (c\<lparr>cl_world := (s', d)\<rparr>) = (Inr (), c')" "cl_world c' = (s', d)"
      using stored_token_outcome [of "c\<lparr>cl_world := (s', d)\<rparr>" un t] assms(2) by auto
    then show ?thesis using assms(1,3) r Inr t
      by (simp add: outcome_def served_def reply_def call_for_def bindR_def exchange_def coordinator_http_def leads_to_def
          answer_of_def ret_def ok_or_def token_doc_def seen_def)
  qed
qed

lemma login_call_served:
  assumes "cl_world c = (s, d)" "cl_io c = []"
    and "leads_to H (uuid_parse_str (dp_auth D)) (login_request un pw retain c) (Login un pw retain)"
  shows "outcome (reply (\<lambda>_. RUnit) (bindR (\<lambda>c. exchange (coordinator_http Q D e H) (login_request un pw retain c) c)
           (\<lambda>(st, body). if is_success st then bindR (ok_or TransportError (token_doc body)) (keep_token un)
                         else raise (Inner st (error_msg body)))) c) =
         served D e (Login un pw retain) (s, d)"
proof -
  obtain x s' where r: "router D e (Login un pw retain) s = (x, s')" by fastforce
  show ?thesis
  proof (cases x)
    case (Inl err)
    then show ?thesis using assms(1,3) r
      by (simp add: outcome_def served_def reply_def bindR_def exchange_def coordinator_http_def leads_to_def
          answer_of_def status_number_cases raise_def error_msg_def refusal_def del: router.simps)
  next
    case (Inr resp)
    then obtain t where t: "resp = RToken t" using router_value_typed [of D e "Login un pw retain" s resp s'] r by auto
    obtain c' where "keep_token un t (c\<lparr>cl_world := (s', d)\<rparr>) = (Inr (), c')" "cl_world c' = (s', d)"
      using stored_token_outcome [of "c\<lparr>cl_world := (s', d)\<rparr>" un t] assms(2) by auto
    then show ?thesis using assms(1,3) r Inr t
      by (simp add: outcome_def served_def reply_def bindR_def exchange_def coordinator_http_def leads_to_def
          answer_of_def ret_def ok_or_def token_doc_def seen_def del: router.simps)
  qed
qed

section \<open>Every call\<close>

definition good_wire :: "Deployment \<Rightarrow> HttpStack \<Rightarrow> (uuid \<Rightarrow> string) \<Rightarrow> bool" where
  "good_wire D H T \<longleftrightarrow> good_stack H \<and> hex_text T \<and> (\<forall>u. uuid_parse_str (dp_auth D) (T u) = Some u)"

definition fresh :: "'w Client \<Rightarrow> bool" where
  "fresh c \<longleftrightarrow> cl_query c = [] \<and> cl_io c = []"

lemma bearer_fresh: "fresh c \<Longrightarrow> bearer_request m ps b (c\<lparr>cl_path := p\<rparr>) =
    \<lparr>rq_method = m, rq_path = p, rq_query = ps, rq_bearer = Some (cl_credential c), rq_body = b\<rparr>"
  by (simp add: bearer_request_def fresh_def)

lemma call_for_path:
  assumes "cl_world c = (s, d)" "fresh c"
    and "leads_to H (uuid_parse_str (dp_auth D))
           \<lparr>rq_method = m, rq_path = p, rq_query = [], rq_bearer = Some (cl_credential c), rq_body = b\<rparr> q"
    and "\<And>x. response_type q x \<Longrightarrow> \<exists>v. doc (Json x) = Some v \<and> R v = seen x"
  shows "outcome (reply R (thenR (set_url_path p) (call_for (coordinator_http Q D e H) m b doc)) c) = served D e q (s, d)"
  unfolding reply_set_path by (rule call_for_served) (use assms in \<open>simp_all add: bearer_fresh\<close>)

lemma call_with_path:
  assumes "cl_world c = (s, d)" "fresh c"
    and "leads_to H (uuid_parse_str (dp_auth D))
           \<lparr>rq_method = m, rq_path = p, rq_query = ps, rq_bearer = Some (cl_credential c), rq_body = b\<rparr> q"
    and "\<And>x. response_type q x \<Longrightarrow> seen x = RUnit"
  shows "outcome (reply (\<lambda>_. RUnit) (thenR (set_url_path p) (call_with (coordinator_http Q D e H) m ps b)) c) =
           served D e q (s, d)"
  unfolding reply_set_path by (rule call_with_served) (use assms in \<open>simp_all add: bearer_fresh\<close>)

lemma token_call_path:
  assumes "cl_world c = (s, d)" "fresh c"
    and "leads_to H (uuid_parse_str (dp_auth D))
           \<lparr>rq_method = m, rq_path = p, rq_query = [], rq_bearer = Some (cl_credential c), rq_body = b\<rparr> q"
    and "\<And>x. response_type q x \<Longrightarrow> x \<in> range RToken"
  shows "outcome (reply (\<lambda>_. RUnit) (thenR (set_url_path p)
           (bindR (call_for (coordinator_http Q D e H) m b token_doc) (keep_token un))) c) = served D e q (s, d)"
  unfolding reply_set_path by (rule token_call_served) (use assms in \<open>simp_all add: bearer_fresh fresh_def\<close>)

lemma call_forced_path:
  assumes "cl_world c = (s, d)" "fresh c"
    and "leads_to H (uuid_parse_str (dp_auth D))
           \<lparr>rq_method = m, rq_path = p, rq_query = (if force then [(''op'', ''force'')] else []),
            rq_bearer = Some (cl_credential c), rq_body = b\<rparr> q"
    and "\<And>x. response_type q x \<Longrightarrow> seen x = RUnit"
  shows "outcome (reply (\<lambda>_. RUnit) (thenR (set_url_path p)
           (thenR (if force then set_url_query [(''op'', ''force'')] else ret ()) (call_with (coordinator_http Q D e H) m [] b))) c) =
           served D e q (s, d)"
proof -
  let ?c = "c\<lparr>cl_path := p, cl_query := (if force then [(''op'', ''force'')] else [])\<rparr>"
  have "reply (\<lambda>_. RUnit) (thenR (set_url_path p)
      (thenR (if force then set_url_query [(''op'', ''force'')] else ret ()) (call_with (coordinator_http Q D e H) m [] b))) c =
    reply (\<lambda>_. RUnit) (call_with (coordinator_http Q D e H) m [] b) ?c"
    using assms(2) by (cases c) (simp add: reply_def thenR_def bindR_def set_url_path_def set_url_query_def ret_def fresh_def)
  moreover have "outcome (reply (\<lambda>_. RUnit) (call_with (coordinator_http Q D e H) m [] b) ?c) = served D e q (s, d)"
    by (rule call_with_served) (use assms in \<open>simp_all add: bearer_request_def\<close>)
  ultimately show ?thesis by simp
qed

lemma served_change_password:
  assumes "good_wire D H T" "fresh c" "cl_world c = (s, d)" "piece un"
  shows "outcome (reply (\<lambda>_. RUnit) (client_user_change_password (coordinator_http Q D e H) un old new) c) =
           served D e (UserReq (cl_credential c) (ChangePassword un old new)) (s, d)"
  unfolding client_user_change_password_def
  by (rule token_call_path [OF assms(3,2) route_change_password]) (use assms in \<open>auto simp: good_wire_def key_pieces_def seen_def\<close>)

lemma served_query_groups:
  assumes "good_wire D H T" "fresh c" "cl_world c = (s, d)"
  shows "outcome (reply RGroups (client_get_user_groups_roles (coordinator_http Q D e H)) c) =
           served D e (UserReq (cl_credential c) QueryGroups) (s, d)"
  unfolding client_get_user_groups_roles_def
  by (rule call_for_path [OF assms(3,2) route_query_groups]) (use assms in \<open>auto simp: good_wire_def key_pieces_def seen_def groups_doc_def\<close>)

lemma served_query_redis:
  assumes "good_wire D H T" "fresh c" "cl_world c = (s, d)"
  shows "outcome (reply RRedis (client_get_redis_connection_info (coordinator_http Q D e H)) c) =
           served D e (UserReq (cl_credential c) QueryRedis) (s, d)"
  unfolding client_get_redis_connection_info_def
  by (rule call_for_path [OF assms(3,2) route_query_redis]) (use assms in \<open>auto simp: good_wire_def key_pieces_def seen_def redis_doc_def\<close>)

lemma served_who_am_i:
  assumes "good_wire D H T" "fresh c" "cl_world c = (s, d)"
  shows "outcome (reply RText (client_user_auth (coordinator_http Q D e H)) c) =
           served D e (UserReq (cl_credential c) WhoAmI) (s, d)"
  unfolding client_user_auth_def
  by (rule call_for_path [OF assms(3,2) route_who_am_i]) (use assms in \<open>auto simp: good_wire_def key_pieces_def seen_def text_doc_def\<close>)

lemma served_submit_task:
  assumes "good_wire D H T" "fresh c" "cl_world c = (s, d)"
  shows "outcome (reply RSubmitted (client_user_submit_task (coordinator_http Q D e H) req) c) =
           served D e (TaskReq (cl_credential c) (SubmitTask req)) (s, d)"
  unfolding client_user_submit_task_def
  by (rule call_for_path [OF assms(3,2) route_submit_task]) (use assms in \<open>auto simp: good_wire_def key_pieces_def seen_def submitted_doc_def\<close>)

lemma served_change_task:
  assumes "good_wire D H T" "fresh c" "cl_world c = (s, d)"
  shows "outcome (reply (\<lambda>_. RUnit) (client_change_task (coordinator_http Q D e H) T u ch) c) =
           served D e (TaskReq (cl_credential c) (ChangeTask u ch)) (s, d)"
  unfolding client_change_task_def
  by (rule call_with_path [OF assms(3,2) route_change_task]) (use assms in \<open>auto simp: good_wire_def key_pieces_def seen_def\<close>)

lemma served_change_task_labels:
  assumes "good_wire D H T" "fresh c" "cl_world c = (s, d)"
  shows "outcome (reply (\<lambda>_. RUnit) (client_update_task_labels (coordinator_http Q D e H) T u ls) c) =
           served D e (TaskReq (cl_credential c) (ChangeTaskLabels u ls)) (s, d)"
  unfolding client_update_task_labels_def
  by (rule call_with_path [OF assms(3,2) route_change_task_labels]) (use assms in \<open>auto simp: good_wire_def key_pieces_def seen_def\<close>)

lemma served_cancel_task:
  assumes "good_wire D H T" "fresh c" "cl_world c = (s, d)"
  shows "outcome (reply (\<lambda>_. RUnit) (client_cancel_task_by_uuid (coordinator_http Q D e H) T u) c) =
           served D e (TaskReq (cl_credential c) (CancelTask u)) (s, d)"
  unfolding client_cancel_task_by_uuid_def
  by (rule call_with_path [OF assms(3,2) route_cancel_task]) (use assms in \<open>auto simp: good_wire_def key_pieces_def seen_def\<close>)

lemma served_query_task:
  assumes "good_wire D H T" "fresh c" "cl_world c = (s, d)"
  shows "outcome (reply RTask (client_get_task_by_uuid (coordinator_http Q D e H) T u) c) =
           served D e (TaskReq (cl_credential c) (QueryTask u)) (s, d)"
  unfolding client_get_task_by_uuid_def
  by (rule call_for_path [OF assms(3,2) route_query_task]) (use assms in \<open>auto simp: good_wire_def key_pieces_def seen_def task_doc_def\<close>)

lemma served_query_tasks:
  assumes "good_wire D H T" "fresh c" "cl_world c = (s, d)"
  shows "outcome (reply RTasks (client_query_tasks_by_filter (coordinator_http Q D e H) q) c) =
           served D e (TaskReq (cl_credential c) (QueryTasks q)) (s, d)"
  unfolding client_query_tasks_by_filter_def
  by (rule call_for_path [OF assms(3,2) route_query_tasks]) (use assms in \<open>auto simp: good_wire_def key_pieces_def seen_def tasks_doc_def\<close>)

lemma served_cancel_tasks:
  assumes "good_wire D H T" "fresh c" "cl_world c = (s, d)"
  shows "outcome (reply RCancelled (client_cancel_tasks_by_filter (coordinator_http Q D e H) f) c) =
           served D e (TaskReq (cl_credential c) (CancelTasks f)) (s, d)"
  unfolding client_cancel_tasks_by_filter_def
  by (rule call_for_path [OF assms(3,2) route_cancel_tasks]) (use assms in \<open>auto simp: good_wire_def key_pieces_def seen_def cancelled_doc_def\<close>)

lemma served_cancel_tasks_by_uuids:
  assumes "good_wire D H T" "fresh c" "cl_world c = (s, d)"
  shows "outcome (reply RCancelledList (client_cancel_tasks_by_uuids (coordinator_http Q D e H) us) c) =
           served D e (TaskReq (cl_credential c) (CancelTasksByUuids us)) (s, d)"
  unfolding client_cancel_tasks_by_uuids_def
  by (rule call_for_path [OF assms(3,2) route_cancel_tasks_by_uuids]) (use assms in \<open>auto simp: good_wire_def key_pieces_def seen_def cancelled_list_doc_def\<close>)

lemma served_upload_artifact:
  assumes "good_wire D H T" "fresh c" "cl_world c = (s, d)"
  shows "outcome (reply RUpload (client_get_upload_artifact_resp (coordinator_http Q D e H) T u ct n) c) =
           served D e (TaskReq (cl_credential c) (UploadArtifact u ct n)) (s, d)"
  unfolding client_get_upload_artifact_resp_def
  by (rule call_for_path [OF assms(3,2) route_upload_artifact]) (use assms in \<open>auto simp: good_wire_def key_pieces_def seen_def upload_doc_def\<close>)

lemma served_download_artifact:
  assumes "good_wire D H T" "fresh c" "cl_world c = (s, d)"
  shows "outcome (reply RLink (client_get_artifact_download_resp (coordinator_http Q D e H) T u ct) c) =
           served D e (TaskReq (cl_credential c) (DownloadArtifact u ct)) (s, d)"
  unfolding client_get_artifact_download_resp_def
  by (rule call_for_path [OF assms(3,2) route_download_artifact]) (use assms in \<open>auto simp: good_wire_def key_pieces_def seen_def link_doc_def\<close>)

lemma served_delete_artifact:
  assumes "good_wire D H T" "fresh c" "cl_world c = (s, d)"
  shows "outcome (reply (\<lambda>_. RUnit) (client_delete_artifact (coordinator_http Q D e H) T u ct False) c) =
           served D e (TaskReq (cl_credential c) (DeleteArtifact u ct)) (s, d)"
  unfolding client_delete_artifact_def if_True if_False
  by (rule call_with_path [OF assms(3,2) route_delete_artifact]) (use assms in \<open>auto simp: good_wire_def key_pieces_def seen_def\<close>)

lemma served_batch_download_artifacts:
  assumes "good_wire D H T" "fresh c" "cl_world c = (s, d)"
  shows "outcome (reply RArtifactLinks (client_batch_download_artifacts_by_filter (coordinator_http Q D e H) af) c) =
           served D e (TaskReq (cl_credential c) (BatchDownloadArtifacts af)) (s, d)"
  unfolding client_batch_download_artifacts_by_filter_def
  by (rule call_for_path [OF assms(3,2) route_batch_download_artifacts]) (use assms in \<open>auto simp: good_wire_def key_pieces_def seen_def artifact_links_doc_def\<close>)

lemma served_batch_download_artifacts_by_uuids:
  assumes "good_wire D H T" "fresh c" "cl_world c = (s, d)"
  shows "outcome (reply RArtifactLinks (client_batch_download_artifacts_by_list (coordinator_http Q D e H) us ct) c) =
           served D e (TaskReq (cl_credential c) (BatchDownloadArtifactsByUuids us ct)) (s, d)"
  unfolding client_batch_download_artifacts_by_list_def
  by (rule call_for_path [OF assms(3,2) route_batch_download_artifacts_by_uuids]) (use assms in \<open>auto simp: good_wire_def key_pieces_def seen_def artifact_links_doc_def\<close>)

lemma served_batch_delete_artifacts:
  assumes "good_wire D H T" "fresh c" "cl_world c = (s, d)"
  shows "outcome (reply RDeleted (client_batch_delete_artifacts_by_filter (coordinator_http Q D e H) af) c) =
           served D e (TaskReq (cl_credential c) (BatchDeleteArtifacts af)) (s, d)"
  unfolding client_batch_delete_artifacts_by_filter_def
  by (rule call_for_path [OF assms(3,2) route_batch_delete_artifacts]) (use assms in \<open>auto simp: good_wire_def key_pieces_def seen_def deleted_doc_def\<close>)

lemma served_batch_delete_artifacts_by_uuids:
  assumes "good_wire D H T" "fresh c" "cl_world c = (s, d)"
  shows "outcome (reply RDeletedUuids (client_batch_delete_artifacts_by_list (coordinator_http Q D e H) us ct) c) =
           served D e (TaskReq (cl_credential c) (BatchDeleteArtifactsByUuids us ct)) (s, d)"
  unfolding client_batch_delete_artifacts_by_list_def
  by (rule call_for_path [OF assms(3,2) route_batch_delete_artifacts_by_uuids]) (use assms in \<open>auto simp: good_wire_def key_pieces_def seen_def deleted_uuids_doc_def\<close>)

lemma served_batch_submit_tasks:
  assumes "good_wire D H T" "fresh c" "cl_world c = (s, d)"
  shows "outcome (reply RBatch (client_batch_submit_tasks (coordinator_http Q D e H) reqs) c) =
           served D e (TaskReq (cl_credential c) (BatchSubmitTasks reqs)) (s, d)"
  unfolding client_batch_submit_tasks_def
  by (rule call_for_path [OF assms(3,2) route_batch_submit_tasks]) (use assms in \<open>auto simp: good_wire_def key_pieces_def seen_def batch_doc_def\<close>)

lemma served_create_group:
  assumes "good_wire D H T" "fresh c" "cl_world c = (s, d)"
  shows "outcome (reply (\<lambda>_. RUnit) (client_user_create_group (coordinator_http Q D e H) gn) c) =
           served D e (GroupReq (cl_credential c) (CreateGroup gn)) (s, d)"
  unfolding client_user_create_group_def
  by (rule call_with_path [OF assms(3,2) route_create_group]) (use assms in \<open>auto simp: good_wire_def key_pieces_def seen_def\<close>)

lemma served_get_group:
  assumes "good_wire D H T" "fresh c" "cl_world c = (s, d)" "piece gn"
  shows "outcome (reply RGroup (client_get_group_by_name (coordinator_http Q D e H) gn) c) =
           served D e (GroupReq (cl_credential c) (GetGroup gn)) (s, d)"
  unfolding client_get_group_by_name_def
  by (rule call_for_path [OF assms(3,2) route_get_group]) (use assms in \<open>auto simp: good_wire_def key_pieces_def seen_def group_doc_def\<close>)

lemma served_update_user_group:
  assumes "good_wire D H T" "fresh c" "cl_world c = (s, d)" "piece gn"
  shows "outcome (reply (\<lambda>_. RUnit) (client_update_user_group_roles (coordinator_http Q D e H) gn rs) c) =
           served D e (GroupReq (cl_credential c) (UpdateUserGroup gn rs)) (s, d)"
  unfolding client_update_user_group_roles_def
  by (rule call_with_path [OF assms(3,2) route_update_user_group]) (use assms in \<open>auto simp: good_wire_def key_pieces_def seen_def\<close>)

lemma served_remove_user_group:
  assumes "good_wire D H T" "fresh c" "cl_world c = (s, d)" "piece gn" "distinct us"
  shows "outcome (reply (\<lambda>_. RUnit) (client_remove_user_group_roles (coordinator_http Q D e H) gn us) c) =
           served D e (GroupReq (cl_credential c) (RemoveUserGroup gn us)) (s, d)"
  unfolding client_remove_user_group_roles_def
  by (rule call_with_path [OF assms(3,2) route_remove_user_group]) (use assms in \<open>auto simp: good_wire_def key_pieces_def seen_def\<close>)

lemma served_upload_attachment:
  assumes "good_wire D H T" "fresh c" "cl_world c = (s, d)" "piece gn"
  shows "outcome (reply RUpload (client_get_upload_attachment_resp (coordinator_http Q D e H) gn k n) c) =
           served D e (GroupReq (cl_credential c) (UploadAttachment gn k n)) (s, d)"
  unfolding client_get_upload_attachment_resp_def
  by (rule call_for_path [OF assms(3,2) route_upload_attachment]) (use assms in \<open>auto simp: good_wire_def key_pieces_def seen_def upload_doc_def\<close>)

lemma served_download_attachment:
  assumes "good_wire D H T" "fresh c" "cl_world c = (s, d)" "piece gn" "key_pieces k" "k \<noteq> ''list''"
  shows "outcome (reply RLink (client_get_attachment_download_resp (coordinator_http Q D e H) gn k) c) =
           served D e (GroupReq (cl_credential c) (DownloadAttachment gn k)) (s, d)"
  unfolding client_get_attachment_download_resp_def
  by (rule call_for_path [OF assms(3,2) route_download_attachment]) (use assms in \<open>auto simp: good_wire_def key_pieces_def seen_def link_doc_def\<close>)

lemma served_delete_attachment:
  assumes "good_wire D H T" "fresh c" "cl_world c = (s, d)" "piece gn" "key_pieces k" "k \<noteq> ''query''"
  shows "outcome (reply (\<lambda>_. RUnit) (client_delete_attachment (coordinator_http Q D e H) gn k False) c) =
           served D e (GroupReq (cl_credential c) (DeleteAttachment gn k)) (s, d)"
  unfolding client_delete_attachment_def if_True if_False
  by (rule call_with_path [OF assms(3,2) route_delete_attachment]) (use assms in \<open>auto simp: good_wire_def key_pieces_def seen_def\<close>)

lemma served_query_attachment:
  assumes "good_wire D H T" "fresh c" "cl_world c = (s, d)" "piece gn" "key_pieces k" "k \<noteq> ''query''"
  shows "outcome (reply RAttachment (client_get_attachment (coordinator_http Q D e H) gn k) c) =
           served D e (GroupReq (cl_credential c) (QueryAttachment gn k)) (s, d)"
  unfolding client_get_attachment_def
  by (rule call_for_path [OF assms(3,2) route_query_attachment]) (use assms in \<open>auto simp: good_wire_def key_pieces_def seen_def attachment_doc_def\<close>)

lemma served_query_attachments:
  assumes "good_wire D H T" "fresh c" "cl_world c = (s, d)" "piece gn"
  shows "outcome (reply RAttachments (client_query_attachments_by_filter (coordinator_http Q D e H) gn aq) c) =
           served D e (GroupReq (cl_credential c) (QueryAttachments gn aq)) (s, d)"
  unfolding client_query_attachments_by_filter_def
  by (rule call_for_path [OF assms(3,2) route_query_attachments]) (use assms in \<open>auto simp: good_wire_def key_pieces_def seen_def attachments_doc_def\<close>)

lemma served_batch_download_attachments:
  assumes "good_wire D H T" "fresh c" "cl_world c = (s, d)" "piece gn"
  shows "outcome (reply RAttachmentLinks (client_batch_download_attachments_by_filter (coordinator_http Q D e H) gn key lim off) c) =
           served D e (GroupReq (cl_credential c) (BatchDownloadAttachments gn key lim off)) (s, d)"
  unfolding client_batch_download_attachments_by_filter_def
  by (rule call_for_path [OF assms(3,2) route_batch_download_attachments]) (use assms in \<open>auto simp: good_wire_def key_pieces_def seen_def attachment_links_doc_def\<close>)

lemma served_batch_download_attachments_by_keys:
  assumes "good_wire D H T" "fresh c" "cl_world c = (s, d)" "piece gn"
  shows "outcome (reply RAttachmentLinks (client_batch_download_attachments_by_list (coordinator_http Q D e H) gn ks) c) =
           served D e (GroupReq (cl_credential c) (BatchDownloadAttachmentsByKeys gn ks)) (s, d)"
  unfolding client_batch_download_attachments_by_list_def
  by (rule call_for_path [OF assms(3,2) route_batch_download_attachments_by_keys]) (use assms in \<open>auto simp: good_wire_def key_pieces_def seen_def attachment_links_doc_def\<close>)

lemma served_batch_delete_attachments:
  assumes "good_wire D H T" "fresh c" "cl_world c = (s, d)" "piece gn"
  shows "outcome (reply RDeletedAttachments (client_batch_delete_attachments_by_filter (coordinator_http Q D e H) gn key lim off) c) =
           served D e (GroupReq (cl_credential c) (BatchDeleteAttachments gn key lim off)) (s, d)"
  unfolding client_batch_delete_attachments_by_filter_def
  by (rule call_for_path [OF assms(3,2) route_batch_delete_attachments]) (use assms in \<open>auto simp: good_wire_def key_pieces_def seen_def deleted_attachments_doc_def\<close>)

lemma served_batch_delete_attachments_by_keys:
  assumes "good_wire D H T" "fresh c" "cl_world c = (s, d)" "piece gn"
  shows "outcome (reply RDeletedKeys (client_batch_delete_attachments_by_list (coordinator_http Q D e H) gn ks) c) =
           served D e (GroupReq (cl_credential c) (BatchDeleteAttachmentsByKeys gn ks)) (s, d)"
  unfolding client_batch_delete_attachments_by_list_def
  by (rule call_for_path [OF assms(3,2) route_batch_delete_attachments_by_keys]) (use assms in \<open>auto simp: good_wire_def key_pieces_def seen_def deleted_keys_doc_def\<close>)

lemma served_query_worker:
  assumes "good_wire D H T" "fresh c" "cl_world c = (s, d)"
  shows "outcome (reply RWorker (client_get_worker_by_uuid (coordinator_http Q D e H) T u) c) =
           served D e (WorkerUserReq (cl_credential c) (QueryWorker u)) (s, d)"
  unfolding client_get_worker_by_uuid_def
  by (rule call_for_path [OF assms(3,2) route_query_worker]) (use assms in \<open>auto simp: good_wire_def key_pieces_def seen_def worker_doc_def\<close>)

lemma served_shutdown_worker:
  assumes "good_wire D H T" "fresh c" "cl_world c = (s, d)"
  shows "outcome (reply (\<lambda>_. RUnit) (client_cancel_worker_by_uuid (coordinator_http Q D e H) T u force) c) =
           served D e (WorkerUserReq (cl_credential c) (ShutdownWorker u (if force then Some Force else None))) (s, d)"
  unfolding client_cancel_worker_by_uuid_def
  by (rule call_forced_path [OF assms(3,2) route_shutdown_worker]) (use assms in \<open>auto simp: good_wire_def key_pieces_def seen_def\<close>)

lemma served_replace_worker_tags:
  assumes "good_wire D H T" "fresh c" "cl_world c = (s, d)"
  shows "outcome (reply (\<lambda>_. RUnit) (client_replace_worker_tags (coordinator_http Q D e H) T u ts) c) =
           served D e (WorkerUserReq (cl_credential c) (ReplaceWorkerTags u ts)) (s, d)"
  unfolding client_replace_worker_tags_def
  by (rule call_with_path [OF assms(3,2) route_replace_worker_tags]) (use assms in \<open>auto simp: good_wire_def key_pieces_def seen_def\<close>)

lemma served_replace_worker_labels:
  assumes "good_wire D H T" "fresh c" "cl_world c = (s, d)"
  shows "outcome (reply (\<lambda>_. RUnit) (client_replace_worker_labels (coordinator_http Q D e H) T u ls) c) =
           served D e (WorkerUserReq (cl_credential c) (ReplaceWorkerLabels u ls)) (s, d)"
  unfolding client_replace_worker_labels_def
  by (rule call_with_path [OF assms(3,2) route_replace_worker_labels]) (use assms in \<open>auto simp: good_wire_def key_pieces_def seen_def\<close>)

lemma served_update_worker_groups:
  assumes "good_wire D H T" "fresh c" "cl_world c = (s, d)"
  shows "outcome (reply (\<lambda>_. RUnit) (client_update_group_worker_roles (coordinator_http Q D e H) T u gr) c) =
           served D e (WorkerUserReq (cl_credential c) (UpdateWorkerGroups u gr)) (s, d)"
  unfolding client_update_group_worker_roles_def
  by (rule call_with_path [OF assms(3,2) route_update_worker_groups]) (use assms in \<open>auto simp: good_wire_def key_pieces_def seen_def\<close>)

lemma served_remove_worker_groups:
  assumes "good_wire D H T" "fresh c" "cl_world c = (s, d)" "distinct gs"
  shows "outcome (reply (\<lambda>_. RUnit) (client_remove_group_worker_roles (coordinator_http Q D e H) T u gs) c) =
           served D e (WorkerUserReq (cl_credential c) (RemoveWorkerGroups u gs)) (s, d)"
  unfolding client_remove_group_worker_roles_def
  by (rule call_with_path [OF assms(3,2) route_remove_worker_groups]) (use assms in \<open>auto simp: good_wire_def key_pieces_def seen_def\<close>)

lemma served_query_workers:
  assumes "good_wire D H T" "fresh c" "cl_world c = (s, d)"
  shows "outcome (reply RWorkers (client_query_workers_by_filter (coordinator_http Q D e H) wq) c) =
           served D e (WorkerUserReq (cl_credential c) (QueryWorkers wq)) (s, d)"
  unfolding client_query_workers_by_filter_def
  by (rule call_for_path [OF assms(3,2) route_query_workers]) (use assms in \<open>auto simp: good_wire_def key_pieces_def seen_def workers_doc_def\<close>)

lemma served_shutdown_workers:
  assumes "good_wire D H T" "fresh c" "cl_world c = (s, d)"
  shows "outcome (reply RShutdownCount (client_shutdown_workers_by_filter (coordinator_http Q D e H) sf) c) =
           served D e (WorkerUserReq (cl_credential c) (ShutdownWorkers sf)) (s, d)"
  unfolding client_shutdown_workers_by_filter_def
  by (rule call_for_path [OF assms(3,2) route_shutdown_workers]) (use assms in \<open>auto simp: good_wire_def key_pieces_def seen_def shutdown_count_doc_def\<close>)

lemma served_shutdown_workers_by_uuids:
  assumes "good_wire D H T" "fresh c" "cl_world c = (s, d)"
  shows "outcome (reply RShutdownUuids (client_shutdown_workers_by_uuids (coordinator_http Q D e H) us sop) c) =
           served D e (WorkerUserReq (cl_credential c) (ShutdownWorkersByUuids sop us)) (s, d)"
  unfolding client_shutdown_workers_by_uuids_def
  by (rule call_for_path [OF assms(3,2) route_shutdown_workers_by_uuids]) (use assms in \<open>auto simp: good_wire_def key_pieces_def seen_def shutdown_uuids_doc_def\<close>)

lemma served_admin_create_user:
  assumes "good_wire D H T" "fresh c" "cl_world c = (s, d)"
  shows "outcome (reply (\<lambda>_. RUnit) (client_admin_create_user (coordinator_http Q D e H) un pw adm) c) =
           served D e (AdminReq (cl_credential c) (AdminCreateUser un pw adm)) (s, d)"
  unfolding client_admin_create_user_def
  by (rule call_with_path [OF assms(3,2) route_admin_create_user]) (use assms in \<open>auto simp: good_wire_def key_pieces_def seen_def\<close>)

lemma served_admin_delete_user:
  assumes "good_wire D H T" "fresh c" "cl_world c = (s, d)" "piece un"
  shows "outcome (reply (\<lambda>_. RUnit) (client_admin_delete_user (coordinator_http Q D e H) un) c) =
           served D e (AdminReq (cl_credential c) (AdminDeleteUser un)) (s, d)"
  unfolding client_admin_delete_user_def
  by (rule call_with_path [OF assms(3,2) route_admin_delete_user]) (use assms in \<open>auto simp: good_wire_def key_pieces_def seen_def\<close>)

lemma served_admin_change_password:
  assumes "good_wire D H T" "fresh c" "cl_world c = (s, d)" "piece un"
  shows "outcome (reply (\<lambda>_. RUnit) (client_admin_change_password (coordinator_http Q D e H) un pw) c) =
           served D e (AdminReq (cl_credential c) (AdminChangePassword un pw)) (s, d)"
  unfolding client_admin_change_password_def
  by (rule call_with_path [OF assms(3,2) route_admin_change_password]) (use assms in \<open>auto simp: good_wire_def key_pieces_def seen_def\<close>)

lemma served_admin_change_user_group_quota:
  assumes "good_wire D H T" "fresh c" "cl_world c = (s, d)" "piece un"
  shows "outcome (reply RGroupQuota (client_admin_update_user_group_quota (coordinator_http Q D e H) un q) c) =
           served D e (AdminReq (cl_credential c) (AdminChangeUserGroupQuota un q)) (s, d)"
  unfolding client_admin_update_user_group_quota_def
  by (rule call_for_path [OF assms(3,2) route_admin_change_user_group_quota]) (use assms in \<open>auto simp: good_wire_def key_pieces_def seen_def group_quota_doc_def\<close>)

lemma served_admin_change_group_storage_quota:
  assumes "good_wire D H T" "fresh c" "cl_world c = (s, d)" "piece gn"
  shows "outcome (reply RStorageQuota (client_admin_update_group_storage_quota (coordinator_http Q D e H) gn q) c) =
           served D e (AdminReq (cl_credential c) (AdminChangeGroupStorageQuota gn q)) (s, d)"
  unfolding client_admin_update_group_storage_quota_def
  by (rule call_for_path [OF assms(3,2) route_admin_change_group_storage_quota]) (use assms in \<open>auto simp: good_wire_def key_pieces_def seen_def storage_quota_doc_def\<close>)

lemma served_admin_shutdown_worker:
  assumes "good_wire D H T" "fresh c" "cl_world c = (s, d)"
  shows "outcome (reply (\<lambda>_. RUnit) (client_admin_cancel_worker_by_uuid (coordinator_http Q D e H) T u force) c) =
           served D e (AdminReq (cl_credential c) (AdminShutdownWorker u (if force then Some Force else None))) (s, d)"
  unfolding client_admin_cancel_worker_by_uuid_def
  by (rule call_forced_path [OF assms(3,2) route_admin_shutdown_worker]) (use assms in \<open>auto simp: good_wire_def key_pieces_def seen_def\<close>)

lemma served_admin_delete_attachment:
  assumes "good_wire D H T" "fresh c" "cl_world c = (s, d)" "piece gn" "key_pieces k"
  shows "outcome (reply (\<lambda>_. RUnit) (client_delete_attachment (coordinator_http Q D e H) gn k True) c) =
           served D e (AdminReq (cl_credential c) (AdminDeleteAttachment gn k)) (s, d)"
  unfolding client_delete_attachment_def if_True if_False
  by (rule call_with_path [OF assms(3,2) route_admin_delete_attachment]) (use assms in \<open>auto simp: good_wire_def key_pieces_def seen_def\<close>)

lemma served_admin_delete_artifact:
  assumes "good_wire D H T" "fresh c" "cl_world c = (s, d)"
  shows "outcome (reply (\<lambda>_. RUnit) (client_delete_artifact (coordinator_http Q D e H) T u ct True) c) =
           served D e (AdminReq (cl_credential c) (AdminDeleteArtifact u ct)) (s, d)"
  unfolding client_delete_artifact_def if_True if_False
  by (rule call_with_path [OF assms(3,2) route_admin_delete_artifact]) (use assms in \<open>auto simp: good_wire_def key_pieces_def seen_def\<close>)

lemma served_admin_shutdown:
  assumes "good_wire D H T" "fresh c" "cl_world c = (s, d)"
  shows "outcome (reply (\<lambda>_. RUnit) (client_admin_shutdown_coordinator (coordinator_http Q D e H) secret) c) =
           served D e (AdminReq (cl_credential c) (AdminShutdown secret)) (s, d)"
  unfolding client_admin_shutdown_coordinator_def
  by (rule call_with_path [OF assms(3,2) route_admin_shutdown]) (use assms in \<open>auto simp: good_wire_def key_pieces_def seen_def\<close>)

lemma user_call_served:
  assumes "good_wire D H T" "fresh c" "cl_world c = (s, d)" "proper (UserCall r)"
  shows "outcome (api_call (coordinator_http Q D e H) T (UserCall r) c) = served D e (request_of (cl_credential c) (UserCall r)) (s, d)"
  using assms(4)
  by (cases r) (auto simp: served_change_password [OF assms(1-3)] served_query_groups [OF assms(1-3)] served_query_redis [OF assms(1-3)] served_who_am_i [OF assms(1-3)])

lemma task_call_served:
  assumes "good_wire D H T" "fresh c" "cl_world c = (s, d)" "proper (TaskCall r)"
  shows "outcome (api_call (coordinator_http Q D e H) T (TaskCall r) c) = served D e (request_of (cl_credential c) (TaskCall r)) (s, d)"
  using assms(4)
  by (cases r) (auto simp: served_submit_task [OF assms(1-3)] served_change_task [OF assms(1-3)] served_change_task_labels [OF assms(1-3)] served_cancel_task [OF assms(1-3)] served_query_task [OF assms(1-3)] served_query_tasks [OF assms(1-3)] served_cancel_tasks [OF assms(1-3)] served_cancel_tasks_by_uuids [OF assms(1-3)] served_upload_artifact [OF assms(1-3)] served_download_artifact [OF assms(1-3)] served_delete_artifact [OF assms(1-3)] served_batch_download_artifacts [OF assms(1-3)] served_batch_download_artifacts_by_uuids [OF assms(1-3)] served_batch_delete_artifacts [OF assms(1-3)] served_batch_delete_artifacts_by_uuids [OF assms(1-3)] served_batch_submit_tasks [OF assms(1-3)])

lemma group_call_served:
  assumes "good_wire D H T" "fresh c" "cl_world c = (s, d)" "proper (GroupCall r)"
  shows "outcome (api_call (coordinator_http Q D e H) T (GroupCall r) c) = served D e (request_of (cl_credential c) (GroupCall r)) (s, d)"
  using assms(4)
  by (cases r) (auto simp: served_create_group [OF assms(1-3)] served_get_group [OF assms(1-3)] served_update_user_group [OF assms(1-3)] served_remove_user_group [OF assms(1-3)] served_upload_attachment [OF assms(1-3)] served_download_attachment [OF assms(1-3)] served_delete_attachment [OF assms(1-3)] served_query_attachment [OF assms(1-3)] served_query_attachments [OF assms(1-3)] served_batch_download_attachments [OF assms(1-3)] served_batch_download_attachments_by_keys [OF assms(1-3)] served_batch_delete_attachments [OF assms(1-3)] served_batch_delete_attachments_by_keys [OF assms(1-3)])

lemma workers_call_served:
  assumes "good_wire D H T" "fresh c" "cl_world c = (s, d)" "proper (WorkersCall r)"
  shows "outcome (api_call (coordinator_http Q D e H) T (WorkersCall r) c) = served D e (request_of (cl_credential c) (WorkersCall r)) (s, d)"
  using assms(4)
  by (cases r) (auto simp: served_query_worker [OF assms(1-3)] served_shutdown_worker [OF assms(1-3)] served_replace_worker_tags [OF assms(1-3)] served_replace_worker_labels [OF assms(1-3)] served_update_worker_groups [OF assms(1-3)] served_remove_worker_groups [OF assms(1-3)] served_query_workers [OF assms(1-3)] served_shutdown_workers [OF assms(1-3)] served_shutdown_workers_by_uuids [OF assms(1-3)])

lemma admin_call_served:
  assumes "good_wire D H T" "fresh c" "cl_world c = (s, d)" "proper (AdminCall r)"
  shows "outcome (api_call (coordinator_http Q D e H) T (AdminCall r) c) = served D e (request_of (cl_credential c) (AdminCall r)) (s, d)"
  using assms(4)
  by (cases r) (auto simp: served_admin_create_user [OF assms(1-3)] served_admin_delete_user [OF assms(1-3)] served_admin_change_password [OF assms(1-3)] served_admin_change_user_group_quota [OF assms(1-3)] served_admin_change_group_storage_quota [OF assms(1-3)] served_admin_shutdown_worker [OF assms(1-3)] served_admin_delete_attachment [OF assms(1-3)] served_admin_delete_artifact [OF assms(1-3)] served_admin_shutdown [OF assms(1-3)])

lemma worker_fetch_answers:
  assumes "priority_queue Q lookup"
  shows "\<exists>x s' d'. worker_fetch_task Q D e t s d = Some (x, s', d') \<and> (\<forall>y. x = Inr y \<longrightarrow> y \<in> range RFetched)"
proof -
  obtain a s1 where auth: "worker_auth (dp_auth D) (e_clock e 0) t s = (a, s1)" by fastforce
  show ?thesis
  proof (cases a)
    case (Inr w)
    then obtain r s' d' where "fetch_task Q (e_now e) (fst w) s1 d = Some (r, s', d')"
      using priority_queue.fetch_returns [OF assms] by blast
    then show ?thesis using auth Inr by (cases w; cases r) (auto simp: worker_fetch_task_def)
  qed (simp add: worker_fetch_task_def auth)
qed

lemma served_login:
  assumes "good_wire D H T" "fresh c" "cl_world c = (s, d)"
  shows "outcome (reply (\<lambda>_. RUnit) (client_user_login (coordinator_http Q D e H) un pw retain) c) =
           served D e (Login un pw retain) (s, d)"
  unfolding client_user_login_def reply_set_path
  by (rule login_call_served) (use assms in \<open>simp_all add: good_wire_def fresh_def login_request_def route_login\<close>)

lemma proper_call_served:
  assumes "good_wire D H T" "fresh c" "cl_world c = (s, d)" "proper r"
  shows "outcome (api_call (coordinator_http Q D e H) T r c) = served D e (request_of (cl_credential c) r) (s, d)"
proof (cases r)
  case (UserCall q)
  then show ?thesis using user_call_served [OF assms(1-3), of q] assms(4) by simp
next
  case (TaskCall q)
  then show ?thesis using task_call_served [OF assms(1-3), of q] assms(4) by simp
next
  case (GroupCall q)
  then show ?thesis using group_call_served [OF assms(1-3), of q] assms(4) by simp
next
  case (WorkersCall q)
  then show ?thesis using workers_call_served [OF assms(1-3), of q] assms(4) by simp
next
  case (AdminCall q)
  then show ?thesis using admin_call_served [OF assms(1-3), of q] assms(4) by simp
next
  case (LoginCall un pw retain)
  then show ?thesis using served_login [OF assms(1-3)] by simp
qed

section \<open>Properties\<close>

text \<open>C22. A call of the client is a call of the service: with the documented behaviour of the HTTP libraries, every
  proper call of a fresh client, sent to the coordinator over the wire, returns what the service returns to the
  request that the call stands for, made with the credential of the client, and leaves the coordinator in the
  state in which the service leaves it. An error of the service arrives with its status and its message; no call
  is lost, refused as unroutable, led to another handler, or answered by a document that cannot be decoded.\<close>

theorem client_call_is_service_call:
  assumes "good_wire D H T" "fresh c" "cl_world c = (s, d)" "proper r"
  shows "outcome (api_call (coordinator_http Q D e H) T r c) =
    (case router D e (request_of (cl_credential c) r) s of (x, s') \<Rightarrow> (map_sum refusal seen x, s', d))"
  using proper_call_served [OF assms] by (simp add: served_def)

definition sample_stack :: HttpStack where
  "sample_stack = \<lparr>hs_target = split_on (CHR ''/''), hs_pick = (\<lambda>ps path. best_route path ps), hs_reject = (\<lambda>_. 404)\<rparr>"

definition wired_deployment :: Deployment where
  "wired_deployment = sample_deployment\<lparr>dp_auth := sample_auth\<lparr>uuid_parse_str := (\<lambda>s. map_option nat (parse_nat s))\<rparr>\<rparr>"

definition sample_client :: "(Pool \<times> (i64 \<times> i32) list TaskDispatcher) Client" where
  "sample_client = (new_client Map.empty [] (sample_pool, sample_dispatcher))\<lparr>cl_credential := ''forged''\<rparr>"

lemma good_sample_stack: "good_stack sample_stack"
  by (simp add: good_stack_def sample_stack_def good_target_def good_pick_best is_success_def)

lemma hex_digits: "hex_text nat_to_string"
proof -
  have "hex_char (digit_char n)" if "n < 10" for n
    using that by (simp add: hex_char_def digit_char_def)
  then show ?thesis by (auto simp: hex_text_def nat_to_string_nonempty list_all_iff dest!: nat_to_string_digits)
qed

lemma good_sample_wire: "good_wire wired_deployment sample_stack nat_to_string"
  by (simp add: good_wire_def good_sample_stack hex_digits wired_deployment_def sample_auth_def parse_nat_nat_to_string)

theorem client_call_is_service_call_witness:
  "outcome (api_call (coordinator_http alist_pq wired_deployment sample_env sample_stack) nat_to_string
      (GroupCall (QueryAttachment ''ada'' ''data/run 1'')) sample_client) =
    (case router wired_deployment sample_env (request_of (cl_credential sample_client) (GroupCall (QueryAttachment ''ada'' ''data/run 1'')))
        sample_pool of (x, s') \<Rightarrow> (map_sum refusal seen x, s', sample_dispatcher))"
  by (rule client_call_is_service_call)
    (simp_all add: good_sample_wire fresh_def sample_client_def new_client_def key_pieces_def piece_def path_segment_def path_char_def)



section \<open>What the client gets wrong\<close>

text \<open>\<open>set_query\<close> is never undone: after a forced shutdown of one worker, a shutdown of another that is not forced
  is a forced one.\<close>

lemma forced_shutdown_sticks:
  assumes "good_wire D H T" "fresh c" "cl_world c = w"
  shows "let c' = snd (client_cancel_worker_by_uuid (coordinator_http Q D e H) T u True c) in
    leads_to H (uuid_parse_str (dp_auth D)) (bearer_request DELETE [] NoBody (c'\<lparr>cl_path := ''workers/'' @ T v\<rparr>))
      (WorkerUserReq (cl_credential c) (ShutdownWorker v (Some Force)))"
proof -
  let ?N = "coordinator_http Q D e H"
  have c': "cl_query (snd (client_cancel_worker_by_uuid ?N T u True c)) = [(''op'', ''force'')] \<and>
      cl_credential (snd (client_cancel_worker_by_uuid ?N T u True c)) = cl_credential c"
    by (auto simp: client_cancel_worker_by_uuid_def thenR_def bindR_def set_url_path_def set_url_query_def call_with_def
        exchange_def ret_def raise_def split: prod.splits HttpAnswer.splits sum.splits)
  have "leads_to H (uuid_parse_str (dp_auth D))
      \<lparr>rq_method = DELETE, rq_path = ''workers/'' @ T v, rq_query = (if True then [(''op'', ''force'')] else []),
       rq_bearer = Some (cl_credential c), rq_body = NoBody\<rparr>
      (WorkerUserReq (cl_credential c) (ShutdownWorker v (if True then Some Force else None)))"
    by (rule route_shutdown_worker) (use assms in \<open>simp_all add: good_wire_def\<close>)
  then show ?thesis using c' by (simp add: Let_def bearer_request_def)
qed

text \<open>An attachment whose key is \<open>query\<close> can be uploaded, but neither be looked at nor be deleted: the static
  routes take its path, and know no other method than POST.\<close>

lemma hidden_attachment:
  assumes "good_stack H" "piece gn" "m \<noteq> POST"
  shows "route_request H (coordinator_routes U)
    \<lparr>rq_method = m, rq_path = ''groups/'' @ gn @ ''/attachments/query'', rq_query = q, rq_bearer = b, rq_body = body\<rparr> = None"
  by (rule trans, rule route_request_at [where prefix = "''groups''" and segs = "[gn, ''attachments'', ''query'']" and
        p = "[Param, Static ''attachments'', Static ''query'']"], insert assms, (simp add: routing; fail)+)

end
