(* ===== verification/Command_Args.thy ===== *)
theory Command_Args
  imports Client_Http
begin

text \<open>
  The arguments of the commands of the client (\<open>config/client/*.rs\<close>): the parsers of single arguments, the
  argument structures, and the requests that they become. Splitting a command line into arguments is the work of
  \<open>clap\<close>.

  A list that is collected into a set loses its repetitions, one that is collected into a map keeps the last value
  of a key; the model fixes one of the iteration orders. The text of a parse error is left out: an argument that
  is refused is \<open>None\<close>. \<open>U\<close> parses a UUID.
\<close>

section \<open>Parsers of single arguments\<close>

text \<open>\<open>str::split_once\<close>: the text before and after the first occurrence of a character.\<close>

fun split_once :: "char \<Rightarrow> string \<Rightarrow> (string \<times> string) option" where
  "split_once c [] = None"
| "split_once c (x # s) = (if x = c then Some ([], s) else map_option (\<lambda>(a, b). (x # a, b)) (split_once c s))"

lemma split_once_append: "c \<notin> set a \<Longrightarrow> split_once c (a @ c # b) = Some (a, b)"
  by (induction a) auto

lemma split_once_None: "split_once c s = None \<longleftrightarrow> c \<notin> set s"
  by (induction s) auto

lemma split_once_Some: "split_once c s = Some (a, b) \<Longrightarrow> s = a @ c # b \<and> c \<notin> set a"
  by (induction s arbitrary: a) (auto split: if_splits)

definition parse_pair :: "char \<Rightarrow> (string \<Rightarrow> 'a option) \<Rightarrow> (string \<Rightarrow> 'b option) \<Rightarrow> string \<Rightarrow> ('a \<times> 'b) option" where
  "parse_pair c P Q s =
     (case split_once c s of
        None \<Rightarrow> None
      | Some (a, b) \<Rightarrow> (case (P a, Q b) of (Some x, Some y) \<Rightarrow> Some (x, y) | _ \<Rightarrow> None))"

definition parse_key_val :: "(string \<Rightarrow> 'a option) \<Rightarrow> (string \<Rightarrow> 'b option) \<Rightarrow> string \<Rightarrow> ('a \<times> 'b) option" where
  "parse_key_val = parse_pair (CHR ''='')"

definition parse_key_val_colon :: "(string \<Rightarrow> 'a option) \<Rightarrow> (string \<Rightarrow> 'b option) \<Rightarrow> string \<Rightarrow> ('a \<times> 'b) option" where
  "parse_key_val_colon = parse_pair (CHR '':'')"

definition parse_watch_task :: "(string \<Rightarrow> 'a option) \<Rightarrow> (string \<Rightarrow> 'b option) \<Rightarrow> string \<Rightarrow> ('a \<times> 'b) option" where
  "parse_watch_task = parse_pair (CHR '','')"

definition to_lowercase :: "string \<Rightarrow> string" where
  "to_lowercase s = map (\<lambda>c. let n = of_char c :: nat in if 65 \<le> n \<and> n \<le> 90 then char_of (n + 32) else c) s"

definition parse_artifact_content_type :: "string \<Rightarrow> ArtifactContentType option" where
  "parse_artifact_content_type s =
     (let l = to_lowercase s in
      if l = ''result'' then Some Result
      else if l \<in> {''exec-log'', ''execlog'', ''exec''} then Some ExecLog
      else if l \<in> {''std-log'', ''stdlog'', ''std'', ''terminal''} then Some StdLog
      else None)"

definition parse_resources :: "(string \<Rightarrow> uuid option) \<Rightarrow> string \<Rightarrow> RemoteResourceDownload option" where
  "parse_resources U s =
     (if starts_with ''artifact='' s
      then (case split_on (CHR '':'') (drop (length ''artifact='') s) of
              [u, ct, p] \<Rightarrow>
                (case (U u, parse_artifact_content_type ct) of
                   (Some uuid, Some content_type) \<Rightarrow> Some \<lparr>remote_file = Artifact uuid content_type, local_path = p\<rparr>
                 | _ \<Rightarrow> None)
            | _ \<Rightarrow> None)
      else if starts_with ''attachment='' s
      then (case split_on (CHR '':'') (drop (length ''attachment='') s) of
              [k, p] \<Rightarrow> Some \<lparr>remote_file = Attachment k, local_path = p\<rparr>
            | _ \<Rightarrow> None)
      else None)"

section \<open>Collections\<close>

definition non_empty :: "'a list \<Rightarrow> 'a list option" where
  "non_empty xs = (if xs = [] then None else Some (remdups xs))"

fun hash_map :: "('k \<times> 'v) list \<Rightarrow> ('k \<times> 'v) list" where
  "hash_map [] = []"
| "hash_map ((k, v) # ps) = (if k \<in> fst ` set ps then hash_map ps else (k, v) # hash_map ps)"

lemma fst_hash_map [simp]: "fst ` set (hash_map ps) = fst ` set ps"
  by (induction ps rule: hash_map.induct) auto

lemma distinct_hash_map [simp]: "distinct (map fst (hash_map ps))"
proof (induction ps rule: hash_map.induct)
  case (2 k v ps)
  then show ?case using fst_hash_map [of ps] by (auto simp del: fst_hash_map)
qed simp

lemma map_of_hash_map: "map_of (hash_map ps) k = map_of (rev ps) k"
proof (induction ps rule: hash_map.induct)
  case (2 k' v ps)
  have "map_of (rev ps) k' = None" if "k' \<notin> fst ` set ps" using that by (simp add: map_of_eq_None_iff)
  moreover have "map_of (rev ps) k' \<noteq> None" if "k' \<in> fst ` set ps" using that by (simp add: map_of_eq_None_iff)
  ultimately show ?case using 2 by (cases "k' \<in> fst ` set ps"; cases "k = k'") (auto simp: map_add_def split: option.splits)
qed simp

section \<open>Tasks\<close>

record SubmitTaskArgs =
  sa_group_name :: "string option"
  sa_tags :: "string list"
  sa_labels :: "string list"
  sa_timeout :: u64
  sa_priority :: i32
  sa_envs :: "(string \<times> string) list"
  sa_terminal_output :: bool
  sa_command :: "string list"
  sa_resources :: "RemoteResourceDownload list"
  sa_watch :: "(uuid \<times> TaskExecState) option"

definition task_spec_new ::
  "string list \<Rightarrow> (string \<times> string) list \<Rightarrow> RemoteResourceDownload list \<Rightarrow> bool \<Rightarrow> (uuid \<times> TaskExecState) option \<Rightarrow> TaskSpec" where
  "task_spec_new as es files terminal w =
     \<lparr>args = as, envs = hash_map es, resources = files, terminal_output = terminal, watch = w\<rparr>"

record TasksFilterArgs =
  tf_creators :: "string list"
  tf_group :: "string option"
  tf_tags :: "string list"
  tf_labels :: "string list"
  tf_state :: "TaskState list"
  tf_exit_status :: "string option"
  tf_priority :: "string option"

text \<open>The arguments that select tasks are those of a filter; a query and the commands on many artifacts have more.\<close>

record QueryTasksArgs = TasksFilterArgs +
  qt_reporter_uuid :: "uuid option"
  qt_limit :: "nat option"
  qt_offset :: "nat option"
  qt_verbose :: bool
  qt_count :: bool

type_synonym CancelTasksArgs = TasksFilterArgs

definition tasks_query_req :: "QueryTasksArgs \<Rightarrow> TasksQueryReq" where
  "tasks_query_req a =
     \<lparr>tq_creator_usernames = non_empty (tf_creators a), tq_group_name = tf_group a, tq_tags = non_empty (tf_tags a),
      tq_labels = non_empty (tf_labels a), tq_states = non_empty (tf_state a), tq_exit_status = tf_exit_status a,
      tq_priority = tf_priority a, tq_reporter_uuid = qt_reporter_uuid a, tq_limit = qt_limit a,
      tq_offset = qt_offset a, tq_count = qt_count a\<rparr>"

definition tasks_cancel_req :: "CancelTasksArgs \<Rightarrow> TasksCancelByFilterReq" where
  "tasks_cancel_req a =
     \<lparr>tc_creator_usernames = non_empty (tf_creators a), tc_group_name = tf_group a, tc_tags = non_empty (tf_tags a),
      tc_labels = non_empty (tf_labels a), tc_states = non_empty (tf_state a), tc_exit_status = tf_exit_status a,
      tc_priority = tf_priority a\<rparr>"

record ChangeTaskArgs =
  ch_uuid :: uuid
  ch_tags :: "string list"
  ch_timeout :: "u64 option"
  ch_priority :: "i32 option"
  ch_envs :: "(string \<times> string) list"
  ch_terminal_output :: bool
  ch_command :: "string list"
  ch_resources :: "RemoteResourceDownload list"
  ch_watch :: "(uuid \<times> TaskExecState) option"

text \<open>Without a command, the other parts of the specification are dropped.\<close>

definition change_task_req :: "ChangeTaskArgs \<Rightarrow> ChangeTaskReq" where
  "change_task_req a =
     \<lparr>ct_tags = non_empty (ch_tags a), ct_timeout = ch_timeout a, ct_priority = ch_priority a,
      ct_task_spec =
        (if ch_command a = [] then None
         else Some (task_spec_new (ch_command a) (ch_envs a) (ch_resources a) (ch_terminal_output a) (ch_watch a)))\<rparr>"

section \<open>Artifacts\<close>

record ArtifactsFilterArgs = TasksFilterArgs +
  fa_content_type :: ArtifactContentType
  fa_reporter_uuid :: "uuid option"

definition artifacts_filter_req :: "'a ArtifactsFilterArgs_scheme \<Rightarrow> ArtifactsByFilterReq" where
  "artifacts_filter_req a =
     \<lparr>af_creator_usernames = non_empty (tf_creators a), af_group_name = tf_group a, af_tags = non_empty (tf_tags a),
      af_labels = non_empty (tf_labels a), af_states = non_empty (tf_state a), af_exit_status = tf_exit_status a,
      af_priority = tf_priority a, af_reporter_uuid = fa_reporter_uuid a, af_content_type = fa_content_type a\<rparr>"

text \<open>What the commands that download many files have in common.\<close>

record DownloadMany =
  dm_output_dir :: "string option"
  dm_no_download :: bool
  dm_concurrent :: nat

section \<open>Workers\<close>

record WorkersFilterArgs =
  wf_group :: "string option"
  wf_role :: "GroupWorkerRole list"
  wf_tags :: "string list"
  wf_labels :: "string list"
  wf_creator :: "string option"

record WorkersQueryArgs = WorkersFilterArgs +
  qw_verbose :: bool
  qw_count :: bool

record CancelWorkersArgs = WorkersFilterArgs +
  cw_force :: bool

definition workers_query_req :: "WorkersQueryArgs \<Rightarrow> WorkersQueryReq" where
  "workers_query_req a =
     \<lparr>wq_group_name = wf_group a, wq_role = non_empty (wf_role a), wq_tags = non_empty (wf_tags a),
      wq_labels = non_empty (wf_labels a), wq_creator_username = wf_creator a, wq_count = qw_count a\<rparr>"

definition shutdown_op_arg :: "bool \<Rightarrow> WorkerShutdownOp" where
  "shutdown_op_arg force = (if force then Force else Graceful)"

definition workers_shutdown_req :: "CancelWorkersArgs \<Rightarrow> WorkersShutdownByFilterReq" where
  "workers_shutdown_req a =
     \<lparr>ws_group_name = wf_group a, ws_role = non_empty (wf_role a), ws_tags = non_empty (wf_tags a),
      ws_labels = non_empty (wf_labels a), ws_creator_username = wf_creator a, ws_op = shutdown_op_arg (cw_force a)\<rparr>"

section \<open>Attachments\<close>

record AttachmentArgs =
  at_group_name :: "string option"
  at_key :: string
  at_smart :: bool

record UploadAttachmentArgs =
  ua_local_file :: string
  ua_group_name :: "string option"
  ua_key :: "string option"
  ua_smart :: bool

record DownloadAttachmentArgs = AttachmentArgs +
  da_output_path :: "string option"
  da_no_download :: bool

record PageArgs =
  pa_group :: "string option"
  pa_key :: "string option"
  pa_limit :: "nat option"
  pa_offset :: "nat option"

record QueryAttachmentsArgs = PageArgs +
  qa_count :: bool

definition attachments_query_req :: "QueryAttachmentsArgs \<Rightarrow> AttachmentsQueryReq" where
  "attachments_query_req a =
     \<lparr>aq_key = pa_key a, aq_limit = pa_limit a, aq_offset = pa_offset a, aq_count = qa_count a\<rparr>"

section \<open>Printed resources are parsed back\<close>

fun resource_text :: "(uuid \<Rightarrow> string) \<Rightarrow> RemoteResource \<Rightarrow> string \<Rightarrow> string" where
  "resource_text T (Artifact u ct) path = ''artifact='' @ T u @ '':'' @ content_type_text ct @ '':'' @ path"
| "resource_text T (Attachment key) path = ''attachment='' @ key @ '':'' @ path"

lemma content_type_parsed [simp]: "parse_artifact_content_type (content_type_text ct) = Some ct"
  by (cases ct) (simp_all add: parse_artifact_content_type_def to_lowercase_def Let_def)

lemma content_type_no_colon: "CHR '':'' \<notin> set (content_type_text ct)"
  by (cases ct) simp_all

lemma parse_resources_text:
  assumes "\<And>u. U (T u) = Some u" "\<And>u. CHR '':'' \<notin> set (T u)"
    and "CHR '':'' \<notin> set path" "\<forall>key. r = Attachment key \<longrightarrow> CHR '':'' \<notin> set key"
  shows "parse_resources U (resource_text T r path) = Some \<lparr>remote_file = r, local_path = path\<rparr>"
proof (cases r)
  case (Artifact u ct)
  have "split_on (CHR '':'') (T u @ CHR '':'' # content_type_text ct @ CHR '':'' # path) = [T u, content_type_text ct, path]"
    using assms(2,3) content_type_no_colon by (simp add: split_on_append split_on_no_sep)
  then show ?thesis using Artifact assms(1) by (simp add: parse_resources_def starts_with_def)
next
  case (Attachment key)
  then show ?thesis
    using assms(3,4) by (simp add: parse_resources_def starts_with_def split_on_append split_on_no_sep)
qed

text \<open>A path with a colon cannot be written.\<close>

lemma resource_with_colon_refused:
  assumes "CHR '':'' \<in> set path"
  shows "parse_resources U (''attachment='' @ key @ '':'' @ path) = None"
proof -
  obtain a b where path: "path = a @ CHR '':'' # b" using assms by (meson split_list)
  have "key @ '':'' @ path = key @ CHR '':'' # a @ CHR '':'' # b" by (simp add: path)
  then have parts: "split_on (CHR '':'') (key @ '':'' @ path) =
      split_on (CHR '':'') key @ split_on (CHR '':'') a @ split_on (CHR '':'') b"
    by (simp only: split_on_append_sep)
  have "0 < length (split_on (CHR '':'') x)" for x by simp
  from this [of key] this [of a] this [of b]
  have "2 < length (split_on (CHR '':'') (key @ '':'' @ path))" unfolding parts length_append by linarith
  then show ?thesis by (auto simp: parse_resources_def starts_with_def split: list.splits)
qed

end
