(* ===== verification/File_Transfer.thy ===== *)
theory File_Transfer
  imports Client_Http "HOL-Library.Multiset"
begin

text \<open>
  The contents of files on their way between a client and the object store: \<open>download_file\<close>, \<open>upload_file\<close> and
  \<open>get_xml_error_message\<close> of \<open>service/s3.rs\<close>, and \<open>concurrent_download_files\<close> of \<open>client/http.rs\<close>.

  The object store is not part of the program: a \<open>Store\<close> says what it answers to a GET and to a PUT of a URL. A
  body arrives in chunks, and breaks off or ends. The file system is \<open>cl_files\<close> of the client with the failures
  \<open>cl_io\<close>; \<open>dirs\<close> says which paths are directories. A write that fails writes nothing of its chunk. The
  progress bars are left out.
\<close>

section \<open>The object store\<close>

datatype BodyStream = Stream "string list" bool

datatype StoreAnswer = StoreAnswered nat BodyStream | StoreUnreachable | StoreSendFailed

text \<open>\<open>os_message\<close> is what \<open>roxmltree\<close> makes of a document: \<open>None\<close> if it is not XML, otherwise the text of
  its first element \<open>Message\<close>, if it has one.\<close>

record 'w Store =
  os_get :: "string \<Rightarrow> 'w \<Rightarrow> StoreAnswer \<times> 'w"
  os_put :: "string \<Rightarrow> u64 \<Rightarrow> string \<Rightarrow> 'w \<Rightarrow> StoreAnswer \<times> 'w"
  os_message :: "string \<Rightarrow> string option option"

definition store_call :: "('w \<Rightarrow> StoreAnswer \<times> 'w) \<Rightarrow> ('w, nat \<times> BodyStream) client" where
  "store_call f c =
     (case f (cl_world c) of
        (StoreAnswered st b, w) \<Rightarrow> (Inr (st, b), c\<lparr>cl_world := w\<rparr>)
      | (StoreUnreachable, w) \<Rightarrow> (Inl ConnectionError, c\<lparr>cl_world := w\<rparr>)
      | (StoreSendFailed, w) \<Rightarrow> (Inl TransportError, c\<lparr>cl_world := w\<rparr>))"

definition get_xml_error_message :: "'w Store \<Rightarrow> BodyStream \<Rightarrow> ('w, string) client" where
  "get_xml_error_message S b =
     (case b of Stream cs ends \<Rightarrow>
        if ends
        then (case os_message S (concat cs) of
                None \<Rightarrow> raise BadDocument
              | Some None \<Rightarrow> ret (concat cs)
              | Some (Some m) \<Rightarrow> ret m)
        else raise TransportError)"

section \<open>Downloads\<close>

text \<open>\<open>create_dir_all\<close> on the parent of a path does nothing when the path has no directory part.\<close>

definition create_parent :: "string \<Rightarrow> ('w, unit) client" where
  "create_parent path = (if CHR ''/'' \<in> set path then file_op else ret ())"

definition set_file :: "string \<Rightarrow> (string option \<Rightarrow> string) \<Rightarrow> ('w, unit) client" where
  "set_file path f c = (Inr (), c\<lparr>cl_files := (cl_files c)(path \<mapsto> f (cl_files c path))\<rparr>)"

definition create_file :: "(string \<Rightarrow> bool) \<Rightarrow> string \<Rightarrow> ('w, unit) client" where
  "create_file dirs path =
     thenR file_op
       (if dirs path \<or> path = [] then raise FileError else set_file path (\<lambda>_. []))"

definition write_chunk :: "string \<Rightarrow> string \<Rightarrow> ('w, unit) client" where
  "write_chunk path chunk =
     thenR file_op (set_file path (\<lambda>old. (case old of None \<Rightarrow> [] | Some s \<Rightarrow> s) @ chunk))"

definition download_file :: "(string \<Rightarrow> bool) \<Rightarrow> 'w Store \<Rightarrow> string \<Rightarrow> string \<Rightarrow> ('w, unit) client" where
  "download_file dirs S url path =
     bindR (store_call (os_get S url)) (\<lambda>(st, b).
       if is_success st
       then (case b of Stream cs ends \<Rightarrow>
              thenR (create_parent path)
                (thenR (create_file dirs path)
                  (thenR (for_each (write_chunk path) cs) (if ends then file_op else raise TransportError))))
       else bindR (get_xml_error_message S b) (\<lambda>m. raise (StoreError m)))"

section \<open>Uploads\<close>

definition open_file :: "string \<Rightarrow> ('w, string) client" where
  "open_file path = thenR file_op (\<lambda>c. ok_or FileError (cl_files c path) c)"

definition upload_file :: "'w Store \<Rightarrow> string \<Rightarrow> u64 \<Rightarrow> string \<Rightarrow> ('w, unit) client" where
  "upload_file S url content_length path =
     bindR (open_file path) (\<lambda>body.
     bindR (store_call (os_put S url content_length body)) (\<lambda>(st, b).
       if is_success st then ret ()
       else bindR (get_xml_error_message S b) (\<lambda>m. raise (StoreError m))))"

section \<open>Concurrent downloads\<close>

text \<open>The results come in the order in which the downloads complete, which for more than one at a time is the
  order that \<open>schedule\<close> gives; the downloads of different files do not disturb each other, so they run one after
  the other. All of them run before the first error is returned. \<open>buffer_unordered(0)\<close> never polls its stream:
  the function does not return.\<close>

fun run_all :: "('w, unit) client list \<Rightarrow> ('w, (ClientError + unit) list) client" where
  "run_all [] = ret []"
| "run_all (m # ms) = bindR (attempt m) (\<lambda>r. bindR (run_all ms) (\<lambda>rs. ret (r # rs)))"

definition check_result :: "ClientError + unit \<Rightarrow> ('w, unit) client" where
  "check_result r = (case r of Inl e \<Rightarrow> raise e | Inr u \<Rightarrow> ret u)"

definition concurrent_download_files ::
  "(string \<Rightarrow> bool) \<Rightarrow> 'w Store \<Rightarrow> ((string \<times> string) list \<Rightarrow> (string \<times> string) list) \<Rightarrow> nat \<Rightarrow> (string \<times> string) list \<Rightarrow>
   'w Client \<Rightarrow> ((ClientError + unit) \<times> 'w Client) option" where
  "concurrent_download_files dirs S schedule concurrent items c =
     (if concurrent = 0 then None
      else Some (bindR (run_all (map (\<lambda>(url, path). download_file dirs S url path)
                   (if concurrent = 1 then items else schedule items)))
             (for_each check_result) c))"

section \<open>What is downloaded\<close>

lemma wp_file_op [wp_eqs]:
  "wp file_op Q E c = (case cl_io c of [] \<Rightarrow> Q () c | ok # rest \<Rightarrow> if ok then Q () (c\<lparr>cl_io := rest\<rparr>) else E FileError (c\<lparr>cl_io := rest\<rparr>))"
  by (simp add: wp_def file_op_def split: list.splits)

lemma wp_set_file [wp_eqs]:
  "wp (set_file path f) Q E c = Q () (c\<lparr>cl_files := (cl_files c)(path \<mapsto> f (cl_files c path))\<rparr>)"
  by (simp add: wp_def set_file_def)

lemma wp_write_chunk:
  "wp (write_chunk path chunk) Q E c = wp file_op (\<lambda>_ c. Q () (c\<lparr>cl_files := (cl_files c)(path \<mapsto>
     (case cl_files c path of None \<Rightarrow> [] | Some s \<Rightarrow> s) @ chunk)\<rparr>)) E c"
  by (simp add: write_chunk_def wp_thenR wp_set_file [abs_def])

lemma wp_store_call [wp_eqs]:
  "wp (store_call f) Q E c =
     (case f (cl_world c) of
        (StoreAnswered st b, w) \<Rightarrow> Q (st, b) (c\<lparr>cl_world := w\<rparr>)
      | (StoreUnreachable, w) \<Rightarrow> E ConnectionError (c\<lparr>cl_world := w\<rparr>)
      | (StoreSendFailed, w) \<Rightarrow> E TransportError (c\<lparr>cl_world := w\<rparr>))"
  by (simp add: wp_def store_call_def split: prod.splits StoreAnswer.splits)

definition only_file :: "string \<Rightarrow> 'w Client \<Rightarrow> 'w Client \<Rightarrow> bool" where
  "only_file path c c' \<longleftrightarrow> cl_world c' = cl_world c \<and> (\<forall>p. p \<noteq> path \<longrightarrow> cl_files c' p = cl_files c p)"

lemma only_file_refl [simp]: "only_file path c c"
  by (simp add: only_file_def)

lemma only_file_trans: "only_file path a b \<Longrightarrow> only_file path b c \<Longrightarrow> only_file path a c"
  by (simp add: only_file_def)

lemma only_file_io [simp]:
  "only_file path c (c'\<lparr>cl_io := oks\<rparr>) = only_file path c c'" "only_file path (c\<lparr>cl_io := oks\<rparr>) c' = only_file path c c'"
  by (simp_all add: only_file_def)

text \<open>A file operation of a program that does nothing else to the files.\<close>

lemma wp_file_op_only:
  "(\<And>oks. Q () (c\<lparr>cl_io := oks\<rparr>)) \<Longrightarrow> (\<And>oks. E FileError (c\<lparr>cl_io := oks\<rparr>)) \<Longrightarrow> wp file_op Q E c"
proof -
  assume "\<And>oks. Q () (c\<lparr>cl_io := oks\<rparr>)" "\<And>oks. E FileError (c\<lparr>cl_io := oks\<rparr>)"
  then show ?thesis using \<open>\<And>oks. Q () (c\<lparr>cl_io := oks\<rparr>)\<close> [of "cl_io c"]
    by (auto simp: wp_file_op split: list.splits)
qed

lemma write_chunks:
  "cl_files c path = Some old \<Longrightarrow>
   wp (for_each (write_chunk path) cs) (\<lambda>_ c'. cl_files c' path = Some (old @ concat cs) \<and> only_file path c c')
     (\<lambda>_ c'. only_file path c c') c"
proof (induction cs arbitrary: c old)
  case (Cons x xs)
  have "wp (for_each (write_chunk path) xs) (\<lambda>_ c'. cl_files c' path = Some (old @ concat (x # xs)) \<and> only_file path c c')
      (\<lambda>_ c'. only_file path c c') (c\<lparr>cl_io := oks, cl_files := (cl_files c)(path \<mapsto> old @ x)\<rparr>)" for oks
    by (rule wp_mono [OF Cons.IH]) (auto simp: only_file_def)
  then show ?case using Cons.prems
    by (auto simp: wp_thenR wp_write_chunk intro!: wp_file_op_only)
qed (simp add: wp_eqs)

text \<open>A download that succeeds has put exactly the object into its file; one that fails has touched no other file.\<close>

lemma body_written:
  "wp (thenR (create_parent path) (thenR (create_file dirs path)
        (thenR (for_each (write_chunk path) cs) (if ends then file_op else raise TransportError))))
      (\<lambda>_ c'. ends \<and> cl_files c' path = Some (concat cs) \<and> only_file path c c') (\<lambda>_ c'. only_file path c c') c"
proof -
  have chunks: "wp (for_each (write_chunk path) cs)
      (\<lambda>_. wp (if ends then file_op else raise TransportError)
         (\<lambda>_ c'. ends \<and> cl_files c' path = Some (concat cs) \<and> only_file path c c') (\<lambda>_ c'. only_file path c c'))
      (\<lambda>_ c'. only_file path c c') (d\<lparr>cl_io := oks, cl_files := (cl_files d)(path \<mapsto> [])\<rparr>)"
    if "only_file path c d" for d oks
    by (rule wp_mono [OF write_chunks [where old = "[]"]])
      (use that in \<open>auto simp: wp_raise only_file_def intro!: wp_file_op_only\<close>)
  have create: "wp (create_file dirs path) (\<lambda>_. wp (for_each (write_chunk path) cs)
      (\<lambda>_. wp (if ends then file_op else raise TransportError)
         (\<lambda>_ c'. ends \<and> cl_files c' path = Some (concat cs) \<and> only_file path c c') (\<lambda>_ c'. only_file path c c'))
      (\<lambda>_ c'. only_file path c c')) (\<lambda>_ c'. only_file path c c') d" if "only_file path c d" for d
    unfolding create_file_def wp_thenR
    using that chunks by (auto simp: wp_raise wp_set_file intro!: wp_file_op_only)
  show ?thesis
    unfolding wp_thenR create_parent_def using create by (auto simp: wp_ret intro!: wp_file_op_only)
qed

lemma error_message_untouched: "wp (get_xml_error_message S b) (\<lambda>_ c'. c' = c) (\<lambda>_ c'. c' = c) c"
  by (simp add: get_xml_error_message_def wp_eqs split: BodyStream.splits option.splits)

lemma download_file_exact:
  "wp (download_file dirs S url path)
     (\<lambda>_ c'. \<exists>st cs. os_get S url (cl_world c) = (StoreAnswered st (Stream cs True), cl_world c') \<and> is_success st \<and>
        cl_files c' path = Some (concat cs) \<and> (\<forall>p. p \<noteq> path \<longrightarrow> cl_files c' p = cl_files c p))
     (\<lambda>_ c'. cl_world c' = snd (os_get S url (cl_world c)) \<and> (\<forall>p. p \<noteq> path \<longrightarrow> cl_files c' p = cl_files c p)) c"
proof -
  obtain a w where got: "os_get S url (cl_world c) = (a, w)" by fastforce
  show ?thesis
  proof (cases a)
    case (StoreAnswered st b)
    obtain cs ends where b: "b = Stream cs ends" by (cases b)
    show ?thesis
    proof (cases "is_success st")
      case True
      then show ?thesis
        using StoreAnswered b got
        by (cases ends) (auto simp: download_file_def wp_bindR wp_store_call only_file_def
            intro!: wp_mono [OF body_written [where ends = True, simplified]] wp_mono [OF body_written [where ends = False, simplified]])
    next
      case False
      then show ?thesis
        using StoreAnswered got
        by (auto simp: download_file_def wp_bindR wp_store_call wp_raise intro!: wp_mono [OF error_message_untouched])
    qed
  qed (simp_all add: download_file_def wp_bindR wp_store_call got)
qed

section \<open>What a batch of downloads leaves\<close>

text \<open>The objects do not change while they are downloaded.\<close>

definition serves :: "'w Store \<Rightarrow> (string \<Rightarrow> string) \<Rightarrow> bool" where
  "serves S content \<longleftrightarrow>
     (\<forall>url w st cs w'. os_get S url w = (StoreAnswered st (Stream cs True), w') \<and> is_success st \<longrightarrow> concat cs = content url)"

lemma servesD:
  "serves S content \<Longrightarrow> os_get S url w = (StoreAnswered st (Stream cs True), w') \<Longrightarrow> is_success st \<Longrightarrow> concat cs = content url"
  unfolding serves_def by blast

definition holds_all :: "(string \<Rightarrow> string) \<Rightarrow> (string \<times> string) list \<Rightarrow> (string \<rightharpoonup> string) \<Rightarrow> bool" where
  "holds_all content items files \<longleftrightarrow> (\<forall>(url, path) \<in> set items. files path = Some (content url))"

definition others_kept :: "(string \<times> string) list \<Rightarrow> (string \<rightharpoonup> string) \<Rightarrow> (string \<rightharpoonup> string) \<Rightarrow> bool" where
  "others_kept items before after \<longleftrightarrow> (\<forall>p. p \<notin> snd ` set items \<longrightarrow> after p = before p)"

lemma run_all_downloads:
  assumes "serves S content"
  shows "distinct (map snd items) \<Longrightarrow>
    wp (run_all (map (\<lambda>(url, path). download_file dirs S url path) items))
      (\<lambda>rs c'. others_kept items (cl_files c) (cl_files c') \<and>
         ((\<forall>r \<in> set rs. r = Inr ()) \<longrightarrow> holds_all content items (cl_files c')))
      (\<lambda>_ _. False) c"
proof (induction items arbitrary: c)
  case Nil
  then show ?case by (simp add: wp_ret others_kept_def holds_all_def)
next
  case (Cons item items)
  obtain url path where item: "item = (url, path)" by fastforce
  have fresh: "path \<notin> snd ` set items" using Cons.prems item by auto
  have rest: "wp (run_all (map (\<lambda>(url, path). download_file dirs S url path) items))
      (\<lambda>rs. wp (ret (r # rs))
        (\<lambda>rs c'. others_kept (item # items) (cl_files c) (cl_files c') \<and>
          ((\<forall>r \<in> set rs. r = Inr ()) \<longrightarrow> holds_all content (item # items) (cl_files c'))) (\<lambda>_ _. False))
      (\<lambda>_ _. False) d"
    if "\<forall>p. p \<noteq> path \<longrightarrow> cl_files d p = cl_files c p" "r = Inr () \<longrightarrow> cl_files d path = Some (content url)" for d r
  proof (rule wp_mono [OF Cons.IH])
    show "distinct (map snd items)" using Cons.prems by simp
    fix rs :: "(ClientError + unit) list" and t
    assume end_state: "others_kept items (cl_files d) (cl_files t) \<and>
      ((\<forall>r \<in> set rs. r = Inr ()) \<longrightarrow> holds_all content items (cl_files t))"
    then have "cl_files t path = cl_files d path" using fresh by (simp add: others_kept_def)
    then show "wp (ret (r # rs))
        (\<lambda>rs c'. others_kept (item # items) (cl_files c) (cl_files c') \<and>
          ((\<forall>r \<in> set rs. r = Inr ()) \<longrightarrow> holds_all content (item # items) (cl_files c'))) (\<lambda>_ _. False) t"
      using end_state that item by (auto simp: wp_ret others_kept_def holds_all_def)
  qed simp
  have "wp (download_file dirs S url path)
      (\<lambda>_ c'. (\<forall>p. p \<noteq> path \<longrightarrow> cl_files c' p = cl_files c p) \<and> cl_files c' path = Some (content url))
      (\<lambda>_ c'. \<forall>p. p \<noteq> path \<longrightarrow> cl_files c' p = cl_files c p) c"
    by (rule wp_mono [OF download_file_exact]) (use assms in \<open>auto dest: servesD\<close>)
  then have "wp (download_file dirs S url path) (\<lambda>a. wp (bindR (run_all (map (\<lambda>(url, path). download_file dirs S url path) items))
        (\<lambda>rs. ret (Inr a # rs)))
        (\<lambda>rs c'. others_kept (item # items) (cl_files c) (cl_files c') \<and>
          ((\<forall>r \<in> set rs. r = Inr ()) \<longrightarrow> holds_all content (item # items) (cl_files c'))) (\<lambda>_ _. False))
      (\<lambda>e. wp (bindR (run_all (map (\<lambda>(url, path). download_file dirs S url path) items)) (\<lambda>rs. ret (Inl e # rs)))
        (\<lambda>rs c'. others_kept (item # items) (cl_files c) (cl_files c') \<and>
          ((\<forall>r \<in> set rs. r = Inr ()) \<longrightarrow> holds_all content (item # items) (cl_files c'))) (\<lambda>_ _. False)) c"
    unfolding wp_bindR by (rule wp_mono) (use rest in auto)
  then show ?case by (simp add: item wp_bindR [of "attempt m" for m] wp_attempt)
qed

lemma results_checked:
  "wp (for_each check_result rs) (\<lambda>_ c'. c' = c \<and> (\<forall>r \<in> set rs. r = Inr ())) (\<lambda>_ c'. c' = c) c"
  by (induction rs) (auto simp: wp_ret wp_thenR check_result_def wp_raise split: sum.splits)

text \<open>When a batch of downloads into different files returns, the other files are as before; when it returns
  without an error, every file is exactly its object.\<close>

lemma concurrent_downloads_exact:
  assumes "serves S content" "distinct (map snd items)" "mset (schedule items) = mset items"
    and "concurrent_download_files dirs S schedule concurrent items c = Some (r, c')"
  shows "others_kept items (cl_files c) (cl_files c') \<and> (r = Inr () \<longrightarrow> holds_all content items (cl_files c'))"
proof -
  define order where "order = (if concurrent = 1 then items else schedule items)"
  have same: "set order = set items" "mset (map snd order) = mset (map snd items)"
    using assms(3) by (auto simp: order_def dest: mset_eq_setD)
  then have "distinct (map snd order)" using assms(2) by (metis mset_eq_imp_distinct_iff)
  then have "wp (bindR (run_all (map (\<lambda>(url, path). download_file dirs S url path) order)) (for_each check_result))
      (\<lambda>_ c'. others_kept order (cl_files c) (cl_files c') \<and> holds_all content order (cl_files c'))
      (\<lambda>_ c'. others_kept order (cl_files c) (cl_files c')) c"
    unfolding wp_bindR
    by (intro wp_mono [OF run_all_downloads [OF assms(1)]]) (auto intro!: wp_mono [OF results_checked])
  moreover have "bindR (run_all (map (\<lambda>(url, path). download_file dirs S url path) order)) (for_each check_result) c = (r, c')"
    using assms(4) by (simp add: concurrent_download_files_def order_def split: if_splits)
  ultimately show ?thesis
    using same by (auto simp: wp_def others_kept_def holds_all_def split: sum.splits)
qed

text \<open>A batch without any parallelism never returns; with one at a time and a sound store it returns.\<close>

lemma concurrent_downloads_return:
  "concurrent_download_files dirs S schedule concurrent items c = None \<longleftrightarrow> concurrent = 0"
  by (simp add: concurrent_download_files_def)

end
