(* ===== verification/Client_Commands.thy ===== *)
theory Client_Commands
  imports Client_Service Command_Args File_Transfer
begin

text \<open>
  The commands of the client (\<open>client/mod.rs\<close>, with the prompts of \<open>client/interactive.rs\<close>): one definition per
  method of \<open>MitoClient\<close>, and the dispatch of the commands. \<open>me\<close> is the user name that the client got when it
  was set up; it never changes. What is printed of an answer is the answer itself (\<open>Shown\<close>).

  A \<open>Machine\<close> is what the client runs on: the network, the object store, the text of UUIDs, the directories, the
  function \<open>path_clean::clean\<close>, what the console answers to a prompt, the order in which concurrent downloads
  complete, and \<open>serde_json\<close> on a list of submissions.
\<close>

section \<open>Paths and prompts\<close>

record 'w Machine =
  mc_net :: "'w net"
  mc_store :: "'w Store"
  mc_uuid :: "uuid \<Rightarrow> string"
  mc_dirs :: "string \<Rightarrow> bool"
  mc_clean :: "string \<Rightarrow> string"
  mc_console :: "string \<Rightarrow> Prompts"
  mc_schedule :: "(string \<times> string) list \<Rightarrow> (string \<times> string) list"
  mc_tasks_of_json :: "string \<Rightarrow> SubmitTaskReq list option"

text \<open>\<open>Path::file_name\<close>: the last component of a path, unless it is \<open>..\<close>.\<close>

definition file_name :: "string \<Rightarrow> string option" where
  "file_name p =
     (let cs = filter (\<lambda>s. s \<noteq> [] \<and> s \<noteq> ''.'') (split_on (CHR ''/'') p)
      in if cs = [] \<or> last cs = ''..'' then None else Some (last cs))"

text \<open>\<open>metadata()\<close> of a local file: its length, or nothing for a directory.\<close>

definition local_metadata :: "'w Machine \<Rightarrow> string \<Rightarrow> ('w, u64 option) client" where
  "local_metadata M path =
     thenR file_op (\<lambda>c.
       (if mc_dirs M path then ret None
        else bindR (ok_or FileError (cl_files c path)) (\<lambda>s. ret (Some (int (length s))))) c)"

definition login_prompts :: "'w Machine \<Rightarrow> string \<Rightarrow> string \<Rightarrow> Prompts" where
  "login_prompts M name_prompt password_prompt =
     (mc_console M password_prompt)\<lparr>pr_username_line := pr_username_line (mc_console M name_prompt)\<rparr>"

text \<open>Where everything is given, nothing is asked; the digests are the same.\<close>

definition fill_admin_create_user :: "'w Machine \<Rightarrow> string option \<Rightarrow> string option \<Rightarrow> (string \<times> string) option" where
  "fill_admin_create_user M username password =
     fill_user_login (login_prompts M ''Username of new user'' ''Password of new user'') username password"

definition fill_admin_change_password :: "'w Machine \<Rightarrow> string option \<Rightarrow> string option \<Rightarrow> (string \<times> string) option" where
  "fill_admin_change_password M username password =
     fill_user_login (login_prompts M ''Username'' ''New Password'') username password"

definition fill_user_change_password ::
  "'w Machine \<Rightarrow> string option \<Rightarrow> string option \<Rightarrow> string option \<Rightarrow> (string \<times> string \<times> string) option" where
  "fill_user_change_password M username old_password new_password =
     (case get_and_prompt_username (mc_console M ''Username'') username of
        None \<Rightarrow> None
      | Some u \<Rightarrow>
          (case get_and_prompt_password (mc_console M ''Old Password'') old_password of
             None \<Rightarrow> None
           | Some old \<Rightarrow>
               map_option (\<lambda>new. (u, old, new)) (get_and_prompt_password (mc_console M ''New Password'') new_password)))"

section \<open>Users and sessions\<close>

definition cmd_setup :: "'w Machine \<Rightarrow> string option \<Rightarrow> string option \<Rightarrow> string option \<Rightarrow> string option \<Rightarrow> bool \<Rightarrow> ('w, string) client" where
  "cmd_setup M default_path credential_path user password retain =
     connect (mc_net M) (login_prompts M ''Username'' ''Password'') default_path credential_path user password retain"

definition cmd_user_login :: "'w Machine \<Rightarrow> string option \<Rightarrow> string option \<Rightarrow> bool \<Rightarrow> ('w, unit) client" where
  "cmd_user_login M username password retain =
     bindR (ok_or PromptError (fill_user_login (login_prompts M ''Username'' ''Password'') username password)) (\<lambda>(u, digest).
       client_user_login (mc_net M) u digest retain)"

definition cmd_user_auth :: "'w Machine \<Rightarrow> ('w, string) client" where
  "cmd_user_auth M = client_user_auth (mc_net M)"

definition cmd_admin_change_user_password :: "'w Machine \<Rightarrow> string option \<Rightarrow> string option \<Rightarrow> ('w, unit) client" where
  "cmd_admin_change_user_password M username new_password =
     bindR (ok_or PromptError (fill_admin_change_password M username new_password)) (\<lambda>(u, digest).
       client_admin_change_password (mc_net M) u digest)"

definition cmd_user_change_password :: "'w Machine \<Rightarrow> string \<Rightarrow> string option \<Rightarrow> string option \<Rightarrow> ('w, unit) client" where
  "cmd_user_change_password M me orig_password new_password =
     bindR (ok_or PromptError (fill_user_change_password M (Some me) orig_password new_password)) (\<lambda>(u, old, new).
       client_user_change_password (mc_net M) u old new)"

definition cmd_admin_users_create :: "'w Machine \<Rightarrow> string option \<Rightarrow> string option \<Rightarrow> bool \<Rightarrow> ('w, unit) client" where
  "cmd_admin_users_create M username password admin =
     bindR (ok_or PromptError (fill_admin_create_user M username password)) (\<lambda>(u, digest).
       client_admin_create_user (mc_net M) u digest admin)"

definition cmd_admin_users_delete :: "'w Machine \<Rightarrow> string \<Rightarrow> ('w, unit) client" where
  "cmd_admin_users_delete M username = client_admin_delete_user (mc_net M) username"

definition cmd_admin_groups_update_storage_quota :: "'w Machine \<Rightarrow> string \<Rightarrow> string \<Rightarrow> ('w, i64) client" where
  "cmd_admin_groups_update_storage_quota M group_name storage_quota =
     client_admin_update_group_storage_quota (mc_net M) group_name storage_quota"

definition cmd_admin_users_update_group_quota :: "'w Machine \<Rightarrow> string \<Rightarrow> string \<Rightarrow> ('w, i32) client" where
  "cmd_admin_users_update_group_quota M username group_quota =
     client_admin_update_user_group_quota (mc_net M) username group_quota"

definition cmd_admin_shutdown_coordinator :: "'w Machine \<Rightarrow> string \<Rightarrow> ('w, unit) client" where
  "cmd_admin_shutdown_coordinator M secret = client_admin_shutdown_coordinator (mc_net M) secret"

section \<open>Groups\<close>

definition cmd_groups_create :: "'w Machine \<Rightarrow> string \<Rightarrow> ('w, unit) client" where
  "cmd_groups_create M g = client_user_create_group (mc_net M) g"

definition cmd_groups_get :: "'w Machine \<Rightarrow> string \<Rightarrow> ('w, GroupQueryInfo) client" where
  "cmd_groups_get M g = client_get_group_by_name (mc_net M) g"

definition cmd_groups_query :: "'w Machine \<Rightarrow> ('w, (string \<times> UserGroupRole) list) client" where
  "cmd_groups_query M = client_get_user_groups_roles (mc_net M)"

definition cmd_groups_update_user_roles :: "'w Machine \<Rightarrow> string \<Rightarrow> (string \<times> UserGroupRole) list \<Rightarrow> ('w, unit) client" where
  "cmd_groups_update_user_roles M g roles = client_update_user_group_roles (mc_net M) g (hash_map roles)"

definition cmd_groups_remove_user_roles :: "'w Machine \<Rightarrow> string \<Rightarrow> string list \<Rightarrow> ('w, unit) client" where
  "cmd_groups_remove_user_roles M g us = client_remove_user_group_roles (mc_net M) g (remdups us)"

section \<open>Tasks\<close>

text \<open>\<open>gen_submit_task_req\<close>: without a group the task goes to the group of the user; the keys of attachments are
  cleaned.\<close>

definition clean_resource :: "(string \<Rightarrow> string) \<Rightarrow> RemoteResourceDownload \<Rightarrow> RemoteResourceDownload" where
  "clean_resource f r =
     (case remote_file r of
        Attachment key \<Rightarrow> r\<lparr>remote_file := Attachment (f key)\<rparr>
      | Artifact _ _ \<Rightarrow> r)"

definition gen_submit_task_req :: "'w Machine \<Rightarrow> string \<Rightarrow> SubmitTaskArgs \<Rightarrow> SubmitTaskReq" where
  "gen_submit_task_req M me a =
     \<lparr>st_group_name = (case sa_group_name a of Some g \<Rightarrow> g | None \<Rightarrow> me), st_tags = remdups (sa_tags a),
      st_labels = remdups (sa_labels a), st_timeout = sa_timeout a, st_priority = sa_priority a,
      st_task_spec =
        task_spec_new (sa_command a) (sa_envs a) (map (clean_resource (mc_clean M)) (sa_resources a))
          (sa_terminal_output a) (sa_watch a)\<rparr>"

definition cmd_tasks_submit :: "'w Machine \<Rightarrow> string \<Rightarrow> SubmitTaskArgs \<Rightarrow> ('w, SubmitTaskResp) client" where
  "cmd_tasks_submit M me a = client_user_submit_task (mc_net M) (gen_submit_task_req M me a)"

definition load_tasks :: "'w Machine \<Rightarrow> string \<Rightarrow> ('w, SubmitTaskReq list) client" where
  "load_tasks M file = bindR (open_file file) (\<lambda>content. ok_or BadDocument (mc_tasks_of_json M content))"

definition cmd_batch_submit_tasks :: "'w Machine \<Rightarrow> string \<Rightarrow> ('w, (ApiError + SubmitTaskResp) list) client" where
  "cmd_batch_submit_tasks M file = bindR (load_tasks M file) (client_batch_submit_tasks (mc_net M))"

definition cmd_tasks_get :: "'w Machine \<Rightarrow> uuid \<Rightarrow> ('w, TaskQueryInfo \<times> ArtifactRow list) client" where
  "cmd_tasks_get M uuid = client_get_task_by_uuid (mc_net M) (mc_uuid M) uuid"

definition cmd_tasks_query :: "'w Machine \<Rightarrow> QueryTasksArgs \<Rightarrow> ('w, TasksQueryResp) client" where
  "cmd_tasks_query M a = client_query_tasks_by_filter (mc_net M) (tasks_query_req a)"

definition cmd_tasks_cancel :: "'w Machine \<Rightarrow> uuid \<Rightarrow> ('w, unit) client" where
  "cmd_tasks_cancel M uuid = client_cancel_task_by_uuid (mc_net M) (mc_uuid M) uuid"

definition cmd_tasks_batch_cancel :: "'w Machine \<Rightarrow> CancelTasksArgs \<Rightarrow> ('w, nat \<times> string) client" where
  "cmd_tasks_batch_cancel M a = client_cancel_tasks_by_filter (mc_net M) (tasks_cancel_req a)"

definition cmd_tasks_batch_cancel_by_uuids :: "'w Machine \<Rightarrow> uuid list \<Rightarrow> ('w, nat \<times> uuid list) client" where
  "cmd_tasks_batch_cancel_by_uuids M uuids = client_cancel_tasks_by_uuids (mc_net M) uuids"

definition cmd_tasks_update_labels :: "'w Machine \<Rightarrow> uuid \<Rightarrow> string list \<Rightarrow> ('w, unit) client" where
  "cmd_tasks_update_labels M uuid labels = client_update_task_labels (mc_net M) (mc_uuid M) uuid (remdups labels)"

definition cmd_tasks_change :: "'w Machine \<Rightarrow> ChangeTaskArgs \<Rightarrow> ('w, unit) client" where
  "cmd_tasks_change M a = client_change_task (mc_net M) (mc_uuid M) (ch_uuid a) (change_task_req a)"

section \<open>Workers\<close>

definition cmd_admin_workers_cancel :: "'w Machine \<Rightarrow> uuid \<Rightarrow> bool \<Rightarrow> ('w, unit) client" where
  "cmd_admin_workers_cancel M uuid force = client_admin_cancel_worker_by_uuid (mc_net M) (mc_uuid M) uuid force"

definition cmd_workers_cancel :: "'w Machine \<Rightarrow> uuid \<Rightarrow> bool \<Rightarrow> ('w, unit) client" where
  "cmd_workers_cancel M uuid force = client_cancel_worker_by_uuid (mc_net M) (mc_uuid M) uuid force"

definition cmd_workers_batch_cancel :: "'w Machine \<Rightarrow> CancelWorkersArgs \<Rightarrow> ('w, nat \<times> string) client" where
  "cmd_workers_batch_cancel M a = client_shutdown_workers_by_filter (mc_net M) (workers_shutdown_req a)"

definition cmd_workers_batch_cancel_by_uuids :: "'w Machine \<Rightarrow> uuid list \<Rightarrow> bool \<Rightarrow> ('w, nat \<times> uuid list) client" where
  "cmd_workers_batch_cancel_by_uuids M uuids force = client_shutdown_workers_by_uuids (mc_net M) uuids (shutdown_op_arg force)"

definition cmd_workers_update_tags :: "'w Machine \<Rightarrow> uuid \<Rightarrow> string list \<Rightarrow> ('w, unit) client" where
  "cmd_workers_update_tags M uuid tags = client_replace_worker_tags (mc_net M) (mc_uuid M) uuid (remdups tags)"

definition cmd_workers_update_labels :: "'w Machine \<Rightarrow> uuid \<Rightarrow> string list \<Rightarrow> ('w, unit) client" where
  "cmd_workers_update_labels M uuid labels = client_replace_worker_labels (mc_net M) (mc_uuid M) uuid (remdups labels)"

definition cmd_workers_update_group_roles :: "'w Machine \<Rightarrow> uuid \<Rightarrow> (string \<times> GroupWorkerRole) list \<Rightarrow> ('w, unit) client" where
  "cmd_workers_update_group_roles M uuid roles = client_update_group_worker_roles (mc_net M) (mc_uuid M) uuid (hash_map roles)"

definition cmd_workers_remove_group_roles :: "'w Machine \<Rightarrow> uuid \<Rightarrow> string list \<Rightarrow> ('w, unit) client" where
  "cmd_workers_remove_group_roles M uuid gs = client_remove_group_worker_roles (mc_net M) (mc_uuid M) uuid (remdups gs)"

definition cmd_workers_get :: "'w Machine \<Rightarrow> uuid \<Rightarrow> ('w, WorkerQueryInfo \<times> (string \<rightharpoonup> GroupWorkerRole)) client" where
  "cmd_workers_get M uuid = client_get_worker_by_uuid (mc_net M) (mc_uuid M) uuid"

definition cmd_workers_query :: "'w Machine \<Rightarrow> WorkersQueryArgs \<Rightarrow> ('w, nat \<times> WorkerQueryInfo list \<times> string) client" where
  "cmd_workers_query M a = client_query_workers_by_filter (mc_net M) (workers_query_req a)"

section \<open>Single artifacts\<close>

text \<open>The local path of a download: a name below a given directory, a given path, or the name itself.\<close>

definition output_path :: "'w Machine \<Rightarrow> string option \<Rightarrow> string \<Rightarrow> string" where
  "output_path M out name =
     (case out of
        Some dir \<Rightarrow> (if mc_dirs M dir then path_join dir name else dir)
      | None \<Rightarrow> path_join [] name)"

definition cmd_download_artifact :: "'w Machine \<Rightarrow> uuid \<Rightarrow> ArtifactContentType \<Rightarrow> string option \<Rightarrow> ('w, i64 \<times> string) client" where
  "cmd_download_artifact M uuid content_type out =
     (let path = output_path M out (artifact_file_name content_type) in
      bindR (client_get_artifact_download_resp (mc_net M) (mc_uuid M) uuid content_type) (\<lambda>(url, size).
        thenR (download_file (mc_dirs M) (mc_store M) url path) (ret (size, path))))"

definition cmd_get_artifact_download_url :: "'w Machine \<Rightarrow> uuid \<Rightarrow> ArtifactContentType \<Rightarrow> ('w, string) client" where
  "cmd_get_artifact_download_url M uuid content_type =
     bindR (client_get_artifact_download_resp (mc_net M) (mc_uuid M) uuid content_type) (\<lambda>(url, _). ret url)"

definition cmd_tasks_artifacts_delete :: "'w Machine \<Rightarrow> uuid \<Rightarrow> ArtifactContentType \<Rightarrow> ('w, unit) client" where
  "cmd_tasks_artifacts_delete M uuid content_type = client_delete_artifact (mc_net M) (mc_uuid M) uuid content_type False"

definition cmd_admin_tasks_artifacts_delete :: "'w Machine \<Rightarrow> uuid \<Rightarrow> ArtifactContentType \<Rightarrow> ('w, unit) client" where
  "cmd_admin_tasks_artifacts_delete M uuid content_type = client_delete_artifact (mc_net M) (mc_uuid M) uuid content_type True"

definition no_directories :: string where
  "no_directories = ''Currently we do not support uploading a directory''"

definition cmd_upload_artifact :: "'w Machine \<Rightarrow> string \<Rightarrow> uuid \<Rightarrow> ArtifactContentType \<Rightarrow> ('w, bool) client" where
  "cmd_upload_artifact M local_file uuid content_type =
     bindR (local_metadata M local_file) (\<lambda>metadata. case metadata of
       None \<Rightarrow> raise (Message no_directories)
     | Some content_length \<Rightarrow>
         bindR (client_get_upload_artifact_resp (mc_net M) (mc_uuid M) uuid content_type content_length) (\<lambda>(exist, url).
           thenR (upload_file (mc_store M) url content_length local_file) (ret exist)))"

section \<open>Single attachments\<close>

text \<open>Group and key of an attachment: with \<open>smart\<close> and without a group, the text before the first slash of the key
  is the group.\<close>

definition attachment_address :: "string \<Rightarrow> 'a AttachmentArgs_scheme \<Rightarrow> string \<times> string" where
  "attachment_address me a =
     (case at_group_name a of
        Some g \<Rightarrow> (g, at_key a)
      | None \<Rightarrow>
          if at_smart a
          then (case split_once (CHR ''/'') (at_key a) of Some (g, key) \<Rightarrow> (g, key) | None \<Rightarrow> (me, at_key a))
          else (me, at_key a))"

definition parse_download_attachment_args :: "'w Machine \<Rightarrow> string \<Rightarrow> DownloadAttachmentArgs \<Rightarrow> string \<times> string \<times> string" where
  "parse_download_attachment_args M me a =
     (let (g, key) = attachment_address me a;
          name = (if at_smart a then (case file_name key of Some n \<Rightarrow> n | None \<Rightarrow> key) else key)
      in (g, key, output_path M (da_output_path a) name))"

definition cmd_download_attachment :: "'w Machine \<Rightarrow> string \<Rightarrow> DownloadAttachmentArgs \<Rightarrow> ('w, i64 \<times> string) client" where
  "cmd_download_attachment M me a =
     (case parse_download_attachment_args M me a of (g, key, path) \<Rightarrow>
        bindR (client_get_attachment_download_resp (mc_net M) g key) (\<lambda>(url, size).
          thenR (download_file (mc_dirs M) (mc_store M) url path) (ret (size, path))))"

definition cmd_get_attachment_download_url :: "'w Machine \<Rightarrow> string \<Rightarrow> DownloadAttachmentArgs \<Rightarrow> ('w, string) client" where
  "cmd_get_attachment_download_url M me a =
     (case parse_download_attachment_args M me a of (g, key, _) \<Rightarrow>
        bindR (client_get_attachment_download_resp (mc_net M) g key) (\<lambda>(url, _). ret url))"

definition cmd_groups_attachments_get_metadata ::
  "'w Machine \<Rightarrow> string \<Rightarrow> AttachmentArgs \<Rightarrow> ('w, AttachmentContentType \<times> i64 \<times> nanos \<times> nanos) client" where
  "cmd_groups_attachments_get_metadata M me a =
     (case attachment_address me a of (g, key) \<Rightarrow> client_get_attachment (mc_net M) g key)"

definition cmd_groups_attachments_delete :: "'w Machine \<Rightarrow> string \<Rightarrow> AttachmentArgs \<Rightarrow> ('w, unit) client" where
  "cmd_groups_attachments_delete M me a =
     (case attachment_address me a of (g, key) \<Rightarrow> client_delete_attachment (mc_net M) g key False)"

definition cmd_admin_groups_attachments_delete :: "'w Machine \<Rightarrow> string \<Rightarrow> AttachmentArgs \<Rightarrow> ('w, unit) client" where
  "cmd_admin_groups_attachments_delete M me a =
     (case attachment_address me a of (g, key) \<Rightarrow> client_delete_attachment (mc_net M) g key True)"

definition cmd_attachments_query :: "'w Machine \<Rightarrow> string \<Rightarrow> QueryAttachmentsArgs \<Rightarrow> ('w, u64 \<times> AttachmentQueryInfo list \<times> string) client" where
  "cmd_attachments_query M me a =
     client_query_attachments_by_filter (mc_net M) (case pa_group a of Some g \<Rightarrow> g | None \<Rightarrow> me) (attachments_query_req a)"

text \<open>The group and the key of an upload. Unlike \<open>attachment_address\<close>, a smart key without a slash is the group.\<close>

definition no_file_name :: ClientError where
  "no_file_name = Message ''Complete key is not provided or local file is invalid''"

definition upload_address :: "string \<Rightarrow> UploadAttachmentArgs \<Rightarrow> string \<times> string option" where
  "upload_address me a =
     (case ua_group_name a of
        Some g \<Rightarrow> (g, ua_key a)
      | None \<Rightarrow>
          (case ua_key a of
             None \<Rightarrow> (me, None)
           | Some k \<Rightarrow>
               if ua_smart a
               then (case split_once (CHR ''/'') k of Some (g, key) \<Rightarrow> (g, Some key) | None \<Rightarrow> (k, None))
               else (me, Some k)))"

definition upload_key :: "'w Machine \<Rightarrow> string \<Rightarrow> string option \<Rightarrow> ClientError + string" where
  "upload_key M local_file key =
     map_sum id (mc_clean M)
       (case key of
          Some k \<Rightarrow>
            if k \<noteq> [] \<and> last k = CHR ''/''
            then (case file_name local_file of None \<Rightarrow> Inl no_file_name | Some n \<Rightarrow> Inr (k @ n))
            else if k = [] then (case file_name local_file of None \<Rightarrow> Inl no_file_name | Some n \<Rightarrow> Inr n)
            else Inr k
        | None \<Rightarrow> (case file_name local_file of None \<Rightarrow> Inl no_file_name | Some n \<Rightarrow> Inr n))"

definition upload_target :: "'w Machine \<Rightarrow> string \<Rightarrow> UploadAttachmentArgs \<Rightarrow> ClientError + string \<times> string" where
  "upload_target M me a =
     (case upload_address me a of (g, k) \<Rightarrow> map_sum id (Pair g) (upload_key M (ua_local_file a) k))"

definition cmd_upload_attachment :: "'w Machine \<Rightarrow> string \<Rightarrow> UploadAttachmentArgs \<Rightarrow> ('w, bool) client" where
  "cmd_upload_attachment M me a =
     bindR (local_metadata M (ua_local_file a)) (\<lambda>metadata. case metadata of
       None \<Rightarrow> raise (Message no_directories)
     | Some content_length \<Rightarrow>
         (case upload_target M me a of
            Inl e \<Rightarrow> raise e
          | Inr (g, key) \<Rightarrow>
              bindR (client_get_upload_attachment_resp (mc_net M) g key content_length) (\<lambda>(exist, url).
                thenR (upload_file (mc_store M) url content_length (ua_local_file a)) (ret exist))))"

section \<open>Many artifacts and attachments\<close>

text \<open>A command that has asked for links goes on with the links, each with the name of its local file; with
  \<open>--no-download\<close> they are only printed. The value is the list of sizes and paths, or nothing if the command does not return.\<close>

type_synonym ('w, 'a) run = "'w Client \<Rightarrow> ((ClientError + 'a) \<times> 'w Client) option"

definition save_links :: "'w Machine \<Rightarrow> DownloadMany \<Rightarrow> (string \<times> i64 \<times> string) list \<Rightarrow> ('w, (i64 \<times> string) list) run" where
  "save_links M dm links c =
     (let dir = (case dm_output_dir dm of Some d \<Rightarrow> d | None \<Rightarrow> ''.'') in
      if dm_no_download dm then Some (Inr [], c)
      else map_option (\<lambda>(r, c'). (map_sum id (\<lambda>_. map (\<lambda>(_, size, name). (size, path_join dir name)) links) r, c'))
             (concurrent_download_files (mc_dirs M) (mc_store M) (mc_schedule M) (dm_concurrent dm)
                (map (\<lambda>(url, _, name). (url, path_join dir name)) links) c))"

definition artifact_link :: "'w Machine \<Rightarrow> ArtifactDownloadItem \<Rightarrow> string \<times> i64 \<times> string" where
  "artifact_link M i = (ad_url i, ad_size i, mc_uuid M (ad_uuid i) @ ''.tar.gz'')"

definition attachment_link :: "AttachmentDownloadItem \<Rightarrow> string \<times> i64 \<times> string" where
  "attachment_link i = (td_url i, td_size i, case file_name (td_key i) of Some n \<Rightarrow> n | None \<Rightarrow> td_key i)"

definition and_save :: "('w, 'a) client \<Rightarrow> ('a \<Rightarrow> ('w, 'b) run) \<Rightarrow> ('w, 'b) run" where
  "and_save m f c = (case m c of (Inl e, c') \<Rightarrow> Some (Inl e, c') | (Inr a, c') \<Rightarrow> f a c')"

definition cmd_batch_download_artifacts_by_filter ::
  "'w Machine \<Rightarrow> ArtifactsFilterArgs \<Rightarrow> DownloadMany \<Rightarrow> ('w, (i64 \<times> string) list) run" where
  "cmd_batch_download_artifacts_by_filter M a dm =
     and_save (client_batch_download_artifacts_by_filter (mc_net M) (artifacts_filter_req a)) (\<lambda>items.
       save_links M dm (map (artifact_link M) items))"

definition cmd_batch_download_artifacts_by_list ::
  "'w Machine \<Rightarrow> uuid list \<Rightarrow> ArtifactContentType \<Rightarrow> DownloadMany \<Rightarrow> ('w, (i64 \<times> string) list) run" where
  "cmd_batch_download_artifacts_by_list M uuids content_type dm =
     and_save (client_batch_download_artifacts_by_list (mc_net M) uuids content_type) (\<lambda>items.
       save_links M dm (map (artifact_link M) items))"

definition cmd_batch_download_attachments_by_filter ::
  "'w Machine \<Rightarrow> string \<Rightarrow> PageArgs \<Rightarrow> DownloadMany \<Rightarrow> ('w, (i64 \<times> string) list) run" where
  "cmd_batch_download_attachments_by_filter M me a dm =
     and_save (client_batch_download_attachments_by_filter (mc_net M)
         (case pa_group a of Some g \<Rightarrow> g | None \<Rightarrow> me) (pa_key a) (pa_limit a) (pa_offset a)) (\<lambda>(items, _).
       save_links M dm (map attachment_link items))"

definition cmd_batch_download_attachments_by_list ::
  "'w Machine \<Rightarrow> string \<Rightarrow> string option \<Rightarrow> string list \<Rightarrow> DownloadMany \<Rightarrow> ('w, (i64 \<times> string) list) run" where
  "cmd_batch_download_attachments_by_list M me g keys dm =
     and_save (client_batch_download_attachments_by_list (mc_net M) (case g of Some g \<Rightarrow> g | None \<Rightarrow> me) keys) (\<lambda>(items, _).
       save_links M dm (map attachment_link items))"

definition cmd_batch_delete_artifacts_by_filter :: "'w Machine \<Rightarrow> ArtifactsFilterArgs \<Rightarrow> ('w, nat) client" where
  "cmd_batch_delete_artifacts_by_filter M a =
     client_batch_delete_artifacts_by_filter (mc_net M) (artifacts_filter_req a)"

definition cmd_batch_delete_artifacts_by_list :: "'w Machine \<Rightarrow> uuid list \<Rightarrow> ArtifactContentType \<Rightarrow> ('w, nat \<times> uuid list) client" where
  "cmd_batch_delete_artifacts_by_list M uuids content_type =
     client_batch_delete_artifacts_by_list (mc_net M) uuids content_type"

definition cmd_batch_delete_attachments_by_filter :: "'w Machine \<Rightarrow> string \<Rightarrow> PageArgs \<Rightarrow> ('w, nat \<times> string) client" where
  "cmd_batch_delete_attachments_by_filter M me a =
     client_batch_delete_attachments_by_filter (mc_net M)
       (case pa_group a of Some g \<Rightarrow> g | None \<Rightarrow> me) (pa_key a) (pa_limit a) (pa_offset a)"

definition cmd_batch_delete_attachments_by_list ::
  "'w Machine \<Rightarrow> string \<Rightarrow> string option \<Rightarrow> string list \<Rightarrow> ('w, nat \<times> string list \<times> string) client" where
  "cmd_batch_delete_attachments_by_list M me g keys =
     client_batch_delete_attachments_by_list (mc_net M) (case g of Some g \<Rightarrow> g | None \<Rightarrow> me) keys"

section \<open>The dispatch of commands\<close>

datatype AdminCommands =
    UsersCreate "string option" "string option" bool
  | UsersDelete string
  | UsersChangePassword "string option" "string option"
  | UsersGroupQuota string string
  | GroupsStorageQuota string string
  | GroupsAttachmentsDelete AttachmentArgs
  | TasksArtifactsDelete uuid ArtifactContentType
  | WorkersCancel uuid bool
  | ShutdownCoordinator string

datatype WorkersCommands =
    CancelWorker uuid bool
  | CancelWorkers CancelWorkersArgs
  | CancelWorkersList "uuid list" bool
  | UpdateWorkerTags uuid "string list"
  | UpdateWorkerLabels uuid "string list"
  | UpdateWorkerRoles uuid "(string \<times> GroupWorkerRole) list"
  | RemoveWorkerRoles uuid "string list"
  | GetWorker uuid
  | QueryWorkersCmd WorkersQueryArgs

datatype UsersCommands = ChangeOwnPassword "string option" "string option" | MyGroups

datatype AttachmentsCommands =
    DeleteKey AttachmentArgs
  | UploadKey UploadAttachmentArgs
  | DownloadKey DownloadAttachmentArgs
  | GetKey AttachmentArgs
  | QueryKeys QueryAttachmentsArgs
  | DownloadKeys PageArgs DownloadMany
  | DownloadKeysList "string option" "string list" DownloadMany
  | DeleteKeys PageArgs
  | DeleteKeysList "string option" "string list"

datatype GroupsCommands =
    CreateGroupCmd string
  | GetGroupCmd string
  | UpdateUserCmd string "(string \<times> UserGroupRole) list"
  | RemoveUserCmd string "string list"
  | Attachments AttachmentsCommands

datatype ArtifactsCommands =
    DeleteFile uuid ArtifactContentType
  | UploadFile string uuid ArtifactContentType
  | DownloadFile uuid ArtifactContentType "string option" bool
  | DownloadFiles ArtifactsFilterArgs DownloadMany
  | DownloadFilesList "uuid list" ArtifactContentType DownloadMany
  | DeleteFiles ArtifactsFilterArgs
  | DeleteFilesList "uuid list" ArtifactContentType

datatype TasksCommands =
    SubmitCmd SubmitTaskArgs
  | SubmitMany string
  | GetTask uuid
  | QueryTasksCmd QueryTasksArgs
  | CancelTaskCmd uuid
  | CancelMany CancelTasksArgs
  | CancelList "uuid list"
  | UpdateLabels uuid "string list"
  | ChangeTaskCmd ChangeTaskArgs
  | Artifacts ArtifactsCommands

datatype ClientCommand =
    Admin AdminCommands
  | AuthCmd
  | LoginCmd "string option" "string option" bool
  | Users UsersCommands
  | Groups GroupsCommands
  | Tasks TasksCommands
  | Workers WorkersCommands
  | Cmd bool "string list"
  | Quit

text \<open>What a command prints: a fixed text, the answer that it formats, a link, the files it has saved, or the error.
  \<open>Ran\<close> are the arguments of the shell of \<open>cmd\<close>.\<close>

datatype Output =
    Said string
  | Shown Response
  | Link string
  | Saved "(i64 \<times> string) list"
  | Uploaded bool
  | Ran "string list"
  | Nothing
  | Failed ClientError

definition present :: "('a \<Rightarrow> Output) \<Rightarrow> ('w, 'a) client \<Rightarrow> 'w Client \<Rightarrow> Output \<times> 'w Client" where
  "present f m c = (case m c of (Inr a, c') \<Rightarrow> (f a, c') | (Inl e, c') \<Rightarrow> (Failed e, c'))"

definition present_run :: "('a \<Rightarrow> Output) \<Rightarrow> ('w, 'a) run \<Rightarrow> 'w Client \<Rightarrow> (Output \<times> 'w Client) option" where
  "present_run f m c = map_option (\<lambda>(r, c'). (case r of Inr a \<Rightarrow> f a | Inl e \<Rightarrow> Failed e, c')) (m c)"

fun admin_command :: "'w Machine \<Rightarrow> string \<Rightarrow> AdminCommands \<Rightarrow> 'w Client \<Rightarrow> Output \<times> 'w Client" where
  "admin_command M me (UsersCreate u p adm) =
     present (\<lambda>_. Said ''Successfully created user'') (cmd_admin_users_create M u p adm)"
| "admin_command M me (UsersDelete u) = present (\<lambda>_. Said ''Successfully deleted user'') (cmd_admin_users_delete M u)"
| "admin_command M me (UsersChangePassword u p) =
     present (\<lambda>_. Said ''Successfully changed password'') (cmd_admin_change_user_password M u p)"
| "admin_command M me (UsersGroupQuota u q) = present (\<lambda>n. Shown (RGroupQuota n)) (cmd_admin_users_update_group_quota M u q)"
| "admin_command M me (GroupsStorageQuota g q) =
     present (\<lambda>n. Shown (RStorageQuota n)) (cmd_admin_groups_update_storage_quota M g q)"
| "admin_command M me (GroupsAttachmentsDelete a) =
     present (\<lambda>_. Said ''Successfully deleted attachment'') (cmd_admin_groups_attachments_delete M me a)"
| "admin_command M me (TasksArtifactsDelete u ct) =
     present (\<lambda>_. Said ''Successfully deleted artifact'') (cmd_admin_tasks_artifacts_delete M u ct)"
| "admin_command M me (WorkersCancel u force) =
     present (\<lambda>_. Said ''Successfully cancelled worker'') (cmd_admin_workers_cancel M u force)"
| "admin_command M me (ShutdownCoordinator secret) =
     present (\<lambda>_. Said ''Coordinator shutdown successfully'') (cmd_admin_shutdown_coordinator M secret)"

fun workers_command :: "'w Machine \<Rightarrow> WorkersCommands \<Rightarrow> 'w Client \<Rightarrow> Output \<times> 'w Client" where
  "workers_command M (CancelWorker u force) = present (\<lambda>_. Said ''Worker cancelled successfully'') (cmd_workers_cancel M u force)"
| "workers_command M (CancelWorkers a) = present (\<lambda>x. Shown (RShutdownCount x)) (cmd_workers_batch_cancel M a)"
| "workers_command M (CancelWorkersList us force) =
     present (\<lambda>x. Shown (RShutdownUuids x)) (cmd_workers_batch_cancel_by_uuids M us force)"
| "workers_command M (UpdateWorkerTags u ts) =
     present (\<lambda>_. Said ''Worker tags updated successfully'') (cmd_workers_update_tags M u ts)"
| "workers_command M (UpdateWorkerLabels u ls) =
     present (\<lambda>_. Said ''Worker labels updated successfully'') (cmd_workers_update_labels M u ls)"
| "workers_command M (UpdateWorkerRoles u rs) =
     present (\<lambda>_. Said ''Group worker roles updated successfully'') (cmd_workers_update_group_roles M u rs)"
| "workers_command M (RemoveWorkerRoles u gs) =
     present (\<lambda>_. Said ''Group worker roles removed successfully'') (cmd_workers_remove_group_roles M u gs)"
| "workers_command M (GetWorker u) = present (\<lambda>x. Shown (RWorker x)) (cmd_workers_get M u)"
| "workers_command M (QueryWorkersCmd a) = present (\<lambda>x. Shown (RWorkers x)) (cmd_workers_query M a)"

fun users_command :: "'w Machine \<Rightarrow> string \<Rightarrow> UsersCommands \<Rightarrow> 'w Client \<Rightarrow> Output \<times> 'w Client" where
  "users_command M me (ChangeOwnPassword old new) =
     present (\<lambda>_. Said ''User password changed successfully'') (cmd_user_change_password M me old new)"
| "users_command M me MyGroups = present (\<lambda>x. Shown (RGroups x)) (cmd_groups_query M)"

fun attachments_command :: "'w Machine \<Rightarrow> string \<Rightarrow> AttachmentsCommands \<Rightarrow> 'w Client \<Rightarrow> (Output \<times> 'w Client) option" where
  "attachments_command M me (DeleteKey a) c =
     Some (present (\<lambda>_. Said ''Successfully deleted attachment'') (cmd_groups_attachments_delete M me a) c)"
| "attachments_command M me (UploadKey a) c = Some (present Uploaded (cmd_upload_attachment M me a) c)"
| "attachments_command M me (DownloadKey a) c =
     Some (if da_no_download a then present Link (cmd_get_attachment_download_url M me a) c
           else present (\<lambda>x. Saved [x]) (cmd_download_attachment M me a) c)"
| "attachments_command M me (GetKey a) c = Some (present (\<lambda>x. Shown (RAttachment x)) (cmd_groups_attachments_get_metadata M me a) c)"
| "attachments_command M me (QueryKeys a) c = Some (present (\<lambda>x. Shown (RAttachments x)) (cmd_attachments_query M me a) c)"
| "attachments_command M me (DownloadKeys a dm) c = present_run Saved (cmd_batch_download_attachments_by_filter M me a dm) c"
| "attachments_command M me (DownloadKeysList g ks dm) c = present_run Saved (cmd_batch_download_attachments_by_list M me g ks dm) c"
| "attachments_command M me (DeleteKeys a) c =
     Some (present (\<lambda>x. Shown (RDeletedAttachments x)) (cmd_batch_delete_attachments_by_filter M me a) c)"
| "attachments_command M me (DeleteKeysList g ks) c =
     Some (present (\<lambda>x. Shown (RDeletedKeys x)) (cmd_batch_delete_attachments_by_list M me g ks) c)"

fun groups_command :: "'w Machine \<Rightarrow> string \<Rightarrow> GroupsCommands \<Rightarrow> 'w Client \<Rightarrow> (Output \<times> 'w Client) option" where
  "groups_command M me (CreateGroupCmd g) c = Some (present (\<lambda>_. Said ''Successfully created group'') (cmd_groups_create M g) c)"
| "groups_command M me (GetGroupCmd g) c = Some (present (\<lambda>x. Shown (RGroup x)) (cmd_groups_get M g) c)"
| "groups_command M me (UpdateUserCmd g rs) c =
     Some (present (\<lambda>_. Said ''User group roles updated successfully'') (cmd_groups_update_user_roles M g rs) c)"
| "groups_command M me (RemoveUserCmd g us) c =
     Some (present (\<lambda>_. Said ''User group roles removed successfully'') (cmd_groups_remove_user_roles M g us) c)"
| "groups_command M me (Attachments cmd) c = attachments_command M me cmd c"

fun artifacts_command :: "'w Machine \<Rightarrow> ArtifactsCommands \<Rightarrow> 'w Client \<Rightarrow> (Output \<times> 'w Client) option" where
  "artifacts_command M (DeleteFile u ct) c =
     Some (present (\<lambda>_. Said ''Successfully deleted artifact'') (cmd_tasks_artifacts_delete M u ct) c)"
| "artifacts_command M (UploadFile f u ct) c = Some (present Uploaded (cmd_upload_artifact M f u ct) c)"
| "artifacts_command M (DownloadFile u ct out no_download) c =
     Some (if no_download then present Link (cmd_get_artifact_download_url M u ct) c
           else present (\<lambda>x. Saved [x]) (cmd_download_artifact M u ct out) c)"
| "artifacts_command M (DownloadFiles a dm) c = present_run Saved (cmd_batch_download_artifacts_by_filter M a dm) c"
| "artifacts_command M (DownloadFilesList us ct dm) c = present_run Saved (cmd_batch_download_artifacts_by_list M us ct dm) c"
| "artifacts_command M (DeleteFiles a) c = Some (present (\<lambda>x. Shown (RDeleted x)) (cmd_batch_delete_artifacts_by_filter M a) c)"
| "artifacts_command M (DeleteFilesList us ct) c =
     Some (present (\<lambda>x. Shown (RDeletedUuids x)) (cmd_batch_delete_artifacts_by_list M us ct) c)"

fun tasks_command :: "'w Machine \<Rightarrow> string \<Rightarrow> TasksCommands \<Rightarrow> 'w Client \<Rightarrow> (Output \<times> 'w Client) option" where
  "tasks_command M me (SubmitCmd a) c = Some (present (\<lambda>x. Shown (RSubmitted x)) (cmd_tasks_submit M me a) c)"
| "tasks_command M me (SubmitMany file) c = Some (present (\<lambda>x. Shown (RBatch x)) (cmd_batch_submit_tasks M file) c)"
| "tasks_command M me (GetTask u) c = Some (present (\<lambda>x. Shown (RTask x)) (cmd_tasks_get M u) c)"
| "tasks_command M me (QueryTasksCmd a) c = Some (present (\<lambda>x. Shown (RTasks x)) (cmd_tasks_query M a) c)"
| "tasks_command M me (CancelTaskCmd u) c = Some (present (\<lambda>_. Said ''Task cancelled successfully'') (cmd_tasks_cancel M u) c)"
| "tasks_command M me (CancelMany a) c = Some (present (\<lambda>x. Shown (RCancelled x)) (cmd_tasks_batch_cancel M a) c)"
| "tasks_command M me (CancelList us) c = Some (present (\<lambda>x. Shown (RCancelledList x)) (cmd_tasks_batch_cancel_by_uuids M us) c)"
| "tasks_command M me (UpdateLabels u ls) c =
     Some (present (\<lambda>_. Said ''Task labels updated successfully'') (cmd_tasks_update_labels M u ls) c)"
| "tasks_command M me (ChangeTaskCmd a) c = Some (present (\<lambda>_. Said ''Task changed successfully'') (cmd_tasks_change M a) c)"
| "tasks_command M me (Artifacts cmd) c = artifacts_command M cmd c"

text \<open>\<open>handle_command\<close>: whether the client goes on, what it printed, and its new state. A shutdown that succeeded and
  \<open>quit\<close> end the client. The message of a login names the user of the session.\<close>

definition shell_args :: "bool \<Rightarrow> string list \<Rightarrow> string list" where
  "shell_args split_up command =
     ''-c'' # (if split_up then command else [join_on (CHR '' '') command])"

fun handle_command :: "'w Machine \<Rightarrow> string \<Rightarrow> ClientCommand \<Rightarrow> 'w Client \<Rightarrow> (bool \<times> Output \<times> 'w Client) option" where
  "handle_command M me (Admin cmd) c =
     (let (out, c') = admin_command M me cmd c
      in Some (case (cmd, out) of (ShutdownCoordinator _, Said _) \<Rightarrow> False | _ \<Rightarrow> True, out, c'))"
| "handle_command M me AuthCmd c = Some (True, present (\<lambda>x. Shown (RText x)) (cmd_user_auth M) c)"
| "handle_command M me (LoginCmd u p retain) c =
     Some (True, present (\<lambda>_. Said (''Successfully logged in as '' @ me)) (cmd_user_login M u p retain) c)"
| "handle_command M me (Users cmd) c = Some (True, users_command M me cmd c)"
| "handle_command M me (Groups cmd) c = map_option (Pair True) (groups_command M me cmd c)"
| "handle_command M me (Tasks cmd) c = map_option (Pair True) (tasks_command M me cmd c)"
| "handle_command M me (Workers cmd) c = Some (True, workers_command M cmd c)"
| "handle_command M me (Cmd split_up command) c =
     Some (True, if command = [] then Nothing else Ran (shell_args split_up command), c)"
| "handle_command M me Quit c = Some (False, Nothing, c)"

text \<open>The loop of the interactive mode in \<open>main\<close>: only commands and the end of the input matter. The value is
  what was printed, or nothing if a command does not return.\<close>

datatype ReadCommand = Command ClientCommand | NoCommand | EndOfInput

fun interact :: "'w Machine \<Rightarrow> string \<Rightarrow> ReadCommand list \<Rightarrow> 'w Client \<Rightarrow> (Output list \<times> 'w Client) option" where
  "interact M me [] c = Some ([], c)"
| "interact M me (EndOfInput # rs) c = Some ([], c)"
| "interact M me (NoCommand # rs) c = interact M me rs c"
| "interact M me (Command cmd # rs) c =
     (case handle_command M me cmd c of
        None \<Rightarrow> None
      | Some (go_on, out, c') \<Rightarrow>
          if go_on then map_option (\<lambda>(outs, c''). (out # outs, c'')) (interact M me rs c') else Some ([out], c'))"

end
