(* ===== verification/Command_Service.thy ===== *)
theory Command_Service
  imports Client_Commands
begin

text \<open>
  What the commands of the client do to the coordinator and to the machine they run on: a command is the request
  that it stands for, an attachment is found under the key it was uploaded with, and the files of a batch of
  downloads are the objects.
\<close>

section \<open>The requests of the commands\<close>

text \<open>The call of the service that a command stands for. Logging in, asking for the password, submitting a file of
  tasks, and moving files are more than one call.\<close>

definition shutdown_choice :: "bool \<Rightarrow> WorkerShutdownOp option" where
  "shutdown_choice force = (if force then Some Force else None)"

fun admin_meaning :: "'w Machine \<Rightarrow> string \<Rightarrow> AdminCommands \<Rightarrow> AdminRequest option" where
  "admin_meaning M me (UsersCreate u p adm) = map_option (\<lambda>(u, d). AdminCreateUser u d adm) (fill_admin_create_user M u p)"
| "admin_meaning M me (UsersDelete u) = Some (AdminDeleteUser u)"
| "admin_meaning M me (UsersChangePassword u p) = map_option (\<lambda>(u, d). AdminChangePassword u d) (fill_admin_change_password M u p)"
| "admin_meaning M me (UsersGroupQuota u q) = Some (AdminChangeUserGroupQuota u q)"
| "admin_meaning M me (GroupsStorageQuota g q) = Some (AdminChangeGroupStorageQuota g q)"
| "admin_meaning M me (GroupsAttachmentsDelete a) = (case attachment_address me a of (g, k) \<Rightarrow> Some (AdminDeleteAttachment g k))"
| "admin_meaning M me (TasksArtifactsDelete u ct) = Some (AdminDeleteArtifact u ct)"
| "admin_meaning M me (WorkersCancel u force) = Some (AdminShutdownWorker u (shutdown_choice force))"
| "admin_meaning M me (ShutdownCoordinator secret) = Some (AdminShutdown secret)"

fun workers_meaning :: "WorkersCommands \<Rightarrow> WorkerUserRequest" where
  "workers_meaning (CancelWorker u force) = ShutdownWorker u (shutdown_choice force)"
| "workers_meaning (CancelWorkers a) = ShutdownWorkers (workers_shutdown_req a)"
| "workers_meaning (CancelWorkersList us force) = ShutdownWorkersByUuids (shutdown_op_arg force) us"
| "workers_meaning (UpdateWorkerTags u ts) = ReplaceWorkerTags u (remdups ts)"
| "workers_meaning (UpdateWorkerLabels u ls) = ReplaceWorkerLabels u (remdups ls)"
| "workers_meaning (UpdateWorkerRoles u rs) = UpdateWorkerGroups u (hash_map rs)"
| "workers_meaning (RemoveWorkerRoles u gs) = RemoveWorkerGroups u (remdups gs)"
| "workers_meaning (GetWorker u) = QueryWorker u"
| "workers_meaning (QueryWorkersCmd a) = QueryWorkers (workers_query_req a)"

fun attachments_meaning :: "string \<Rightarrow> AttachmentsCommands \<Rightarrow> GroupRequest option" where
  "attachments_meaning me (DeleteKey a) = (case attachment_address me a of (g, k) \<Rightarrow> Some (DeleteAttachment g k))"
| "attachments_meaning me (GetKey a) = (case attachment_address me a of (g, k) \<Rightarrow> Some (QueryAttachment g k))"
| "attachments_meaning me (QueryKeys a) =
     Some (QueryAttachments (case pa_group a of Some g \<Rightarrow> g | None \<Rightarrow> me) (attachments_query_req a))"
| "attachments_meaning me (DeleteKeys a) =
     Some (BatchDeleteAttachments (case pa_group a of Some g \<Rightarrow> g | None \<Rightarrow> me) (pa_key a) (pa_limit a) (pa_offset a))"
| "attachments_meaning me (DeleteKeysList g ks) =
     Some (BatchDeleteAttachmentsByKeys (case g of Some g \<Rightarrow> g | None \<Rightarrow> me) ks)"
| "attachments_meaning me _ = None"

fun groups_meaning :: "string \<Rightarrow> GroupsCommands \<Rightarrow> GroupRequest option" where
  "groups_meaning me (CreateGroupCmd g) = Some (CreateGroup g)"
| "groups_meaning me (GetGroupCmd g) = Some (GetGroup g)"
| "groups_meaning me (UpdateUserCmd g rs) = Some (UpdateUserGroup g (hash_map rs))"
| "groups_meaning me (RemoveUserCmd g us) = Some (RemoveUserGroup g (remdups us))"
| "groups_meaning me (Attachments cmd) = attachments_meaning me cmd"

fun artifacts_meaning :: "ArtifactsCommands \<Rightarrow> TaskRequest option" where
  "artifacts_meaning (DeleteFile u ct) = Some (DeleteArtifact u ct)"
| "artifacts_meaning (DeleteFiles a) = Some (BatchDeleteArtifacts (artifacts_filter_req a))"
| "artifacts_meaning (DeleteFilesList us ct) = Some (BatchDeleteArtifactsByUuids us ct)"
| "artifacts_meaning _ = None"

fun tasks_meaning :: "'w Machine \<Rightarrow> string \<Rightarrow> TasksCommands \<Rightarrow> TaskRequest option" where
  "tasks_meaning M me (SubmitCmd a) = Some (SubmitTask (gen_submit_task_req M me a))"
| "tasks_meaning M me (SubmitMany _) = None"
| "tasks_meaning M me (GetTask u) = Some (QueryTask u)"
| "tasks_meaning M me (QueryTasksCmd a) = Some (QueryTasks (tasks_query_req a))"
| "tasks_meaning M me (CancelTaskCmd u) = Some (CancelTask u)"
| "tasks_meaning M me (CancelMany a) = Some (CancelTasks (tasks_cancel_req a))"
| "tasks_meaning M me (CancelList us) = Some (CancelTasksByUuids us)"
| "tasks_meaning M me (UpdateLabels u ls) = Some (ChangeTaskLabels u (remdups ls))"
| "tasks_meaning M me (ChangeTaskCmd a) = Some (ChangeTask (ch_uuid a) (change_task_req a))"
| "tasks_meaning M me (Artifacts cmd) = artifacts_meaning cmd"

fun meaning :: "'w Machine \<Rightarrow> string \<Rightarrow> ClientCommand \<Rightarrow> ApiCall option" where
  "meaning M me (Admin cmd) = map_option AdminCall (admin_meaning M me cmd)"
| "meaning M me AuthCmd = Some (UserCall WhoAmI)"
| "meaning M me (LoginCmd u p retain) =
     map_option (\<lambda>(u, d). LoginCall u d retain) (fill_user_login (login_prompts M ''Username'' ''Password'') u p)"
| "meaning M me (Users (ChangeOwnPassword old new)) =
     map_option (\<lambda>(u, old, new). UserCall (ChangePassword u old new)) (fill_user_change_password M (Some me) old new)"
| "meaning M me (Users MyGroups) = Some (UserCall QueryGroups)"
| "meaning M me (Groups cmd) = map_option GroupCall (groups_meaning me cmd)"
| "meaning M me (Tasks cmd) = map_option TaskCall (tasks_meaning M me cmd)"
| "meaning M me (Workers cmd) = Some (WorkersCall (workers_meaning cmd))"
| "meaning M me (Cmd _ _) = None"
| "meaning M me Quit = None"

text \<open>What a command may print of a result of the service.\<close>

fun prints :: "Output \<Rightarrow> ClientError + Response \<Rightarrow> bool" where
  "prints (Failed e) x = (x = Inl e)"
| "prints (Shown r) x = (x = Inr r)"
| "prints (Said _) x = (x = Inr RUnit)"
| "prints _ x = False"

definition prints_call :: "(ClientError + Response) \<times> 'w \<Rightarrow> Output \<times> 'w Client \<Rightarrow> bool" where
  "prints_call y oc \<longleftrightarrow> prints (fst oc) (fst y) \<and> cl_world (snd oc) = snd y"

lemma present_reply:
  assumes "\<And>a. prints (f a) (Inr (R a))"
  shows "prints_call (outcome (reply R m c)) (present f m c)"
  using assms
  by (auto simp: prints_call_def present_def outcome_def reply_def bindR_def ret_def split: prod.splits sum.splits)

lemma bind_given [simp]: "bindR (ok_or e (Some y)) m = m y"
  by (rule ext) (simp add: bindR_def ok_or_def ret_def)

lemmas cmd_defs =
  cmd_user_login_def cmd_user_auth_def cmd_admin_change_user_password_def cmd_user_change_password_def
  cmd_admin_users_create_def cmd_admin_users_delete_def cmd_admin_groups_update_storage_quota_def
  cmd_admin_users_update_group_quota_def cmd_admin_shutdown_coordinator_def cmd_groups_create_def cmd_groups_get_def
  cmd_groups_query_def cmd_groups_update_user_roles_def cmd_groups_remove_user_roles_def cmd_tasks_submit_def
  cmd_tasks_get_def cmd_tasks_query_def cmd_tasks_cancel_def cmd_tasks_batch_cancel_def
  cmd_tasks_batch_cancel_by_uuids_def cmd_tasks_update_labels_def cmd_tasks_change_def cmd_admin_workers_cancel_def
  cmd_workers_cancel_def cmd_workers_batch_cancel_def cmd_workers_batch_cancel_by_uuids_def
  cmd_workers_update_tags_def cmd_workers_update_labels_def cmd_workers_update_group_roles_def
  cmd_workers_remove_group_roles_def cmd_workers_get_def cmd_workers_query_def cmd_tasks_artifacts_delete_def
  cmd_admin_tasks_artifacts_delete_def cmd_groups_attachments_get_metadata_def cmd_groups_attachments_delete_def
  cmd_admin_groups_attachments_delete_def cmd_attachments_query_def cmd_batch_delete_artifacts_by_filter_def
  cmd_batch_delete_artifacts_by_list_def cmd_batch_delete_attachments_by_filter_def
  cmd_batch_delete_attachments_by_list_def

lemma admin_command_prints:
  assumes "admin_meaning M me cmd = Some r"
  shows "prints_call (outcome (admin_call (mc_net M) (mc_uuid M) r c)) (admin_command M me cmd c)"
  using assms
  by (cases cmd)
    (auto simp: cmd_defs shutdown_choice_def split: prod.splits intro!: present_reply)

lemma workers_command_prints:
  "prints_call (outcome (workers_call (mc_net M) (mc_uuid M) (workers_meaning cmd) c)) (workers_command M cmd c)"
  by (cases cmd) (auto simp: cmd_defs shutdown_choice_def intro!: present_reply)

lemma attachments_command_prints:
  assumes "attachments_meaning me cmd = Some r"
  shows "\<exists>oc. attachments_command M me cmd c = Some oc \<and> prints_call (outcome (group_call (mc_net M) r c)) oc"
  using assms by (cases cmd) (auto simp: cmd_defs split: prod.splits intro!: present_reply)

lemma groups_command_prints:
  assumes "groups_meaning me cmd = Some r"
  shows "\<exists>oc. groups_command M me cmd c = Some oc \<and> prints_call (outcome (group_call (mc_net M) r c)) oc"
  using assms attachments_command_prints by (cases cmd) (auto simp: cmd_defs intro!: present_reply)

lemma artifacts_command_prints:
  assumes "artifacts_meaning cmd = Some r"
  shows "\<exists>oc. artifacts_command M cmd c = Some oc \<and> prints_call (outcome (task_call (mc_net M) (mc_uuid M) r c)) oc"
  using assms by (cases cmd) (auto simp: cmd_defs intro!: present_reply)

lemma tasks_command_prints:
  assumes "tasks_meaning M me cmd = Some r"
  shows "\<exists>oc. tasks_command M me cmd c = Some oc \<and> prints_call (outcome (task_call (mc_net M) (mc_uuid M) r c)) oc"
  using assms artifacts_command_prints by (cases cmd) (auto simp: cmd_defs intro!: present_reply)

lemma users_command_prints:
  assumes "meaning M me (Users cmd) = Some call"
  shows "prints_call (outcome (api_call (mc_net M) (mc_uuid M) call c)) (users_command M me cmd c)"
  using assms by (cases cmd) (auto simp: cmd_defs intro!: present_reply)

text \<open>A command that stands for a call of the service makes that call, and prints what comes back.\<close>

lemma command_prints_call:
  assumes "meaning M me cmd = Some call"
  shows "\<exists>go_on oc. handle_command M me cmd c = Some (go_on, oc) \<and>
    prints_call (outcome (api_call (mc_net M) (mc_uuid M) call c)) oc"
proof (cases cmd)
  case (Admin x)
  then show ?thesis using assms admin_command_prints [of M me x] by (auto split: prod.splits) (metis prod.collapse)
next
  case (Users x)
  then show ?thesis using assms users_command_prints [of M me x call c] by (auto intro: exI [of _ True])
next
  case (Groups x)
  then show ?thesis using assms groups_command_prints [of me x _ M c] by (auto intro: exI [of _ True])
next
  case (Tasks x)
  then show ?thesis using assms tasks_command_prints [of M me x _ c] by (auto intro: exI [of _ True])
next
  case (Workers x)
  then show ?thesis using assms workers_command_prints [of M x c] by (auto intro: exI [of _ True])
qed (use assms in \<open>auto simp: cmd_defs intro!: present_reply\<close>)

section \<open>Paths of downloads\<close>

lemma path_join_inj:
  "\<not> path_is_absolute a \<Longrightarrow> \<not> path_is_absolute b \<Longrightarrow> path_join dir a = path_join dir b \<Longrightarrow> a = b"
  by (auto simp: path_join_def split: if_splits)

definition output_dir :: "DownloadMany \<Rightarrow> string" where
  "output_dir dm = (case dm_output_dir dm of Some d \<Rightarrow> d | None \<Rightarrow> ''.'')"

definition artifact_path :: "'w Machine \<Rightarrow> DownloadMany \<Rightarrow> ArtifactDownloadItem \<Rightarrow> string" where
  "artifact_path M dm i = path_join (output_dir dm) (mc_uuid M (ad_uuid i) @ ''.tar.gz'')"

lemma artifact_paths_distinct:
  assumes "hex_text (mc_uuid M)" "inj (mc_uuid M)" "distinct (map ad_uuid items)"
  shows "distinct (map (artifact_path M dm) items)"
proof -
  have rel: "\<not> path_is_absolute (mc_uuid M u @ ''.tar.gz'')" for u
  proof -
    have "mc_uuid M u \<noteq> []" "list_all hex_char (mc_uuid M u)" using assms(1) by (simp_all add: hex_text_def)
    then show ?thesis by (cases "mc_uuid M u") (auto simp: path_is_absolute_def starts_with_def hex_char_def)
  qed
  have "inj_on (artifact_path M dm) (set items)" if "inj_on ad_uuid (set items)"
    using that path_join_inj [OF rel rel] assms(2) by (auto simp: inj_on_def artifact_path_def dest: injD)
  then show ?thesis using assms(3) by (simp add: distinct_map)
qed

lemma saved_links_exact:
  assumes "serves (mc_store M) content" "\<forall>items. mset (mc_schedule M items) = mset items"
    and "\<not> dm_no_download dm" "0 < dm_concurrent dm"
    and "distinct (map (\<lambda>(_, _, name). path_join (output_dir dm) name) links)"
  shows "\<exists>r c'. save_links M dm links c = Some (r, c') \<and>
    (\<forall>p. (\<forall>(_, _, name) \<in> set links. p \<noteq> path_join (output_dir dm) name) \<longrightarrow> cl_files c' p = cl_files c p) \<and>
    (\<forall>saved. r = Inr saved \<longrightarrow> saved = map (\<lambda>(_, size, name). (size, path_join (output_dir dm) name)) links \<and>
       (\<forall>(url, _, name) \<in> set links. cl_files c' (path_join (output_dir dm) name) = Some (content url)))"
proof -
  let ?items = "map (\<lambda>(url, _, name). (url, path_join (output_dir dm) name)) links"
  obtain r c' where run: "concurrent_download_files (mc_dirs M) (mc_store M) (mc_schedule M) (dm_concurrent dm) ?items c = Some (r, c')"
    using concurrent_downloads_return assms(4) by (metis not_None_eq not_less_zero surj_pair)
  have "distinct (map snd ?items)" using assms(5) by (simp add: o_def case_prod_unfold)
  then have "others_kept ?items (cl_files c) (cl_files c') \<and> (r = Inr () \<longrightarrow> holds_all content ?items (cl_files c'))"
    using concurrent_downloads_exact [OF assms(1) _ _ run] assms(2) by blast
  moreover have "save_links M dm links c =
      Some (map_sum id (\<lambda>_. map (\<lambda>(_, size, name). (size, path_join (output_dir dm) name)) links) r, c')"
    using run assms(3) by (simp add: save_links_def output_dir_def Let_def)
  ultimately show ?thesis
    by (cases r) (auto simp: others_kept_def holds_all_def case_prod_beta image_iff)
qed

lemma artifact_links_exact:
  assumes "serves (mc_store M) content" "\<forall>items. mset (mc_schedule M items) = mset items"
    and "hex_text (mc_uuid M)" "inj (mc_uuid M)" "\<not> dm_no_download dm" "0 < dm_concurrent dm" "distinct (map ad_uuid items)"
  shows "\<exists>r c'. save_links M dm (map (artifact_link M) items) c = Some (r, c') \<and>
    (\<forall>p. p \<notin> artifact_path M dm ` set items \<longrightarrow> cl_files c' p = cl_files c p) \<and>
    (\<forall>saved. r = Inr saved \<longrightarrow> saved = map (\<lambda>i. (ad_size i, artifact_path M dm i)) items \<and>
       (\<forall>i \<in> set items. cl_files c' (artifact_path M dm i) = Some (content (ad_url i))))"
proof -
  have "distinct (map (\<lambda>(_, _, name). path_join (output_dir dm) name) (map (artifact_link M) items))"
    using artifact_paths_distinct [OF assms(3,4,7), of dm]
    by (simp add: o_def case_prod_unfold artifact_link_def artifact_path_def [abs_def])
  from saved_links_exact [OF assms(1,2,5,6) this, of c] show ?thesis
    by (auto simp: artifact_link_def artifact_path_def image_iff o_def case_prod_unfold)
qed

section \<open>Properties\<close>


text \<open>An upload goes where the other commands look: for a key that names a file and is already clean, the group
  and key that an upload addresses are those that \<open>get\<close>, \<open>delete\<close> and \<open>download\<close> address with the same
  arguments, with and without a group, in the smart mode and outside it. In the smart mode the key has to name its
  group.\<close>

lemma uploaded_key_found:
  assumes "at_key a \<noteq> []" "last (at_key a) \<noteq> CHR ''/''"
    and "at_group_name a = None \<and> at_smart a \<Longrightarrow> CHR ''/'' \<in> set (at_key a)"
    and "mc_clean M (snd (attachment_address me a)) = snd (attachment_address me a)"
  shows "upload_target M me \<lparr>ua_local_file = file, ua_group_name = at_group_name a, ua_key = Some (at_key a), ua_smart = at_smart a\<rparr> =
    Inr (attachment_address me a)"
proof -
  have whole: "upload_key M file (Some (at_key a)) = Inr (mc_clean M (at_key a))"
    using assms(1,2) by (simp add: upload_key_def)
  show ?thesis
  proof (cases "at_group_name a = None \<and> at_smart a")
    case True
    then obtain g key where split_up: "split_once (CHR ''/'') (at_key a) = Some (g, key)"
      using assms(3) by (metis not_None_eq split_once_None surj_pair)
    then have "at_key a = g @ CHR ''/'' # key" by (auto dest: split_once_Some)
    then have "key \<noteq> []" using assms(2) by auto
    moreover from this have "last key \<noteq> CHR ''/''" using assms(2) \<open>at_key a = g @ CHR ''/'' # key\<close> by simp
    ultimately have "key \<noteq> [] \<and> last key \<noteq> CHR ''/''" by simp
    then show ?thesis
      using True split_up assms(4) by (simp add: upload_target_def upload_address_def attachment_address_def upload_key_def)
  next
    case False
    then show ?thesis
      using whole assms(4)
      by (cases "at_group_name a") (auto simp: upload_target_def upload_address_def attachment_address_def)
  qed
qed


section \<open>Witnesses\<close>

definition sample_machine :: "'w net \<Rightarrow> 'w Machine" where
  "sample_machine N =
     \<lparr>mc_net = N,
      mc_store = \<lparr>os_get = (\<lambda>url w. (StoreAnswered 200 (Stream [''object '', url] True), w)),
                  os_put = (\<lambda>url n body w. (StoreAnswered 200 (Stream [] True), w)), os_message = (\<lambda>_. None)\<rparr>,
      mc_uuid = nat_to_string, mc_dirs = (\<lambda>p. p = ''.''), mc_clean = (\<lambda>k. k),
      mc_console = (\<lambda>_. \<lparr>pr_username_line = None, pr_password = None, pr_md5 = (\<lambda>p. p)\<rparr>),
      mc_schedule = rev, mc_tasks_of_json = (\<lambda>_. None)\<rparr>"


theorem uploaded_key_found_witness:
  "upload_target (sample_machine (\<lambda>_ w. (NoConnection, w))) ''ada''
     \<lparr>ua_local_file = ''/tmp/x'', ua_group_name = None, ua_key = Some ''lab/data/run'', ua_smart = True\<rparr> =
   Inr (attachment_address ''ada'' \<lparr>at_group_name = None, at_key = ''lab/data/run'', at_smart = True\<rparr>)"
  using uploaded_key_found [of "\<lparr>at_group_name = None, at_key = ''lab/data/run'', at_smart = True\<rparr>"
      "sample_machine (\<lambda>_ w. (NoConnection, w))" "''ada''" "''/tmp/x''"]
  by (simp add: sample_machine_def)

definition links_net :: "Response \<Rightarrow> unit net" where
  "links_net r = (\<lambda>_ w. (Answered 200 (Json r), w))"

definition sample_items :: "ArtifactDownloadItem list" where
  "sample_items = [\<lparr>ad_uuid = 1, ad_url = ''u1'', ad_size = 9\<rparr>, \<lparr>ad_uuid = 2, ad_url = ''u2'', ad_size = 9\<rparr>]"

lemma sample_serves: "serves (mc_store (sample_machine N)) (\<lambda>url. ''object '' @ url)"
  by (auto simp: serves_def sample_machine_def)

lemma nat_to_string_inj: "inj nat_to_string"
proof (rule injI)
  fix m n
  assume "nat_to_string m = nat_to_string n"
  then have "parse_nat (nat_to_string m) = parse_nat (nat_to_string n)" by simp
  then show "m = n" by (simp add: parse_nat_nat_to_string)
qed


section \<open>What the commands get wrong\<close>

lemmas save_defs =
  and_save_def save_links_def Let_def concurrent_download_files_def bindR_def thenR_def ret_def raise_def attempt_def
  download_file_def store_call_def create_parent_def create_file_def set_file_def write_chunk_def file_op_def
  check_result_def is_success_def

text \<open>Two attachments of the same file name are saved in the same file: the command reports both, and the last one
  is left.\<close>

lemma same_name_overwritten:
  "\<exists>c'. cmd_batch_download_attachments_by_list
      (sample_machine (links_net (RAttachmentLinks ([\<lparr>td_key = ''x/a'', td_url = ''u1'', td_size = 9\<rparr>,
        \<lparr>td_key = ''y/a'', td_url = ''u2'', td_size = 9\<rparr>], ''ada'')))) ''ada'' None [''x/a'', ''y/a'']
      \<lparr>dm_output_dir = None, dm_no_download = False, dm_concurrent = 1\<rparr> (new_client Map.empty [] ()) =
        Some (Inr [(9, ''./a''), (9, ''./a'')], c') \<and>
    cl_files c' = [''./a'' \<mapsto> ''object u2'']"
proof -
  have name: "file_name ''x/a'' = Some ''a''" "file_name ''y/a'' = Some ''a''" by (simp_all add: file_name_def)
  show ?thesis
    by (simp add: cmd_batch_download_attachments_by_list_def client_batch_download_attachments_by_list_def save_defs
        sample_machine_def links_net_def set_url_path_def call_for_def exchange_def bearer_request_def new_client_def
        attachment_links_doc_def ok_or_def attachment_link_def name path_join_def path_is_absolute_def starts_with_def)
qed

text \<open>With \<open>--concurrent 0\<close> a download of many files never returns once the coordinator has answered.\<close>

lemma no_parallelism_never_returns:
  assumes "client_batch_download_artifacts_by_list (mc_net M) uuids content_type c = (Inr items, c1)"
  shows "cmd_batch_download_artifacts_by_list M uuids content_type
    \<lparr>dm_output_dir = out, dm_no_download = False, dm_concurrent = 0\<rparr> c = None"
  using assms
  by (simp add: cmd_batch_download_artifacts_by_list_def and_save_def save_links_def Let_def concurrent_download_files_def)

text \<open>A smart key without a slash is the group of an upload, but the key of every other command.\<close>

lemma smart_upload_elsewhere:
  "upload_target M ''ada'' \<lparr>ua_local_file = ''/tmp/run'', ua_group_name = None, ua_key = Some ''data'', ua_smart = True\<rparr> =
     Inr (''data'', mc_clean M ''run'')"
  "attachment_address ''ada'' \<lparr>at_group_name = None, at_key = ''data'', at_smart = True\<rparr> = (''ada'', ''data'')"
  by (simp_all add: upload_target_def upload_address_def upload_key_def file_name_def attachment_address_def)

text \<open>The example of the guide, which names the group in the key, does so without \<open>--smart\<close>.\<close>

lemma guide_example_without_smart:
  "attachment_address ''ada'' \<lparr>at_group_name = None, at_key = ''test_group/dir/local.tar.gz'', at_smart = False\<rparr> =
     (''ada'', ''test_group/dir/local.tar.gz'')"
  by (simp add: attachment_address_def)

text \<open>Arguments of a change that are not the command are dropped when there is no command.\<close>

lemma change_without_command:
  "ch_command a = [] \<Longrightarrow> change_task_req (a\<lparr>ch_envs := es, ch_terminal_output := t, ch_watch := w\<rparr>) = change_task_req a"
  by (simp add: change_task_req_def)

end
