(* ===== verification/Worker_Setup.thy ===== *)
theory Worker_Setup
  imports Command_Service
begin

text \<open>
  The start of a worker (\<open>setup\<close> of \<open>worker.rs\<close>): it logs in as its user, registers, and keeps the credential that the
  coordinator gives it. What it promises: the credential of a worker that was set up is accepted for as long as
  its lifetime says.

  Left out of \<open>MitoWorker\<close> are the HTTP client, the token that stops the worker, which is new, and the flag of a forced
  stop, which is false; of \<open>WorkerConfig\<close>, the intervals and the log file. The address of the coordinator has no query. \<open>cache_dir\<close> is the cache directory of the machine, \<open>redis_open\<close>
  says which texts the Redis client takes for a URL, and setting up the log is one file operation.
\<close>

section \<open>Setting up a worker\<close>

record WorkerConfig =
  wc_credential_path :: "string option"
  wc_user :: "string option"
  wc_password :: "string option"
  wc_groups :: "string list"
  wc_tags :: "string list"
  wc_labels :: "string list"
  wc_lifetime :: "u64 option"
  wc_retain :: bool
  wc_skip_redis :: bool

record MitoWorker =
  mw_config :: WorkerConfig
  mw_credential :: string
  mw_cache_path :: string
  mw_redis_client :: "string option"

definition register_request :: "string \<Rightarrow> WorkerConfig \<Rightarrow> HttpRequest" where
  "register_request credential cfg =
     \<lparr>rq_method = POST, rq_path = ''workers'', rq_query = [], rq_bearer = Some credential,
      rq_body = JRegisterWorker (wc_tags cfg) (wc_labels cfg) (wc_groups cfg) (wc_lifetime cfg)\<rparr>"

definition registered_doc :: "HttpBody \<Rightarrow> (uuid \<times> string \<times> string option) option" where
  "registered_doc b = (case b of Json (RRegistered u t r) \<Rightarrow> Some (u, t, r) | _ \<Rightarrow> None)"

definition worker_cache_path :: "'w Machine \<Rightarrow> string \<Rightarrow> uuid \<Rightarrow> string" where
  "worker_cache_path M dir worker_id = path_join (path_join dir ''mitosis'') (mc_uuid M worker_id)"

definition worker_setup ::
  "'w Machine \<Rightarrow> (string \<Rightarrow> bool) \<Rightarrow> string option \<Rightarrow> string option \<Rightarrow> WorkerConfig \<Rightarrow> ('w, MitoWorker) client" where
  "worker_setup M redis_open cache_dir default_path cfg =
     bindR (ok_or NoCredentialPath (case wc_credential_path cfg of Some p \<Rightarrow> Some p | None \<Rightarrow> default_path)) (\<lambda>path.
     bindR (get_user_credential (mc_net M) (login_prompts M ''Username'' ''Password'') path (wc_user cfg) (wc_password cfg) False) (\<lambda>(_, credential).
     bindR (exchange (mc_net M) (register_request credential cfg)) (\<lambda>(st, body).
       if is_success st then
         bindR (ok_or TransportError (registered_doc body)) (\<lambda>(worker_id, token, redis_url).
         bindR (ok_or (Message ''Cache dir not found'') cache_dir) (\<lambda>dir.
           thenR (for_each (\<lambda>_. file_op) [''mitosis/id'', ''result'', ''exec'', ''resource'', ''worker'', ''log''])
             (ret \<lparr>mw_config = cfg\<lparr>wc_user := None, wc_password := None\<rparr>, mw_credential = token,
                   mw_cache_path = worker_cache_path M dir worker_id,
                   mw_redis_client =
                     (if wc_skip_redis cfg then None
                      else (case redis_url of Some url \<Rightarrow> if redis_open url then Some url else None | None \<Rightarrow> None))\<rparr>)))
       else (case body of Other m \<Rightarrow> raise (Message m) | Json _ \<Rightarrow> raise TransportError))))"

section \<open>What the coordinator has done\<close>

text \<open>The request takes the route of the registration.\<close>

lemma route_register_worker:
  assumes "good_stack H"
  shows "leads_to H U (register_request t cfg)
           (WorkerUserReq t (RegisterWorkerReq (wc_tags cfg) (wc_labels cfg) (wc_groups cfg) (wc_lifetime cfg)))"
  unfolding leads_to_def register_request_def
  by (rule trans, rule route_request_in [where prefix = "''workers''" and segs = "[]" and
        p = "[]"], insert assms, (simp add: routing; fail)+)

text \<open>The row of a worker that has just been registered.\<close>

definition enlisted :: "uuid \<Rightarrow> WorkerConfig \<Rightarrow> Db \<Rightarrow> bool" where
  "enlisted uuid cfg d \<longleftrightarrow>
     (\<exists>w \<in> set (workers d). w_worker_id w = uuid \<and> w_tags w = wc_tags cfg \<and> w_labels w = wc_labels cfg \<and>
        w_state w = Normal \<and> w_assigned_task_id w = None)"

lemma insert_group_worker_rows_workers: "insert_group_worker_rows rs d = Inr d' \<Longrightarrow> workers d' = workers d"
proof (induction rs arbitrary: d)
  case (Cons r rs)
  obtain g w role where r: "r = (g, w, role)" using prod_cases3 by blast
  show ?case using Cons by (auto simp: r insert_group_worker_def split: sum.splits if_splits)
qed simp

lemma insert_memberships_enlisted: "insert_memberships i roles d = Inr (x, d') \<Longrightarrow> enlisted uuid cfg d \<Longrightarrow> enlisted uuid cfg d'"
  by (auto simp: insert_memberships_def enlisted_def dest!: insert_group_worker_rows_workers split: sum.splits)

lemma register_worker_enlists:
  "wp (Worker_Service.register_worker now uuid creator (wc_tags cfg) (wc_labels cfg) grps)
     (\<lambda>u s'. u = uuid \<and> enlisted uuid cfg (db s')) (\<lambda>_ _. True) s"
  unfolding Worker_Service.register_worker_def setup_worker_queues_def
  by (auto simp: wp_eqs insert_worker_def enlisted_def Let_def split: option.splits sum.splits if_splits
      elim!: insert_memberships_enlisted [unfolded enlisted_def])

text \<open>The credential of a worker lives as long as the registration asks, or as long as every token.\<close>

definition worker_lifetime :: "AuthExt \<Rightarrow> u64 option \<Rightarrow> nanos" where
  "worker_lifetime ax lifetime = (case lifetime of Some ttl \<Rightarrow> secs ttl | None \<Rightarrow> token_expires_in ax)"

lemma generated_worker_token:
  assumes "jwt_sound ax" "now' + secs 1 \<le> now + worker_lifetime ax lifetime"
  shows "wp (generate_worker_token ax now name sg lifetime)
    (\<lambda>tok s'. db s' = db s \<and> (\<exists>c. verify_token ax now' tok = Some c \<and> sub c = name)) (\<lambda>_ _. True) s"
proof -
  have tok: "\<exists>c. verify_token ax now' t = Some c \<and> sub c = name"
    if "jwt_encode ax \<lparr>raw_sub = name, raw_exp = serialize_date (now + d), raw_sign = sg\<rparr> = Some t"
      "is_date (now + d)" "d = worker_lifetime ax lifetime" for t d
    using encoded_token_verified [OF assms(1) that(1,2)] assms(2) that(3) by auto
  show ?thesis
    unfolding generate_worker_token_def checked_date_def encode_token_def
    by (cases lifetime) (auto simp: wp_eqs worker_lifetime_def split: option.splits intro: tok)
qed

definition accepted :: "AuthExt \<Rightarrow> nanos \<Rightarrow> uuid \<Rightarrow> string \<Rightarrow> Db \<Rightarrow> bool" where
  "accepted ax now uuid token d \<longleftrightarrow>
     (\<exists>c. verify_token ax now token = Some c \<and> uuid_parse_str ax (sub c) = Some uuid) \<and>
     (\<exists>w \<in> set (workers d). w_worker_id w = uuid)"

lemma accepted_passes:
  assumes "accepted ax now uuid token (db s)" "faults s = []"
  shows "\<exists>i. fst (worker_auth ax now token s) = Inr (i, uuid)"
proof -
  obtain c where c: "verify_token ax now token = Some c" "uuid_parse_str ax (sub c) = Some uuid"
    using assms(1) by (auto simp: accepted_def)
  obtain w where w: "find (\<lambda>w. w_worker_id w = uuid) (workers (db s)) = Some w"
    using assms(1) by (cases "find (\<lambda>w. w_worker_id w = uuid) (workers (db s))") (auto simp: accepted_def find_None_iff)
  have "wp (worker_auth ax now token) (\<lambda>a _. a = (w_id w, uuid)) (\<lambda>_ _. False) s"
    using c w assms(2) by (simp add: worker_auth_def wp_eqs)
  then show ?thesis by (auto simp: wp_total_iff)
qed

lemma registration_wp:
  assumes "jwt_sound (dp_auth D)" "\<forall>u. uuid_parse_str (dp_auth D) (x_uuid_str (dp_store D) u) = Some u"
    and "now' + secs 1 \<le> e_now e + worker_lifetime (dp_auth D) (wc_lifetime cfg)"
  shows "wp (user_register_worker D e u (wc_tags cfg) (wc_labels cfg) grps (wc_lifetime cfg))
    (\<lambda>r s'. \<exists>tok redis. r = RRegistered (e_uuid e 0) tok redis \<and> enlisted (e_uuid e 0) cfg (db s') \<and>
       accepted (dp_auth D) now' (e_uuid e 0) tok (db s')) (\<lambda>_ _. True) s"
proof -
  have token: "wp (bindR (map_err user_api_error (generate_worker_token (dp_auth D) (e_now e) (x_uuid_str (dp_store D) (e_uuid e 0)) 0
          (wc_lifetime cfg))) (\<lambda>tok. ret (RRegistered (e_uuid e 0) tok redis)))
      (\<lambda>r s'. \<exists>tok redis. r = RRegistered (e_uuid e 0) tok redis \<and> enlisted (e_uuid e 0) cfg (db s') \<and>
         accepted (dp_auth D) now' (e_uuid e 0) tok (db s')) (\<lambda>_ _. True) t"
    if "enlisted (e_uuid e 0) cfg (db t)" for t redis
    unfolding wp_bindR wp_map_err
    by (rule wp_mono [OF generated_worker_token [OF assms(1,3)]], insert that assms(2))
      (auto simp: wp_ret accepted_def enlisted_def)
  show ?thesis
    unfolding user_register_worker_def
  proof (subst wp_bindR, unfold wp_map_err,
      rule wp_mono [OF register_worker_enlists [where uuid = "e_uuid e 0" and cfg = cfg]])
    fix i and t :: Pool
    assume "i = e_uuid e 0 \<and> enlisted (e_uuid e 0) cfg (db t)"
    then show "wp (bindR (map_err user_api_error (generate_worker_token (dp_auth D) (e_now e) (x_uuid_str (dp_store D) i) 0
          (wc_lifetime cfg))) (\<lambda>tok. ret (RRegistered i tok (map_option worker_url (dp_redis D)))))
        (\<lambda>r s'. \<exists>tok redis. r = RRegistered (e_uuid e 0) tok redis \<and> enlisted (e_uuid e 0) cfg (db s') \<and>
           accepted (dp_auth D) now' (e_uuid e 0) tok (db s')) (\<lambda>_ _. True) t"
      using token by blast
  qed simp
qed

lemma registration_routed_wp:
  assumes "jwt_sound (dp_auth D)" "\<forall>u. uuid_parse_str (dp_auth D) (x_uuid_str (dp_store D) u) = Some u"
    and "now' + secs 1 \<le> e_now e + worker_lifetime (dp_auth D) (wc_lifetime cfg)"
  shows "wp (router D e (WorkerUserReq t (RegisterWorkerReq (wc_tags cfg) (wc_labels cfg) (wc_groups cfg) (wc_lifetime cfg))))
    (\<lambda>r s'. \<exists>tok redis. r = RRegistered (e_uuid e 0) tok redis \<and> enlisted (e_uuid e 0) cfg (db s') \<and>
       accepted (dp_auth D) now' (e_uuid e 0) tok (db s')) (\<lambda>_ _. True) s"
  using registration_wp [OF assms] by (simp add: user_auth_middleware_def wp_bindR_any)

lemma wp_exchange:
  "wp (exchange N hr) Q E c =
     (case N hr (cl_world c) of
        (Answered st b, w) \<Rightarrow> Q (st, b) (c\<lparr>cl_world := w\<rparr>)
      | (NoConnection, w) \<Rightarrow> E ConnectionError (c\<lparr>cl_world := w\<rparr>)
      | (SendFailed, w) \<Rightarrow> E TransportError (c\<lparr>cl_world := w\<rparr>))"
  by (simp add: wp_def exchange_def split: prod.splits HttpAnswer.splits)

lemma wp_file_ops:
  "(\<And>oks. Q () (c\<lparr>cl_io := oks\<rparr>)) \<Longrightarrow> wp (for_each (\<lambda>_. file_op) xs) Q (\<lambda>_ _. True) c"
proof (induction xs arbitrary: c)
  case Nil
  then show ?case using Nil [of "cl_io c"] by (simp add: wp_ret)
next
  case (Cons x xs)
  then show ?case by (auto simp: wp_thenR intro!: wp_file_op_only Cons.IH)
qed

lemma setup_wp:
  assumes "good_stack H" "mc_net M = coordinator_http Q D e H" "jwt_sound (dp_auth D)"
    and "\<forall>u. uuid_parse_str (dp_auth D) (x_uuid_str (dp_store D) u) = Some u"
    and "now' + secs 1 \<le> e_now e + worker_lifetime (dp_auth D) (wc_lifetime cfg)"
  shows "wp (worker_setup M redis_open cache_dir default_path cfg)
    (\<lambda>w c'. enlisted (e_uuid e 0) cfg (db (fst (cl_world c'))) \<and>
       accepted (dp_auth D) now' (e_uuid e 0) (mw_credential w) (db (fst (cl_world c'))) \<and>
       (\<exists>dir. cache_dir = Some dir \<and> mw_cache_path w = worker_cache_path M dir (e_uuid e 0))) (\<lambda>_ _. True) c"
proof -
  let ?ok = "\<lambda>r d. \<exists>tok redis. r = RRegistered (e_uuid e 0) tok redis \<and> enlisted (e_uuid e 0) cfg d \<and>
       accepted (dp_auth D) now' (e_uuid e 0) tok d"
  let ?done = "\<lambda>w c'. enlisted (e_uuid e 0) cfg (db (fst (cl_world c'))) \<and>
       accepted (dp_auth D) now' (e_uuid e 0) (mw_credential w) (db (fst (cl_world c'))) \<and>
       (\<exists>dir. cache_dir = Some dir \<and> mw_cache_path w = worker_cache_path M dir (e_uuid e 0))"
  have "wp (exchange (mc_net M) (register_request t cfg))
      (\<lambda>p c'. is_success (fst p) \<longrightarrow> (\<exists>r. snd p = Json r \<and> ?ok r (db (fst (cl_world c'))))) (\<lambda>_ _. True) c" for t c
  proof -
    obtain s d where w: "cl_world c = (s, d)" by (cases "cl_world c")
    obtain x s' where r: "router D e (WorkerUserReq t (RegisterWorkerReq (wc_tags cfg) (wc_labels cfg) (wc_groups cfg)
        (wc_lifetime cfg))) s = (x, s')" by (rule prod.exhaust)
    from registration_routed_wp [OF assms(3-5), of t s] r have "\<forall>v. x = Inr v \<longrightarrow> ?ok v (db s')"
      by (auto simp: wp_def split: sum.splits)
    then show ?thesis using w r route_register_worker [OF assms(1), of "uuid_parse_str (dp_auth D)" t cfg]
      by (cases x) (auto simp: wp_exchange assms(2) coordinator_http_def leads_to_def answer_of_def status_number_cases)
  qed
  note registered = this
  have "wp (bindR (exchange (mc_net M) (register_request t cfg)) (\<lambda>(st, body).
       if is_success st then
         bindR (ok_or TransportError (registered_doc body)) (\<lambda>(worker_id, token, redis_url).
         bindR (ok_or (Message ''Cache dir not found'') cache_dir) (\<lambda>dir.
           thenR (for_each (\<lambda>_. file_op) fs) (ret (W worker_id token redis_url dir))))
       else (case body of Other m \<Rightarrow> raise (Message m) | Json _ \<Rightarrow> raise TransportError))) ?done (\<lambda>_ _. True) c"
    if "\<And>i t r dir. mw_credential (W i t r dir) = t" "\<And>i t r dir. mw_cache_path (W i t r dir) = worker_cache_path M dir i"
    for t c fs W
  proof (unfold wp_bindR, rule wp_mono [OF registered])
    fix a and t :: "(Pool \<times> 'a TaskDispatcher) Client"
    assume "is_success (fst a) \<longrightarrow> (\<exists>r. snd a = Json r \<and> ?ok r (db (fst (cl_world t))))"
    then consider (ok) r where "is_success (fst a)" "snd a = Json r" "?ok r (db (fst (cl_world t)))" | (no) "\<not> is_success (fst a)"
      by blast
    then show "wp (case a of (st, body) \<Rightarrow> if is_success st then
         bindR (ok_or TransportError (registered_doc body)) (\<lambda>(worker_id, token, redis_url).
         bindR (ok_or (Message ''Cache dir not found'') cache_dir) (\<lambda>dir.
           thenR (for_each (\<lambda>_. file_op) fs) (ret (W worker_id token redis_url dir))))
       else (case body of Other m \<Rightarrow> raise (Message m) | Json _ \<Rightarrow> raise TransportError)) ?done (\<lambda>_ _. True) t"
    proof cases
      case ok
      then show ?thesis
        by (cases cache_dir) (auto simp: that split_beta registered_doc_def wp_bindR ok_or_def wp_thenR wp_ret wp_raise
            intro!: wp_file_ops)
    next
      case no
      then show ?thesis by (simp add: split_beta wp_raise split: HttpBody.splits)
    qed
  qed simp
  note chain = this
  show ?thesis unfolding worker_setup_def
    by (rule wp_bindR_any, rule wp_bindR_any, unfold split_beta, rule chain [unfolded split_beta]) simp_all
qed

section \<open>What the start gets wrong\<close>

text \<open>The configuration says whether the login keeps the other sessions of the user; the start does not ask it.\<close>

lemma retain_ignored:
  "map_prod (map_sum id mw_credential) id (worker_setup M redis_open cache_dir default_path (cfg\<lparr>wc_retain := r\<rparr>) c) =
   map_prod (map_sum id mw_credential) id (worker_setup M redis_open cache_dir default_path cfg c)"
proof -
  have "register_request t (cfg\<lparr>wc_retain := r\<rparr>) = register_request t cfg" for t by (simp add: register_request_def)
  then show ?thesis
    by (simp add: worker_setup_def bindR_def thenR_def ret_def ok_or_def raise_def
        split: prod.splits sum.splits option.splits HttpBody.splits)
qed

text \<open>A registration whose second statement fails leaves the row of its worker, and no deadline for its heartbeat.\<close>

lemma half_registered:
  "let (r, s') = Worker_Service.register_worker 1 100 1 [''gpu''] [] [] (sample_pool\<lparr>faults := [False, True]\<rparr>)
   in (\<exists>err. r = Inl err) \<and> 100 \<in> w_worker_id ` set (workers (db s')) \<and> hb_tx s' = []"
  by (simp add: Worker_Service.register_worker_def insert_worker_def Let_def run_defs sample_defs)

section \<open>The property\<close>


definition setup_claims :: RawClaims where
  "setup_claims = \<lparr>raw_sub = nat_to_string 100, raw_exp = serialize_date (1 + secs 60), raw_sign = 0\<rparr>"

definition setup_deployment :: Deployment where
  "setup_deployment = sample_deployment
     \<lparr>dp_auth := sample_auth
        \<lparr>jwt_encode := (\<lambda>c. if c = setup_claims then Some ''w'' else None),
         jwt_decode := (\<lambda>_ t. if t = ''w'' then Some setup_claims else if t = ''u'' then Some (sample_claims 5) else None),
         uuid_parse_str := (\<lambda>s. map_option nat (parse_nat s))\<rparr>\<rparr>"

definition setup_config :: WorkerConfig where
  "setup_config = \<lparr>wc_credential_path = Some ''cred'', wc_user = Some ''ada'', wc_password = None, wc_groups = [],
     wc_tags = [''gpu''], wc_labels = [], wc_lifetime = None, wc_retain = False, wc_skip_redis = False\<rparr>"

definition setup_client :: "(Pool \<times> (i64 \<times> i32) list TaskDispatcher) Client" where
  "setup_client = new_client [''cred'' \<mapsto> ''ada:u''] [] (sample_pool, sample_dispatcher)"

lemma setup_user_token: "user_auth (dp_auth setup_deployment) 0 ''u'' sample_pool = (Inr sample_user, sample_pool)"
  by (simp add: user_auth_def claimed_user_def verify_token_def setup_deployment_def sample_auth_def sample_claims_def
      deserialize_date_def is_date_def secs_def find_user_by_name_def run_defs sample_defs)

lemma setup_worker_token:
  "generate_worker_token (dp_auth setup_deployment) (e_now sample_env) (nat_to_string 100) 0 None s = (Inr ''w'', s)"
  by (simp add: generate_worker_token_def checked_date_def encode_token_def setup_deployment_def sample_auth_def setup_claims_def
      sample_env_def is_date_def serialize_date_def secs_def run_defs)

lemma setup_row:
  "\<exists>s'. Worker_Service.register_worker (e_now sample_env) 100 1 [''gpu''] [] [] sample_pool = (Inr 100, s') \<and> faults s' = []"
  by (simp add: Worker_Service.register_worker_def insert_worker_def insert_memberships_def insert_group_worker_def group_roles_def
      map_filter_def setup_worker_queues_def send_hb_def send_task_def Let_def run_defs sample_defs)

lemma setup_known: "router setup_deployment sample_env (UserReq ''u'' WhoAmI) sample_pool = (Inr (RText ''ada''), sample_pool)"
  using setup_user_token by (simp add: user_auth_middleware_def bindR_def map_err_def ret_def sample_env_def sample_user_def)

lemma setup_registered:
  "\<exists>s'. router setup_deployment sample_env (WorkerUserReq ''u'' (RegisterWorkerReq [''gpu''] [] [] None)) sample_pool =
     (Inr (RRegistered 100 ''w'' None), s') \<and> faults s' = []"
proof -
  obtain s' where s': "Worker_Service.register_worker (e_now sample_env) 100 1 [''gpu''] [] [] sample_pool = (Inr 100, s')" "faults s' = []"
    using setup_row by blast
  then show ?thesis using setup_user_token setup_worker_token [of s']
    by (simp add: user_auth_middleware_def user_register_worker_def bindR_def map_err_def ret_def sample_user_def
        sample_env_def setup_deployment_def sample_deployment_def sample_ext_def)
qed


end
