(* ===== verification/Worker_Log.thy ===== *)
theory Worker_Log
  imports Result_Monad
begin

text \<open>
  The log writer of workers that share a file (\<open>WorkerIdWriter\<close> of \<open>config/worker.rs\<close>): it puts the identity of
  its worker before each line. The logging library writes a line in pieces of any size; what reaches the file is
  the same for all of them (\<open>log_lines_prefixed\<close>).

  The writer below is the non-blocking writer of the log file, which takes a text whole or fails and has nothing to
  flush: it is the text written to it so far, and \<open>lw_io\<close> says which of the coming writes to it succeed.
\<close>

abbreviation log_newline :: char where
  "log_newline \<equiv> CHR 0x0A"

record WorkerIdWriter =
  lw_inner :: string
  lw_prefix :: string
  lw_at_line_start :: bool
  lw_buffer :: string
  lw_io :: "bool list"

type_synonym 'a log = "(WorkerIdWriter, unit, 'a) rm"

definition log_new :: "string \<Rightarrow> bool list \<Rightarrow> string \<Rightarrow> WorkerIdWriter" where
  "log_new inner oks worker_id =
     \<lparr>lw_inner = inner, lw_prefix = ''[worker:'' @ worker_id @ ''] '', lw_at_line_start = True, lw_buffer = [], lw_io = oks\<rparr>"

definition write_inner :: "string \<Rightarrow> unit log" where
  "write_inner text w =
     (case lw_io w of
        [] \<Rightarrow> (Inr (), w\<lparr>lw_inner := lw_inner w @ text\<rparr>)
      | ok # rest \<Rightarrow>
          if ok then (Inr (), w\<lparr>lw_io := rest, lw_inner := lw_inner w @ text\<rparr>) else (Inl (), w\<lparr>lw_io := rest\<rparr>))"

definition flush_buffer :: "unit log" where
  "flush_buffer w =
     (if lw_buffer w = [] then ret ()
      else thenR (write_inner (lw_buffer w)) (\<lambda>w. (Inr (), w\<lparr>lw_buffer := []\<rparr>))) w"

text \<open>\<open>write\<close>: the pieces of the text up to each newline, and the rest.\<close>

definition put_prefix :: "WorkerIdWriter \<Rightarrow> WorkerIdWriter" where
  "put_prefix w = w\<lparr>lw_buffer := lw_buffer w @ lw_prefix w, lw_at_line_start := False\<rparr>"

definition put_text :: "string \<Rightarrow> WorkerIdWriter \<Rightarrow> WorkerIdWriter" where
  "put_text text w = w\<lparr>lw_buffer := lw_buffer w @ text\<rparr>"

definition put_line :: "string \<Rightarrow> unit log" where
  "put_line line w =
     (let w = (if lw_at_line_start w \<and> line \<noteq> [] then put_prefix w else w);
          w = (put_text (line @ [log_newline]) w)\<lparr>lw_at_line_start := True\<rparr>
      in if length (lw_buffer w) > 4096 then flush_buffer w else (Inr (), w))"

definition put_rest :: "string \<Rightarrow> unit log" where
  "put_rest rest w =
     (Inr (), if rest = [] then w else put_text rest (if lw_at_line_start w then put_prefix w else w))"

definition write_pieces :: "string list \<Rightarrow> unit log" where
  "write_pieces ps = thenR (for_each put_line (butlast ps)) (put_rest (last ps))"

definition log_write :: "string \<Rightarrow> nat log" where
  "log_write buf = thenR (write_pieces (split_on log_newline buf)) (ret (length buf))"

definition log_flush :: "unit log" where
  "log_flush = flush_buffer"

text \<open>\<open>drop\<close> ignores the error of its flush.\<close>

definition log_drop :: "WorkerIdWriter \<Rightarrow> WorkerIdWriter" where
  "log_drop w = snd (flush_buffer w)"

section \<open>What is written\<close>

text \<open>A text with the prefix before each line that is not empty; \<open>start\<close> says whether the text begins a line.\<close>

fun prefixed :: "string \<Rightarrow> bool \<Rightarrow> string \<Rightarrow> string" where
  "prefixed p start [] = []"
| "prefixed p start (c # s) =
     (if start \<and> c \<noteq> log_newline then p @ c # prefixed p False s else c # prefixed p (c = log_newline) s)"

definition starts_line :: "bool \<Rightarrow> string \<Rightarrow> bool" where
  "starts_line start s = (if s = [] then start else last s = log_newline)"

lemma prefixed_append: "prefixed p start (s @ t) = prefixed p start s @ prefixed p (starts_line start s) t"
  by (induction s arbitrary: start) (auto simp: starts_line_def)

lemma prefixed_no_newline:
  "log_newline \<notin> set s \<Longrightarrow> prefixed p start s = (if start \<and> s \<noteq> [] then p else []) @ s"
proof (induction s arbitrary: start)
  case (Cons c s)
  then show ?case using Cons.IH [of False] by auto
qed simp

text \<open>The text that a writer stands for: what is in the file and what is in the buffer.\<close>

definition log_text :: "WorkerIdWriter \<Rightarrow> string" where
  "log_text w = lw_inner w @ lw_buffer w"

definition wrote :: "string \<Rightarrow> WorkerIdWriter \<Rightarrow> WorkerIdWriter \<Rightarrow> bool" where
  "wrote s w w' \<longleftrightarrow>
     log_text w' = log_text w @ prefixed (lw_prefix w) (lw_at_line_start w) s \<and>
     lw_at_line_start w' = starts_line (lw_at_line_start w) s \<and> lw_prefix w' = lw_prefix w"

lemma wrote_append: "wrote s w w' \<Longrightarrow> wrote t w' w'' \<Longrightarrow> wrote (s @ t) w w''"
  by (auto simp: wrote_def prefixed_append starts_line_def)

text \<open>Without failures every write is complete, and after a flush the buffer is empty.\<close>

definition sound :: "WorkerIdWriter \<Rightarrow> bool" where
  "sound w \<longleftrightarrow> list_all id (lw_io w)"

lemma flush_sound:
  assumes "sound w"
  shows "\<exists>w'. flush_buffer w = (Inr (), w') \<and> sound w' \<and> log_text w' = log_text w \<and> lw_buffer w' = [] \<and>
    lw_at_line_start w' = lw_at_line_start w \<and> lw_prefix w' = lw_prefix w"
  using assms
  by (cases "lw_io w")
    (auto simp: flush_buffer_def write_inner_def thenR_def bindR_def ret_def sound_def log_text_def)

lemma put_line_sound:
  assumes "sound w" "log_newline \<notin> set line"
  shows "\<exists>w'. put_line line w = (Inr (), w') \<and> sound w' \<and> wrote (line @ [log_newline]) w w'"
proof -
  let ?w1 = "if lw_at_line_start w \<and> line \<noteq> [] then put_prefix w else w"
  let ?w2 = "(put_text (line @ [log_newline]) ?w1)\<lparr>lw_at_line_start := True\<rparr>"
  have sound2: "sound ?w2" using assms(1) by (simp add: sound_def put_text_def put_prefix_def)
  have wrote2: "wrote (line @ [log_newline]) w ?w2"
    using assms(2)
    by (simp add: wrote_def prefixed_append prefixed_no_newline starts_line_def log_text_def put_text_def put_prefix_def)
  show ?thesis
  proof (cases "length (lw_buffer ?w2) > 4096")
    case True
    obtain w' where "flush_buffer ?w2 = (Inr (), w')" "sound w'" "log_text w' = log_text ?w2"
        "lw_at_line_start w' = lw_at_line_start ?w2" "lw_prefix w' = lw_prefix ?w2"
      using flush_sound [OF sound2] by blast
    moreover have "put_line line w = flush_buffer ?w2" using True by (simp add: put_line_def Let_def)
    ultimately show ?thesis using wrote2 by (auto simp: wrote_def)
  next
    case False
    then have "put_line line w = (Inr (), ?w2)" by (simp add: put_line_def Let_def)
    then show ?thesis using sound2 wrote2 by blast
  qed
qed

lemma put_lines_sound:
  "sound w \<Longrightarrow> \<forall>l \<in> set ls. log_newline \<notin> set l \<Longrightarrow>
   \<exists>w'. for_each put_line ls w = (Inr (), w') \<and> sound w' \<and> wrote (concat (map (\<lambda>l. l @ [log_newline]) ls)) w w'"
proof (induction ls arbitrary: w)
  case Nil
  then show ?case by (simp add: ret_def wrote_def starts_line_def)
next
  case (Cons l ls)
  obtain w1 where w1: "put_line l w = (Inr (), w1)" "sound w1" "wrote (l @ [log_newline]) w w1"
    using put_line_sound Cons.prems by fastforce
  obtain w2 where w2: "for_each put_line ls w1 = (Inr (), w2)" "sound w2"
      "wrote (concat (map (\<lambda>l. l @ [log_newline]) ls)) w1 w2"
    using Cons.IH [OF w1(2)] Cons.prems by auto
  then show ?case using w1 wrote_append [OF w1(3) w2(3)] by (auto simp: thenR_def bindR_def)
qed

lemma pieces_join: "ps \<noteq> [] \<Longrightarrow> concat (map (\<lambda>l. l @ [c]) (butlast ps)) @ last ps = join_on c ps"
  by (induction ps rule: join_on.induct) auto

lemma log_write_sound:
  assumes "sound w"
  shows "\<exists>w'. log_write buf w = (Inr (length buf), w') \<and> sound w' \<and> wrote buf w w'"
proof -
  let ?ps = "split_on log_newline buf"
  have pure: "\<forall>l \<in> set ?ps. log_newline \<notin> set l" using split_on_chars [where x = log_newline] by blast
  obtain w1 where w1: "for_each put_line (butlast ?ps) w = (Inr (), w1)" "sound w1"
      "wrote (concat (map (\<lambda>l. l @ [log_newline]) (butlast ?ps))) w w1"
    using put_lines_sound [OF assms, of "butlast ?ps"] pure by (auto dest: in_set_butlastD)
  obtain w2 where w2: "put_rest (last ?ps) w1 = (Inr (), w2)" by (simp add: put_rest_def)
  have "log_newline \<notin> set (last ?ps)" using pure by simp
  moreover from this have "last ?ps \<noteq> [] \<Longrightarrow> last (last ?ps) \<noteq> log_newline" by (metis last_in_set)
  ultimately have w2': "wrote (last ?ps) w1 w2" "sound w2"
    using w2 w1(2)
    by (auto simp: put_rest_def wrote_def prefixed_no_newline starts_line_def log_text_def put_text_def put_prefix_def
        sound_def)
  have "wrote buf w w2" using wrote_append [OF w1(3) w2'(1)] pieces_join [of ?ps log_newline] by simp
  then show ?thesis
    using w1(1) w2 w2'(2) by (simp add: log_write_def write_pieces_def thenR_def bindR_def ret_def)
qed

fun log_writes :: "string list \<Rightarrow> unit log" where
  "log_writes [] = ret ()"
| "log_writes (buf # bufs) = thenR (log_write buf) (log_writes bufs)"

lemma log_writes_sound:
  "sound w \<Longrightarrow> \<exists>w'. log_writes bufs w = (Inr (), w') \<and> sound w' \<and> wrote (concat bufs) w w'"
proof (induction bufs arbitrary: w)
  case Nil
  then show ?case by (simp add: ret_def wrote_def starts_line_def)
next
  case (Cons buf bufs)
  obtain w1 where w1: "log_write buf w = (Inr (length buf), w1)" "sound w1" "wrote buf w w1"
    using log_write_sound [OF Cons.prems] by blast
  obtain w2 where w2: "log_writes bufs w1 = (Inr (), w2)" "sound w2" "wrote (concat bufs) w1 w2"
    using Cons.IH [OF w1(2)] by blast
  then show ?case using w1 wrote_append [OF w1(3) w2(3)] by (auto simp: thenR_def bindR_def)
qed

section \<open>Property\<close>

text \<open>C35. A shared log names the worker in every line: however the library cuts the text of a worker into pieces, and
  however often the buffer overflows in between, after the writer is dropped the file is extended by exactly that
  text, with the prefix of the worker before every line that is not empty.\<close>

theorem log_lines_prefixed:
  assumes "list_all id oks"
  shows "\<exists>w. log_writes bufs (log_new inner oks worker_id) = (Inr (), w) \<and>
    lw_inner (log_drop w) = inner @ prefixed (''[worker:'' @ worker_id @ ''] '') True (concat bufs)"
proof -
  have "sound (log_new inner oks worker_id)" using assms by (simp add: sound_def log_new_def)
  then obtain w where w: "log_writes bufs (log_new inner oks worker_id) = (Inr (), w)" "sound w"
      "wrote (concat bufs) (log_new inner oks worker_id) w"
    using log_writes_sound by blast
  obtain w' where "flush_buffer w = (Inr (), w')" "log_text w' = log_text w" "lw_buffer w' = []"
    using flush_sound [OF w(2)] by blast
  then show ?thesis using w by (auto simp: log_drop_def wrote_def log_text_def log_new_def)
qed

theorem log_lines_prefixed_witness:
  "\<exists>w. log_writes [''one'', log_newline # log_newline # ''two'', [log_newline]] (log_new [] [True] ''7'') = (Inr (), w) \<and>
    lw_inner (log_drop w) = [] @ prefixed (''[worker:'' @ ''7'' @ ''] '') True (concat [''one'', log_newline # log_newline # ''two'', [log_newline]])"
  by (rule log_lines_prefixed) simp

end
