(* ===== verification/Manager.thy ===== *)
theory Manager
  imports Credentials
begin

text \<open>
  The manager (\<open>manager.rs\<close>, \<open>config/manager.rs\<close>): it starts workers as processes of their own, lists them, and kills
  them. What a worker is told reaches it only through its command line, so the property is that the command line says
  all that the manager was told. The options are those that the attributes of \<open>WorkerConfigCli\<close>
  (\<open>config/worker.rs\<close>) declare; how \<open>clap\<close> reads them is the locale \<open>clap_args\<close>.

  The outputs of \<open>ps\<close>, \<open>pgrep\<close> and \<open>pkill\<close> are inputs; \<open>None\<close> stands for a command that could not be run. The progress
  bar and the pause before the count are left out.
\<close>

section \<open>The configuration of a worker on the command line\<close>

record WorkerConfigCli =
  wa_config :: "string option"
  wa_coordinator_addr :: "string option"
  wa_polling_interval :: "string option"
  wa_heartbeat_interval :: "string option"
  wa_credential_path :: "string option"
  wa_user :: "string option"
  wa_password :: "string option"
  wa_groups :: "string list"
  wa_tags :: "string list"
  wa_labels :: "string list"
  wa_log_path :: "string option"
  wa_file_log :: bool
  wa_shared_log :: bool
  wa_lifetime :: "string option"
  wa_retain :: bool
  wa_skip_redis :: bool

definition no_options :: WorkerConfigCli where
  "no_options =
     \<lparr>wa_config = None, wa_coordinator_addr = None, wa_polling_interval = None, wa_heartbeat_interval = None,
      wa_credential_path = None, wa_user = None, wa_password = None, wa_groups = [], wa_tags = [], wa_labels = [],
      wa_log_path = None, wa_file_log = False, wa_shared_log = False, wa_lifetime = None, wa_retain = False,
      wa_skip_redis = False\<rparr>"

text \<open>What an option with a value, and one without, does to the configuration; an option that is not a list can be given
  once. The names are those of the fields in kebab case, but for the coordinator.\<close>

definition option_arg :: "string \<Rightarrow> string \<Rightarrow> WorkerConfigCli \<Rightarrow> WorkerConfigCli option" where
  "option_arg f v w =
     (if f = ''--config'' \<and> wa_config w = None then Some (w\<lparr>wa_config := Some v\<rparr>)
      else if f = ''--coordinator'' \<and> wa_coordinator_addr w = None then Some (w\<lparr>wa_coordinator_addr := Some v\<rparr>)
      else if f = ''--polling-interval'' \<and> wa_polling_interval w = None then Some (w\<lparr>wa_polling_interval := Some v\<rparr>)
      else if f = ''--heartbeat-interval'' \<and> wa_heartbeat_interval w = None then Some (w\<lparr>wa_heartbeat_interval := Some v\<rparr>)
      else if f = ''--credential-path'' \<and> wa_credential_path w = None then Some (w\<lparr>wa_credential_path := Some v\<rparr>)
      else if f = ''--user'' \<and> wa_user w = None then Some (w\<lparr>wa_user := Some v\<rparr>)
      else if f = ''--password'' \<and> wa_password w = None then Some (w\<lparr>wa_password := Some v\<rparr>)
      else if f = ''--groups'' then Some (w\<lparr>wa_groups := wa_groups w @ split_on (CHR '','') v\<rparr>)
      else if f = ''--tags'' then Some (w\<lparr>wa_tags := wa_tags w @ split_on (CHR '','') v\<rparr>)
      else if f = ''--labels'' then Some (w\<lparr>wa_labels := wa_labels w @ split_on (CHR '','') v\<rparr>)
      else if f = ''--log-path'' \<and> wa_log_path w = None then Some (w\<lparr>wa_log_path := Some v\<rparr>)
      else if f = ''--lifetime'' \<and> wa_lifetime w = None then Some (w\<lparr>wa_lifetime := Some v\<rparr>)
      else None)"

definition switch_arg :: "string \<Rightarrow> WorkerConfigCli \<Rightarrow> WorkerConfigCli option" where
  "switch_arg f w =
     (if f = ''--file-log'' \<and> \<not> wa_file_log w then Some (w\<lparr>wa_file_log := True\<rparr>)
      else if f = ''--shared-log'' \<and> \<not> wa_shared_log w then Some (w\<lparr>wa_shared_log := True\<rparr>)
      else if f = ''--retain'' \<and> \<not> wa_retain w then Some (w\<lparr>wa_retain := True\<rparr>)
      else if f = ''--skip-redis'' \<and> \<not> wa_skip_redis w then Some (w\<lparr>wa_skip_redis := True\<rparr>)
      else if f \<in> {''--groups'', ''--tags'', ''--labels''} then Some w
      else None)"

section \<open>The manager\<close>

datatype ManagerCommand = Status | Spawn nat WorkerConfigCli | Kill

type_synonym command_output = "(bool \<times> string \<times> string) option"

record Process =
  pr_program :: string
  pr_args :: "string list"
  pr_env :: "(string \<times> string) list"

text \<open>The processes that the manager has started, what it has printed, and which of the coming starts succeed.\<close>

record Shell =
  sh_processes :: "Process list"
  sh_out :: "string list"
  sh_io :: "bool list"

type_synonym 'a manager = "(Shell, Error, 'a) rm"

definition println :: "string \<Rightarrow> unit manager" where
  "println line sh = (Inr (), sh\<lparr>sh_out := sh_out sh @ [line]\<rparr>)"

definition worker_line :: "string \<Rightarrow> bool" where
  "worker_line line \<longleftrightarrow>
     str_contains ''mito worker'' line \<and> \<not> str_contains ''grep'' line \<and> \<not> str_contains ''ps -aux'' line"

definition manager_status :: "command_output \<Rightarrow> unit manager" where
  "manager_status ps =
     bindR (ok_or (Custom ''Failed to run ps'') ps) (\<lambda>(success, out, _).
       if \<not> success then println ''Total: 0''
       else let worker_lines = filter worker_line (file_lines out)
            in thenR (for_each println worker_lines) (println (''Total: '' @ nat_to_string (length worker_lines))))"

definition given :: "string \<Rightarrow> string option \<Rightarrow> string list" where
  "given f v = (case v of Some x \<Rightarrow> [f, x] | None \<Rightarrow> [])"

definition given_list :: "string \<Rightarrow> string list \<Rightarrow> string list" where
  "given_list f xs = (if xs = [] then [] else [f, join_on (CHR '','') xs])"

definition given_switch :: "string \<Rightarrow> bool \<Rightarrow> string list" where
  "given_switch f b = (if b then [f] else [])"

definition worker_arguments :: "WorkerConfigCli \<Rightarrow> string list" where
  "worker_arguments w =
     ''worker'' # given ''--config'' (wa_config w) @ given ''--coordinator'' (wa_coordinator_addr w) @
     given ''--polling-interval'' (wa_polling_interval w) @ given ''--heartbeat-interval'' (wa_heartbeat_interval w) @
     given ''--credential-path'' (wa_credential_path w) @ given ''--user'' (wa_user w) @ given ''--password'' (wa_password w) @
     given_list ''--groups'' (wa_groups w) @ given_list ''--tags'' (wa_tags w) @ given_list ''--labels'' (wa_labels w) @
     given ''--log-path'' (wa_log_path w) @ given_switch ''--file-log'' (wa_file_log w) @
     given_switch ''--shared-log'' (wa_shared_log w) @ given ''--lifetime'' (wa_lifetime w) @
     given_switch ''--retain'' (wa_retain w) @ given_switch ''--skip-redis'' (wa_skip_redis w)"

text \<open>\<open>Command::spawn\<close>.\<close>

definition spawn_process :: "Process \<Rightarrow> unit manager" where
  "spawn_process p sh =
     (case sh_io sh of
        [] \<Rightarrow> (Inr (), sh\<lparr>sh_processes := sh_processes sh @ [p]\<rparr>)
      | ok # rest \<Rightarrow>
          if ok then (Inr (), sh\<lparr>sh_processes := sh_processes sh @ [p], sh_io := rest\<rparr>)
          else (Inl (Custom ''Failed to spawn worker process''), sh\<lparr>sh_io := rest\<rparr>))"

text \<open>\<open>count\<close> is what \<open>pgrep\<close> prints, read as a number.\<close>

definition spawn_workers ::
  "string option \<Rightarrow> string option \<Rightarrow> command_output \<Rightarrow> (string \<Rightarrow> nat option) \<Rightarrow> nat \<Rightarrow> WorkerConfigCli \<Rightarrow> unit manager" where
  "spawn_workers exe log_level pgrep count_of n worker_config =
     (if n = 0 then ret ()
      else
        bindR (ok_or (Custom ''Failed to get current executable path'') exe) (\<lambda>current_exe.
        thenR (for_each (\<lambda>_. spawn_process
                 \<lparr>pr_program = current_exe, pr_args = worker_arguments worker_config,
                  pr_env = [(''NO_COLOR'', ''1''),
                            (''MITO_FILE_LOG_LEVEL'', case log_level of Some l \<Rightarrow> l | None \<Rightarrow> ''info'')]\<rparr>) [0..<n])
        (bindR (ok_or (Custom ''Failed to run pgrep'') pgrep) (\<lambda>(success, out, _).
          if success then println (''Current worker numbers: '' @ nat_to_string (case count_of out of Some k \<Rightarrow> k | None \<Rightarrow> 0))
          else println ''Failed to get current worker count''))))"

definition kill_workers :: "command_output \<Rightarrow> unit manager" where
  "kill_workers pkill =
     bindR (ok_or (Custom ''Failed to run pkill'') pkill) (\<lambda>(success, _, stderr).
       if success then println ''All mito workers have been killed''
       else if stderr = [] then println ''No mito workers found to kill''
       else raise (Custom (''Failed to kill workers: '' @ stderr)))"

text \<open>The exit code of the process.\<close>

definition manager_main ::
  "string option \<Rightarrow> string option \<Rightarrow> command_output \<Rightarrow> (string \<Rightarrow> nat option) \<Rightarrow> ManagerCommand \<Rightarrow> Shell \<Rightarrow> nat \<times> Shell" where
  "manager_main exe log_level out count_of cmd sh =
     (case (case cmd of
              Status \<Rightarrow> manager_status out
            | Spawn n worker_config \<Rightarrow> spawn_workers exe log_level out count_of n worker_config
            | Kill \<Rightarrow> kill_workers out) sh of
        (Inr _, sh') \<Rightarrow> (0, sh')
      | (Inl _, sh') \<Rightarrow> (1, sh'))"

section \<open>Reading the command line\<close>

text \<open>A text of a hyphen and more is an option and never a value.\<close>

definition is_option :: "string \<Rightarrow> bool" where
  "is_option a \<longleftrightarrow> 2 \<le> length a \<and> hd a = CHR ''-''"

text \<open>The values of a configuration that a command line can hold: none looks like an option, and the elements of a list
  have no comma.\<close>

definition tidy :: "WorkerConfigCli \<Rightarrow> bool" where
  "tidy w \<longleftrightarrow>
     (\<forall>v \<in> {wa_config w, wa_coordinator_addr w, wa_polling_interval w, wa_heartbeat_interval w, wa_credential_path w,
            wa_user w, wa_password w, wa_log_path w, wa_lifetime w}. \<forall>x. v = Some x \<longrightarrow> \<not> is_option x) \<and>
     (\<forall>xs \<in> {wa_groups w, wa_tags w, wa_labels w}. \<not> is_option (join_on (CHR '','') xs) \<and> (\<forall>x \<in> set xs. CHR '','' \<notin> set x))"

locale clap_args =
  fixes parse :: "string list \<Rightarrow> WorkerConfigCli option"
  assumes parse_none: "parse [''worker''] = Some no_options"
    and parse_option: "is_option f \<Longrightarrow> \<not> is_option v \<Longrightarrow> parse (line @ [f, v]) = Option.bind (parse line) (option_arg f v)"
    and parse_switch: "is_option f \<Longrightarrow> f \<noteq> ''--'' \<Longrightarrow> parse (line @ [f]) = Option.bind (parse line) (switch_arg f)"
begin

lemma parse_given:
  "parse line = Some u \<Longrightarrow> wa_config u = None \<Longrightarrow> \<forall>y. x = Some y \<longrightarrow> \<not> is_option y \<Longrightarrow>
     parse (line @ given ''--config'' x) = Some (u\<lparr>wa_config := x\<rparr>)"
  "parse line = Some u \<Longrightarrow> wa_coordinator_addr u = None \<Longrightarrow> \<forall>y. x = Some y \<longrightarrow> \<not> is_option y \<Longrightarrow>
     parse (line @ given ''--coordinator'' x) = Some (u\<lparr>wa_coordinator_addr := x\<rparr>)"
  "parse line = Some u \<Longrightarrow> wa_polling_interval u = None \<Longrightarrow> \<forall>y. x = Some y \<longrightarrow> \<not> is_option y \<Longrightarrow>
     parse (line @ given ''--polling-interval'' x) = Some (u\<lparr>wa_polling_interval := x\<rparr>)"
  "parse line = Some u \<Longrightarrow> wa_heartbeat_interval u = None \<Longrightarrow> \<forall>y. x = Some y \<longrightarrow> \<not> is_option y \<Longrightarrow>
     parse (line @ given ''--heartbeat-interval'' x) = Some (u\<lparr>wa_heartbeat_interval := x\<rparr>)"
  "parse line = Some u \<Longrightarrow> wa_credential_path u = None \<Longrightarrow> \<forall>y. x = Some y \<longrightarrow> \<not> is_option y \<Longrightarrow>
     parse (line @ given ''--credential-path'' x) = Some (u\<lparr>wa_credential_path := x\<rparr>)"
  "parse line = Some u \<Longrightarrow> wa_user u = None \<Longrightarrow> \<forall>y. x = Some y \<longrightarrow> \<not> is_option y \<Longrightarrow>
     parse (line @ given ''--user'' x) = Some (u\<lparr>wa_user := x\<rparr>)"
  "parse line = Some u \<Longrightarrow> wa_password u = None \<Longrightarrow> \<forall>y. x = Some y \<longrightarrow> \<not> is_option y \<Longrightarrow>
     parse (line @ given ''--password'' x) = Some (u\<lparr>wa_password := x\<rparr>)"
  "parse line = Some u \<Longrightarrow> wa_log_path u = None \<Longrightarrow> \<forall>y. x = Some y \<longrightarrow> \<not> is_option y \<Longrightarrow>
     parse (line @ given ''--log-path'' x) = Some (u\<lparr>wa_log_path := x\<rparr>)"
  "parse line = Some u \<Longrightarrow> wa_lifetime u = None \<Longrightarrow> \<forall>y. x = Some y \<longrightarrow> \<not> is_option y \<Longrightarrow>
     parse (line @ given ''--lifetime'' x) = Some (u\<lparr>wa_lifetime := x\<rparr>)"
  by (cases x; cases u; simp add: given_def parse_option option_arg_def is_option_def)+

lemma parse_given_list:
  "parse line = Some u \<Longrightarrow> wa_groups u = [] \<Longrightarrow> \<not> is_option (join_on (CHR '','') x) \<Longrightarrow> \<forall>y \<in> set x. CHR '','' \<notin> set y \<Longrightarrow>
     parse (line @ given_list ''--groups'' x) = Some (u\<lparr>wa_groups := x\<rparr>)"
  "parse line = Some u \<Longrightarrow> wa_tags u = [] \<Longrightarrow> \<not> is_option (join_on (CHR '','') x) \<Longrightarrow> \<forall>y \<in> set x. CHR '','' \<notin> set y \<Longrightarrow>
     parse (line @ given_list ''--tags'' x) = Some (u\<lparr>wa_tags := x\<rparr>)"
  "parse line = Some u \<Longrightarrow> wa_labels u = [] \<Longrightarrow> \<not> is_option (join_on (CHR '','') x) \<Longrightarrow> \<forall>y \<in> set x. CHR '','' \<notin> set y \<Longrightarrow>
     parse (line @ given_list ''--labels'' x) = Some (u\<lparr>wa_labels := x\<rparr>)"
  by (cases "x = []"; cases u; simp add: given_list_def parse_option option_arg_def is_option_def split_on_join)+

lemma parse_given_switch:
  "parse line = Some u \<Longrightarrow> wa_file_log u = False \<Longrightarrow> 
     parse (line @ given_switch ''--file-log'' x) = Some (u\<lparr>wa_file_log := x\<rparr>)"
  "parse line = Some u \<Longrightarrow> wa_shared_log u = False \<Longrightarrow> 
     parse (line @ given_switch ''--shared-log'' x) = Some (u\<lparr>wa_shared_log := x\<rparr>)"
  "parse line = Some u \<Longrightarrow> wa_retain u = False \<Longrightarrow> 
     parse (line @ given_switch ''--retain'' x) = Some (u\<lparr>wa_retain := x\<rparr>)"
  "parse line = Some u \<Longrightarrow> wa_skip_redis u = False \<Longrightarrow> 
     parse (line @ given_switch ''--skip-redis'' x) = Some (u\<lparr>wa_skip_redis := x\<rparr>)"
  by (cases x; cases u; simp add: given_switch_def parse_switch switch_arg_def is_option_def)+

text \<open>The command line of a worker says all that the manager was told.\<close>

lemma parse_worker_arguments:
  assumes "tidy w"
  shows "parse (worker_arguments w) = Some w"
proof -
  let ?w = "no_options\<lparr>wa_config := wa_config w, wa_coordinator_addr := wa_coordinator_addr w, wa_polling_interval :=
     wa_polling_interval w, wa_heartbeat_interval := wa_heartbeat_interval w, wa_credential_path :=
     wa_credential_path w, wa_user := wa_user w, wa_password := wa_password w, wa_groups := wa_groups w, wa_tags :=
     wa_tags w, wa_labels := wa_labels w, wa_log_path := wa_log_path w, wa_file_log := wa_file_log w, wa_shared_log
     := wa_shared_log w, wa_lifetime := wa_lifetime w, wa_retain := wa_retain w, wa_skip_redis := wa_skip_redis w\<rparr>"
  let ?line = "(((((((((((((((([''worker''] @ given ''--config'' (wa_config w)) @ given ''--coordinator''
     (wa_coordinator_addr w)) @ given ''--polling-interval'' (wa_polling_interval w)) @ given
     ''--heartbeat-interval'' (wa_heartbeat_interval w)) @ given ''--credential-path'' (wa_credential_path w)) @
     given ''--user'' (wa_user w)) @ given ''--password'' (wa_password w)) @ given_list ''--groups'' (wa_groups w))
     @ given_list ''--tags'' (wa_tags w)) @ given_list ''--labels'' (wa_labels w)) @ given ''--log-path''
     (wa_log_path w)) @ given_switch ''--file-log'' (wa_file_log w)) @ given_switch ''--shared-log'' (wa_shared_log
     w)) @ given ''--lifetime'' (wa_lifetime w)) @ given_switch ''--retain'' (wa_retain w)) @ given_switch
     ''--skip-redis'' (wa_skip_redis w))"
  have "w = ?w" by (cases w) (simp add: no_options_def)
  moreover have "worker_arguments w = ?line" by (simp add: worker_arguments_def)
  moreover have "parse ?line = Some ?w"
    by (intro parse_given parse_given_list parse_given_switch parse_none)
      (use assms in \<open>simp_all add: no_options_def tidy_def\<close>)
  ultimately show ?thesis by (simp only:)
qed

end

text \<open>A reader of command lines that obeys the laws: it takes each option with the values that follow it.\<close>

definition add_arg :: "string list list \<Rightarrow> string \<Rightarrow> string list list" where
  "add_arg gs a = (if is_option a \<or> gs = [] then gs @ [[a]] else butlast gs @ [last gs @ [a]])"

definition apply_option :: "string list \<Rightarrow> WorkerConfigCli \<Rightarrow> WorkerConfigCli option" where
  "apply_option g w = (case g of [f] \<Rightarrow> switch_arg f w | [f, v] \<Rightarrow> option_arg f v w | _ \<Rightarrow> None)"

definition read_line :: "string list \<Rightarrow> WorkerConfigCli option" where
  "read_line line =
     (case foldl add_arg [] line of
        [] \<Rightarrow> None
      | g # gs \<Rightarrow>
          if g = [''worker''] then foldl (\<lambda>r g. Option.bind r (apply_option g)) (Some no_options) gs else None)"

lemma read_line_snoc:
  assumes "is_option (hd g)" "foldl add_arg [] (line @ g) = foldl add_arg [] line @ [g]"
  shows "read_line (line @ g) = Option.bind (read_line line) (apply_option g)"
  using assms by (cases "foldl add_arg [] line") (auto simp: read_line_def is_option_def)

lemma apply_option_eqs: "apply_option [f] = switch_arg f" "apply_option [f, v] = option_arg f v"
  by (simp_all add: fun_eq_iff apply_option_def)

interpretation reader: clap_args read_line
proof unfold_locales
  show "read_line [''worker''] = Some no_options"
    by (simp add: read_line_def add_arg_def)
  show "read_line (line @ [f, v]) = Option.bind (read_line line) (option_arg f v)" if "is_option f" "\<not> is_option v" for f v line
    using that by (subst read_line_snoc) (auto simp: add_arg_def apply_option_eqs)
  show "read_line (line @ [f]) = Option.bind (read_line line) (switch_arg f)" if "is_option f" "f \<noteq> ''--''" for f line
    using that by (subst read_line_snoc) (auto simp: add_arg_def apply_option_eqs)
qed

section \<open>Properties\<close>

lemma spawn_each:
  "wp (for_each (\<lambda>_. spawn_process p) xs)
     (\<lambda>_ sh'. sh_processes sh' = sh_processes sh @ replicate (length xs) p) (\<lambda>_ _. True) sh"
proof (induction xs arbitrary: sh)
  case (Cons x xs)
  have one: "wp (spawn_process p) (\<lambda>_ sh'. sh_processes sh' = sh_processes sh @ [p]) (\<lambda>_ _. True) sh"
    by (simp add: wp_def spawn_process_def split: list.splits)
  show ?case
    unfolding wp_for_each_Cons
    by (rule wp_mono [OF one]) (auto intro!: wp_mono [OF Cons.IH])
qed (simp add: wp_ret)



text \<open>A value that looks like an option is lost: a manager that is given the password \<open>-x\<close> starts workers that end with
  a usage error, which nobody sees, since their standard error is dropped.\<close>

lemma hyphen_password_refused:
  assumes "clap_args parse"
  shows "parse (worker_arguments (no_options\<lparr>wa_password := Some ''-x''\<rparr>)) = None"
proof -
  have "parse ([''worker'', ''--password''] @ [''-x'']) = Option.bind (parse [''worker'', ''--password'']) (switch_arg ''-x'')"
    by (rule clap_args.parse_switch [OF assms]) (simp_all add: is_option_def)
  then show ?thesis
    by (cases "parse [''worker'', ''--password'']")
      (simp_all add: worker_arguments_def no_options_def given_def given_list_def given_switch_def switch_arg_def)
qed

end
