(* ===== verification/Spec2Isabelle.thy ===== *)
theory Spec2Isabelle
  imports Lifecycle Worker_Protocol Worker_Wire Worker_Setup Worker_Log Command_Service Coordinator_Start Manager
begin

text \<open>
  A verification development of Mitosis (\<open>netmito\<close>), a system that runs tasks on remote workers. All paths below
  are relative to \<open>netmito/src/\<close>.

  \<^bold>\<open>The program.\<close> A coordinator keeps users, groups, tasks, workers, attachments and artifacts in a database, and
  serves users and workers over HTTP. Two tasks of its process hold the rest of its state: the dispatcher, with one
  priority queue of tasks per worker, and the heartbeat queue, which removes workers that have been silent too long;
  the services talk to them through channels. A worker fetches a task, downloads its resources, runs its command,
  uploads what it has produced and reports each step. A client turns the commands of a user into requests. The
  contents of files go to and from an object store under links that the coordinator signs.

  \<^bold>\<open>Foundations.\<close>
  \<^item> \<open>Prelude\<close>: machine integers (an \<open>i32\<close> or \<open>i64\<close> is an integer in its range, with the wrap-around written out where
    an operation can leave it), strings, chunks of lists, decimal numbers.
  \<^item> \<open>Result_Monad\<close>: functions that return \<open>Result\<close> and change a state, \<open>bindR\<close> for the question mark operator, and the
    weakest preconditions by which their properties are computed.
  \<^item> \<open>Errors\<close> (\<open>error.rs\<close>), \<open>States\<close> (\<open>entity/state.rs\<close>, \<open>role.rs\<close>, \<open>content.rs\<close>), \<open>Entities\<close> (the rows of
    \<open>entity/\<close>, and \<open>schema.rs\<close>): one datatype per enumeration and one record per structure.
  \<^item> \<open>Tables\<close>, \<open>Task_Tables\<close>: the database as a record of tables. A statement is a function on it that obeys the unique
    and foreign keys of \<open>migration/m20240416_132735_create_table.rs\<close>; a transaction restores the database when it fails.
    The pool of the services (\<open>config/coordinator.rs\<close>) has the database, the messages sent so far, and a list
    \<open>faults\<close> that says which of the coming statements fail, so that every property about failures ranges over all of them.
    \<open>task_inv\<close> is the invariant of the task tables, and \<open>task_store\<close> the locale of the invariants that the statements keep.

  \<^bold>\<open>The coordinator.\<close>
  \<^item> \<open>Priority_Queue\<close>: the laws of the \<open>priority_queue\<close> crate as a locale, interpreted on an association list.
  \<^item> \<open>Dispatcher\<close> (\<open>service/worker/queue.rs\<close>): \<open>TaskDispatcher\<close>, one definition per method, the dispatch of messages
    and the receive loop; refinement of a map from workers to sets of prioritised tasks (\<open>handle_op_refines\<close>), at most one
    delivery, no delivery after a removal, and draining in the order of priorities.
  \<^item> \<open>Heartbeat\<close> (\<open>service/worker/heartbeat.rs\<close>): the queue of deadlines and its loop over messages, sleeps and
    cancellation; a worker that is heard in time stays, a silent one goes.
  \<^item> \<open>Task_Service\<close>, \<open>Task_Query\<close> (\<open>service/task.rs\<close>): submission, changes, queries and every form of cancellation.
  \<^item> \<open>Storage\<close>, \<open>Storage_Batch\<close> (\<open>service/s3.rs\<close>): reservations, links and deletions, with the accounts of the groups.
  \<^item> \<open>User_Group_Service\<close> (\<open>service/user.rs\<close>, \<open>group.rs\<close>, \<open>mod.rs\<close>), \<open>Auth\<close> (\<open>service/auth/mod.rs\<close>, \<open>token.rs\<close>).
  \<^item> \<open>Worker_Service\<close>, \<open>Worker_Admin\<close> (\<open>service/worker/mod.rs\<close>): registration, heartbeats, fetching, reports, removal,
    and the administration of workers. \<open>fetch_task\<close> is a loop that may not end; that it does is a theorem.
  \<^item> \<open>Api\<close> (\<open>api/\<close>): a typed request per route, with its middleware, its handler and its translation of errors;
    \<open>router\<close> is the whole service. \<open>Http_Routes\<close>: the same routes on the wire, from methods, paths, queries and bodies to
    the typed requests, and from results to status codes and documents; \<open>coordinator_http\<close> is what a client sees.
  \<^item> \<open>Lifecycle\<close>: pool, dispatcher and heartbeat queue together, as a step relation over requests, fetches, channel
    messages, deadlines, the start and the stop. \<open>no_task_lost\<close> is its safety property.

  \<^item> \<open>Coordinator_Start\<close> (\<open>coordinator.rs\<close>, \<open>config/coordinator.rs\<close>, \<open>migration/\<close>): the start, from the configuration over
    the migrations, which create the first administrator, to the restored queues; after a first start the administrator
    can log in, and after a restart the dispatcher has exactly the queues that the tables call for.
  \<^item> \<open>Manager\<close> (\<open>manager.rs\<close>): the command that starts workers as processes; their command line says all that the manager
    was told, for every reader of command lines that obeys the laws of the locale \<open>clap_args\<close>.

  \<^bold>\<open>The worker\<close> (\<open>worker.rs\<close>).
  \<^item> \<open>Worker_Process\<close>, \<open>Worker_Run\<close>: the executor in the order of the source: fetching, watching another task,
    resources, the command with its timeout, archives, uploads, reports and the commit, and the two loops. The outside
    world is a set of streams of answers, one for each kind of question, and every action is recorded in a trace.
  \<^item> \<open>Worker_Frame\<close>: proof rules, and the locale of what a program leaves alone. \<open>Worker_Protocol\<close>: the order of the
    reports, what a normal end of an execution has reported, what a watched task must have shown, and when the loops stop,
    for all streams of answers.
  \<^item> \<open>Worker_Wire\<close>: the requests of the worker and the handlers of the coordinator that they reach.
  \<^item> \<open>Worker_Setup\<close>: the start of a worker, from its credential file to its registration; the credential that it
    keeps is accepted for as long as it was given. \<open>Worker_Log\<close> (\<open>WorkerIdWriter\<close> of \<open>config/worker.rs\<close>): the writer of a
    log file that workers share; every line names its worker, whatever the pieces in which it was written.

  \<^bold>\<open>The client.\<close>
  \<^item> \<open>Credentials\<close> (\<open>service/auth/cred.rs\<close>): the credential file and the login. \<open>Client_Http\<close> (\<open>client/http.rs\<close>): one
    definition per method. \<open>File_Transfer\<close> (\<open>download_file\<close> and \<open>upload_file\<close> of \<open>service/s3.rs\<close>): the contents of files.
  \<^item> \<open>Client_Routes\<close>, \<open>Client_Service\<close>: every request of the client takes the route that it is meant for; a call of
    the client over the wire is a call of the service (\<open>client_call_is_service_call\<close>), and every answer of the coordinator
    has the type that its route promises.
  \<^item> \<open>Command_Args\<close> (\<open>config/client/\<close>), \<open>Client_Commands\<close> (\<open>client/mod.rs\<close>, \<open>client/interactive.rs\<close>), \<open>Command_Service\<close>: the
    commands, the requests that they become, and the files that they leave behind.

  \<^bold>\<open>Parameters.\<close> Code outside the repository is an argument: the object store and its presigned links (\<open>Ext\<close>,
  \<open>Store\<close>), argon2, JSON web tokens and UUID parsing (\<open>AuthExt\<close>), the priority queue (\<open>pq_ops\<close>), the URL parser, router and
  rejections of the HTTP stack (\<open>HttpStack\<close>), the collation of the database, the clocks, random numbers and fresh
  UUIDs of a request (\<open>ReqEnv\<close>), JSON parsing, \<open>path_clean\<close>, the reader of command lines,
  the machine of the coordinator (\<open>Outside\<close>) and the console. What a property needs of them is a hypothesis
  that states their documented behaviour (\<open>good_stack\<close>, \<open>jwt_sound\<close>, \<open>serves\<close>, the locale \<open>priority_queue\<close>), and a witness
  instantiates it.

  \<^bold>\<open>Bounds.\<close> Chunks of 1024 and 2048 identifiers are those of the source, and the chunked operations are proved equal to
  their unchunked counterparts. A transaction that is retried is tried as often as in the source. \<open>fetch_task\<close> is a
  \<open>partial_function\<close>, proved to return for every queue and database. The loops of the worker run on fuel of one more than
  the number of answers that the world has left, since every round consumes one; the at most three uploads of a
  task have fuel four. A concurrent download whose parallelism is zero does not return, and is \<open>None\<close>.

  \<^bold>\<open>Interleaving.\<close> In \<open>Lifecycle\<close> a request runs to its end before the next step, so races between the statements of two
  requests are not modelled; a request that is cut off between its statements is. One environment serves all
  statements of a request. The worker's environment answers arbitrarily, including cancellation at every point where the
  source waits. Concurrent downloads complete in any order, one file after the other.

  \<^bold>\<open>Not modelled.\<close>
  \<^item> \<open>signal.rs\<close>, \<open>main.rs\<close> and the end of \<open>coordinator.rs\<close>: sockets, signals, and waiting for the background tasks.
  \<^item> The layers of configuration files (\<open>config/*.rs\<close>), the splitting of the client's command lines by \<open>clap\<close>, and the formatting of
    what the client prints; a command prints the value that it formats.
  \<^item> \<open>client/redis.rs\<close> and the subscriptions to Redis in \<open>client/mod.rs\<close>: calls of the Redis client. The worker's side
    of the protocol, publishing and watching execution states, is part of the worker.
  \<^item> \<open>run\<close> of the worker, which spawns the two loops; the contents of its archives.
  \<^item> The deletion of lists of objects in \<open>service/s3.rs\<close>: a call of the S3 client.
  \<^item> Column types and the indices of the later migrations, which have no effect on the results.
\<close>

end
